(* ===== verification/Prelude.thy ===== *)
theory Prelude imports Main "HOL-Library.Sublist" begin

text \<open>
  The prelude of the development: the lists-as-tables operations that stand for the SQL statements
  of the source (select, first, update, delete), the facts about them that every component proof
  shares, and the theorem collections.

  A table is the list of its rows in insertion order.  \<open>rows_first P t\<close> is
  \<open>Model.filter(P).first()\<close>, \<open>rows_update P f t\<close> is an \<open>UPDATE ... WHERE P\<close>,
  \<open>filter P t\<close> is the select and \<open>rows_delete P t\<close> the \<open>DELETE ... WHERE P\<close>.
\<close>

named_theorems table_simps
  \<open>rewriting of table operations: lookups after updates, inserts and deletes\<close>

section \<open>Tables\<close>

fun rows_first :: "('r \<Rightarrow> bool) \<Rightarrow> 'r list \<Rightarrow> 'r option" where
  "rows_first P [] = None"
| "rows_first P (r # rs) = (if P r then Some r else rows_first P rs)"

definition rows_update :: "('r \<Rightarrow> bool) \<Rightarrow> ('r \<Rightarrow> 'r) \<Rightarrow> 'r list \<Rightarrow> 'r list" where
  "rows_update P f t = map (\<lambda>r. if P r then f r else r) t"

definition rows_delete :: "('r \<Rightarrow> bool) \<Rightarrow> 'r list \<Rightarrow> 'r list" where
  "rows_delete P t = filter (\<lambda>r. \<not> P r) t"

lemma rows_first_Some: "rows_first P t = Some r \<Longrightarrow> r \<in> set t \<and> P r"
  by (induction t) (auto split: if_splits)

lemma rows_first_None: "rows_first P t = None \<longleftrightarrow> (\<forall>r\<in>set t. \<not> P r)"
  by (induction t) auto

lemma rows_first_append [table_simps]:
  "rows_first P (xs @ ys) = (case rows_first P xs of None \<Rightarrow> rows_first P ys | Some r \<Rightarrow> Some r)"
  by (induction xs) auto

lemma length_rows_update [simp]: "length (rows_update P f t) = length t"
  by (simp add: rows_update_def)

lemma rows_update_Nil [simp]: "rows_update P f [] = []"
  by (simp add: rows_update_def)

lemma rows_update_Cons [simp]:
  "rows_update P f (r # rs) = (if P r then f r else r) # rows_update P f rs"
  by (simp add: rows_update_def)

lemma rows_update_append [table_simps]:
  "rows_update P f (xs @ ys) = rows_update P f xs @ rows_update P f ys"
  by (simp add: rows_update_def)

text \<open>An update that keeps the key of the selecting predicate is seen by the next lookup.\<close>

lemma rows_first_update_same:
  "(\<And>r. P (f r) = P r) \<Longrightarrow> rows_first P (rows_update P f t) = map_option f (rows_first P t)"
  by (induction t) auto

lemma rows_first_update_other:
  "(\<And>r. P r \<Longrightarrow> \<not> Q r) \<Longrightarrow> (\<And>r. P r \<Longrightarrow> \<not> Q (f r)) \<Longrightarrow>
   rows_first Q (rows_update P f t) = rows_first Q t"
  by (induction t) auto

lemma map_rows_update:
  "(\<And>r. g (f r) = g r) \<Longrightarrow> map g (rows_update P f t) = map g t"
  by (simp add: rows_update_def)

lemma set_rows_update: "set (rows_update P f t) = f ` {r \<in> set t. P r} \<union> {r \<in> set t. \<not> P r}"
  by (auto simp: rows_update_def)

lemma rows_update_cases:
  "x \<in> set (rows_update P f t) \<Longrightarrow>
   (\<And>r. r \<in> set t \<Longrightarrow> P r \<Longrightarrow> x = f r \<Longrightarrow> Q) \<Longrightarrow>
   (x \<in> set t \<Longrightarrow> \<not> P x \<Longrightarrow> Q) \<Longrightarrow> Q"
  by (auto simp: rows_update_def split: if_splits)

lemma rows_update_cong_none:
  "(\<And>r. r \<in> set t \<Longrightarrow> \<not> P r) \<Longrightarrow> rows_update P f t = t"
  by (induction t) auto

lemma distinct_key_unique:
  "distinct (map k t) \<Longrightarrow> r \<in> set t \<Longrightarrow> r' \<in> set t \<Longrightarrow> k r = k r' \<Longrightarrow> r = r'"
  by (induction t) (auto simp: rev_image_eqI)

lemma rows_first_key:
  "distinct (map k t) \<Longrightarrow> r \<in> set t \<Longrightarrow> rows_first (\<lambda>x. k x = k r) t = Some r"
  by (induction t) (auto simp: rev_image_eqI)

section \<open>Rows in the order of an integer column\<close>

text \<open>\<open>ORDER BY col ASC\<close> is a stable sort; \<open>ORDER BY col DESC\<close> then \<open>first()\<close>
  is the row of the greatest value (the first such row).\<close>

fun rows_max :: "('r \<Rightarrow> int) \<Rightarrow> 'r list \<Rightarrow> 'r option" where
  "rows_max k [] = None"
| "rows_max k (r # rs) =
     (case rows_max k rs of None \<Rightarrow> Some r | Some m \<Rightarrow> if k m \<le> k r then Some r else Some m)"

lemma rows_max_None [simp]: "rows_max k t = None \<longleftrightarrow> t = []"
  by (cases t) (auto split: option.splits)

lemma rows_max_Some:
  "rows_max k t = Some m \<Longrightarrow> m \<in> set t \<and> (\<forall>r\<in>set t. k r \<le> k m)"
proof (induction t arbitrary: m)
  case Nil
  then show ?case by simp
next
  case (Cons a t)
  show ?case
  proof (cases "rows_max k t")
    case None
    with Cons.prems show ?thesis by simp
  next
    case (Some m')
    with Cons.IH [OF Some] Cons.prems show ?thesis
      by (auto split: if_splits)
  qed
qed

text \<open>A table that only grows, seen through a projection.\<close>

lemma prefix_map_take: "prefix (map f xs) (map f ys) \<Longrightarrow> map f (take (length xs) ys) = map f xs"
proof -
  assume "prefix (map f xs) (map f ys)"
  then obtain zs where "map f ys = map f xs @ zs" by (auto simp: prefix_def)
  then have "take (length xs) (map f ys) = map f xs" by simp
  then show ?thesis by (simp add: take_map)
qed

end
