(* ===== verification/PyJson.thy ===== *)
theory PyJson imports Prelude "HOL-Library.List_Lexorder" "HOL-Library.Char_ord" begin

text \<open>
  Python values as the engine sees them: JSON documents (the JSONB columns, the event payloads),
  dictionaries as association lists in insertion order, truthiness, and the string methods
  the source calls.  A float is represented by its Python \<open>repr\<close>, which determines it;
  no code modelled here does arithmetic on one.  Strings are lists of one-byte characters, so
  \<open>strip\<close>, \<open>upper\<close> and \<open>lower\<close> are those of ASCII text.
\<close>

section \<open>Strings\<close>

definition is_space :: "char \<Rightarrow> bool" where
  "is_space c \<longleftrightarrow>
     c = CHR '' '' \<or> c = CHR 0x09 \<or> c = CHR 0x0A \<or> c = CHR 0x0B \<or> c = CHR 0x0C \<or> c = CHR 0x0D
     \<or> c = CHR 0x1C \<or> c = CHR 0x1D \<or> c = CHR 0x1E \<or> c = CHR 0x1F"

definition lstrip :: "string \<Rightarrow> string" where
  "lstrip s = dropWhile is_space s"

definition strip :: "string \<Rightarrow> string" where
  "strip s = rev (dropWhile is_space (rev (dropWhile is_space s)))"

definition starts_with :: "string \<Rightarrow> string \<Rightarrow> bool" where
  "starts_with p s \<longleftrightarrow> take (length p) s = p"

fun contains_str :: "string \<Rightarrow> string \<Rightarrow> bool" where
  "contains_str p [] = (p = [])"
| "contains_str p (c # cs) = (starts_with p (c # cs) \<or> contains_str p cs)"

definition upper_char :: "char \<Rightarrow> char" where
  "upper_char c = (let n = (of_char c :: nat) in
     if 97 \<le> n \<and> n \<le> 122 then char_of (n - 32) else c)"

definition lower_char :: "char \<Rightarrow> char" where
  "lower_char c = (let n = (of_char c :: nat) in
     if 65 \<le> n \<and> n \<le> 90 then char_of (n + 32) else c)"

definition upper :: "string \<Rightarrow> string" where "upper s = map upper_char s"
definition lower :: "string \<Rightarrow> string" where "lower s = map lower_char s"

fun show_nat :: "nat \<Rightarrow> string" where
  "show_nat n = (if n < 10 then [char_of (48 + n)] else show_nat (n div 10) @ [char_of (48 + n mod 10)])"

declare show_nat.simps [simp del]

definition show_int :: "int \<Rightarrow> string" where
  "show_int i = (if i < 0 then ''-'' @ show_nat (nat (- i)) else show_nat (nat i))"

definition hex_digit :: "nat \<Rightarrow> char" where
  "hex_digit n = (if n < 10 then char_of (48 + n) else char_of (87 + n))"

text \<open>\<open>repr\<close> of a string: the quote is the apostrophe, unless the text has one and no
  double quote.\<close>

definition repr_char :: "char \<Rightarrow> char \<Rightarrow> string" where
  "repr_char q c = (let n = (of_char c :: nat) in
     if c = q \<or> n = 92 then [CHR 0x5C, c]
     else if n = 10 then [CHR 0x5C, CHR ''n'']
     else if n = 13 then [CHR 0x5C, CHR ''r'']
     else if n = 9 then [CHR 0x5C, CHR ''t'']
     else if n < 32 \<or> n = 127 then [CHR 0x5C, CHR ''x'', hex_digit (n div 16), hex_digit (n mod 16)]
     else [c])"

definition repr_str :: "string \<Rightarrow> string" where
  "repr_str s =
     (let q = (if CHR 0x27 \<in> set s \<and> CHR 0x22 \<notin> set s then CHR 0x22 else CHR 0x27)
      in q # concat (map (repr_char q) s) @ [q])"

fun join_str :: "string \<Rightarrow> string list \<Rightarrow> string" where
  "join_str sep [] = []"
| "join_str sep [x] = x"
| "join_str sep (x # y # xs) = x @ sep @ join_str sep (y # xs)"

lemma strip_Nil [simp]: "strip [] = []"
  by (simp add: strip_def)

lemma show_nat_nonempty [simp]: "show_nat n \<noteq> []"
  by (subst show_nat.simps) simp

section \<open>JSON documents\<close>

datatype json =
    JNull
  | JBool bool
  | JInt int
  | JFloat string
  | JStr string
  | JList "json list"
  | JObj "(string \<times> json) list"

type_synonym dict = "(string \<times> json) list"

text \<open>\<open>bool(x)\<close>.\<close>

fun truthy :: "json \<Rightarrow> bool" where
  "truthy JNull = False"
| "truthy (JBool b) = b"
| "truthy (JInt i) = (i \<noteq> 0)"
| "truthy (JFloat s) = (s \<noteq> ''0.0'' \<and> s \<noteq> ''-0.0'')"
| "truthy (JStr s) = (s \<noteq> [])"
| "truthy (JList xs) = (xs \<noteq> [])"
| "truthy (JObj d) = (d \<noteq> [])"

text \<open>The \<open>isinstance\<close> tests.\<close>

fun is_dict :: "json \<Rightarrow> bool" where
  "is_dict (JObj d) = True"
| "is_dict _ = False"

fun is_list :: "json \<Rightarrow> bool" where
  "is_list (JList xs) = True"
| "is_list _ = False"

fun is_str :: "json \<Rightarrow> bool" where
  "is_str (JStr s) = True"
| "is_str _ = False"

text \<open>\<open>common/utils.py: coerce_dict\<close>.\<close>

fun coerce_dict :: "json \<Rightarrow> dict" where
  "coerce_dict (JObj d) = d"
| "coerce_dict _ = []"

fun list_of :: "json \<Rightarrow> json list" where
  "list_of (JList xs) = xs"
| "list_of _ = []"

section \<open>Dictionaries\<close>

text \<open>\<open>d.get(k)\<close> (with \<open>None\<close> as JSON null), \<open>d[k] = v\<close>, \<open>del d[k]\<close>,
  \<open>k in d\<close>.\<close>

definition dget :: "string \<Rightarrow> dict \<Rightarrow> json" where
  "dget k d = (case map_of d k of None \<Rightarrow> JNull | Some v \<Rightarrow> v)"

fun dset :: "string \<Rightarrow> json \<Rightarrow> dict \<Rightarrow> dict" where
  "dset k v [] = [(k, v)]"
| "dset k v ((k', v') # d) = (if k' = k then (k, v) # d else (k', v') # dset k v d)"

definition ddel :: "string \<Rightarrow> dict \<Rightarrow> dict" where
  "ddel k d = filter (\<lambda>(k', _). k' \<noteq> k) d"

definition dhas :: "string \<Rightarrow> dict \<Rightarrow> bool" where
  "dhas k d \<longleftrightarrow> k \<in> fst ` set d"

text \<open>A Python dict literal built by successive stores, and \<open>{**a, **b}\<close>.\<close>

definition dupdate :: "dict \<Rightarrow> dict \<Rightarrow> dict" where
  "dupdate d new = fold (\<lambda>(k, v) acc. dset k v acc) new d"

text \<open>\<open>x or y\<close> on JSON values.\<close>

definition jor :: "json \<Rightarrow> json \<Rightarrow> json" where
  "jor x y = (if truthy x then x else y)"

definition jopt_str :: "string option \<Rightarrow> json" where
  "jopt_str s = (case s of None \<Rightarrow> JNull | Some t \<Rightarrow> JStr t)"

definition jopt_int :: "int option \<Rightarrow> json" where
  "jopt_int i = (case i of None \<Rightarrow> JNull | Some t \<Rightarrow> JInt t)"

lemma map_of_dset [simp]: "map_of (dset k v d) = (map_of d)(k \<mapsto> v)"
  by (induction d) auto

lemma dget_dset: "dget k' (dset k v d) = (if k' = k then v else dget k' d)"
  by (simp add: dget_def)

lemma dget_dset_same [simp]: "dget k (dset k v d) = v"
  by (simp add: dget_dset)

lemma dget_dset_other [simp]: "k' \<noteq> k \<Longrightarrow> dget k' (dset k v d) = dget k' d"
  by (simp add: dget_dset)

lemma dset_dset [simp]: "dset k w (dset k v d) = dset k w d"
  by (induction d) auto

lemma map_of_ddel [simp]: "map_of (ddel k d) = (map_of d)(k := None)"
  by (induction d) (auto simp: ddel_def)

lemma dget_ddel: "dget k' (ddel k d) = (if k' = k then JNull else dget k' d)"
  by (simp add: dget_def)

lemma keys_dset: "fst ` set (dset k v d) = insert k (fst ` set d)"
proof -
  have "dom (map_of (dset k v d)) = insert k (dom (map_of d))" by auto
  then show ?thesis by (simp only: dom_map_of_conv_image_fst)
qed

lemma dhas_dset [simp]: "dhas k' (dset k v d) \<longleftrightarrow> k' = k \<or> dhas k' d"
  by (simp add: dhas_def keys_dset)

lemma distinct_dset: "distinct (map fst d) \<Longrightarrow> distinct (map fst (dset k v d))"
proof (induction d)
  case Nil
  then show ?case by simp
next
  case (Cons p d)
  obtain a b where p: "p = (a, b)" by (cases p)
  with Cons have "a \<notin> fst ` set d" "distinct (map fst (dset k v d))" by auto
  with Cons.prems p show ?case by (auto simp: keys_dset)
qed

section \<open>The text of a value\<close>

text \<open>\<open>repr(x)\<close> and \<open>str(x)\<close>.\<close>

fun repr_json :: "json \<Rightarrow> string" where
  "repr_json JNull = ''None''"
| "repr_json (JBool b) = (if b then ''True'' else ''False'')"
| "repr_json (JInt i) = show_int i"
| "repr_json (JFloat s) = s"
| "repr_json (JStr s) = repr_str s"
| "repr_json (JList xs) = ''['' @ join_str '', '' (map repr_json xs) @ '']''"
| "repr_json (JObj d) =
     ''{'' @ join_str '', '' (map (\<lambda>(k, v). repr_str k @ '': '' @ repr_json v) d) @ ''}''"

definition py_str :: "json \<Rightarrow> string" where
  "py_str j = (case j of JStr s \<Rightarrow> s | _ \<Rightarrow> repr_json j)"

text \<open>\<open>json.dumps(x, separators=(",", ":"))\<close>; with \<open>sort_keys\<close> the entries of every
  object come in the order of their keys.\<close>

definition json_char :: "char \<Rightarrow> string" where
  "json_char c = (let n = (of_char c :: nat) in
     if n = 34 \<or> n = 92 then [CHR 0x5C, c]
     else if n = 8 then [CHR 0x5C, CHR ''b'']
     else if n = 12 then [CHR 0x5C, CHR ''f'']
     else if n = 10 then [CHR 0x5C, CHR ''n'']
     else if n = 13 then [CHR 0x5C, CHR ''r'']
     else if n = 9 then [CHR 0x5C, CHR ''t'']
     else if n < 32 then [CHR 0x5C] @ ''u00'' @ [hex_digit (n div 16), hex_digit (n mod 16)]
     else [c])"

definition dumps_str :: "string \<Rightarrow> string" where
  "dumps_str s = CHR 0x22 # concat (map json_char s) @ [CHR 0x22]"

fun json_dumps :: "bool \<Rightarrow> json \<Rightarrow> string" where
  "json_dumps sk JNull = ''null''"
| "json_dumps sk (JBool b) = (if b then ''true'' else ''false'')"
| "json_dumps sk (JInt i) = show_int i"
| "json_dumps sk (JFloat s) = s"
| "json_dumps sk (JStr s) = dumps_str s"
| "json_dumps sk (JList xs) = ''['' @ join_str '','' (map (json_dumps sk) xs) @ '']''"
| "json_dumps sk (JObj d) =
     (let entries = map (\<lambda>(k, v). (k, dumps_str k @ '':'' @ json_dumps sk v)) d
      in ''{'' @ join_str '','' (map snd (if sk then sort_key fst entries else entries)) @ ''}'')"

end
