(* ===== verification/Effects.thy ===== *)
theory Effects imports Prelude begin

text \<open>
  The state-and-exception monad in which every handler of the engine and every step of an agent is
  written.  A computation takes a state and returns either an exception or a value, with the state as
  the code has left it.  An exception does not undo the writes made before it (Python does not
  either); the transaction wrapper \<open>in_transaction\<close> does.
\<close>

type_synonym ('s, 'e, 'a) effect = "'s \<Rightarrow> ('e + 'a) \<times> 's"

definition return :: "'a \<Rightarrow> ('s, 'e, 'a) effect" where
  "return x s = (Inr x, s)"

definition raise :: "'e \<Rightarrow> ('s, 'e, 'a) effect" where
  "raise e s = (Inl e, s)"

definition bind :: "('s, 'e, 'a) effect \<Rightarrow> ('a \<Rightarrow> ('s, 'e, 'b) effect) \<Rightarrow> ('s, 'e, 'b) effect" where
  "bind m k s = (case m s of (Inl e, s') \<Rightarrow> (Inl e, s') | (Inr x, s') \<Rightarrow> k x s')"

definition seq :: "('s, 'e, unit) effect \<Rightarrow> ('s, 'e, 'b) effect \<Rightarrow> ('s, 'e, 'b) effect" where
  "seq m k = bind m (\<lambda>_. k)"

definition skip :: "('s, 'e, unit) effect" where
  "skip = return ()"

definition when_do :: "bool \<Rightarrow> ('s, 'e, unit) effect \<Rightarrow> ('s, 'e, unit) effect" where
  "when_do b m = (if b then m else skip)"

definition gets :: "('s \<Rightarrow> 'a) \<Rightarrow> ('s, 'e, 'a) effect" where
  "gets f s = (Inr (f s), s)"

definition modify :: "('s \<Rightarrow> 's) \<Rightarrow> ('s, 'e, unit) effect" where
  "modify f s = (Inr (), f s)"

text \<open>\<open>try: m except e: h e\<close> (the handler re-raises what it does not catch).\<close>

definition try_except :: "('s, 'e, 'a) effect \<Rightarrow> ('e \<Rightarrow> ('s, 'e, 'a) effect) \<Rightarrow> ('s, 'e, 'a) effect" where
  "try_except m h s = (case m s of (Inl e, s') \<Rightarrow> h e s' | (Inr x, s') \<Rightarrow> (Inr x, s'))"

text \<open>\<open>async with in_transaction()\<close>: an exception that leaves the block restores the
  state; nested, the block is a savepoint.\<close>

definition in_transaction :: "('s, 'e, 'a) effect \<Rightarrow> ('s, 'e, 'a) effect" where
  "in_transaction m s = (case m s of (Inl e, _) \<Rightarrow> (Inl e, s) | (Inr x, s') \<Rightarrow> (Inr x, s'))"

definition of_sum :: "'e + 'a \<Rightarrow> ('s, 'e, 'a) effect" where
  "of_sum r = (case r of Inl e \<Rightarrow> raise e | Inr x \<Rightarrow> return x)"

fun for_each :: "'a list \<Rightarrow> ('a \<Rightarrow> ('s, 'e, unit) effect) \<Rightarrow> ('s, 'e, unit) effect" where
  "for_each [] f = skip"
| "for_each (x # xs) f = seq (f x) (for_each xs f)"

fun map_m :: "('a \<Rightarrow> ('s, 'e, 'b) effect) \<Rightarrow> 'a list \<Rightarrow> ('s, 'e, 'b list) effect" where
  "map_m f [] = return []"
| "map_m f (x # xs) = bind (f x) (\<lambda>y. bind (map_m f xs) (\<lambda>ys. return (y # ys)))"

named_theorems monad_simps \<open>one-step evaluation of monadic code on a given state\<close>

declare return_def [monad_simps] raise_def [monad_simps] bind_def [monad_simps]
  seq_def [monad_simps] skip_def [monad_simps] when_do_def [monad_simps] gets_def [monad_simps]
  modify_def [monad_simps] try_except_def [monad_simps] in_transaction_def [monad_simps]
  of_sum_def [monad_simps]

lemma bind_return [simp]: "bind (return x) k = k x"
  by (rule ext) (simp add: monad_simps)

lemma bind_raise [simp]: "bind (raise e) k = raise e"
  by (rule ext) (simp add: monad_simps)

lemma return_bind [simp]: "bind m return = m"
  by (rule ext) (simp add: monad_simps split: prod.splits sum.splits)

lemma bind_assoc: "bind (bind m k) l = bind m (\<lambda>x. bind (k x) l)"
  by (rule ext) (simp add: monad_simps split: prod.splits sum.splits)

end
