(* ===== verification/Store.thy ===== *)
theory Store imports PyJson Effects begin

text \<open>
  The persistent state of the engine: the enumerations and tables of
  \<^verbatim>\<open>common/models.py\<close> as datatypes and records, the database as the record of its
  tables, and the row operations every handler is written in.

  A computation of type \<open>'a M\<close> takes the database of the running transaction and returns
  either an exception or a value, with the database as the code has left it.

  A Python model object is a row: the code holds it under \<open>SELECT ... FOR UPDATE\<close>, changes it
  and saves it.  Here it is named by its primary key and read from the table at each use, so the
  sharing of one object between callers is the sharing of the row.  The wall clock stands still
  within a transaction (\<open>db_now\<close>); execution timing and token usage columns, which no
  transition reads, are left out.
\<close>

section \<open>Status enumerations\<close>

datatype event_type =
    SAGA_STARTED | STEP_COMPLETED | STEP_FAILED | STEP_COMPENSATED | SAGA_COMPLETED
  | SAGA_COMPENSATED | SAGA_FAILED | COMPENSATION_FAILED
  | HUMAN_APPROVED | HUMAN_REJECTED | HUMAN_RETRY

fun event_type_value :: "event_type \<Rightarrow> string" where
  "event_type_value SAGA_STARTED = ''SAGA_STARTED''"
| "event_type_value STEP_COMPLETED = ''STEP_COMPLETED''"
| "event_type_value STEP_FAILED = ''STEP_FAILED''"
| "event_type_value STEP_COMPENSATED = ''STEP_COMPENSATED''"
| "event_type_value SAGA_COMPLETED = ''SAGA_COMPLETED''"
| "event_type_value SAGA_COMPENSATED = ''SAGA_COMPENSATED''"
| "event_type_value SAGA_FAILED = ''SAGA_FAILED''"
| "event_type_value COMPENSATION_FAILED = ''COMPENSATION_FAILED''"
| "event_type_value HUMAN_APPROVED = ''HUMAN_APPROVED''"
| "event_type_value HUMAN_REJECTED = ''HUMAN_REJECTED''"
| "event_type_value HUMAN_RETRY = ''HUMAN_RETRY''"

datatype step_status =
    Step_PENDING | Step_IN_PROGRESS | Step_COMPLETED | Step_FAILED | Step_COMPENSATING
  | Step_COMPENSATED | Step_SKIPPED | Step_TIMED_OUT | Step_AWAITING_HUMAN

fun step_status_value :: "step_status \<Rightarrow> string" where
  "step_status_value Step_PENDING = ''PENDING''"
| "step_status_value Step_IN_PROGRESS = ''IN_PROGRESS''"
| "step_status_value Step_COMPLETED = ''COMPLETED''"
| "step_status_value Step_FAILED = ''FAILED''"
| "step_status_value Step_COMPENSATING = ''COMPENSATING''"
| "step_status_value Step_COMPENSATED = ''COMPENSATED''"
| "step_status_value Step_SKIPPED = ''SKIPPED''"
| "step_status_value Step_TIMED_OUT = ''TIMED_OUT''"
| "step_status_value Step_AWAITING_HUMAN = ''AWAITING_HUMAN''"

datatype saga_status =
    Saga_PENDING | Saga_RUNNING | Saga_AWAITING_HUMAN | Saga_AWAITING_RECOVERY
  | Saga_COMPENSATING | Saga_COMPLETED | Saga_FAILED | Saga_COMPENSATED

fun saga_status_value :: "saga_status \<Rightarrow> string" where
  "saga_status_value Saga_PENDING = ''PENDING''"
| "saga_status_value Saga_RUNNING = ''RUNNING''"
| "saga_status_value Saga_AWAITING_HUMAN = ''AWAITING_HUMAN''"
| "saga_status_value Saga_AWAITING_RECOVERY = ''AWAITING_RECOVERY''"
| "saga_status_value Saga_COMPENSATING = ''COMPENSATING''"
| "saga_status_value Saga_COMPLETED = ''COMPLETED''"
| "saga_status_value Saga_FAILED = ''FAILED''"
| "saga_status_value Saga_COMPENSATED = ''COMPENSATED''"

datatype outbox_status = Outbox_PENDING | Outbox_IN_PROGRESS | Outbox_COMPLETED | Outbox_FAILED

section \<open>Rows\<close>

record saga =
  trace_id :: string
  saga_namespace :: string
  definition_id :: string
  definition_name :: "string option"
  definition_version :: "string option"
  saga_status :: saga_status
  saga_context :: json
  frozen_steps :: json
  loop_definitions :: json
  loop_state :: json
  start_idempotency_key :: "string option"
  parent_trace_id :: "string option"
  saga_started_at :: int

record step =
  span_id :: string
  saga_trace_id :: string
  step_namespace :: string
  step_id :: string
  step_name :: string
  step_definition_name :: "string option"
  step_definition_version :: "string option"
  input_ports :: json
  order_index :: int
  forward_seq :: int
  loop_id :: "string option"
  iteration :: "int option"
  idempotency_key :: string
  started_at :: int
  end_time :: "int option"
  timeout_seconds :: int
  max_turns :: int
  max_step_tokens :: "int option"
  max_completion_tokens :: "int option"
  agent_adapter :: string
  step_status :: step_status
  worker :: string
  worker_version :: string
  step_kind :: string
  tools_allow :: json
  tools_bind :: json
  resources_allow :: json
  skills_allow :: json
  skills_definition :: json
  parameters_spec :: json
  resolved_arguments :: json
  prompt_ref :: "string option"
  prompt_definition :: "string option"
  output_payload :: json
  error_details :: json
  compensation_definition :: json
  output_schema :: json
  policy_name :: "string option"
  policy_definition :: json
  hitl_required :: bool
  hitl_max_retries :: "int option"
  hitl_retry_count :: int
  hitl_retry_guidance :: "string option"
  hitl_review_started_at :: "int option"
  pending_review_payload :: json
  on_failure_strategy :: string
  when_cel :: "string option"
  facts_extractors :: json
  compensates_span_id :: "string option"

record saga_child =
  child_namespace :: string
  child_parent_trace_id :: string
  child_spawn_step_id :: string
  child_spawn_span_id :: string
  child_item_id :: string
  child_trace_id :: string
  child_idempotency_key :: string

record saga_definition =
  sdef_id :: string
  sdef_namespace :: string
  sdef_name :: string
  sdef_version :: string
  sdef_is_active :: bool
  sdef_body :: json

record step_definition =
  stdef_namespace :: string
  stdef_name :: string
  stdef_version :: string
  stdef_is_active :: bool
  stdef_body :: json

record worker_row =
  wdef_namespace :: string
  wdef_name :: string
  wdef_version :: string
  wdef_is_active :: bool
  wdef_body :: json

record provider_secret =
  ps_namespace :: string
  ps_provider :: string
  ps_api_key :: string

record outbox_event =
  ob_id :: string
  ob_namespace :: string
  ob_saga_trace_id :: string
  ob_step_span_id :: string
  ob_event_type :: string
  ob_topic :: string
  ob_idempotency_key :: "string option"
  ob_payload :: json
  ob_status :: outbox_status
  ob_created_at :: int
  ob_updated_at :: int

record processed_command =
  pc_key :: string
  pc_namespace :: string
  pc_claim_token :: string
  pc_result_emitted :: bool
  pc_created_at :: int

record operator_recovery =
  rec_key :: string
  rec_fingerprint :: string
  rec_response :: "(string \<times> string) list"

text \<open>
  The calls of the plugin registry (\<open>get_registry().engine\<close>, \<open>.policy\<close> and \<open>.worker\<close>), whose
  default implementations do nothing, are recorded in order with the arguments that describe the
  transition: a saga transition carries its trace id, the two statuses, the audit event type and the
  reason; a step transition its span id, the two statuses, the audit event type, the error code, the
  reason and the hash of the output.
\<close>

datatype hook =
    On_saga_created string nat
  | On_saga_transition string saga_status saga_status "string option" "string option"
  | On_step_created string "string option"
  | On_step_transition string step_status step_status "string option" "string option" "string option"
      "string option"
  | On_step_scheduled string
  | On_step_started string step_status
  | On_steps_skipped_summary string int string
  | On_compensation_scheduled string string
  | On_hitl_review_requested string string json
  | On_hitl_approved string string bool json json
  | On_hitl_rejected string string "string option"
  | On_hitl_retry_requested string string string "string option" int "int option"
  | On_hitl_decision_queued string string string
  | On_hitl_retry_queued string string "string option" int "int option"
  | On_ingest_deduplicated string string string string
  | On_policy_gate string string string
  | On_operator_recovery_requested string string string bool
  | On_command_claimed string
  | On_command_rejected string string
  | On_definition_snapshot string "string list"
  | On_execution_started string
  | On_execution_completed string
  | On_execution_failed string string
  | On_result_emitted string string json
  | On_manifest_registered string string string string

record db =
  db_sagas :: "saga list"
  db_steps :: "step list"
  db_children :: "saga_child list"
  db_saga_defs :: "saga_definition list"
  db_step_defs :: "step_definition list"
  db_worker_defs :: "worker_row list"
  db_secrets :: "provider_secret list"
  db_outbox :: "outbox_event list"
  db_ingested :: "string list"
  db_claims :: "processed_command list"
  db_recoveries :: "operator_recovery list"
  db_hooks :: "hook list"
  db_uuids :: nat
  db_now :: int

section \<open>The monad\<close>

datatype exc =
    ValueError string
  | ValidationError "string list"
  | PolicyEvaluationError string
  | IntegrityError
  | IndexError
  | UnrecoverableError string
  | CatalogDefinitionNotFound string string string string
  | InactiveCatalogDefinition string string string string
  | StepsNotRegistered string string string "string list"
  | StepsInactive string string string "string list"
  | DependencyNotRegistered string string string string string
  | DependencyInactive string string string string string
  | YamlError string
  | StartIdempotencyConflict string string string
  | RecoveryNotFound string
  | RecoveryConflict string
  | RecoveryClaimActive string
  | HumanDecisionNotFound
  | HumanDecisionConflict string
  | InvalidHumanDecision string
  | HitlRetryLimit int int
  | OutOfFuel

type_synonym 'a M = "(db, exc, 'a) effect"

section \<open>Rows by key\<close>

definition is_forward :: "step \<Rightarrow> bool" where
  "is_forward s \<longleftrightarrow> compensates_span_id s = None"

definition uuid4_hex :: "(nat \<Rightarrow> string) \<Rightarrow> string M" where
  "uuid4_hex uuid db = (Inr (uuid (db_uuids db)), db\<lparr>db_uuids := Suc (db_uuids db)\<rparr>)"

definition find_saga :: "string \<Rightarrow> db \<Rightarrow> saga option" where
  "find_saga tid db = rows_first (\<lambda>s. trace_id s = tid) (db_sagas db)"

definition find_step :: "string \<Rightarrow> db \<Rightarrow> step option" where
  "find_step sid db = rows_first (\<lambda>s. span_id s = sid) (db_steps db)"

text \<open>The in-memory object of a row the caller holds.\<close>

definition the_saga :: "string \<Rightarrow> saga M" where
  "the_saga tid db = (case find_saga tid db of
     None \<Rightarrow> (Inl (UnrecoverableError ''DoesNotExist''), db) | Some s \<Rightarrow> (Inr s, db))"

definition the_step :: "string \<Rightarrow> step M" where
  "the_step sid db = (case find_step sid db of
     None \<Rightarrow> (Inl (UnrecoverableError ''DoesNotExist''), db) | Some s \<Rightarrow> (Inr s, db))"

definition save_saga :: "string \<Rightarrow> (saga \<Rightarrow> saga) \<Rightarrow> unit M" where
  "save_saga tid f = modify (\<lambda>db. db\<lparr>db_sagas := rows_update (\<lambda>s. trace_id s = tid) f (db_sagas db)\<rparr>)"

definition update_steps :: "(step \<Rightarrow> bool) \<Rightarrow> (step \<Rightarrow> step) \<Rightarrow> unit M" where
  "update_steps P f = modify (\<lambda>db. db\<lparr>db_steps := rows_update P f (db_steps db)\<rparr>)"

definition save_step :: "string \<Rightarrow> (step \<Rightarrow> step) \<Rightarrow> unit M" where
  "save_step sid f = update_steps (\<lambda>s. span_id s = sid) f"

text \<open>\<open>SagaStepInstance.create\<close>: \<open>span_id\<close> is the primary key and
  \<open>idempotency_key\<close> is unique.\<close>

definition create_step :: "step \<Rightarrow> unit M" where
  "create_step row db =
     (if (\<exists>s\<in>set (db_steps db). span_id s = span_id row \<or> idempotency_key s = idempotency_key row)
      then (Inl IntegrityError, db)
      else (Inr (), db\<lparr>db_steps := db_steps db @ [row]\<rparr>))"

definition create_saga :: "saga \<Rightarrow> unit M" where
  "create_saga row db =
     (if (\<exists>s\<in>set (db_sagas db). trace_id s = trace_id row
           \<or> (start_idempotency_key row \<noteq> None \<and> saga_namespace s = saga_namespace row
               \<and> definition_id s = definition_id row
               \<and> start_idempotency_key s = start_idempotency_key row))
      then (Inl IntegrityError, db)
      else (Inr (), db\<lparr>db_sagas := db_sagas db @ [row]\<rparr>))"

definition create_child :: "saga_child \<Rightarrow> unit M" where
  "create_child row db =
     (if (\<exists>c\<in>set (db_children db). child_idempotency_key c = child_idempotency_key row)
      then (Inl IntegrityError, db)
      else (Inr (), db\<lparr>db_children := db_children db @ [row]\<rparr>))"

definition hook :: "hook \<Rightarrow> unit M" where
  "hook h = modify (\<lambda>db. db\<lparr>db_hooks := db_hooks db @ [h]\<rparr>)"

text \<open>The forward row of a saga at a sequence number.\<close>

definition forward_at :: "string \<Rightarrow> int \<Rightarrow> db \<Rightarrow> step option" where
  "forward_at tid n db =
     rows_first (\<lambda>s. saga_trace_id s = tid \<and> forward_seq s = n \<and> is_forward s) (db_steps db)"

text \<open>The step of a saga by its span id.\<close>

definition step_of_saga :: "string \<Rightarrow> string \<Rightarrow> db \<Rightarrow> step option" where
  "step_of_saga tid sid db =
     rows_first (\<lambda>s. span_id s = sid \<and> saga_trace_id s = tid) (db_steps db)"

end
