(* ===== verification/Contracts.thy ===== *)
theory Contracts imports Store begin

text \<open>
  The boundary of the engine: the parameters that stand for code outside the repository, the settings,
  and the message contracts of \<^verbatim>\<open>common/contracts.py\<close>: the commands the engine
  sends to a worker and the events it consumes, each with the validation its pydantic class makes.
\<close>

section \<open>Parameters and settings\<close>

text \<open>What \<^verbatim>\<open>celpy\<close> does with a source text and a binding: compile errors, binding
  and evaluation errors, a boolean, a number (whose Python truth value is given), or a value of
another type.\<close>

datatype cel_outcome =
    Cel_parse_error string
  | Cel_bad_binding string
  | Cel_eval_error string
  | Cel_bool bool
  | Cel_numeric bool
  | Cel_other string

text \<open>An \<open>include\<close> node of a Jinja template.\<close>

record jinja_include =
  inc_static :: bool              \<comment> \<open>the template expression is a string constant\<close>
  inc_ignore_missing :: bool
  inc_with_context :: bool

record env =
  uuid_hex :: "nat \<Rightarrow> string"                        \<comment> \<open>the n-th \<open>uuid.uuid4().hex\<close>\<close>
  celpy :: "string \<Rightarrow> dict \<Rightarrow> cel_outcome"
  jsonpath :: "string \<Rightarrow> json \<Rightarrow> json list option"        \<comment> \<open>the matches; \<open>None\<close>: it raised\<close>
  jsonschema :: "json \<Rightarrow> json \<Rightarrow> string option"           \<comment> \<open>schema, instance: the error message\<close>
  pydantic_text :: "string list \<Rightarrow> string"              \<comment> \<open>text of a \<open>ValidationError\<close>\<close>
  sha256_hex :: "string \<Rightarrow> string"
  manifest_text :: "string list \<Rightarrow> string"              \<comment> \<open>the messages of a \<open>ValidationError\<close>\<close>
  error_message :: "string \<Rightarrow> string"                   \<comment> \<open>the message of pydantic at a location\<close>
  jsonpath_error :: "string \<Rightarrow> string option"           \<comment> \<open>the error of parsing a JSONPath\<close>
  check_schema :: "json \<Rightarrow> string option"               \<comment> \<open>\<open>Draft7Validator.check_schema\<close>\<close>
  path_abs :: "string \<Rightarrow> string"                        \<comment> \<open>\<open>os.path.abspath\<close>\<close>
  path_is_dir :: "string \<Rightarrow> bool"
  path_resolve :: "string \<Rightarrow> string \<Rightarrow> string \<times> bool"   \<comment> \<open>root, reference: the path, within the root?\<close>
  files :: "(string \<times> (string + string)) list"        \<comment> \<open>path, then the error of reading it or its text\<close>
  yaml_load :: "string \<Rightarrow> string + json"
  json_load :: "string \<Rightarrow> string + json"
  jinja_parse :: "string \<Rightarrow> string + jinja_include list"
  jinja_lex :: "string \<Rightarrow> (string \<times> string) list"       \<comment> \<open>the tokens: type and text\<close>
  literal_eval :: "string \<Rightarrow> json option"
  environ :: "string \<Rightarrow> string option"                  \<comment> \<open>\<open>os.environ.get\<close>\<close>
  int_of_text :: "string \<Rightarrow> int option"                 \<comment> \<open>\<open>int(s)\<close>; \<open>None\<close>: \<open>ValueError\<close>\<close>
  adapter_error :: "json \<Rightarrow> string option"              \<comment> \<open>what building the LangChain adapter raises\<close>
  compensations_root :: "string option"
  policies_root :: "string option"
  schemas_root :: "string option"
  prompts_root :: "string option"
  skills_root :: "string option"
  topic_events :: string
  topic_commands :: string
  outbox_max_payload_bytes :: nat
  outbox_stale_seconds :: int
  stale_claim_seconds :: int

definition jsonpath_parses :: "env \<Rightarrow> string \<Rightarrow> bool" where
  "jsonpath_parses E path \<longleftrightarrow> jsonpath_error E path = None"

definition hash_canonical_dict :: "env \<Rightarrow> dict \<Rightarrow> string" where
  "hash_canonical_dict E d = sha256_hex E (json_dumps True (JObj d))"

text \<open>The texts of the exceptions, as their constructors build them.\<close>

definition capitalize :: "string \<Rightarrow> string" where
  "capitalize s = (case s of [] \<Rightarrow> [] | c # cs \<Rightarrow> upper_char c # lower cs)"

definition catalog_identity :: "string \<Rightarrow> string \<Rightarrow> string \<Rightarrow> string" where
  "catalog_identity ns n v =
     ''namespace='' @ repr_str ns @ '', name='' @ repr_str n @ '', version='' @ repr_str v"

fun exc_text :: "env \<Rightarrow> exc \<Rightarrow> string" where
  "exc_text E (ValueError m) = m"
| "exc_text E (ValidationError locs) = pydantic_text E locs"
| "exc_text E (PolicyEvaluationError m) = m"
| "exc_text E (UnrecoverableError m) = m"
| "exc_text E (RecoveryNotFound m) = m"
| "exc_text E (RecoveryConflict m) = m"
| "exc_text E (RecoveryClaimActive k) = ''Active worker claim for idempotency_key='' @ k"
| "exc_text E (HumanDecisionConflict s) = ''Step is not awaiting human review (status='' @ s @ '').''"
| "exc_text E (InvalidHumanDecision d) =
     ''decision must be APPROVE or REJECT (got '' @ repr_str d @ '').''"
| "exc_text E (HitlRetryLimit m n) =
     ''HITL manual retry limit reached ('' @ show_int n @ '' of '' @ show_int m @ '' used).''"
| "exc_text E (CatalogDefinitionNotFound k ns n v) =
     capitalize k @ '' definition not found: '' @ catalog_identity ns n v"
| "exc_text E (InactiveCatalogDefinition k ns n v) =
     capitalize k @ '' definition is inactive: '' @ catalog_identity ns n v"
| "exc_text E (StepsNotRegistered ns n v labels) =
     ''This saga requires steps that are not registered. Please register these step manifests first: ''
     @ repr_json (JList (map JStr labels))"
| "exc_text E (StepsInactive ns n v labels) =
     ''This saga requires steps that are inactive. Re-activate them or pin an active version: ''
     @ repr_json (JList (map JStr labels))"
| "exc_text E (DependencyNotRegistered k ns n v message) = message"
| "exc_text E (DependencyInactive k ns n v message) = message"
| "exc_text E (YamlError m) = m"
| "exc_text E (StartIdempotencyConflict ns k d) =
     ''Idempotency key '' @ repr_str k @ '' in namespace '' @ repr_str ns
     @ '' was already used for saga definition '' @ d
     @ ''; use a different key or the same name/version to replay.''"
| "exc_text E _ = []"

section \<open>Field checks\<close>

definition is_hex :: "char \<Rightarrow> bool" where
  "is_hex c \<longleftrightarrow> c \<in> set ''0123456789abcdef''"

definition namespace_ok :: "string \<Rightarrow> bool" where
  "namespace_ok s \<longleftrightarrow>
     s \<noteq> [] \<and> list_all (\<lambda>c. c \<in> set ''abcdefghijklmnopqrstuvwxyz0123456789-'') s"

definition trace_ok :: "string \<Rightarrow> bool" where
  "trace_ok s \<longleftrightarrow> length s = 32"

definition span_ok :: "string \<Rightarrow> bool" where
  "span_ok s \<longleftrightarrow> length s = 16 \<and> list_all is_hex s"

text \<open>Failing locations: \<open>need b loc\<close> reports \<open>loc\<close> when the check \<open>b\<close> fails.\<close>

definition need :: "bool \<Rightarrow> string \<Rightarrow> string list" where
  "need b loc = (if b then [] else [loc])"

lemma need_Nil [simp]: "need b loc = [] \<longleftrightarrow> b"
  by (simp add: need_def)

text \<open>A \<open>ResourceSpec\<close> typed dict: both keys optional, but text when present.\<close>

definition resource_spec_ok :: "json \<Rightarrow> bool" where
  "resource_spec_ok r = (case r of
     JObj d \<Rightarrow> (dhas ''uri'' d \<longrightarrow> is_str (dget ''uri'' d))
            \<and> (dhas ''description'' d \<longrightarrow> is_str (dget ''description'' d))
   | _ \<Rightarrow> False)"

section \<open>Worker commands\<close>

datatype command_type = DO_STEP | DO_COMMIT | EXECUTE_COMPENSATION

fun command_type_value :: "command_type \<Rightarrow> string" where
  "command_type_value DO_STEP = ''DO_STEP''"
| "command_type_value DO_COMMIT = ''DO_COMMIT''"
| "command_type_value EXECUTE_COMPENSATION = ''EXECUTE_COMPENSATION''"

record command =
  cmd_type :: command_type
  cmd_namespace :: string
  cmd_trace :: string
  cmd_span :: string
  cmd_worker_name :: string
  cmd_worker_version :: string
  cmd_key :: string
  cmd_prompt_ref :: json
  cmd_arguments :: json
  cmd_tool_specs :: json
  cmd_resource_specs :: json
  cmd_skill_specs :: json
  cmd_forward_span :: string
  cmd_failure_reason :: json
  cmd_worker_snapshot :: json

text \<open>The failing fields of a command, in declaration order.\<close>

definition command_errors :: "command \<Rightarrow> string list" where
  "command_errors c =
     need (namespace_ok (cmd_namespace c)) ''namespace''
   @ need (trace_ok (cmd_trace c)) ''saga_trace_id''
   @ need (span_ok (cmd_span c)) ''step_span_id''
   @ (case cmd_type c of
        DO_STEP \<Rightarrow> need (is_str (cmd_prompt_ref c)) ''prompt_ref''
                   @ need (is_dict (cmd_arguments c)) ''arguments''
                   @ need (list_all is_dict (list_of (cmd_skill_specs c))) ''skill_specs''
      | DO_COMMIT \<Rightarrow> need (is_dict (cmd_arguments c)) ''arguments''
      | EXECUTE_COMPENSATION \<Rightarrow>
          need (span_ok (cmd_forward_span c)) ''forward_step_span_id''
        @ need (is_dict (cmd_arguments c)) ''original_input''
        @ need (cmd_failure_reason c = JNull \<or> is_dict (cmd_failure_reason c)) ''failure_reason'')
   @ need (list_all resource_spec_ok (list_of (cmd_resource_specs c))) ''resource_specs''"

text \<open>Constructing a command raises when a field fails.\<close>

definition make_command :: "command \<Rightarrow> exc + command" where
  "make_command c =
     (case command_errors c of [] \<Rightarrow> Inr c | locs \<Rightarrow> Inl (ValidationError locs))"

text \<open>\<open>model_dump(mode="json", exclude_none=True)\<close>: the fields of the command's class,
  without those that are \<open>None\<close>.\<close>

definition drop_none :: "dict \<Rightarrow> dict" where
  "drop_none d = filter (\<lambda>(_, v). v \<noteq> JNull) d"

definition command_dict :: "command \<Rightarrow> dict" where
  "command_dict c =
     [(''namespace'', JStr (cmd_namespace c)), (''saga_trace_id'', JStr (cmd_trace c)),
      (''step_span_id'', JStr (cmd_span c)), (''type'', JStr (command_type_value (cmd_type c))),
      (''worker_name'', JStr (cmd_worker_name c)), (''worker_version'', JStr (cmd_worker_version c)),
      (''idempotency_key'', JStr (cmd_key c))]
   @ (case cmd_type c of
        DO_STEP \<Rightarrow>
          [(''prompt_ref'', cmd_prompt_ref c), (''arguments'', cmd_arguments c),
           (''tool_specs'', cmd_tool_specs c), (''resource_specs'', cmd_resource_specs c),
           (''skill_specs'', cmd_skill_specs c)]
      | DO_COMMIT \<Rightarrow>
          [(''arguments'', cmd_arguments c), (''tool_specs'', cmd_tool_specs c),
           (''resource_specs'', cmd_resource_specs c)]
      | EXECUTE_COMPENSATION \<Rightarrow>
          [(''forward_step_span_id'', JStr (cmd_forward_span c)),
           (''original_input'', cmd_arguments c), (''tool_specs'', cmd_tool_specs c),
           (''resource_specs'', cmd_resource_specs c), (''failure_reason'', cmd_failure_reason c),
           (''worker_snapshot'', cmd_worker_snapshot c)])"

definition dump_command :: "command \<Rightarrow> dict" where
  "dump_command c = drop_none (command_dict c)"

section \<open>Ingest events\<close>

record event =
  ev_type :: event_type
  ev_namespace :: string
  ev_trace :: string
  ev_span :: "string option"
  ev_output :: json
  ev_error_details :: json
  ev_retry_guidance :: json

definition event_type_of :: "string \<Rightarrow> event_type option" where
  "event_type_of s = rows_first (\<lambda>t. event_type_value t = s)
     [SAGA_STARTED, STEP_COMPLETED, STEP_FAILED, STEP_COMPENSATED, SAGA_COMPLETED,
      SAGA_COMPENSATED, SAGA_FAILED, COMPENSATION_FAILED, HUMAN_APPROVED, HUMAN_REJECTED,
      HUMAN_RETRY]"

text \<open>\<open>_INGEST_STRIP_ALWAYS\<close>, \<open>_INGEST_STRIP_BY_EVENT\<close>.\<close>

definition ingest_strip :: "json \<Rightarrow> string list" where
  "ingest_strip ty = [''status'', ''idempotency_key'']
     @ (if ty = JStr ''SAGA_STARTED'' then [''output'', ''error_details''] else [])"

definition coerce_saga_ingest_dict :: "dict \<Rightarrow> dict" where
  "coerce_saga_ingest_dict data =
     (let coerced = (if dhas ''event_type'' data \<and> dhas ''type'' data
                     then filter (\<lambda>(k, _). k \<noteq> ''type'') data else data);
          strip_keys = ingest_strip (dget ''event_type'' coerced)
      in filter (\<lambda>(k, _). k \<notin> set strip_keys) coerced)"

text \<open>The fields an event class declares beyond the envelope; \<open>extra="forbid"\<close> refuses
  the rest.\<close>

fun event_fields :: "event_type \<Rightarrow> string list" where
  "event_fields SAGA_STARTED = []"
| "event_fields STEP_FAILED = [''error_details'', ''output'']"
| "event_fields STEP_COMPENSATED = [''output'']"
| "event_fields STEP_COMPLETED = [''output'']"
| "event_fields SAGA_COMPLETED = [''output'']"
| "event_fields SAGA_COMPENSATED = [''output'']"
| "event_fields SAGA_FAILED = [''output'']"
| "event_fields COMPENSATION_FAILED = [''error_details'', ''output'']"
| "event_fields HUMAN_APPROVED = [''output'']"
| "event_fields HUMAN_REJECTED = [''error_details'']"
| "event_fields HUMAN_RETRY = [''retry_guidance'']"

definition envelope_fields :: "string list" where
  "envelope_fields = [''namespace'', ''saga_trace_id'', ''event_type'', ''trace_context'',
     ''step_span_id'', ''timing'', ''usage'']"

definition step_level :: "event_type \<Rightarrow> bool" where
  "step_level t \<longleftrightarrow> t \<in> {STEP_FAILED, STEP_COMPENSATED, STEP_COMPLETED, COMPENSATION_FAILED,
     HUMAN_APPROVED, HUMAN_REJECTED, HUMAN_RETRY}"

definition dict_or_none :: "json \<Rightarrow> bool" where
  "dict_or_none j \<longleftrightarrow> j = JNull \<or> is_dict j"

definition span_of :: "json \<Rightarrow> string option" where
  "span_of j = (case j of JStr s \<Rightarrow> (if s = [] then None else Some s) | _ \<Rightarrow> None)"

definition event_errors :: "event_type \<Rightarrow> dict \<Rightarrow> string list" where
  "event_errors t d =
     need (\<not> dhas ''namespace'' d
           \<or> (case dget ''namespace'' d of JStr s \<Rightarrow> namespace_ok s | _ \<Rightarrow> False)) ''namespace''
   @ need (case dget ''saga_trace_id'' d of JStr s \<Rightarrow> trace_ok s | _ \<Rightarrow> False) ''saga_trace_id''
   @ need (dict_or_none (dget ''trace_context'' d)) ''trace_context''
   @ need (case dget ''step_span_id'' d of JNull \<Rightarrow> True | JStr s \<Rightarrow> s = [] \<or> span_ok s | _ \<Rightarrow> False)
       ''step_span_id''
   @ need (dict_or_none (dget ''timing'' d)) ''timing''
   @ need (dict_or_none (dget ''usage'' d)) ''usage''
   @ need (if t \<in> {STEP_COMPLETED, STEP_COMPENSATED}
           then \<not> dhas ''output'' d \<or> is_dict (dget ''output'' d)
           else dict_or_none (dget ''output'' d)) ''output''
   @ need (dict_or_none (dget ''error_details'' d)) ''error_details''
   @ need (case dget ''retry_guidance'' d of
             JNull \<Rightarrow> True | JStr s \<Rightarrow> length s \<le> 4096 | _ \<Rightarrow> False) ''retry_guidance''
   @ map fst (filter (\<lambda>(k, _). k \<notin> set (envelope_fields @ event_fields t)) d)
   @ need (\<not> step_level t \<or> span_of (dget ''step_span_id'' d) \<noteq> None) ''step_span_id''"

definition validate_ingest :: "dict \<Rightarrow> exc + event" where
  "validate_ingest d =
     (case (case dget ''event_type'' d of JStr s \<Rightarrow> event_type_of s | _ \<Rightarrow> None) of
        None \<Rightarrow> Inl (ValidationError [''event_type''])
      | Some t \<Rightarrow>
          (case event_errors t d of
             [] \<Rightarrow> Inr \<lparr>ev_type = t,
                 ev_namespace = (case dget ''namespace'' d of JStr s \<Rightarrow> s | _ \<Rightarrow> ''default''),
                 ev_trace = (case dget ''saga_trace_id'' d of JStr s \<Rightarrow> s | _ \<Rightarrow> []),
                 ev_span = span_of (dget ''step_span_id'' d),
                 ev_output = (if t \<in> {STEP_COMPLETED, STEP_COMPENSATED} \<and> \<not> dhas ''output'' d
                              then JObj [] else dget ''output'' d),
                 ev_error_details = dget ''error_details'' d,
                 ev_retry_guidance = dget ''retry_guidance'' d\<rparr>
           | locs \<Rightarrow> Inl (ValidationError locs)))"

section \<open>Reading mappings\<close>

lemma dget_append: "dget k (a @ b) = (if dhas k a then dget k a else dget k b)"
  by (induction a) (auto simp: dget_def dhas_def)

lemma dget_Cons: "dget k ((k', v) # d) = (if k' = k then v else dget k d)"
  by (simp add: dget_def)

lemma dget_Nil: "dget k [] = JNull"
  by (simp add: dget_def)

lemma dhas_append: "dhas k (a @ b) \<longleftrightarrow> dhas k a \<or> dhas k b"
  by (auto simp: dhas_def)

lemma dhas_Cons: "dhas k ((k', v) # d) \<longleftrightarrow> k' = k \<or> dhas k d"
  by (auto simp: dhas_def)

lemma dhas_Nil: "\<not> dhas k []"
  by (simp add: dhas_def)

lemma dget_absent: "\<not> dhas k d \<Longrightarrow> dget k d = JNull"
  by (induction d) (auto simp: dget_def dhas_def)

lemma drop_none_Cons: "drop_none ((k, v) # d) = (if v = JNull then drop_none d else (k, v) # drop_none d)"
  by (simp add: drop_none_def)

lemma drop_none_Nil: "drop_none [] = []"
  by (simp add: drop_none_def)

lemmas dict_eval = dget_append dget_Cons dget_Nil dhas_append dhas_Cons dhas_Nil drop_none_Cons drop_none_Nil

lemma dset_same: "map_of d k = Some v \<Longrightarrow> dset k v d = d"
  by (induction k v d rule: dset.induct) (auto split: if_splits)

lemma dset_absent: "\<not> dhas k d \<Longrightarrow> dset k v d = d @ [(k, v)]"
  by (induction k v d rule: dset.induct) (auto simp: dhas_def)

lemma filter_dset:
  "filter (\<lambda>(k, _). P k) (dset k v d) =
     (if P k then dset k v (filter (\<lambda>(k, _). P k) d) else filter (\<lambda>(k, _). P k) d)"
  by (induction k v d rule: dset.induct) auto

lemma filter_drop_none: "filter (\<lambda>(k, _). P k) (drop_none d) = drop_none (filter (\<lambda>(k, _). P k) d)"
  by (simp add: drop_none_def conj_commute case_prod_unfold)

lemma drop_none_append: "drop_none (a @ b) = drop_none a @ drop_none b"
  by (simp add: drop_none_def)

lemma drop_none_read:
  assumes "distinct (map fst d)"
  shows "dget k (drop_none d) = dget k d" "dhas k (drop_none d) \<longleftrightarrow> dget k d \<noteq> JNull"
  using assms
  by (induction d) (auto simp: drop_none_def dget_def dhas_def image_iff dest: map_of_SomeD
      split: option.splits)

lemma is_list_D: "is_list j \<Longrightarrow> \<exists>xs. j = JList xs"
  by (cases j) simp_all

lemma is_dict_D: "is_dict j \<Longrightarrow> \<exists>d. j = JObj d"
  by (cases j) simp_all

end
