(* ===== verification/StepData.thy ===== *)
theory StepData imports Contracts begin

text \<open>
  Pure functions over a step row and its payloads: the completion envelope
  (\<^verbatim>\<open>common/step_output.py\<close>), what an undo sees of its forward step
  (\<^verbatim>\<open>common/compensation_context.py\<close>, \<^verbatim>\<open>common/compensation.py\<close>,
  \<^verbatim>\<open>common/worker_ref.py\<close>, \<^verbatim>\<open>common/command_specs.py\<close>), manual
  retries of a held step (\<^verbatim>\<open>common/hitl_retry.py\<close>), the resolution of \<open>with\<close>
  bindings (\<^verbatim>\<open>engine/utils.py\<close>, \<^verbatim>\<open>common/step_input_schema.py\<close>) and
  the frozen skills a reason step needs (\<^verbatim>\<open>common/skills.py\<close>).
\<close>

section \<open>The completion envelope\<close>

definition wrap_step_output_data :: "json \<Rightarrow> json" where
  "wrap_step_output_data data = JObj [(''data'', data)]"

definition business_data_from_step_output :: "json \<Rightarrow> dict option" where
  "business_data_from_step_output output =
     (if \<not> truthy output \<or> \<not> is_dict output then None
      else case dget ''data'' (coerce_dict output) of JObj d \<Rightarrow> Some d | _ \<Rightarrow> None)"

definition facts_from_step_output :: "json \<Rightarrow> dict" where
  "facts_from_step_output output =
     (if \<not> truthy output \<or> \<not> is_dict output then []
      else coerce_dict (dget ''facts'' (coerce_dict output)))"

definition data_or_empty :: "json \<Rightarrow> dict" where
  "data_or_empty output =
     (case business_data_from_step_output output of None \<Rightarrow> [] | Some d \<Rightarrow> d)"

definition step_context_entry_for_saga :: "json \<Rightarrow> json" where
  "step_context_entry_for_saga output =
     JObj [(''output'', wrap_step_output_data (JObj (data_or_empty (JObj (coerce_dict output))))),
           (''facts'', JObj (facts_from_step_output output))]"

definition step_output_for_saga_context :: "json \<Rightarrow> json" where
  "step_output_for_saga_context output =
     wrap_step_output_data (JObj (data_or_empty (JObj (coerce_dict output))))"

text \<open>\<open>validate_business_data_schema\<close>: the message of the raised error, if any.\<close>

definition validate_business_data_schema :: "env \<Rightarrow> json \<Rightarrow> json \<Rightarrow> string \<Rightarrow> string option" where
  "validate_business_data_schema E output schema label =
     (case business_data_from_step_output output of
        None \<Rightarrow> Some (label @ '': STEP_COMPLETED output must include a '' @ repr_str ''data'' @ '' object'')
      | Some d \<Rightarrow> jsonschema E schema (JObj d))"

section \<open>Compensation\<close>

definition forward_step_has_compensation :: "step \<Rightarrow> bool" where
  "forward_step_has_compensation s =
     (if step_kind s = ''spawn_sagas'' then True
      else if step_kind s = ''join_sagas'' then False
      else compensation_definition s \<noteq> JNull)"

definition forward_eligible_for_compensation :: "step \<Rightarrow> bool" where
  "forward_eligible_for_compensation s \<longleftrightarrow>
     step_status s \<in> {Step_COMPLETED, Step_FAILED, Step_TIMED_OUT, Step_IN_PROGRESS}"

definition normalize_spec_list :: "json \<Rightarrow> string \<Rightarrow> json list" where
  "normalize_spec_list items fallback_key =
     map (\<lambda>s. if is_dict s then s else JObj [(fallback_key, JStr (py_str s))]) (list_of items)"

text \<open>\<open>comp_tools.get("allow", [])\<close> of a block that may be missing or no mapping.\<close>

definition allow_of :: "dict \<Rightarrow> string \<Rightarrow> json" where
  "allow_of comp_def block = (case dget block comp_def of
     JObj d \<Rightarrow> (if dhas ''allow'' d then dget ''allow'' d else JList []) | _ \<Rightarrow> JList [])"

definition compensation_tool_resource_specs :: "dict \<Rightarrow> json list \<times> json list" where
  "compensation_tool_resource_specs comp_def =
     (normalize_spec_list (allow_of comp_def ''tools'') ''name'',
      normalize_spec_list (allow_of comp_def ''resources'') ''uri'')"

definition slim_tool_specs :: "json list \<Rightarrow> json" where
  "slim_tool_specs specs = JList (List.map_filter
     (\<lambda>s. case s of JObj d \<Rightarrow>
            (if truthy (dget ''name'' d) then Some (JObj [(''name'', JStr (py_str (dget ''name'' d)))]) else None)
        | _ \<Rightarrow> None) specs)"

definition str_or :: "json \<Rightarrow> string \<Rightarrow> string" where
  "str_or j dflt = (if truthy j then py_str j else dflt)"

definition resolve_worker_from_compensation :: "dict \<Rightarrow> string \<Rightarrow> string \<Rightarrow> string \<times> string" where
  "resolve_worker_from_compensation comp_def fw fv =
     (str_or (dget ''worker'' comp_def) fw, str_or (dget ''worker_version'' comp_def) fv)"

definition effective_forward_step_output :: "step \<Rightarrow> json" where
  "effective_forward_step_output s =
     (let out = jor (output_payload s) (pending_review_payload s)
      in if is_dict out then out else JNull)"

definition forward_step_has_rollback_output :: "step \<Rightarrow> bool" where
  "forward_step_has_rollback_output s =
     (let merged = effective_forward_step_output s in
      if \<not> truthy merged then False
      else case business_data_from_step_output merged of
             Some d \<Rightarrow> d \<noteq> [] | None \<Rightarrow> truthy merged)"

definition is_dirty_forward_step :: "step \<Rightarrow> bool" where
  "is_dirty_forward_step s \<longleftrightarrow>
     step_status s = Step_TIMED_OUT
     \<or> dget ''code'' (coerce_dict (error_details s)) = JStr ''SYSTEM_CRASH''"

text \<open>\<open>str(forward.status)\<close> of a \<open>StrEnum\<close> member is its value.\<close>

definition build_compensation_metadata :: "step \<Rightarrow> string \<Rightarrow> string \<Rightarrow> json" where
  "build_compensation_metadata fwd undo_span key =
     (let has_output = forward_step_has_rollback_output fwd in
      JObj [(''undo_span_id'', JStr undo_span),
            (''forward_span_id'', JStr (span_id fwd)),
            (''forward_step_id'', JStr (step_id fwd)),
            (''forward_order_index'', JInt (order_index fwd)),
            (''forward_seq'', JInt (forward_seq fwd)),
            (''forward_loop_id'', jopt_str (loop_id fwd)),
            (''forward_iteration'', jopt_int (iteration fwd)),
            (''forward_status'', JStr (step_status_value (step_status fwd))),
            (''idempotency_key'', JStr key),
            (''has_forward_output'', JBool has_output),
            (''blind_cleanup'', JBool (\<not> has_output)),
            (''dirty_failure'', JBool (is_dirty_forward_step fwd))])"

definition attach_forward_step_output_layer :: "dict \<Rightarrow> step \<Rightarrow> dict" where
  "attach_forward_step_output_layer ctx s =
     (if step_id s = [] then ctx
      else let merged = jor (output_payload s) (pending_review_payload s);
               steps_layer = coerce_dict (dget ''steps'' ctx);
               entry = coerce_dict (dget (step_id s) steps_layer);
               entry1 = dset ''output'' (step_output_for_saga_context merged) entry;
               entry2 = (case dget ''facts'' (coerce_dict merged) of
                           JObj f \<Rightarrow> dset ''facts'' (JObj f) entry1 | _ \<Rightarrow> entry1)
           in dset ''steps'' (JObj (dset (step_id s) (JObj entry2) steps_layer)) ctx)"

definition compensation_parameter_context :: "saga \<Rightarrow> step \<Rightarrow> string \<Rightarrow> string \<Rightarrow> json" where
  "compensation_parameter_context sg s undo_span key =
     (let base_input = (if truthy (saga_context sg)
                        then coerce_dict (dget ''input'' (coerce_dict (saga_context sg))) else []);
          ctx0 = [(''input'', JObj base_input), (''steps'', JObj [])];
          ctx1 = (if is_dict (resolved_arguments s) \<and> truthy (resolved_arguments s)
                  then dset ''arguments'' (resolved_arguments s) ctx0 else ctx0);
          ctx2 = attach_forward_step_output_layer ctx1 s
      in JObj (if undo_span \<noteq> [] \<and> key \<noteq> []
               then dset ''_compensation'' (build_compensation_metadata s undo_span key) ctx2
               else ctx2))"

definition fence_tool_arguments :: "dict \<Rightarrow> string option \<Rightarrow> dict" where
  "fence_tool_arguments input key =
     (case key of
        None \<Rightarrow> input
      | Some k \<Rightarrow> if k \<noteq> [] \<and> \<not> dhas ''warden_idempotency_key'' input
                  then dset ''warden_idempotency_key'' (JStr k) input else input)"

definition forward_tool_idempotency_key :: "string \<Rightarrow> string \<Rightarrow> string" where
  "forward_tool_idempotency_key tid sid = ''fwd-'' @ tid @ ''-'' @ sid"

section \<open>Manual retries of a held step\<close>

definition hitl_retries_remaining :: "step \<Rightarrow> int option" where
  "hitl_retries_remaining s = (case hitl_max_retries s of
     None \<Rightarrow> None | Some m \<Rightarrow> Some (max 0 (m - hitl_retry_count s)))"

definition assert_hitl_retry_allowed :: "step \<Rightarrow> exc + unit" where
  "assert_hitl_retry_allowed s = (case hitl_retries_remaining s of
     Some r \<Rightarrow> (if r \<le> 0
                then Inl (HitlRetryLimit (case hitl_max_retries s of None \<Rightarrow> 0 | Some m \<Rightarrow> m)
                            (hitl_retry_count s))
                else Inr ())
   | None \<Rightarrow> Inr ())"

definition opt_text :: "string option \<Rightarrow> string" where
  "opt_text s = (case s of None \<Rightarrow> [] | Some t \<Rightarrow> t)"

definition merge_hitl_retry_into_arguments ::
  "dict \<Rightarrow> step \<Rightarrow> string option \<Rightarrow> int \<Rightarrow> dict" where
  "merge_hitl_retry_into_arguments args s guidance_override attempt =
     (if attempt \<le> 0 \<and> opt_text guidance_override = [] \<and> opt_text (hitl_retry_guidance s) = []
      then args
      else let guidance = strip (if opt_text guidance_override \<noteq> [] then opt_text guidance_override
                                 else opt_text (hitl_retry_guidance s))
           in dset ''_hitl_retry''
                (JObj [(''attempt'', JInt attempt),
                       (''max_retries'', jopt_int (hitl_max_retries s)),
                       (''guidance'', JStr guidance)]) args)"

section \<open>Bindings\<close>

text \<open>The resolved value of a \<open>from\<close> binding, and the path when it matched nothing.\<close>

definition resolve_from_binding :: "env \<Rightarrow> json \<Rightarrow> json \<Rightarrow> json \<times> string option" where
  "resolve_from_binding E path ctx =
     (case path of
        JStr p \<Rightarrow>
          (if starts_with ''$'' p
           then (case jsonpath E p ctx of
                   None \<Rightarrow> (JNull, Some p)
                 | Some [] \<Rightarrow> (JNull, Some p)
                 | Some (v # _) \<Rightarrow> (v, None))
           else (JNull, Some p))
      | _ \<Rightarrow> (JNull, Some (py_str path)))"

fun resolve_parameters_spec :: "env \<Rightarrow> dict \<Rightarrow> json \<Rightarrow> dict \<times> (string \<times> string) list" where
  "resolve_parameters_spec E [] ctx = ([], [])"
| "resolve_parameters_spec E ((key, entry) # spec) ctx =
     (let (resolved, missing) = resolve_parameters_spec E spec ctx in
      case entry of
        JObj e \<Rightarrow>
          (if dhas ''from'' e
           then (case resolve_from_binding E (dget ''from'' e) ctx of
                   (v, None) \<Rightarrow> ((key, v) # resolved, missing)
                 | (v, Some p) \<Rightarrow> ((key, v) # resolved, (key, p) # missing))
           else if dhas ''value'' e then ((key, dget ''value'' e) # resolved, missing)
           else (resolved, missing))
      | _ \<Rightarrow> (resolved, missing))"

definition assert_jsonpath_bindings_resolved ::
  "string \<Rightarrow> (string \<times> string) list \<Rightarrow> exc + unit" where
  "assert_jsonpath_bindings_resolved sid missing =
     (if missing = [] then Inr ()
      else Inl (ValueError (''step '' @ repr_str sid @ '': JSONPath target missing for input(s): ''
        @ join_str '', '' (map (\<lambda>(k, p). repr_str k @ '' (from: '' @ p @ '')'') (sort_key fst missing)))))"

fun validate_port_values :: "env \<Rightarrow> string \<Rightarrow> dict \<Rightarrow> dict \<Rightarrow> exc + unit" where
  "validate_port_values E sid ports [] = Inr ()"
| "validate_port_values E sid ports ((key, v) # resolved) =
     (case dget key ports of
        JObj port \<Rightarrow>
          (if is_dict (dget ''schema'' port)
           then (case jsonschema E (dget ''schema'' port) v of
                   None \<Rightarrow> validate_port_values E sid ports resolved
                 | Some m \<Rightarrow> Inl (ValueError (''step '' @ repr_str sid @ '' input '' @ repr_str key
                               @ '' resolved value failed schema validation: '' @ m)))
           else validate_port_values E sid ports resolved)
      | _ \<Rightarrow> validate_port_values E sid ports resolved)"

definition validate_resolved_arguments_against_input_ports ::
  "env \<Rightarrow> string \<Rightarrow> dict \<Rightarrow> json \<Rightarrow> exc + unit" where
  "validate_resolved_arguments_against_input_ports E sid resolved ports =
     (if is_dict ports \<and> truthy ports
      then validate_port_values E sid (coerce_dict ports) resolved else Inr ())"

section \<open>Frozen skills\<close>

definition skill_ids_from_specs :: "json list \<Rightarrow> string list" where
  "skill_ids_from_specs specs = List.map_filter
     (\<lambda>s. case s of JObj d \<Rightarrow>
            (case dget ''name'' d of JStr n \<Rightarrow> (if strip n \<noteq> [] then Some (strip n) else None)
             | _ \<Rightarrow> None)
        | _ \<Rightarrow> None) specs"

definition skills_definition_by_name :: "json list \<Rightarrow> dict" where
  "skills_definition_by_name defs = fold
     (\<lambda>e acc. case e of
        JObj d \<Rightarrow> (let name = strip (str_or (dget ''name'' d) [])
                   in if name \<noteq> [] then dset name e acc else acc)
      | _ \<Rightarrow> acc) defs []"

definition skill_embed_is_complete :: "dict \<Rightarrow> bool" where
  "skill_embed_is_complete doc \<longleftrightarrow>
     (case dget ''body'' doc of JStr b \<Rightarrow> strip b \<noteq> [] | _ \<Rightarrow> False)
     \<and> is_list (dget ''allowed_tools'' doc)"

definition skills_coverage_gaps :: "string list \<Rightarrow> dict \<Rightarrow> string list \<times> string list" where
  "skills_coverage_gaps ids by_name =
     (filter (\<lambda>sid. \<not> dhas sid by_name) ids,
      filter (\<lambda>sid. dhas sid by_name
                     \<and> \<not> skill_embed_is_complete (coerce_dict (dget sid by_name))) ids)"

definition repr_names :: "string list \<Rightarrow> string" where
  "repr_names xs = repr_json (JList (map JStr xs))"

definition require_frozen_skills_definition :: "step \<Rightarrow> json list \<Rightarrow> exc + unit" where
  "require_frozen_skills_definition s specs =
     (let ids = skill_ids_from_specs specs in
      if ids = [] then Inr ()
      else if \<not> is_list (skills_definition s)
      then Inl (ValueError (''Step '' @ span_id s @ '' has skills.allow but no skills_definition; ''
                  @ ''saga start must freeze skill payloads onto the step row.''))
      else case skills_coverage_gaps ids (skills_definition_by_name (list_of (skills_definition s))) of
             (missing, invalid) \<Rightarrow>
               if missing = [] \<and> invalid = [] then Inr ()
               else Inl (ValueError (''Step '' @ span_id s
                  @ '' skills_definition does not cover skills.allow: ''
                  @ join_str ''; ''
                      ((if missing = [] then [] else [''missing embeds for '' @ repr_names missing])
                       @ (if invalid = [] then []
                          else [''incomplete embeds for '' @ repr_names invalid
                                @ '' (need non-empty string body and allowed_tools list)''])))))"

definition require_frozen_prompt_definition :: "step \<Rightarrow> exc + unit" where
  "require_frozen_prompt_definition s =
     (if opt_text (prompt_ref s) = []
      then Inl (ValueError (''Step '' @ span_id s @ '' has no prompt_ref; ''
                  @ ''file-based prompts are required for reason steps.''))
      else if strip (opt_text (prompt_definition s)) = []
      then Inl (ValueError (''Step '' @ span_id s @ '' has no prompt_definition; ''
                  @ ''saga start must freeze the prompt template onto the step row.''))
      else Inr ())"

section \<open>Timeouts\<close>

definition error_code_indicates_timeout :: "json \<Rightarrow> bool" where
  "error_code_indicates_timeout code =
     (if code = JNull then False
      else let u = upper (strip (py_str code))
           in u \<in> {''TIMEOUT'', ''TIMEOUT_ERROR'', ''DEADLINE_EXCEEDED'', ''408''}
              \<or> contains_str ''TIMEOUT'' u \<or> contains_str ''DEADLINE'' u)"

definition error_text_indicates_timeout :: "json \<Rightarrow> bool" where
  "error_text_indicates_timeout t = (case t of
     JStr s \<Rightarrow> contains_str ''timeout'' (lower s) \<or> contains_str ''deadline'' (lower s)
   | _ \<Rightarrow> False)"

definition payload_indicates_timeout :: "json \<Rightarrow> bool" where
  "payload_indicates_timeout raw = (case raw of
     JObj d \<Rightarrow>
       error_code_indicates_timeout (dget ''code'' d)
       \<or> (case dget ''reason'' d of JStr r \<Rightarrow> lower (strip r) = ''execution_timeout'' | _ \<Rightarrow> False)
       \<or> error_text_indicates_timeout (dget ''message'' d)
       \<or> error_text_indicates_timeout (dget ''error'' d)
   | _ \<Rightarrow> False)"

end
