(* ===== verification/Policy.thy ===== *)
theory Policy imports StepData begin

text \<open>
  CEL gates: the evaluation of a program to a boolean (\<^verbatim>\<open>common/policy/cel_eval.py\<close>),
  the bindings of the three kinds of expression (\<open>when.cel\<close> of
  \<^verbatim>\<open>common/step_when.py\<close>, \<open>until.cel\<close> of \<^verbatim>\<open>common/loops.py\<close>, policies of
  \<^verbatim>\<open>engine/logic.py\<close>) and the policy gate with its three outcomes
  (\<^verbatim>\<open>common/policy_gate.py\<close>).
\<close>

section \<open>CEL evaluation\<close>

definition evaluate_cel_bool :: "env \<Rightarrow> string \<Rightarrow> dict \<Rightarrow> exc + bool" where
  "evaluate_cel_bool E source binding = (case celpy E source binding of
     Cel_parse_error m \<Rightarrow> Inl (PolicyEvaluationError (''CEL parse error: '' @ m))
   | Cel_bad_binding m \<Rightarrow> Inl (PolicyEvaluationError m)
   | Cel_eval_error m \<Rightarrow> Inl (PolicyEvaluationError m)
   | Cel_bool b \<Rightarrow> Inr b
   | Cel_numeric b \<Rightarrow> Inr b
   | Cel_other ty \<Rightarrow> Inl (PolicyEvaluationError (''CEL policy must evaluate to bool, got '' @ ty)))"

lemma evaluate_cel_bool_error:
  "evaluate_cel_bool E src b = Inl e \<Longrightarrow> \<exists>m. e = PolicyEvaluationError m"
  by (auto simp: evaluate_cel_bool_def split: cel_outcome.splits)

section \<open>Bindings\<close>

definition saga_binding :: "saga \<Rightarrow> json" where
  "saga_binding sg = JObj [(''trace_id'', JStr (trace_id sg)), (''namespace'', JStr (saga_namespace sg)),
     (''status'', JStr (saga_status_value (saga_status sg)))]"

definition step_binding :: "step \<Rightarrow> json" where
  "step_binding s = JObj [(''id'', JStr (step_id s)), (''name'', JStr (step_name s)),
     (''kind'', JStr (step_kind s)), (''order_index'', JInt (order_index s)),
     (''forward_seq'', JInt (forward_seq s))]"

definition context_section :: "string \<Rightarrow> saga \<Rightarrow> dict" where
  "context_section key sg = coerce_dict (dget key (coerce_dict (saga_context sg)))"

definition step_when_binding :: "saga \<Rightarrow> step \<Rightarrow> dict" where
  "step_when_binding sg s =
     [(''input'', JObj (context_section ''input'' sg)),
      (''steps'', JObj (context_section ''steps'' sg)),
      (''loops'', JObj (context_section ''loops'' sg)),
      (''saga'', saga_binding sg), (''step'', step_binding s)]
     @ (if opt_text (loop_id s) = [] then []
        else [(''loop'', JObj [(''id'', jopt_str (loop_id s)), (''iteration'', jopt_int (iteration s)),
                (''max_iterations'',
                 dget ''max_iterations''
                   (coerce_dict (dget (opt_text (loop_id s)) (context_section ''loops'' sg))))])])"

definition evaluate_step_when :: "env \<Rightarrow> string \<Rightarrow> dict \<Rightarrow> exc + bool" where
  "evaluate_step_when E cel_source binding = evaluate_cel_bool E (strip cel_source) binding"

definition until_binding :: "saga \<Rightarrow> string \<Rightarrow> int \<Rightarrow> int \<Rightarrow> dict" where
  "until_binding sg lid it max_it =
     [(''input'', JObj (context_section ''input'' sg)),
      (''steps'', JObj (context_section ''steps'' sg)),
      (''loops'', JObj (context_section ''loops'' sg)),
      (''saga'', saga_binding sg),
      (''loop'', JObj [(''id'', JStr lid), (''iteration'', JInt it), (''max_iterations'', JInt max_it)])]"

definition evaluate_until :: "env \<Rightarrow> string \<Rightarrow> dict \<Rightarrow> exc + bool" where
  "evaluate_until E cel_source binding = evaluate_cel_bool E (strip cel_source) binding"

definition first_tool_name :: "json list \<Rightarrow> string" where
  "first_tool_name specs = (case specs of
     JObj d # _ \<Rightarrow> str_or (dget ''name'' d) [] | _ \<Rightarrow> [])"

definition policy_binding :: "string \<Rightarrow> saga \<Rightarrow> step \<Rightarrow> json \<Rightarrow> json \<Rightarrow> json list \<Rightarrow> dict" where
  "policy_binding phase sg s arguments output tool_specs =
     [(''phase'', JStr phase),
      (''input'', JObj (context_section ''input'' sg)),
      (''arguments'', jor arguments (JObj [])),
      (''output'', jor output (JObj [])),
      (''saga'', saga_binding sg), (''step'', step_binding s),
      (''worker'', JObj [(''name'', JStr (worker s)), (''version'', JStr (worker_version s))]),
      (''tool'', JObj [(''name'', JStr (first_tool_name tool_specs))])]"

section \<open>The policy gate\<close>

datatype gate_outcome = Gate_PASSED | Gate_DENIED | Gate_ERRORED

record gate_result =
  gate_outcome :: gate_outcome
  gate_denial_code :: "string option"
  gate_error_code :: "string option"
  gate_error_message :: "string option"
  gate_policy_name :: "string option"

definition step_policy_definition :: "step \<Rightarrow> json" where
  "step_policy_definition s = (if is_dict (policy_definition s) then policy_definition s else JNull)"

definition step_has_policy_gate :: "string \<Rightarrow> json \<Rightarrow> bool" where
  "step_has_policy_gate name pd \<longleftrightarrow> strip name \<noteq> [] \<or> truthy (dget ''cel'' (coerce_dict pd))"

definition gate_errored :: "string option \<Rightarrow> string \<Rightarrow> gate_result" where
  "gate_errored name m = \<lparr>gate_outcome = Gate_ERRORED, gate_denial_code = None,
     gate_error_code = Some ''POLICY_EVALUATION_FAILED'', gate_error_message = Some m,
     gate_policy_name = name\<rparr>"

definition nonempty :: "string \<Rightarrow> string option" where
  "nonempty s = (if s = [] then None else Some s)"

text \<open>The name and source of the frozen artifact, or the error result.\<close>

definition resolve_gate_artifact :: "string \<Rightarrow> json \<Rightarrow> gate_result + (string \<times> string)" where
  "resolve_gate_artifact name pd =
     (let d = coerce_dict pd; cel = dget ''cel'' d in
      if truthy cel
      then (if strip (py_str cel) = []
            then Inl (gate_errored (nonempty name)
                        ''policy_definition must contain a non-empty 'cel' expression'')
            else Inr (str_or (dget ''name'' d) (if name = [] then ''policy'' else name),
                      strip (py_str cel)))
      else if name = [] then Inl (gate_errored None ''policy_name is empty'')
      else Inl (gate_errored (Some name)
             (''policy_definition with cel is required (frozen at saga start); ''
              @ ''disk POLICIES_ROOT fallback was removed'')))"

definition evaluate_policy_gate :: "env \<Rightarrow> string \<Rightarrow> dict \<Rightarrow> string \<Rightarrow> json \<Rightarrow> gate_result" where
  "evaluate_policy_gate E policy binding denial_code pd =
     (let name = strip policy in
      if \<not> step_has_policy_gate name pd then gate_errored None ''policy_name is empty''
      else case resolve_gate_artifact name pd of
             Inl r \<Rightarrow> r
           | Inr (artifact, source) \<Rightarrow>
               (case evaluate_cel_bool E source binding of
                  Inl e \<Rightarrow> gate_errored (Some artifact) (exc_text E e)
                | Inr ok \<Rightarrow>
                    \<lparr>gate_outcome = (if ok then Gate_PASSED else Gate_DENIED),
                     gate_denial_code = (if ok then None else Some denial_code),
                     gate_error_code = None, gate_error_message = None,
                     gate_policy_name = Some artifact\<rparr>))"

definition dispatch_policy_gate_hooks :: "gate_result \<Rightarrow> string \<Rightarrow> string \<Rightarrow> unit M" where
  "dispatch_policy_gate_hooks r phase sid =
     (case gate_outcome r of
        Gate_PASSED \<Rightarrow> hook (On_policy_gate ''evaluated'' phase sid)
      | Gate_DENIED \<Rightarrow> hook (On_policy_gate ''denied'' phase sid)
      | Gate_ERRORED \<Rightarrow> when_do (gate_policy_name r \<noteq> None) (hook (On_policy_gate ''errored'' phase sid)))"

definition run_policy_gate ::
  "env \<Rightarrow> string \<Rightarrow> string \<Rightarrow> dict \<Rightarrow> string \<Rightarrow> string \<Rightarrow> json \<Rightarrow> gate_result M" where
  "run_policy_gate E policy phase binding denial_code sid pd =
     (let r = evaluate_policy_gate E policy binding denial_code pd
      in bind (dispatch_policy_gate_hooks r phase sid) (\<lambda>_. return r))"

text \<open>The gate passes exactly when the frozen artifact has a source that evaluates to true.\<close>

lemma evaluate_policy_gate_passed_iff:
  "gate_outcome (evaluate_policy_gate E policy binding code pd) = Gate_PASSED \<longleftrightarrow>
     (\<exists>artifact source. step_has_policy_gate (strip policy) pd
        \<and> resolve_gate_artifact (strip policy) pd = Inr (artifact, source)
        \<and> evaluate_cel_bool E source binding = Inr True)"
  by (auto simp: evaluate_policy_gate_def Let_def gate_errored_def resolve_gate_artifact_def
        split: sum.splits if_splits)

end
