(* ===== verification/Outbox.thy ===== *)
theory Outbox imports Policy begin

text \<open>
  The transactional outbox: emission (\<^verbatim>\<open>common/outbox.py\<close>), the producer and the
  polling consumer (\<^verbatim>\<open>common/messaging/postgres.py\<close>), the reapers of stale rows
  (\<^verbatim>\<open>common/outbox_reap.py\<close>) and the worker's idempotency claims
  (\<^verbatim>\<open>common/processed_command_claim.py\<close>,
  \<^verbatim>\<open>common/processed_command_reap.py\<close>).

  The locale \<open>keyed_log\<close> is the contract of a table that takes each key once; the
  ingest log, the outbox and the operator recovery log are interpretations.
\<close>

section \<open>Tables that take each key once\<close>

locale keyed_log =
  fixes has :: "'k \<Rightarrow> 's \<Rightarrow> bool"
    and put :: "'k \<Rightarrow> 's \<Rightarrow> 's"
  assumes put_has: "has k (put k s)"
    and put_again: "has k s \<Longrightarrow> put k s = s"
    and put_other: "k' \<noteq> k \<Longrightarrow> has k' (put k s) = has k' s"
begin

fun put_all :: "'k list \<Rightarrow> 's \<Rightarrow> 's" where
  "put_all [] s = s"
| "put_all (k # ks) s = put_all ks (put k s)"

lemma has_put_iff: "has k' (put k s) \<longleftrightarrow> k' = k \<or> has k' s"
  using put_has put_other by metis

lemma has_put_all: "has k (put_all ks s) \<longleftrightarrow> k \<in> set ks \<or> has k s"
  by (induction ks arbitrary: s) (auto simp: has_put_iff)

lemma put_idem: "put k (put k s) = put k s"
  by (simp add: put_again put_has)

text \<open>Redelivering any part of what was already put changes nothing.\<close>

lemma put_all_absorb: "(\<And>k. k \<in> set ks \<Longrightarrow> has k s) \<Longrightarrow> put_all ks s = s"
  by (induction ks arbitrary: s) (simp_all add: put_again)

end

section \<open>Emission\<close>

definition outbox_has :: "string \<Rightarrow> string \<Rightarrow> string \<Rightarrow> outbox_event list \<Rightarrow> bool" where
  "outbox_has ns topic key t \<longleftrightarrow>
     (\<exists>r\<in>set t. ob_namespace r = ns \<and> ob_topic r = topic \<and> ob_idempotency_key r = Some key)"

text \<open>\<open>PostgresQueueProducer.publish\<close>: one PENDING row; a duplicate of
  \<open>(namespace, topic, key)\<close> is rolled back to the savepoint and skipped.\<close>

definition outbox_put :: "outbox_event \<Rightarrow> outbox_event list \<Rightarrow> outbox_event list" where
  "outbox_put row t =
     (if (case ob_idempotency_key row of None \<Rightarrow> False
          | Some k \<Rightarrow> outbox_has (ob_namespace row) (ob_topic row) k t) then t else t @ [row])"

definition publish ::
  "env \<Rightarrow> string \<Rightarrow> dict \<Rightarrow> string \<Rightarrow> string \<Rightarrow> string \<Rightarrow> string \<Rightarrow> string option \<Rightarrow> unit M" where
  "publish E topic payload ns tid sid ety key =
     bind (uuid4_hex (uuid_hex E)) (\<lambda>oid.
     modify (\<lambda>db. db\<lparr>db_outbox := outbox_put
         \<lparr>ob_id = oid, ob_namespace = ns, ob_saga_trace_id = tid, ob_step_span_id = sid,
          ob_event_type = ety, ob_topic = topic, ob_idempotency_key = key,
          ob_payload = JObj payload, ob_status = Outbox_PENDING,
          ob_created_at = db_now db, ob_updated_at = db_now db\<rparr> (db_outbox db)\<rparr>))"

text \<open>The outbox takes each \<open>(namespace, topic, key)\<close> once, whatever else the row says.\<close>

definition keyed_row :: "outbox_event \<Rightarrow> string \<times> string \<times> string \<Rightarrow> outbox_event" where
  "keyed_row r k = r\<lparr>ob_namespace := fst k, ob_topic := fst (snd k),
     ob_idempotency_key := Some (snd (snd k))\<rparr>"

interpretation outbox: keyed_log
  "\<lambda>k t. outbox_has (fst k) (fst (snd k)) (snd (snd k)) t"
  "\<lambda>k t. outbox_put (keyed_row r k) t" for r
  by unfold_locales (auto simp: outbox_has_def outbox_put_def keyed_row_def)

definition default_key :: "string \<Rightarrow> string \<Rightarrow> string \<Rightarrow> string" where
  "default_key tid ety sid = tid @ '':'' @ ety @ '':'' @ sid"

text \<open>\<open>emit_saga_event\<close>; \<open>key\<close> is the payload's own idempotency key, if it has one.\<close>

definition emit_saga_event ::
  "env \<Rightarrow> string \<Rightarrow> string \<Rightarrow> dict \<Rightarrow> string \<Rightarrow> string \<Rightarrow> string option \<Rightarrow> string option \<Rightarrow> unit M" where
  "emit_saga_event E topic ety payload ns tid sid key =
     (let size = length (json_dumps False (JObj payload)) in
      if topic = topic_commands E \<and> size > outbox_max_payload_bytes E
      then raise (ValueError (''worker-commands payload size '' @ show_nat size
             @ '' exceeds OUTBOX_MAX_PAYLOAD_BYTES='' @ show_nat (outbox_max_payload_bytes E)))
      else publish E topic payload ns tid (opt_text sid) ety
             (Some (case key of None \<Rightarrow> default_key tid ety (opt_text sid) | Some k \<Rightarrow> k)))"

definition emit_command :: "env \<Rightarrow> command \<Rightarrow> unit M" where
  "emit_command E c = emit_saga_event E (topic_commands E) (command_type_value (cmd_type c))
     (dump_command c) (cmd_namespace c) (cmd_trace c) (Some (cmd_span c)) (Some (cmd_key c))"

text \<open>A \<open>SagaEventPayload\<close> on the engine's own topic.\<close>

definition emit_saga_payload ::
  "env \<Rightarrow> string \<Rightarrow> string \<Rightarrow> event_type \<Rightarrow> string \<Rightarrow> dict \<Rightarrow> unit M" where
  "emit_saga_payload E ns tid ety status output =
     (case need (namespace_ok ns) ''namespace'' @ need (trace_ok tid) ''saga_trace_id'' of
        [] \<Rightarrow> emit_saga_event E (topic_events E) (event_type_value ety)
          [(''namespace'', JStr ns), (''saga_trace_id'', JStr tid), (''status'', JStr status),
           (''output'', JObj output)] ns tid None None
      | locs \<Rightarrow> raise (ValidationError locs))"

section \<open>The consumer\<close>

definition set_outbox_status :: "string \<Rightarrow> outbox_status \<Rightarrow> outbox_status option \<Rightarrow> nat M" where
  "set_outbox_status oid st require_current db =
     (let P = (\<lambda>r. ob_id r = oid \<and> (case require_current of None \<Rightarrow> True | Some c \<Rightarrow> ob_status r = c))
      in (Inr (length (filter P (db_outbox db))),
          db\<lparr>db_outbox := rows_update P (\<lambda>r. r\<lparr>ob_status := st, ob_updated_at := db_now db\<rparr>)
                            (db_outbox db)\<rparr>))"

text \<open>\<open>_poll_and_dispatch\<close>: the claim of at most \<open>batch\<close> pending rows, oldest first;
  rows locked by another transaction are skipped.\<close>

definition claim_candidates ::
  "string \<Rightarrow> nat \<Rightarrow> (outbox_event \<Rightarrow> bool) \<Rightarrow> outbox_event list \<Rightarrow> outbox_event list" where
  "claim_candidates topic batch locked t =
     take batch (sort_key ob_created_at
       (filter (\<lambda>r. ob_topic r = topic \<and> ob_status r = Outbox_PENDING \<and> \<not> locked r) t))"

definition poll_and_claim ::
  "string \<Rightarrow> nat \<Rightarrow> (outbox_event \<Rightarrow> bool) \<Rightarrow> outbox_event list M" where
  "poll_and_claim topic batch locked db =
     (let rows = claim_candidates topic batch locked (db_outbox db); ids = map ob_id rows in
      (Inr rows,
       db\<lparr>db_outbox := rows_update (\<lambda>r. ob_id r \<in> set ids)
            (\<lambda>r. r\<lparr>ob_status := Outbox_IN_PROGRESS, ob_updated_at := db_now db\<rparr>) (db_outbox db)\<rparr>))"

text \<open>\<open>_assemble_consumer_payload\<close>: the envelope columns overwrite the payload's own
  keys; the propagation carrier is empty.\<close>

definition assemble_consumer_payload :: "outbox_event \<Rightarrow> dict" where
  "assemble_consumer_payload row =
     (let payload = (case ob_payload row of JObj d \<Rightarrow> d
                     | j \<Rightarrow> if truthy j then [(''raw'', j)] else []);
          put_field = (\<lambda>k v p. if v = [] then p else dset k (JStr v) p)
      in dset ''trace_context'' (JObj [])
           (put_field ''step_span_id'' (ob_step_span_id row)
           (put_field ''namespace'' (ob_namespace row)
           (put_field ''saga_trace_id'' (ob_saga_trace_id row)
           (put_field ''event_type'' (ob_event_type row) payload)))))"

text \<open>\<open>_process_row\<close>: the handler, then COMPLETED or FAILED if the row is still ours.\<close>

definition process_row :: "(dict \<Rightarrow> unit M) \<Rightarrow> outbox_event \<Rightarrow> unit M" where
  "process_row handler row =
     try_except
       (seq (handler (assemble_consumer_payload row))
            (bind (set_outbox_status (ob_id row) Outbox_COMPLETED (Some Outbox_IN_PROGRESS))
                  (\<lambda>_. skip)))
       (\<lambda>_. bind (set_outbox_status (ob_id row) Outbox_FAILED (Some Outbox_IN_PROGRESS)) (\<lambda>_. skip))"

section \<open>Reapers\<close>

definition stale_outbox_cutoff :: "env \<Rightarrow> int \<Rightarrow> int" where
  "stale_outbox_cutoff E now = now - outbox_stale_seconds E"

definition outbox_row_stale :: "env \<Rightarrow> int \<Rightarrow> outbox_event \<Rightarrow> bool" where
  "outbox_row_stale E now r \<longleftrightarrow> ob_updated_at r < stale_outbox_cutoff E now"

definition reap_stale_in_progress_outbox_rows :: "env \<Rightarrow> string \<Rightarrow> nat \<Rightarrow> nat M" where
  "reap_stale_in_progress_outbox_rows E topic limit db =
     (let stale = take limit (filter (\<lambda>r. ob_topic r = topic \<and> ob_status r = Outbox_IN_PROGRESS
                    \<and> outbox_row_stale E (db_now db) r) (db_outbox db));
          ids = map ob_id stale
      in (Inr (length stale),
          db\<lparr>db_outbox := rows_update (\<lambda>r. ob_id r \<in> set ids)
               (\<lambda>r. r\<lparr>ob_status := Outbox_PENDING, ob_updated_at := db_now db\<rparr>) (db_outbox db)\<rparr>))"

text \<open>One iteration of the paired reap: the oldest stale row of the topic, its unfinished claim
  evicted with it; \<open>False\<close> when there is none.\<close>

definition reap_paired_once :: "env \<Rightarrow> string \<Rightarrow> bool M" where
  "reap_paired_once E topic db =
     (case sort_key ob_updated_at (filter (\<lambda>r. ob_topic r = topic \<and> ob_status r = Outbox_IN_PROGRESS
             \<and> outbox_row_stale E (db_now db) r) (db_outbox db)) of
        [] \<Rightarrow> (Inr False, db)
      | row # _ \<Rightarrow>
          (Inr True,
           db\<lparr>db_claims := (case ob_idempotency_key row of
                 None \<Rightarrow> db_claims db
               | Some k \<Rightarrow> if k = [] then db_claims db
                           else rows_delete (\<lambda>c. pc_key c = k \<and> \<not> pc_result_emitted c) (db_claims db)),
              db_outbox := rows_update (\<lambda>r. ob_id r = ob_id row)
                (\<lambda>r. r\<lparr>ob_status := Outbox_PENDING, ob_updated_at := db_now db\<rparr>) (db_outbox db)\<rparr>))"

fun reap_paired_worker_commands_outbox :: "env \<Rightarrow> string \<Rightarrow> nat \<Rightarrow> nat M" where
  "reap_paired_worker_commands_outbox E topic 0 = return 0"
| "reap_paired_worker_commands_outbox E topic (Suc limit) =
     bind (reap_paired_once E topic) (\<lambda>found.
       if found
       then bind (reap_paired_worker_commands_outbox E topic limit) (\<lambda>n. return (Suc n))
       else return 0)"

section \<open>Claims\<close>

definition stale_claim_cutoff :: "env \<Rightarrow> int \<Rightarrow> int" where
  "stale_claim_cutoff E now = now - stale_claim_seconds E"

definition claim_is_stale :: "env \<Rightarrow> int \<Rightarrow> processed_command \<Rightarrow> bool" where
  "claim_is_stale E now c \<longleftrightarrow> \<not> pc_result_emitted c \<and> pc_created_at c < stale_claim_cutoff E now"

definition find_claim :: "string \<Rightarrow> db \<Rightarrow> processed_command option" where
  "find_claim key db = rows_first (\<lambda>c. pc_key c = key) (db_claims db)"

definition release_worker_claim_for_retry :: "string \<Rightarrow> nat M" where
  "release_worker_claim_for_retry key db =
     (Inr (length (filter (\<lambda>c. pc_key c = key) (db_claims db))),
      db\<lparr>db_claims := rows_delete (\<lambda>c. pc_key c = key) (db_claims db)\<rparr>)"

definition reap_stale_claim_by_key :: "env \<Rightarrow> string \<Rightarrow> bool M" where
  "reap_stale_claim_by_key E key db =
     (let P = (\<lambda>c. pc_key c = key \<and> claim_is_stale E (db_now db) c)
      in (Inr (filter P (db_claims db) \<noteq> []), db\<lparr>db_claims := rows_delete P (db_claims db)\<rparr>))"

definition reap_stale_processed_commands :: "env \<Rightarrow> nat \<Rightarrow> nat M" where
  "reap_stale_processed_commands E batch db =
     (let stale = take batch (filter (claim_is_stale E (db_now db)) (db_claims db));
          keys = map pc_key stale
      in (Inr (length stale), db\<lparr>db_claims := rows_delete (\<lambda>c. pc_key c \<in> set keys) (db_claims db)\<rparr>))"

definition claim_owned :: "string \<Rightarrow> string \<Rightarrow> processed_command \<Rightarrow> bool" where
  "claim_owned key token c \<longleftrightarrow> pc_key c = key \<and> pc_claim_token c = token \<and> \<not> pc_result_emitted c"

definition claim_still_owned :: "string \<Rightarrow> string \<Rightarrow> db \<Rightarrow> processed_command option" where
  "claim_still_owned key token db = rows_first (claim_owned key token) (db_claims db)"

definition verify_claim_before_emit :: "string \<Rightarrow> string \<Rightarrow> bool M" where
  "verify_claim_before_emit key token = gets (\<lambda>db. claim_still_owned key token db \<noteq> None)"

definition mark_claim_result_emitted :: "string \<Rightarrow> string \<Rightarrow> bool M" where
  "mark_claim_result_emitted key token db =
     (Inr (filter (claim_owned key token) (db_claims db) \<noteq> []),
      db\<lparr>db_claims := rows_update (claim_owned key token) (\<lambda>c. c\<lparr>pc_result_emitted := True\<rparr>)
           (db_claims db)\<rparr>)"

end
