(* ===== verification/SagaSchema.thy ===== *)
theory SagaSchema imports Outbox begin

text \<open>
  The step models of \<^verbatim>\<open>common/schemas/saga.py\<close>: for each pydantic class the list of
  failing locations (empty when the mapping is accepted) and the accepted values as the code reads
  them.  The classes are read in strict mode (an integer field takes an integer): the documents
  parsed at run time are dumps of models that were validated before, so they have the declared
  types.
\<close>

section \<open>Field checks\<close>

definition alias_get :: "string \<Rightarrow> string \<Rightarrow> dict \<Rightarrow> json" where
  "alias_get a n d = (if dhas a d then dget a d else dget n d)"

fun is_int :: "json \<Rightarrow> bool" where
  "is_int (JInt i) = True"
| "is_int _ = False"

fun is_bool :: "json \<Rightarrow> bool" where
  "is_bool (JBool b) = True"
| "is_bool _ = False"

fun str_of :: "json \<Rightarrow> string" where
  "str_of (JStr s) = s"
| "str_of _ = []"

fun int_of :: "json \<Rightarrow> int" where
  "int_of (JInt i) = i"
| "int_of _ = 0"

fun bool_of :: "json \<Rightarrow> bool" where
  "bool_of (JBool b) = b"
| "bool_of _ = False"

fun str_opt :: "json \<Rightarrow> string option" where
  "str_opt (JStr s) = Some s"
| "str_opt _ = None"

fun int_opt :: "json \<Rightarrow> int option" where
  "int_opt (JInt i) = Some i"
| "int_opt _ = None"

definition null_or :: "(json \<Rightarrow> bool) \<Rightarrow> json \<Rightarrow> bool" where
  "null_or P j \<longleftrightarrow> j = JNull \<or> P j"

definition absent_or :: "string \<Rightarrow> (json \<Rightarrow> bool) \<Rightarrow> dict \<Rightarrow> bool" where
  "absent_or k P d \<longleftrightarrow> \<not> dhas k d \<or> P (dget k d)"

definition text_ok :: "json \<Rightarrow> bool" where
  "text_ok j \<longleftrightarrow> is_str j \<and> strip (str_of j) \<noteq> []"

definition int_in :: "int \<Rightarrow> int \<Rightarrow> json \<Rightarrow> bool" where
  "int_in lo hi j \<longleftrightarrow> is_int j \<and> lo \<le> int_of j \<and> int_of j \<le> hi"

definition int_from :: "int \<Rightarrow> json \<Rightarrow> bool" where
  "int_from lo j \<longleftrightarrow> is_int j \<and> lo \<le> int_of j"

definition forbid_extra :: "string list \<Rightarrow> dict \<Rightarrow> string list" where
  "forbid_extra allowed d = map fst (filter (\<lambda>(k, _). k \<notin> set allowed) d)"

lemma forbid_extra_absent: "forbid_extra allowed d = [] \<Longrightarrow> k \<notin> set allowed \<Longrightarrow> dget k d = JNull"
  by (induction d) (auto simp: forbid_extra_def dget_def split: if_splits)

section \<open>Shared parts of a step\<close>

definition step_parameter_spec_ok :: "json \<Rightarrow> bool" where
  "step_parameter_spec_ok j = (case j of
     JObj d \<Rightarrow>
       forbid_extra [''from'', ''value''] d = []
       \<and> null_or is_str (dget ''from'' d)
       \<and> ((dget ''from'' d \<noteq> JNull) \<noteq> (dget ''value'' d \<noteq> JNull))
       \<and> (dget ''from'' d \<noteq> JNull \<longrightarrow> starts_with ''$'' (str_of (dget ''from'' d)))
   | _ \<Rightarrow> False)"

definition with_ok :: "json \<Rightarrow> bool" where
  "with_ok j = (case j of JObj d \<Rightarrow> list_all (\<lambda>(_, v). step_parameter_spec_ok v) d | _ \<Rightarrow> False)"

definition tool_ok :: "json \<Rightarrow> bool" where
  "tool_ok j = (case j of
     JObj d \<Rightarrow> is_str (dget ''name'' d) \<and> null_or is_str (dget ''description'' d)
       \<and> null_or is_dict (dget ''strict_schema'' d) \<and> null_or is_dict (dget ''output_schema'' d)
   | _ \<Rightarrow> False)"

definition dump_tool :: "json \<Rightarrow> json" where
  "dump_tool j = (let d = coerce_dict j in
     JObj [(''name'', dget ''name'' d), (''description'', dget ''description'' d),
           (''strict_schema'', dget ''strict_schema'' d), (''output_schema'', dget ''output_schema'' d)])"

definition bind_keys :: "json \<Rightarrow> string list" where
  "bind_keys tools = map (\<lambda>j. strip (str_of j)) (list_of (dget ''bind'' (coerce_dict tools)))"

definition allow_items :: "json \<Rightarrow> json list" where
  "allow_items spec = list_of (dget ''allow'' (coerce_dict spec))"

definition tools_spec_ok :: "json \<Rightarrow> bool" where
  "tools_spec_ok j = (case j of
     JObj d \<Rightarrow>
       absent_or ''allow'' (\<lambda>a. is_list a \<and> list_all tool_ok (list_of a)) d
       \<and> absent_or ''bind'' (\<lambda>b. is_list b \<and> list_all is_str (list_of b)) d
       \<and> [] \<notin> set (bind_keys j) \<and> distinct (bind_keys j)
   | _ \<Rightarrow> False)"

definition resource_ok :: "json \<Rightarrow> bool" where
  "resource_ok j = (case j of
     JObj d \<Rightarrow> is_str (dget ''uri'' d) \<and> null_or is_str (dget ''description'' d) | _ \<Rightarrow> False)"

definition dump_resource :: "json \<Rightarrow> json" where
  "dump_resource j = (let d = coerce_dict j in
     JObj [(''uri'', dget ''uri'' d), (''description'', dget ''description'' d)])"

definition resources_spec_ok :: "json \<Rightarrow> bool" where
  "resources_spec_ok j = (case j of
     JObj d \<Rightarrow> absent_or ''allow'' (\<lambda>a. is_list a \<and> list_all resource_ok (list_of a)) d
   | _ \<Rightarrow> False)"

definition skill_ok :: "json \<Rightarrow> bool" where
  "skill_ok j = (case j of
     JObj d \<Rightarrow> forbid_extra [''name''] d = [] \<and> text_ok (dget ''name'' d)
             \<and> strip (str_of (dget ''name'' d)) \<noteq> ''load_skill''
   | _ \<Rightarrow> False)"

definition dump_skill :: "json \<Rightarrow> json" where
  "dump_skill j = JObj [(''name'', JStr (strip (str_of (dget ''name'' (coerce_dict j)))))]"

definition skills_spec_ok :: "json \<Rightarrow> bool" where
  "skills_spec_ok j = (case j of
     JObj d \<Rightarrow> forbid_extra [''allow''] d = []
             \<and> absent_or ''allow'' (\<lambda>a. is_list a \<and> list_all skill_ok (list_of a)) d
   | _ \<Rightarrow> False)"

text \<open>\<open>StepWhenSpec\<close> and \<open>LoopUntilSpec\<close>: one non-blank \<open>cel\<close>, stripped.\<close>

definition cel_spec_ok :: "json \<Rightarrow> bool" where
  "cel_spec_ok j = (case j of
     JObj d \<Rightarrow> forbid_extra [''cel''] d = [] \<and> text_ok (dget ''cel'' d) | _ \<Rightarrow> False)"

definition cel_of :: "json \<Rightarrow> string" where
  "cel_of j = strip (str_of (dget ''cel'' (coerce_dict j)))"

definition facts_extractor_ok :: "json \<Rightarrow> bool" where
  "facts_extractor_ok j = (case j of
     JObj d \<Rightarrow>
       forbid_extra [''tool'', ''into'', ''fields''] d = []
       \<and> text_ok (dget ''tool'' d) \<and> text_ok (dget ''into'' d)
       \<and> (case dget ''fields'' d of
            JObj f \<Rightarrow> f \<noteq> [] \<and> list_all (\<lambda>(k, p). strip k \<noteq> [] \<and> is_str p
                                          \<and> starts_with ''$'' (strip (str_of p))) f
          | _ \<Rightarrow> False)
   | _ \<Rightarrow> False)"

definition fact_into :: "json \<Rightarrow> string" where
  "fact_into j = strip (str_of (dget ''into'' (coerce_dict j)))"

definition dump_fact :: "json \<Rightarrow> json" where
  "dump_fact j = (let d = coerce_dict j in
     JObj [(''tool'', JStr (strip (str_of (dget ''tool'' d)))), (''into'', JStr (fact_into j)),
           (''fields'', dget ''fields'' d)])"

definition on_failure_ok :: "json \<Rightarrow> bool" where
  "on_failure_ok j = (case j of
     JObj d \<Rightarrow> forbid_extra [''strategy''] d = []
       \<and> absent_or ''strategy'' (\<lambda>s. s = JStr ''auto_compensate'' \<or> s = JStr ''await_operator'') d
   | _ \<Rightarrow> False)"

section \<open>Worker steps\<close>

definition base_fields :: "string list" where
  "base_fields = [''kind'', ''id'', ''name'', ''worker'', ''worker_version'', ''step_definition_name'',
     ''step_definition_version'', ''inputs'', ''with'', ''with_spec'', ''compensation'',
     ''compensation_definition'', ''timeout_seconds'', ''max_turns'', ''output_schema'',
     ''output_schema_definition'', ''policy'', ''policy_definition'', ''hitl'', ''hitl_max_retries'',
     ''hitl_retry_guidance'', ''resources'', ''when'', ''on_failure'', ''tools'']"

definition reason_only_fields :: "string list" where
  "reason_only_fields = [''prompt'', ''prompt_definition'', ''agent-adapter'', ''agent_adapter'',
     ''max_step_tokens'', ''max_completion_tokens'', ''skills'', ''skills_definition'', ''facts'']"

definition step_base_errors :: "dict \<Rightarrow> string list" where
  "step_base_errors d =
     concat (map (\<lambda>k. need (is_str (dget k d)) k) [''id'', ''name'', ''worker'', ''worker_version''])
   @ concat (map (\<lambda>k. need (null_or is_str (dget k d)) k)
       [''step_definition_name'', ''step_definition_version'', ''compensation'', ''output_schema'',
        ''policy''])
   @ concat (map (\<lambda>k. need (null_or is_dict (dget k d)) k)
       [''compensation_definition'', ''output_schema_definition'', ''policy_definition''])
   @ need (absent_or ''inputs'' is_dict d) ''inputs''
   @ need ((\<not> dhas ''with'' d \<and> \<not> dhas ''with_spec'' d) \<or> with_ok (alias_get ''with'' ''with_spec'' d)) ''with''
   @ need (absent_or ''timeout_seconds'' is_int d) ''timeout_seconds''
   @ need (absent_or ''max_turns'' (int_in 1 200) d) ''max_turns''
   @ need (absent_or ''hitl'' is_bool d) ''hitl''
   @ need (null_or (int_from 0) (dget ''hitl_max_retries'' d)) ''hitl_max_retries''
   @ need (null_or (\<lambda>j. is_str j \<and> length (str_of j) \<le> 4096) (dget ''hitl_retry_guidance'' d))
       ''hitl_retry_guidance''
   @ need (null_or resources_spec_ok (dget ''resources'' d)) ''resources''
   @ need (null_or cel_spec_ok (dget ''when'' d)) ''when''
   @ need (null_or on_failure_ok (dget ''on_failure'' d)) ''on_failure''
   @ need (bool_of (dget ''hitl'' d)
           \<or> (dget ''hitl_max_retries'' d = JNull \<and> dget ''hitl_retry_guidance'' d = JNull)) ''hitl''"

definition simple_agent_adapter_constraints_ok :: "dict \<Rightarrow> bool" where
  "simple_agent_adapter_constraints_ok d \<longleftrightarrow>
     allow_items (dget ''tools'' d) = [] \<and> bind_keys (dget ''tools'' d) = []
     \<and> allow_items (dget ''resources'' d) = [] \<and> allow_items (dget ''skills'' d) = []
     \<and> list_of (dget ''facts'' d) = []"

definition tool_names :: "dict \<Rightarrow> string list" where
  "tool_names d = map (\<lambda>t. str_of (dget ''name'' (coerce_dict t))) (allow_items (dget ''tools'' d))"

definition agent_adapter_of :: "dict \<Rightarrow> json" where
  "agent_adapter_of d =
     (if dhas ''agent-adapter'' d \<or> dhas ''agent_adapter'' d
      then alias_get ''agent-adapter'' ''agent_adapter'' d else JStr ''react'')"

definition reason_step_errors :: "dict \<Rightarrow> string list" where
  "reason_step_errors d =
     forbid_extra (base_fields @ reason_only_fields) d
   @ step_base_errors d
   @ need (text_ok (dget ''prompt'' d)) ''prompt''
   @ need (null_or is_str (dget ''prompt_definition'' d)) ''prompt_definition''
   @ need (agent_adapter_of d = JStr ''react'' \<or> agent_adapter_of d = JStr ''simple'') ''agent-adapter''
   @ need (null_or (int_from 1) (dget ''max_step_tokens'' d)) ''max_step_tokens''
   @ need (null_or (int_from 1) (dget ''max_completion_tokens'' d)) ''max_completion_tokens''
   @ need (null_or tools_spec_ok (dget ''tools'' d)) ''tools''
   @ need (null_or skills_spec_ok (dget ''skills'' d)) ''skills''
   @ need (null_or (\<lambda>j. is_list j \<and> list_all is_dict (list_of j)) (dget ''skills_definition'' d))
       ''skills_definition''
   @ need (null_or (\<lambda>j. is_list j \<and> list_all facts_extractor_ok (list_of j)) (dget ''facts'' d)) ''facts''
   @ need (distinct (map fact_into (list_of (dget ''facts'' d)))) ''facts.into''
   @ need (agent_adapter_of d \<noteq> JStr ''simple'' \<or> simple_agent_adapter_constraints_ok d) ''simple''
   @ need (list_all (\<lambda>k. dhas k (coerce_dict (alias_get ''with'' ''with_spec'' d)))
             (bind_keys (dget ''tools'' d))) ''tools.bind''
   @ need (''load_skill'' \<notin> set (tool_names d)) ''tools.allow''"

definition commit_step_errors :: "dict \<Rightarrow> string list" where
  "commit_step_errors d =
     forbid_extra base_fields d
   @ step_base_errors d
   @ need (tools_spec_ok (dget ''tools'' d)) ''tools''
   @ need (length (allow_items (dget ''tools'' d)) = 1) ''tools.allow''
   @ need (''load_skill'' \<notin> set (tool_names d)) ''tools.allow''
   @ need (bind_keys (dget ''tools'' d) = []) ''tools.bind''"

section \<open>Engine-native steps and loops\<close>

definition jsonpath_text_ok :: "json \<Rightarrow> bool" where
  "jsonpath_text_ok j \<longleftrightarrow> is_str j \<and> starts_with ''$'' (strip (str_of j))"

definition MAX_CHILDREN_HARD_CAP :: int where
  "MAX_CHILDREN_HARD_CAP = 16"

definition spawn_spec_ok :: "json \<Rightarrow> bool" where
  "spawn_spec_ok j = (case j of
     JObj d \<Rightarrow>
       forbid_extra [''saga_name'', ''saga_version'', ''items_from'', ''item_var'', ''result_from'',
         ''max_children'', ''input''] d = []
       \<and> text_ok (dget ''saga_name'' d) \<and> text_ok (dget ''saga_version'' d)
       \<and> jsonpath_text_ok (dget ''items_from'' d) \<and> jsonpath_text_ok (dget ''result_from'' d)
       \<and> absent_or ''item_var'' text_ok d
       \<and> null_or (int_in 1 MAX_CHILDREN_HARD_CAP) (dget ''max_children'' d)
       \<and> absent_or ''input'' with_ok d
   | _ \<Rightarrow> False)"

definition join_spec_ok :: "json \<Rightarrow> bool" where
  "join_spec_ok j = (case j of
     JObj d \<Rightarrow> forbid_extra [''spawn_step_id'', ''allow_zero_success''] d = []
       \<and> text_ok (dget ''spawn_step_id'' d) \<and> absent_or ''allow_zero_success'' is_bool d
   | _ \<Rightarrow> False)"

definition native_base_errors :: "string \<Rightarrow> dict \<Rightarrow> string list" where
  "native_base_errors block d =
     forbid_extra [''kind'', ''id'', ''name'', ''timeout_seconds'', ''when'', block] d
   @ need (is_str (dget ''id'' d)) ''id'' @ need (is_str (dget ''name'' d)) ''name''
   @ need (absent_or ''timeout_seconds'' is_int d) ''timeout_seconds''
   @ need (null_or cel_spec_ok (dget ''when'' d)) ''when''"

definition executable_step_errors :: "dict \<Rightarrow> string list" where
  "executable_step_errors d =
     (if dget ''kind'' d = JStr ''reason'' then reason_step_errors d
      else if dget ''kind'' d = JStr ''commit'' then commit_step_errors d
      else if dget ''kind'' d = JStr ''spawn_sagas''
      then native_base_errors ''spawn'' d @ need (spawn_spec_ok (dget ''spawn'' d)) ''spawn''
      else if dget ''kind'' d = JStr ''join_sagas''
      then native_base_errors ''join'' d @ need (join_spec_ok (dget ''join'' d)) ''join''
      else [''kind''])"

definition loop_step_errors :: "dict \<Rightarrow> string list" where
  "loop_step_errors d =
     forbid_extra [''kind'', ''id'', ''name'', ''max_iterations'', ''until'', ''steps''] d
   @ need (text_ok (dget ''id'' d)) ''id''
   @ need (null_or is_str (dget ''name'' d)) ''name''
   @ need (int_from 1 (dget ''max_iterations'' d)) ''max_iterations''
   @ need (cel_spec_ok (dget ''until'' d)) ''until''
   @ need (list_of (dget ''steps'' d) \<noteq> []) ''steps''
   @ concat (map (\<lambda>b. case b of
        JObj s \<Rightarrow>
          (if dget ''kind'' s = JStr ''reason'' then reason_step_errors s
           else if dget ''kind'' s = JStr ''commit'' then commit_step_errors s else [''steps.kind''])
      | _ \<Rightarrow> [''steps'']) (list_of (dget ''steps'' d)))"

text \<open>\<open>parse_executable_step\<close> and the loop branch of \<open>parse_top_level_step\<close>: the
  accepted mapping itself is the model, read through the accessors of this theory.\<close>

definition parse_executable_step :: "dict \<Rightarrow> exc + dict" where
  "parse_executable_step d =
     (case executable_step_errors d of [] \<Rightarrow> Inr d | locs \<Rightarrow> Inl (ValidationError locs))"

definition parse_loop_step :: "dict \<Rightarrow> exc + dict" where
  "parse_loop_step d =
     (case loop_step_errors d of [] \<Rightarrow> Inr d | locs \<Rightarrow> Inl (ValidationError locs))"

end
