(* ===== verification/Loops.thy ===== *)
theory Loops imports SagaSchema begin

text \<open>
  Loop blueprints and the rows of forward steps: \<^verbatim>\<open>common/loops.py\<close> (freezing of
  loop metadata, the delay-tail segments, the body of an iteration, the status shown in the saga
  context) and \<^verbatim>\<open>engine/step_materialize.py\<close> (the row of an executable step).
\<close>

section \<open>Frozen blueprints\<close>

text \<open>\<open>int(x or n)\<close> of an integer column value.\<close>

definition int_or :: "json \<Rightarrow> int \<Rightarrow> int" where
  "int_or j n = (case j of JInt i \<Rightarrow> if i = 0 then n else i | _ \<Rightarrow> n)"

definition stripped_id :: "dict \<Rightarrow> string" where
  "stripped_id d = strip (str_or (dget ''id'' d) [])"

definition is_loop_spec :: "json \<Rightarrow> bool" where
  "is_loop_spec raw \<longleftrightarrow> (case raw of JObj d \<Rightarrow> dget ''kind'' d = JStr ''loop'' | _ \<Rightarrow> False)"

definition loop_shell :: "int \<Rightarrow> json" where
  "loop_shell max_it = JObj [(''iteration'', JInt 1), (''max_iterations'', JInt max_it),
     (''status'', JStr ''running'')]"

definition initial_loops_context :: "json list \<Rightarrow> dict" where
  "initial_loops_context frozen = fold
     (\<lambda>raw loops. let d = coerce_dict raw in
        if is_loop_spec raw \<and> stripped_id d \<noteq> []
        then dset (stripped_id d) (loop_shell (int_or (dget ''max_iterations'' d) 1)) loops
        else loops) frozen []"

definition loop_definition_of :: "int \<Rightarrow> dict \<Rightarrow> string \<times> json" where
  "loop_definition_of index d =
     (let lid = strip (str_of (dget ''id'' d));
          until = coerce_dict (dget ''until'' d)
      in (lid, JObj [(''id'', JStr lid),
            (''name'', JStr (str_or (dget ''name'' d) lid)),
            (''max_iterations'', dget ''max_iterations'' d),
            (''until_cel'', JStr (str_or (dget ''cel'' until) (cel_of (dget ''until'' d)))),
            (''blueprint_index'', JInt index),
            (''body'', JList (list_of (dget ''steps'' d)))]))"

fun build_loop_definitions_from :: "int \<Rightarrow> json list \<Rightarrow> dict \<Rightarrow> exc + dict" where
  "build_loop_definitions_from index [] defs = Inr defs"
| "build_loop_definitions_from index (raw # rest) defs =
     (if is_loop_spec raw
      then (case parse_loop_step (coerce_dict raw) of
              Inl e \<Rightarrow> Inl e
            | Inr d \<Rightarrow> (case loop_definition_of index d of
                (lid, ldef) \<Rightarrow> build_loop_definitions_from (index + 1) rest (dset lid ldef defs)))
      else build_loop_definitions_from (index + 1) rest defs)"

definition build_loop_definitions :: "json list \<Rightarrow> exc + dict" where
  "build_loop_definitions frozen = build_loop_definitions_from 0 frozen []"

section \<open>Segments\<close>

text \<open>A body step annotated with its loop and iteration.\<close>

definition annotate :: "string \<Rightarrow> int \<Rightarrow> dict \<Rightarrow> dict" where
  "annotate lid it d = dset ''_loop_iteration'' (JInt it) (dset ''_loop_id'' (JStr lid) d)"

fun annotate_body :: "string \<Rightarrow> int \<Rightarrow> json list \<Rightarrow> exc + dict list" where
  "annotate_body lid it [] = Inr []"
| "annotate_body lid it (b # body) = (case b of
     JObj d \<Rightarrow> (case annotate_body lid it body of
                 Inl e \<Rightarrow> Inl e | Inr seg \<Rightarrow> Inr (annotate lid it d # seg))
   | _ \<Rightarrow> Inl (ValueError (''Loop '' @ repr_str lid @ '' body step must be a mapping'')))"

type_synonym segment = "dict list \<times> nat \<times> string option"

text \<open>Steps up to and including the next loop's first pass, the next blueprint index and the
  active loop.\<close>

fun segment_from :: "nat \<Rightarrow> json list \<Rightarrow> exc + segment" where
  "segment_from index [] = Inr ([], index, None)"
| "segment_from index (raw # rest) = (case raw of
     JObj d \<Rightarrow>
       (if dget ''kind'' d = JStr ''loop''
        then (if list_of (dget ''steps'' d) = []
              then Inl (ValueError (''Loop at index '' @ show_nat index @ '' has an empty body''))
              else (case annotate_body (stripped_id d) 1 (list_of (dget ''steps'' d)) of
                      Inl e \<Rightarrow> Inl e
                    | Inr seg \<Rightarrow> Inr (seg, Suc index, Some (stripped_id d))))
        else (case segment_from (Suc index) rest of
                Inl e \<Rightarrow> Inl e
              | Inr (seg, next, active) \<Rightarrow> Inr (d # seg, next, active)))
   | _ \<Rightarrow> Inl (ValueError (''Saga step at index '' @ show_nat index @ '' must be a mapping'')))"

definition take_initial_materialization_segment :: "json list \<Rightarrow> exc + segment" where
  "take_initial_materialization_segment frozen = segment_from 0 frozen"

definition take_next_materialization_segment :: "json list \<Rightarrow> nat \<Rightarrow> exc + segment" where
  "take_next_materialization_segment frozen from_index = segment_from from_index (drop from_index frozen)"

definition loop_state_of :: "nat \<Rightarrow> string option \<Rightarrow> json" where
  "loop_state_of next_index active =
     JObj [(''next_blueprint_index'', JInt (int next_index)), (''active_loop_id'', jopt_str active)]"

definition mint_loop_iteration_body :: "dict \<Rightarrow> int \<Rightarrow> exc + dict list" where
  "mint_loop_iteration_body loop_def it =
     (let lid = str_or (dget ''id'' loop_def) []; body = jor (dget ''body'' loop_def) (JList []) in
      if \<not> is_list body then Inl (ValueError (''Loop '' @ repr_str lid @ '' body is invalid''))
      else annotate_body lid it (list_of body))"

definition loop_body_step_ids :: "dict \<Rightarrow> string list" where
  "loop_body_step_ids loop_def = List.map_filter
     (\<lambda>raw. case raw of
        JObj d \<Rightarrow> (if truthy (dget ''id'' d) then Some (py_str (dget ''id'' d)) else None)
      | _ \<Rightarrow> None) (list_of (dget ''body'' loop_def))"

definition is_last_body_step :: "step \<Rightarrow> dict \<Rightarrow> bool" where
  "is_last_body_step s loop_def =
     (let ids = loop_body_step_ids loop_def in ids \<noteq> [] \<and> step_id s = last ids)"

definition set_loop_context_status :: "dict \<Rightarrow> string \<Rightarrow> int \<Rightarrow> string \<Rightarrow> int option \<Rightarrow> dict" where
  "set_loop_context_status ctx lid it status max_it =
     (let loops = coerce_dict (dget ''loops'' ctx);
          entry = coerce_dict (dget lid loops);
          entry1 = dset ''status'' (JStr status) (dset ''iteration'' (JInt it) entry);
          entry2 = (case max_it of None \<Rightarrow> entry1 | Some m \<Rightarrow> dset ''max_iterations'' (JInt m) entry1)
      in dset ''loops'' (JObj (dset lid (JObj entry2) loops)) ctx)"

definition forward_idempotency_key :: "string \<Rightarrow> string \<Rightarrow> string option \<Rightarrow> int option \<Rightarrow> string" where
  "forward_idempotency_key tid sid lid it =
     (case (lid, it) of
        (Some l, Some i) \<Rightarrow> if l = [] then tid @ ''-'' @ sid
                            else tid @ ''-'' @ sid @ ''-'' @ l @ ''-'' @ show_int i
      | _ \<Rightarrow> tid @ ''-'' @ sid)"

section \<open>Rows of executable steps\<close>

definition frozen_dict_asset :: "dict \<Rightarrow> string \<Rightarrow> json" where
  "frozen_dict_asset clean field = (case dget field clean of JObj d \<Rightarrow> JObj d | _ \<Rightarrow> JNull)"

definition frozen_list_asset :: "dict \<Rightarrow> string \<Rightarrow> json" where
  "frozen_list_asset clean field = (case dget field clean of JList xs \<Rightarrow> JList xs | _ \<Rightarrow> JNull)"

definition frozen_str_asset :: "dict \<Rightarrow> string \<Rightarrow> string option" where
  "frozen_str_asset clean field = (case dget field clean of
     JStr s \<Rightarrow> (if strip s \<noteq> [] then Some s else None) | _ \<Rightarrow> None)"

definition default_int :: "json \<Rightarrow> int \<Rightarrow> int" where
  "default_int j n = (case j of JInt i \<Rightarrow> i | _ \<Rightarrow> n)"

text \<open>The columns every step row has, whatever its kind.\<close>

definition base_step_row :: "saga \<Rightarrow> dict \<Rightarrow> dict \<Rightarrow> int \<Rightarrow> int \<Rightarrow> string \<Rightarrow> int \<Rightarrow> step" where
  "base_step_row sg spec m seq_no ord span now =
     (let lid = (if truthy (dget ''_loop_id'' spec) then Some (py_str (dget ''_loop_id'' spec)) else None);
          it = int_opt (dget ''_loop_iteration'' spec)
      in \<lparr>span_id = span, saga_trace_id = trace_id sg, step_namespace = saga_namespace sg,
        step_id = str_of (dget ''id'' m), step_name = str_of (dget ''name'' m),
        step_definition_name = None, step_definition_version = None, input_ports = JObj [],
        order_index = ord, forward_seq = seq_no, loop_id = lid, iteration = it,
        idempotency_key = forward_idempotency_key (trace_id sg) (str_of (dget ''id'' m)) lid it,
        started_at = now, end_time = None,
        timeout_seconds = default_int (dget ''timeout_seconds'' m) 600,
        max_turns = 25, max_step_tokens = None, max_completion_tokens = None,
        agent_adapter = ''react'', step_status = Step_PENDING,
        worker = [], worker_version = ''0.0.0'', step_kind = str_of (dget ''kind'' m),
        tools_allow = JList [], tools_bind = JList [], resources_allow = JList [],
        skills_allow = JList [], skills_definition = JNull, parameters_spec = JObj [],
        resolved_arguments = JObj [], prompt_ref = None, prompt_definition = None,
        output_payload = JNull, error_details = JNull,
        compensation_definition = frozen_dict_asset m ''compensation_definition'',
        output_schema = frozen_dict_asset m ''output_schema_definition'',
        policy_name = None, policy_definition = JNull,
        hitl_required = False, hitl_max_retries = None, hitl_retry_count = 0,
        hitl_retry_guidance = None, hitl_review_started_at = None, pending_review_payload = JNull,
        on_failure_strategy = ''auto_compensate'',
        when_cel = (case dget ''when'' m of JObj w \<Rightarrow> Some (cel_of (JObj w)) | _ \<Rightarrow> None),
        facts_extractors = JList [], compensates_span_id = None\<rparr>)"

text \<open>What reason and commit steps add.\<close>

definition worker_step_row :: "dict \<Rightarrow> step \<Rightarrow> step" where
  "worker_step_row m row =
     (let hitl = bool_of (dget ''hitl'' m); is_reason = (dget ''kind'' m = JStr ''reason'')
      in row\<lparr>step_definition_name := str_opt (dget ''step_definition_name'' m),
        step_definition_version := str_opt (dget ''step_definition_version'' m),
        input_ports := JObj (coerce_dict (dget ''inputs'' m)),
        on_failure_strategy := (case dget ''on_failure'' m of
            JObj f \<Rightarrow> (if dhas ''strategy'' f then str_of (dget ''strategy'' f) else ''auto_compensate'')
          | _ \<Rightarrow> ''auto_compensate''),
        max_turns := default_int (dget ''max_turns'' m) 25,
        worker := str_of (dget ''worker'' m), worker_version := str_of (dget ''worker_version'' m),
        tools_allow := JList (map dump_tool (allow_items (dget ''tools'' m))),
        tools_bind := JList (map JStr (bind_keys (dget ''tools'' m))),
        resources_allow := JList (map dump_resource (allow_items (dget ''resources'' m))),
        skills_allow := JList (if is_reason then map dump_skill (allow_items (dget ''skills'' m)) else []),
        parameters_spec := jor (dget ''with'' m) (JObj []),
        policy_name := str_opt (dget ''policy'' m),
        policy_definition := frozen_dict_asset m ''policy_definition'',
        hitl_required := hitl,
        hitl_max_retries := (if hitl then int_opt (dget ''hitl_max_retries'' m) else None),
        hitl_retry_guidance := (if hitl then str_opt (dget ''hitl_retry_guidance'' m) else None),
        max_step_tokens := (if is_reason then int_opt (dget ''max_step_tokens'' m) else None),
        max_completion_tokens := (if is_reason then int_opt (dget ''max_completion_tokens'' m) else None),
        agent_adapter := (if is_reason then str_of (agent_adapter_of m) else ''react''),
        prompt_ref := (if is_reason then str_opt (dget ''prompt'' m) else None),
        prompt_definition := (if is_reason then frozen_str_asset m ''prompt_definition'' else None),
        facts_extractors := (if is_reason then JList (map dump_fact (list_of (dget ''facts'' m))) else JList []),
        skills_definition := (if is_reason then frozen_list_asset m ''skills_definition'' else JNull)\<rparr>)"

definition is_engine_native_kind :: "string \<Rightarrow> bool" where
  "is_engine_native_kind k \<longleftrightarrow> k = ''spawn_sagas'' \<or> k = ''join_sagas''"

definition step_create_fields :: "saga \<Rightarrow> dict \<Rightarrow> int \<Rightarrow> int \<Rightarrow> string \<Rightarrow> int \<Rightarrow> exc + step" where
  "step_create_fields sg spec seq_no ord span now =
     (let clean = filter (\<lambda>(k, _). \<not> starts_with ''_'' k) spec in
      case parse_executable_step clean of
        Inl e \<Rightarrow> Inl e
      | Inr m \<Rightarrow> (let base = base_step_row sg spec m seq_no ord span now in
          Inr (if is_engine_native_kind (step_kind base) then base else worker_step_row m base)))"

definition mint_step :: "env \<Rightarrow> saga \<Rightarrow> dict \<Rightarrow> int \<Rightarrow> int \<Rightarrow> step M" where
  "mint_step E sg spec seq_no ord =
     bind (uuid4_hex (uuid_hex E)) (\<lambda>u.
     bind (gets db_now) (\<lambda>now.
     bind (of_sum (step_create_fields sg spec seq_no ord (take 16 u) now)) (\<lambda>row.
     seq (create_step row)
     (seq (hook (On_step_created (span_id row) None))
     (return row)))))"

fun materialize_executable_steps :: "env \<Rightarrow> saga \<Rightarrow> dict list \<Rightarrow> int \<Rightarrow> int \<Rightarrow> step list M" where
  "materialize_executable_steps E sg [] seq_no ord = return []"
| "materialize_executable_steps E sg (spec # specs) seq_no ord =
     bind (mint_step E sg spec seq_no ord) (\<lambda>row.
     bind (materialize_executable_steps E sg specs (seq_no + 1) (ord + 1)) (\<lambda>rows.
     return (row # rows)))"

end
