(* ===== verification/Lifecycle.thy ===== *)
theory Lifecycle imports Loops begin

text \<open>
  What ends or interrupts the forward run of a saga (\<^verbatim>\<open>engine/logic.py\<close>): the
  terminal transitions, the skipping of rows that can no longer run, the hold for human review and
  its resumption, the resets before a retry, and the clean failure without an undo window.

  The engine's functions call each other in a cycle (a terminal child wakes its parent's join, which
  schedules the parent's next step).  Every function below therefore takes the two functions that
  close the cycle as \<open>callbacks\<close>; \<open>Engine.calls\<close> ties the knot with fuel.
\<close>

record callbacks =
  cb_schedule :: "string \<Rightarrow> int \<Rightarrow> unit M"   \<comment> \<open>\<open>_schedule_next_forward_step(saga, after_seq)\<close>\<close>
  cb_terminal :: "string \<Rightarrow> unit M"          \<comment> \<open>\<open>on_child_saga_terminal(child)\<close>\<close>

section \<open>Status changes\<close>

text \<open>Set, save and report the status of a saga: the three statements every transition of
  \<^verbatim>\<open>engine/logic.py\<close> repeats.\<close>

definition transition_saga ::
  "string \<Rightarrow> saga_status \<Rightarrow> string option \<Rightarrow> string option \<Rightarrow> unit M" where
  "transition_saga tid new ev reason =
     bind (the_saga tid) (\<lambda>sg.
     seq (save_saga tid (\<lambda>s. s\<lparr>saga_status := new\<rparr>))
         (hook (On_saga_transition tid (saga_status sg) new ev reason)))"

definition mark_unreachable_forward_steps_skipped :: "string \<Rightarrow> nat M" where
  "mark_unreachable_forward_steps_skipped tid =
     (let P = (\<lambda>s. saga_trace_id s = tid \<and> is_forward s \<and> step_status s = Step_PENDING) in
      bind (gets (\<lambda>db. length (filter P (db_steps db)))) (\<lambda>n.
      bind (gets db_now) (\<lambda>now.
      seq (update_steps P (\<lambda>s. s\<lparr>step_status := Step_SKIPPED, end_time := Some now\<rparr>))
          (return n))))"

definition notify_unreachable_steps_skipped :: "string \<Rightarrow> string \<Rightarrow> unit M" where
  "notify_unreachable_steps_skipped tid reason =
     bind (mark_unreachable_forward_steps_skipped tid) (\<lambda>n.
     when_do (0 < n) (hook (On_steps_skipped_summary tid (int n) reason)))"

section \<open>Failure events\<close>

text \<open>The parts of a \<open>StepFailedEvent\<close> the engine reads; building one validates it.\<close>

record failure =
  fl_span :: string
  fl_error_details :: json
  fl_output :: json

definition step_failed_event ::
  "string \<Rightarrow> string \<Rightarrow> string \<Rightarrow> json \<Rightarrow> json \<Rightarrow> exc + failure" where
  "step_failed_event ns tid sid details output =
     (case need (namespace_ok ns) ''namespace'' @ need (trace_ok tid) ''saga_trace_id''
           @ need (span_ok sid) ''step_span_id'' @ need (dict_or_none details) ''error_details''
           @ need (dict_or_none output) ''output'' of
        [] \<Rightarrow> Inr \<lparr>fl_span = sid, fl_error_details = details, fl_output = output\<rparr>
      | locs \<Rightarrow> Inl (ValidationError locs))"

definition step_failure_payload :: "failure \<Rightarrow> dict" where
  "step_failure_payload ev =
     (case fl_error_details ev of JObj d \<Rightarrow> d
      | _ \<Rightarrow> (case fl_output ev of JObj d \<Rightarrow> d | _ \<Rightarrow> []))"

definition code_message :: "string \<Rightarrow> string \<Rightarrow> json" where
  "code_message code m = JObj [(''code'', JStr code), (''message'', JStr m)]"

text \<open>A time stamp in a payload is the text of its number of seconds.\<close>

definition stamp :: "int \<Rightarrow> json" where
  "stamp t = JStr (show_int t)"

section \<open>Failing without an undo window\<close>

definition fail_saga_no_compensation_window ::
  "env \<Rightarrow> callbacks \<Rightarrow> string \<Rightarrow> string \<Rightarrow> failure \<Rightarrow> dict \<Rightarrow> unit M" where
  "fail_saga_no_compensation_window E K tid sid ev raw =
     seq (transition_saga tid Saga_FAILED (Some ''saga.failed'') (Some ''step_failed_at_start''))
     (seq (notify_unreachable_steps_skipped tid ''step_failed_at_start'')
     (bind (the_saga tid) (\<lambda>sg.
      bind (the_step sid) (\<lambda>s.
      bind (gets db_now) (\<lambda>now.
      seq (emit_saga_payload E (saga_namespace sg) tid SAGA_FAILED ''SAGA_FAILED''
             [(''reason'', JStr ''step_failed_at_start''), (''step_span_id'', JStr (fl_span ev)),
              (''step_order'', JInt (order_index s)), (''forward_seq'', JInt (forward_seq s)),
              (''error_details'', JObj raw), (''failed_at'', stamp now)])
          (cb_terminal K tid))))))"

section \<open>Human review\<close>

definition enter_hitl_hold :: "string \<Rightarrow> string \<Rightarrow> string \<Rightarrow> json \<Rightarrow> unit M" where
  "enter_hitl_hold tid sid subject pending =
     bind (the_step sid) (\<lambda>s.
     seq (hook (On_hitl_review_requested sid subject pending))
     (bind (gets db_now) (\<lambda>now.
     seq (save_step sid (\<lambda>r. r\<lparr>step_status := Step_AWAITING_HUMAN, pending_review_payload := pending,
                                hitl_review_started_at := Some now\<rparr>))
     (seq (hook (On_step_transition sid (step_status s) Step_AWAITING_HUMAN
             (Some ''step.awaiting_human'') None (Some ''hitl_review_requested'') None))
     (transition_saga tid Saga_AWAITING_HUMAN (Some ''saga.awaiting_human'')
        (Some ''hitl_review_requested''))))))"

definition resume_saga_running_from_hitl :: "string \<Rightarrow> string \<Rightarrow> unit M" where
  "resume_saga_running_from_hitl tid reason =
     bind (the_saga tid) (\<lambda>sg.
     when_do (saga_status sg = Saga_AWAITING_HUMAN)
       (transition_saga tid Saga_RUNNING (Some ''saga.resumed_from_hitl'') (Some reason)))"

section \<open>Resets before a retry\<close>

definition dedup_key :: "string \<Rightarrow> string \<Rightarrow> string \<Rightarrow> string" where
  "dedup_key tid ety sid = tid @ '':'' @ ety @ '':'' @ sid"

definition worker_result_keys :: "string \<Rightarrow> string \<Rightarrow> string list" where
  "worker_result_keys tid sid =
     [dedup_key tid ''STEP_COMPLETED'' sid, dedup_key tid ''STEP_FAILED'' sid]"

definition clear_worker_result_ingest_dedup :: "env \<Rightarrow> string \<Rightarrow> string \<Rightarrow> string \<Rightarrow> unit M" where
  "clear_worker_result_ingest_dedup E tid sid ns =
     (let keys = worker_result_keys tid sid in
      modify (\<lambda>db. db\<lparr>db_ingested := rows_delete (\<lambda>k. k \<in> set keys) (db_ingested db),
        db_outbox := rows_delete (\<lambda>r. ob_namespace r = ns \<and> ob_topic r = topic_events E
          \<and> (\<exists>k\<in>set keys. ob_idempotency_key r = Some k)) (db_outbox db)\<rparr>))"

text \<open>Saving a new idempotency key: the column is unique.\<close>

definition save_step_key :: "string \<Rightarrow> string \<Rightarrow> unit M" where
  "save_step_key sid key db =
     (if (\<exists>s\<in>set (db_steps db). span_id s \<noteq> sid \<and> idempotency_key s = key)
      then (Inl IntegrityError, db)
      else save_step sid (\<lambda>r. r\<lparr>idempotency_key := key\<rparr>) db)"

definition retry_idempotency_key :: "string \<Rightarrow> string \<Rightarrow> string \<Rightarrow> string" where
  "retry_idempotency_key tid sid u = tid @ ''-'' @ sid @ ''-retry-'' @ take 8 u"

definition blank_draft :: "step \<Rightarrow> step" where
  "blank_draft r = r\<lparr>pending_review_payload := JNull, output_payload := JNull,
     error_details := JNull, end_time := None\<rparr>"

text \<open>The step's own entry leaves \<open>context.steps\<close>.\<close>

definition context_without_step :: "string \<Rightarrow> saga \<Rightarrow> json" where
  "context_without_step sid sg =
     (let context = (if truthy (saga_context sg) then coerce_dict (saga_context sg)
                     else [(''input'', JObj []), (''steps'', JObj [])])
      in case dget ''steps'' context of
           JObj steps \<Rightarrow> (if dhas sid steps
                          then JObj (dset ''steps'' (JObj (ddel sid steps)) context)
                          else saga_context sg)
         | _ \<Rightarrow> saga_context sg)"

definition reset_step_for_worker_retry :: "env \<Rightarrow> string \<Rightarrow> string \<Rightarrow> string M" where
  "reset_step_for_worker_retry E tid sid =
     bind (the_step sid) (\<lambda>s.
     bind (the_saga tid) (\<lambda>sg.
     bind (uuid4_hex (uuid_hex E)) (\<lambda>u.
     seq (clear_worker_result_ingest_dedup E tid sid (saga_namespace sg))
     (seq (save_step_key sid (retry_idempotency_key tid (step_id s) u))
     (seq (save_step sid blank_draft)
     (seq (save_saga tid (\<lambda>g. g\<lparr>saga_context := context_without_step (step_id s) sg\<rparr>))
     (return (idempotency_key s))))))))"

definition reset_step_for_hitl_retry :: "env \<Rightarrow> string \<Rightarrow> string \<Rightarrow> string M" where
  "reset_step_for_hitl_retry E tid sid =
     bind (the_step sid) (\<lambda>s.
     bind (uuid4_hex (uuid_hex E)) (\<lambda>u.
     seq (save_step_key sid (retry_idempotency_key tid (step_id s) u))
     (seq (save_step sid (\<lambda>r. (blank_draft r)\<lparr>hitl_review_started_at := None\<rparr>))
     (return (idempotency_key s)))))"

end
