(* ===== verification/Compensation.thy ===== *)
theory Compensation imports Lifecycle begin

text \<open>
  Rolling a saga back: the LIFO walk over its forward rows, the undo rows and commands of worker
  steps, the wait for the children of spawn steps, and the two ends of the walk
  (\<^verbatim>\<open>engine/logic.py\<close>, \<^verbatim>\<open>engine/child_sagas.py\<close>).

  \<open>lifo_walk n\<close> is the loop of \<open>_advance_lifo_compensation\<close> with \<open>n\<close> sequence
  numbers left, \<open>n - 1\<close> the next.
\<close>

section \<open>The ends of the walk\<close>

definition finalize_saga_compensated :: "env \<Rightarrow> callbacks \<Rightarrow> string \<Rightarrow> unit M" where
  "finalize_saga_compensated E K tid =
     seq (transition_saga tid Saga_COMPENSATED (Some ''saga.compensated'') None)
     (seq (notify_unreachable_steps_skipped tid ''saga_compensated'')
     (bind (the_saga tid) (\<lambda>sg.
      bind (gets db_now) (\<lambda>now.
      seq (emit_saga_payload E (saga_namespace sg) tid SAGA_COMPENSATED ''SAGA_COMPENSATED''
             [(''completed_at'', stamp now), (''outcome'', JStr ''STATE_RESTORED'')])
          (cb_terminal K tid)))))"

definition emit_saga_failed_from_compensation ::
  "env \<Rightarrow> callbacks \<Rightarrow> string \<Rightarrow> string \<Rightarrow> string option \<Rightarrow> json \<Rightarrow> unit M" where
  "emit_saga_failed_from_compensation E K tid reason sid details =
     seq (transition_saga tid Saga_FAILED (Some ''saga.failed'') (Some reason))
     (seq (notify_unreachable_steps_skipped tid ''saga_failed'')
     (bind (the_saga tid) (\<lambda>sg.
      bind (gets db_now) (\<lambda>now.
      seq (emit_saga_payload E (saga_namespace sg) tid SAGA_FAILED ''SAGA_FAILED''
             ([(''reason'', JStr reason), (''failed_at'', stamp now)]
              @ (case sid of None \<Rightarrow> [] | Some x \<Rightarrow> [(''step_span_id'', JStr x)])
              @ (if details = JNull then [] else [(''error_details'', details)])))
          (cb_terminal K tid)))))"

section \<open>Undo rows\<close>

text \<open>The columns an undo row takes from its forward row; the others have their defaults.\<close>

definition undo_row :: "step \<Rightarrow> string \<Rightarrow> string \<Rightarrow> int \<Rightarrow> step" where
  "undo_row f span key now =
     \<lparr>span_id = span, saga_trace_id = saga_trace_id f, step_namespace = step_namespace f,
      step_id = step_id f, step_name = step_name f,
      step_definition_name = None, step_definition_version = None, input_ports = JObj [],
      order_index = order_index f, forward_seq = forward_seq f, loop_id = loop_id f,
      iteration = iteration f, idempotency_key = key,
      started_at = now, end_time = None, timeout_seconds = timeout_seconds f,
      max_turns = max_turns f, max_step_tokens = None, max_completion_tokens = None,
      agent_adapter = ''react'', step_status = Step_COMPENSATED,
      worker = worker f, worker_version = worker_version f, step_kind = step_kind f,
      tools_allow = JList [], tools_bind = JList [], resources_allow = JList [],
      skills_allow = JList [], skills_definition = JNull, parameters_spec = JObj [],
      resolved_arguments = JObj [], prompt_ref = None, prompt_definition = None,
      output_payload = JNull, error_details = JNull, compensation_definition = JNull,
      output_schema = JNull, policy_name = None, policy_definition = JNull,
      hitl_required = False, hitl_max_retries = None, hitl_retry_count = 0,
      hitl_retry_guidance = None, hitl_review_started_at = None, pending_review_payload = JNull,
      on_failure_strategy = ''auto_compensate'', when_cel = None, facts_extractors = JList [],
      compensates_span_id = Some (span_id f)\<rparr>"

definition undo_row_status_exists :: "string \<Rightarrow> string \<Rightarrow> step_status \<Rightarrow> db \<Rightarrow> bool" where
  "undo_row_status_exists tid fsid st db \<longleftrightarrow>
     (\<exists>s\<in>set (db_steps db). saga_trace_id s = tid \<and> compensates_span_id s = Some fsid
        \<and> step_status s = st)"

definition undo_idempotency_key :: "string \<Rightarrow> string \<Rightarrow> string" where
  "undo_idempotency_key tid span = ''comp-'' @ tid @ ''-'' @ span"

definition worker_snapshot :: "string \<Rightarrow> string \<Rightarrow> string \<Rightarrow> db \<Rightarrow> json" where
  "worker_snapshot ns name version db =
     (case rows_first (\<lambda>w. wdef_name w = name \<and> wdef_namespace w = ns \<and> wdef_version w = version)
             (db_worker_defs db) of
        None \<Rightarrow> JNull | Some w \<Rightarrow> JObj [(''version'', JStr (wdef_version w))])"

text \<open>The worker, the resolved input and the command of an undo, from the forward row's frozen
  compensation block and its own saved output.\<close>

definition undo_worker :: "step \<Rightarrow> string \<times> string" where
  "undo_worker f = resolve_worker_from_compensation (coerce_dict (compensation_definition f))
     (worker f) (worker_version f)"

definition undo_input :: "env \<Rightarrow> saga \<Rightarrow> step \<Rightarrow> string \<Rightarrow> string \<Rightarrow> dict" where
  "undo_input E sg f span key =
     fst (resolve_parameters_spec E
       (coerce_dict (dget ''with'' (coerce_dict (compensation_definition f))))
       (compensation_parameter_context sg f span key))"

definition compensation_command ::
  "env \<Rightarrow> saga \<Rightarrow> step \<Rightarrow> string \<Rightarrow> string \<Rightarrow> json \<Rightarrow> exc + command" where
  "compensation_command E sg f span key snapshot =
     (let (tools, resources) = compensation_tool_resource_specs (coerce_dict (compensation_definition f))
      in make_command \<lparr>cmd_type = EXECUTE_COMPENSATION, cmd_namespace = saga_namespace sg,
           cmd_trace = trace_id sg, cmd_span = span,
           cmd_worker_name = fst (undo_worker f), cmd_worker_version = snd (undo_worker f),
           cmd_key = key, cmd_prompt_ref = JNull, cmd_arguments = JObj (undo_input E sg f span key),
           cmd_tool_specs = slim_tool_specs tools, cmd_resource_specs = JList resources,
           cmd_skill_specs = JList [], cmd_forward_span = span_id f,
           cmd_failure_reason = error_details f, cmd_worker_snapshot = snapshot\<rparr>)"

definition worker_undo_row :: "step \<Rightarrow> string \<Rightarrow> string \<Rightarrow> int \<Rightarrow> step" where
  "worker_undo_row f span key now =
     (let (tools, resources) = compensation_tool_resource_specs (coerce_dict (compensation_definition f))
      in (undo_row f span key now)\<lparr>step_status := Step_COMPENSATING,
           worker := fst (undo_worker f), worker_version := snd (undo_worker f),
           tools_allow := JList tools, resources_allow := JList resources,
           compensation_definition := compensation_definition f\<rparr>)"

definition fail_compensation_build ::
  "env \<Rightarrow> callbacks \<Rightarrow> string \<Rightarrow> step \<Rightarrow> exc \<Rightarrow> unit M" where
  "fail_compensation_build E K tid f e =
     (let details = JObj [(''code'', JStr ''COMPENSATION_BUILD_ERROR''), (''msg'', JStr (exc_text E e))] in
      seq (save_step (span_id f) (\<lambda>r. r\<lparr>step_status := Step_FAILED, error_details := details\<rparr>))
      (seq (hook (On_step_transition (span_id f) (step_status f) Step_FAILED (Some ''step.failed'')
              (Some ''COMPENSATION_BUILD_ERROR'') (Some ''compensation_build_error'') None))
      (emit_saga_failed_from_compensation E K tid ''compensation_failed'' (Some (span_id f)) details)))"

definition schedule_compensation_for_forward ::
  "env \<Rightarrow> callbacks \<Rightarrow> string \<Rightarrow> step \<Rightarrow> unit M" where
  "schedule_compensation_for_forward E K tid f =
     bind (the_saga tid) (\<lambda>sg.
     bind (uuid4_hex (uuid_hex E)) (\<lambda>u.
     let span = take 16 u; key = undo_idempotency_key tid span in
     bind (gets (worker_snapshot (saga_namespace sg) (fst (undo_worker f)) (snd (undo_worker f)))) (\<lambda>snap.
     case compensation_command E sg f span key snap of
       Inl e \<Rightarrow> fail_compensation_build E K tid f e
     | Inr cmd \<Rightarrow>
         bind (gets db_now) (\<lambda>now.
         seq (create_step (worker_undo_row f span key now))
         (seq (hook (On_step_created span (Some (span_id f))))
         (seq (hook (On_compensation_scheduled (span_id f) span))
         (emit_command E cmd)))))))"

section \<open>Children of a spawn step\<close>

definition child_terminal :: "saga_status \<Rightarrow> bool" where
  "child_terminal st \<longleftrightarrow> st \<in> {Saga_COMPLETED, Saga_FAILED, Saga_COMPENSATED}"

definition all_children_terminal :: "saga list \<Rightarrow> bool" where
  "all_children_terminal children \<longleftrightarrow>
     children \<noteq> [] \<and> list_all (\<lambda>c. child_terminal (saga_status c)) children"

definition spawn_links :: "string \<Rightarrow> string \<Rightarrow> string \<Rightarrow> db \<Rightarrow> saga_child list" where
  "spawn_links ns ptid spawn_id db =
     filter (\<lambda>c. child_namespace c = ns \<and> child_parent_trace_id c = ptid \<and> child_spawn_step_id c = spawn_id)
       (db_children db)"

definition load_spawn_children :: "string \<Rightarrow> string \<Rightarrow> string \<Rightarrow> db \<Rightarrow> saga list" where
  "load_spawn_children ns ptid spawn_id db =
     filter (\<lambda>s. trace_id s \<in> child_trace_id ` set (spawn_links ns ptid spawn_id db)) (db_sagas db)"

definition children_all_terminal_for_spawn :: "saga \<Rightarrow> string \<Rightarrow> db \<Rightarrow> bool" where
  "children_all_terminal_for_spawn parent spawn_id db =
     all_children_terminal (load_spawn_children (saga_namespace parent) (trace_id parent) spawn_id db)"

definition spawn_undo_row :: "step \<Rightarrow> string \<Rightarrow> int \<Rightarrow> step" where
  "spawn_undo_row f span now =
     (undo_row f span (idempotency_key f @ '':spawn-compensate'') now)
       \<lparr>output_payload := JObj [(''data'', JObj [(''awaited_children'', JBool True)])]\<rparr>"

text \<open>\<open>advance\<close> is the walk below the spawn step's own sequence number.\<close>

definition compensate_spawn_sagas_forward :: "env \<Rightarrow> unit M \<Rightarrow> string \<Rightarrow> step \<Rightarrow> bool M" where
  "compensate_spawn_sagas_forward E advance tid f =
     bind (the_saga tid) (\<lambda>sg.
     bind (gets (children_all_terminal_for_spawn sg (step_id f))) (\<lambda>terminal.
     if \<not> terminal then return False
     else bind (gets (undo_row_status_exists tid (span_id f) Step_COMPENSATED)) (\<lambda>existing.
       seq (when_do (\<not> existing)
             (bind (uuid4_hex (uuid_hex E)) (\<lambda>u.
              bind (gets db_now) (\<lambda>now.
              create_step (spawn_undo_row f (take 16 u) now)))))
       (seq advance (return True)))))"

section \<open>The walk\<close>

fun lifo_walk :: "env \<Rightarrow> callbacks \<Rightarrow> string \<Rightarrow> nat \<Rightarrow> unit M" where
  "lifo_walk E K tid 0 = finalize_saga_compensated E K tid"
| "lifo_walk E K tid (Suc n) =
     bind (gets (forward_at tid (int n))) (\<lambda>found.
     case found of
       None \<Rightarrow> lifo_walk E K tid n
     | Some f \<Rightarrow>
         if \<not> forward_step_has_compensation f then lifo_walk E K tid n
         else if \<not> forward_eligible_for_compensation f then lifo_walk E K tid n
         else bind (gets (undo_row_status_exists tid (span_id f) Step_COMPENSATED)) (\<lambda>done.
           if done then lifo_walk E K tid n
           else bind (gets (undo_row_status_exists tid (span_id f) Step_COMPENSATING)) (\<lambda>in_flight.
             if in_flight then skip
             else if step_kind f = ''spawn_sagas''
             then bind (compensate_spawn_sagas_forward E (lifo_walk E K tid n) tid f) (\<lambda>_. skip)
             else schedule_compensation_for_forward E K tid f)))"

definition advance_lifo_compensation :: "env \<Rightarrow> callbacks \<Rightarrow> string \<Rightarrow> int \<Rightarrow> unit M" where
  "advance_lifo_compensation E K tid from_seq = lifo_walk E K tid (nat (from_seq + 1))"

definition trigger_compensation :: "env \<Rightarrow> callbacks \<Rightarrow> string \<Rightarrow> int \<Rightarrow> unit M" where
  "trigger_compensation E K tid fwd_seq = advance_lifo_compensation E K tid fwd_seq"

section \<open>Failure of a step\<close>

definition is_dirty_failure :: "step_status \<Rightarrow> dict \<Rightarrow> bool" where
  "is_dirty_failure st raw \<longleftrightarrow> st = Step_TIMED_OUT \<or> dget ''code'' raw = JStr ''SYSTEM_CRASH''"

definition failed_status :: "step_status \<Rightarrow> dict \<Rightarrow> step_status" where
  "failed_status st raw =
     (if st = Step_TIMED_OUT \<or> payload_indicates_timeout (JObj raw) then Step_TIMED_OUT else Step_FAILED)"

definition apply_step_failure_lifecycle ::
  "env \<Rightarrow> callbacks \<Rightarrow> string \<Rightarrow> string \<Rightarrow> failure \<Rightarrow> unit M" where
  "apply_step_failure_lifecycle E K tid sid ev =
     (let raw = step_failure_payload ev; code = dget ''code'' raw in
      bind (the_step sid) (\<lambda>s.
      bind (gets db_now) (\<lambda>now.
      let new = failed_status (step_status s) raw in
      seq (save_step sid (\<lambda>r. r\<lparr>step_status := new,
             error_details := (if truthy (error_details r) then error_details r else JObj raw),
             end_time := (case end_time r of None \<Rightarrow> Some now | Some t \<Rightarrow> Some t)\<rparr>))
      (seq (hook (On_step_transition sid
              (if step_status s = Step_TIMED_OUT then Step_IN_PROGRESS else step_status s) new
              (Some (if new = Step_TIMED_OUT then ''step.timed_out'' else ''step.failed''))
              (if code = JNull then None else Some (py_str code)) None None))
      (if on_failure_strategy s = ''await_operator''
       then transition_saga tid Saga_AWAITING_RECOVERY (Some ''saga.awaiting_recovery'')
              (Some ''await_operator'')
       else
         (let start = (if is_dirty_failure new raw then forward_seq s else forward_seq s - 1) in
          if start < 0 then fail_saga_no_compensation_window E K tid sid ev raw
          else seq (transition_saga tid Saga_COMPENSATING (Some ''saga.compensating'') None)
                 (trigger_compensation E K tid start)))))))"

text \<open>\<open>synthetic = StepFailedEvent(...)\<close> and the lifecycle.\<close>

definition fail_step ::
  "env \<Rightarrow> callbacks \<Rightarrow> string \<Rightarrow> string \<Rightarrow> string \<Rightarrow> json \<Rightarrow> json \<Rightarrow> unit M" where
  "fail_step E K ns tid sid details output =
     bind (of_sum (step_failed_event ns tid sid details output))
       (apply_step_failure_lifecycle E K tid sid)"

end
