(* ===== verification/Assets.thy ===== *)
theory Assets imports SagaSchema begin

text \<open>
  The files a saga refers to and that a start freezes into its steps: output schemas and
  compensations (\<^verbatim>\<open>common/saga_assets.py\<close>), policies
  (\<^verbatim>\<open>common/policy/loader.py\<close>), skills (\<^verbatim>\<open>common/skills.py\<close>) and
  prompts with their includes (\<^verbatim>\<open>common/prompts.py\<close>), all found by
  \<^verbatim>\<open>common/asset_paths.py\<close>.  The file system and the YAML, JSON and Jinja parsers are
  fields of \<open>env\<close>.
\<close>

section \<open>Paths\<close>

datatype asset_error =
    Asset_value string
  | Asset_missing string
  | Asset_os string
  | Asset_yaml string
  | Asset_json string
  | Skill_error string string

fun asset_text :: "asset_error \<Rightarrow> string" where
  "asset_text (Asset_value m) = m"
| "asset_text (Asset_missing m) = m"
| "asset_text (Asset_os m) = m"
| "asset_text (Asset_yaml m) = m"
| "asset_text (Asset_json m) = m"
| "asset_text (Skill_error code m) = m"

definition and_then :: "'e + 'a \<Rightarrow> ('a \<Rightarrow> 'e + 'b) \<Rightarrow> 'e + 'b" where
  "and_then m k = (case m of Inl e \<Rightarrow> Inl e | Inr x \<Rightarrow> k x)"

lemma and_then_Inr: "and_then m k = Inr y \<longleftrightarrow> (\<exists>x. m = Inr x \<and> k x = Inr y)"
  by (auto simp: and_then_def split: sum.splits)

fun split_on :: "char \<Rightarrow> string \<Rightarrow> string list" where
  "split_on c [] = [[]]"
| "split_on c (x # xs) =
     (if x = c then [] # split_on c xs
      else case split_on c xs of [] \<Rightarrow> [[x]] | w # ws \<Rightarrow> (x # w) # ws)"

text \<open>\<open>Path(s).parts\<close> without the root, and \<open>Path(s).is_absolute()\<close>.\<close>

definition path_parts :: "string \<Rightarrow> string list" where
  "path_parts s = filter (\<lambda>p. p \<noteq> [] \<and> p \<noteq> ''.'') (split_on CHR ''/'' s)"

definition is_absolute :: "string \<Rightarrow> bool" where
  "is_absolute s = starts_with ''/'' s"

definition unsafe_ref :: "string \<Rightarrow> bool" where
  "unsafe_ref s \<longleftrightarrow> is_absolute s \<or> ''..'' \<in> set (path_parts s)"

text \<open>The text of a file; \<open>None\<close>: there is none of this path.\<close>

definition read_text :: "env \<Rightarrow> string \<Rightarrow> (string + string) option" where
  "read_text E path = map_of (files E) path"

definition candidate_in_root ::
  "env \<Rightarrow> string \<Rightarrow> string \<Rightarrow> string \<Rightarrow> string \<Rightarrow> asset_error + string" where
  "candidate_in_root E root ref label root_var =
     (if unsafe_ref ref
      then Inl (Asset_value (''Invalid '' @ label @ '' path (no absolute paths or '..'): '' @ repr_str ref))
      else case path_resolve E root (strip ref) of (path, inside) \<Rightarrow>
        if inside then Inr path
        else Inl (Asset_value (label @ '' path escapes '' @ root_var @ '': '' @ repr_str ref)))"

definition resolve_asset_path ::
  "env \<Rightarrow> string \<Rightarrow> string \<Rightarrow> string \<Rightarrow> string \<Rightarrow> asset_error + string" where
  "resolve_asset_path E root ref label root_var =
     (if strip ref = [] then Inl (Asset_value (label @ '' path must be non-empty when set.''))
      else and_then (candidate_in_root E root ref label root_var) (\<lambda>path.
        if read_text E path = None then Inl (Asset_missing (label @ '' file not found: '' @ path))
        else Inr path))"

definition candidate_asset_path ::
  "env \<Rightarrow> string \<Rightarrow> string \<Rightarrow> string \<Rightarrow> string \<Rightarrow> asset_error + string" where
  "candidate_asset_path E root ref label root_var =
     (if strip ref = [] then Inl (Asset_value (''Invalid '' @ label @ '' ref: '' @ repr_str ref))
      else candidate_in_root E root ref label root_var)"

text \<open>\<open>path.read_text()\<close>.\<close>

definition read_file :: "env \<Rightarrow> string \<Rightarrow> asset_error + string" where
  "read_file E path = (case read_text E path of
     None \<Rightarrow> Inl (Asset_missing path)
   | Some (Inl e) \<Rightarrow> Inl (Asset_os e)
   | Some (Inr t) \<Rightarrow> Inr t)"

definition from_parser :: "(string \<Rightarrow> asset_error) \<Rightarrow> string + 'a \<Rightarrow> asset_error + 'a" where
  "from_parser f r = (case r of Inl e \<Rightarrow> Inl (f e) | Inr x \<Rightarrow> Inr x)"

section \<open>Output schemas and compensations\<close>

definition OUTPUT_SCHEMA_UNSUPPORTED_KEYWORDS :: "string list" where
  "OUTPUT_SCHEMA_UNSUPPORTED_KEYWORDS =
     [''$defs'', ''$ref'', ''allOf'', ''anyOf'', ''definitions'', ''else'', ''if'', ''oneOf'', ''then'']"

definition unsupported_message :: "string \<Rightarrow> string \<Rightarrow> string" where
  "unsupported_message key path =
     ''output_schema uses unsupported keyword '' @ repr_str key @ '' at '' @ path
     @ ''; flatten conditionals / inline $ref before deploy (unsupported: ''
     @ join_str '', '' OUTPUT_SCHEMA_UNSUPPORTED_KEYWORDS @ '')''"

text \<open>The message of the first unsupported keyword, in the order of the document; the list of a
  keyword is entered for its mappings only.\<close>

fun schema_unsupported :: "string \<Rightarrow> json \<Rightarrow> string option"
  and schema_entries :: "string \<Rightarrow> dict \<Rightarrow> string option"
  and schema_items :: "string \<Rightarrow> nat \<Rightarrow> json list \<Rightarrow> string option" where
  "schema_unsupported path (JObj d) = schema_entries path d"
| "schema_unsupported path _ = None"
| "schema_entries path [] = None"
| "schema_entries path ((k, v) # d) =
     (let child = path @ ''.'' @ k in
      if k \<in> set OUTPUT_SCHEMA_UNSUPPORTED_KEYWORDS then Some (unsupported_message k child)
      else case (case v of JObj e \<Rightarrow> schema_unsupported child v
                        | JList xs \<Rightarrow> schema_items child 0 xs | _ \<Rightarrow> None) of
             Some m \<Rightarrow> Some m
           | None \<Rightarrow> schema_entries path d)"
| "schema_items path i [] = None"
| "schema_items path i (x # xs) =
     (case schema_unsupported (path @ ''['' @ show_nat i @ '']'') x of
        Some m \<Rightarrow> Some m
      | None \<Rightarrow> schema_items path (Suc i) xs)"

definition assert_output_schema_bind_supported :: "string \<Rightarrow> dict \<Rightarrow> asset_error + unit" where
  "assert_output_schema_bind_supported path schema =
     (case schema_entries path schema of None \<Rightarrow> Inr () | Some m \<Rightarrow> Inl (Asset_value m))"

definition root_unset :: "string option \<Rightarrow> bool" where
  "root_unset root \<longleftrightarrow> strip (case root of None \<Rightarrow> [] | Some r \<Rightarrow> r) = []"

definition the_root :: "string option \<Rightarrow> string" where
  "the_root root = (case root of None \<Rightarrow> [] | Some r \<Rightarrow> r)"

definition blank_ref :: "string option \<Rightarrow> bool" where
  "blank_ref ref \<longleftrightarrow> strip (case ref of None \<Rightarrow> [] | Some r \<Rightarrow> r) = []"

definition load_output_schema :: "env \<Rightarrow> string option \<Rightarrow> asset_error + dict option" where
  "load_output_schema E ref =
     (if blank_ref ref then Inr None
      else if root_unset (schemas_root E)
      then Inl (Asset_value ''schemas_root is not configured; set SCHEMAS_ROOT when a step sets output_schema.'')
      else
        and_then (resolve_asset_path E (the_root (schemas_root E)) (strip (the_root ref))
                      ''output_schema'' ''SCHEMAS_ROOT'') (\<lambda>path.
        and_then (read_file E path) (\<lambda>raw.
        and_then (from_parser Asset_json (json_load E raw)) (\<lambda>data.
        case data of
          JObj d \<Rightarrow> and_then (assert_output_schema_bind_supported ''$'' d) (\<lambda>_. Inr (Some d))
        | _ \<Rightarrow> Inl (Asset_value (''output_schema must be a JSON object: '' @ path))))))"

text \<open>\<open>CompensationStep\<close>.\<close>

definition compensation_step_errors :: "dict \<Rightarrow> string list" where
  "compensation_step_errors d =
     forbid_extra [''worker'', ''worker_version'', ''with'', ''with_spec'', ''tools'', ''resources''] d
   @ need (is_str (dget ''worker'' d)) ''worker''
   @ need (is_str (dget ''worker_version'' d)) ''worker_version''
   @ need ((\<not> dhas ''with'' d \<and> \<not> dhas ''with_spec'' d) \<or> with_ok (alias_get ''with'' ''with_spec'' d)) ''with''
   @ need (tools_spec_ok (dget ''tools'' d)) ''tools''
   @ need (null_or resources_spec_ok (dget ''resources'' d)) ''resources''
   @ need (length (allow_items (dget ''tools'' d)) = 1) ''tools.allow''
   @ need (''load_skill'' \<notin> set (tool_names d)) ''tools.allow''
   @ need (bind_keys (dget ''tools'' d) = []) ''tools.bind''"

text \<open>\<open>model_dump(by_alias=True, exclude_none=True)\<close> of the parts of a step: fields that are
  \<open>None\<close> are left out, plain mappings are copied.\<close>

definition dump_parameter :: "json \<Rightarrow> json" where
  "dump_parameter j = (let d = coerce_dict j in
     JObj (drop_none [(''from'', dget ''from'' d), (''value'', dget ''value'' d)]))"

definition dump_with :: "json \<Rightarrow> json" where
  "dump_with j = JObj (map (\<lambda>(k, v). (k, dump_parameter v)) (coerce_dict j))"

definition dump_tools_spec :: "json \<Rightarrow> json" where
  "dump_tools_spec j = JObj
     [(''allow'', JList (map (\<lambda>t. JObj (drop_none (coerce_dict (dump_tool t)))) (allow_items j))),
      (''bind'', JList (map JStr (bind_keys j)))]"

definition dump_resources_spec :: "json \<Rightarrow> json" where
  "dump_resources_spec j = JObj
     [(''allow'', JList (map (\<lambda>t. JObj (drop_none (coerce_dict (dump_resource t)))) (allow_items j)))]"

definition dump_skills_spec :: "json \<Rightarrow> json" where
  "dump_skills_spec j = JObj [(''allow'', JList (map dump_skill (allow_items j)))]"

definition null_map :: "(json \<Rightarrow> json) \<Rightarrow> json \<Rightarrow> json" where
  "null_map f j = (if j = JNull then JNull else f j)"

definition dump_compensation_step :: "dict \<Rightarrow> dict" where
  "dump_compensation_step d = drop_none
     [(''worker'', dget ''worker'' d), (''worker_version'', dget ''worker_version'' d),
      (''with'', dump_with (alias_get ''with'' ''with_spec'' d)),
      (''tools'', dump_tools_spec (dget ''tools'' d)),
      (''resources'', null_map dump_resources_spec (dget ''resources'' d))]"

definition validate_compensation_definition_dict :: "env \<Rightarrow> dict \<Rightarrow> asset_error + dict" where
  "validate_compensation_definition_dict E d =
     (case compensation_step_errors d of
        [] \<Rightarrow> Inr (dump_compensation_step d)
      | locs \<Rightarrow> Inl (Asset_value (pydantic_text E locs)))"

definition load_compensation_definition :: "env \<Rightarrow> string option \<Rightarrow> asset_error + dict option" where
  "load_compensation_definition E ref =
     (if blank_ref ref then Inr None
      else if root_unset (compensations_root E)
      then Inl (Asset_value ''compensations_root is not configured; set COMPENSATIONS_ROOT when a step sets compensation.'')
      else
        and_then (resolve_asset_path E (the_root (compensations_root E)) (strip (the_root ref))
                      ''compensation'' ''COMPENSATIONS_ROOT'') (\<lambda>path.
        and_then (read_file E path) (\<lambda>raw.
        and_then (from_parser Asset_yaml (yaml_load E raw)) (\<lambda>data.
        case data of
          JObj d \<Rightarrow> and_then (validate_compensation_definition_dict E d) (\<lambda>c. Inr (Some c))
        | _ \<Rightarrow> Inl (Asset_value (''compensation must be a YAML mapping: '' @ path))))))"

section \<open>Policies\<close>

record policy_artifact =
  pa_name :: string
  pa_version :: string
  pa_cel :: string

text \<open>\<open>Path(ref).suffix\<close>: from the last dot of the last part, unless that dot is its first or
  last character; the stem is what precedes it.\<close>

definition last_dot :: "string \<Rightarrow> (string \<times> string) option" where
  "last_dot name =
     (let after = takeWhile (\<lambda>c. c \<noteq> CHR ''.'') (rev name); n = length name - length after in
      if n \<le> 1 \<or> after = [] then None
      else Some (take (n - 1) name, drop (n - 1) name))"

definition default_policy_artifact_name :: "string \<Rightarrow> string" where
  "default_policy_artifact_name manifest_ref =
     (let ref = strip manifest_ref; parts = path_parts ref in
      case (if parts = [] then None else last_dot (last parts)) of
        None \<Rightarrow> ref
      | Some (stem, ext) \<Rightarrow>
          if lower ext = ''.yaml'' \<or> lower ext = ''.yml''
          then join_str ''/'' (butlast parts @ [stem]) else ref)"

definition resolve_policy_path :: "env \<Rightarrow> string \<Rightarrow> string \<Rightarrow> asset_error + string" where
  "resolve_policy_path E root manifest_ref =
     (let ref = strip manifest_ref in
      if ref = [] then Inl (Asset_value (''Invalid policy ref: '' @ repr_str manifest_ref))
      else and_then (candidate_asset_path E root ref ''policy'' ''POLICIES_ROOT'') (\<lambda>path.
        if read_text E path \<noteq> None then Inr path
        else Inl (Asset_missing (''Policy file not found: '' @ path))))"

definition parse_policy_file :: "env \<Rightarrow> string \<Rightarrow> string \<Rightarrow> asset_error + policy_artifact" where
  "parse_policy_file E path manifest_ref =
     and_then (read_file E path) (\<lambda>raw.
     and_then (from_parser Asset_yaml (yaml_load E raw)) (\<lambda>loaded.
     case jor loaded (JObj []) of
       JObj data \<Rightarrow>
         (if \<not> truthy (dget ''cel'' data) \<or> strip (py_str (dget ''cel'' data)) = []
          then Inl (Asset_value (''Policy '' @ path @ '' must contain a non-empty 'cel' expression.''))
          else Inr \<lparr>pa_name = py_str (jor (dget ''name'' data) (JStr (default_policy_artifact_name manifest_ref))),
                    pa_version = py_str (jor (dget ''version'' data) (JStr ''0'')),
                    pa_cel = strip (py_str (dget ''cel'' data))\<rparr>)
     | _ \<Rightarrow> Inl (Asset_value (''Policy file must be a mapping: '' @ path))))"

definition load_policy_artifact :: "env \<Rightarrow> string \<Rightarrow> asset_error + policy_artifact" where
  "load_policy_artifact E policy_ref =
     (if root_unset (policies_root E)
      then Inl (Asset_value ''policies_root is not configured; set POLICIES_ROOT in the environment.'')
      else and_then (resolve_policy_path E (the_root (policies_root E)) policy_ref) (\<lambda>path.
        parse_policy_file E path policy_ref))"

section \<open>Skills\<close>

record skill_document =
  sk_name :: string
  sk_description :: string
  sk_allowed_tools :: "string list"
  sk_body :: string

definition skill_invalid :: "string \<Rightarrow> asset_error" where
  "skill_invalid m = Skill_error ''SKILL_INVALID'' m"

definition resolve_skills_root :: "env \<Rightarrow> string \<Rightarrow> asset_error + string" where
  "resolve_skills_root E root =
     (if strip root = []
      then Inl (Skill_error ''SKILLS_ROOT_UNSET'' ''SKILLS_ROOT must be set when a step uses skills.allow.'')
      else if path_is_dir E root then Inr (path_abs E root)
      else Inl (Skill_error ''SKILLS_ROOT_UNSET'' (''SKILLS_ROOT is not a directory: '' @ root)))"

definition require_safe_path_segment :: "string \<Rightarrow> string \<Rightarrow> asset_error + string" where
  "require_safe_path_segment v label =
     (let stripped = strip v in
      if stripped = [] then Inl (skill_invalid (label @ '' must be non-empty for skill path''))
      else if unsafe_ref stripped
      then Inl (skill_invalid (''Invalid '' @ label @ '' for skill path: '' @ repr_str v))
      else if CHR ''/'' \<in> set stripped \<or> CHR 0x5C \<in> set stripped
      then Inl (skill_invalid (''Invalid '' @ label @ '' (no path separators or '..'): '' @ repr_str v))
      else Inr stripped)"

definition skill_relpath :: "string \<Rightarrow> string \<Rightarrow> asset_error + string" where
  "skill_relpath worker_name skill_id =
     and_then (require_safe_path_segment worker_name ''worker name'') (\<lambda>w.
     and_then (require_safe_path_segment skill_id ''skill name'') (\<lambda>s.
     Inr (w @ ''/'' @ s @ ''.md'')))"

definition resolved_skill_path :: "env \<Rightarrow> string \<Rightarrow> string \<Rightarrow> string \<Rightarrow> asset_error + string" where
  "resolved_skill_path E root worker_name skill_id =
     and_then (resolve_skills_root E root) (\<lambda>base.
     and_then (skill_relpath worker_name skill_id) (\<lambda>ref.
     case resolve_asset_path E base ref ''skill'' ''SKILLS_ROOT'' of
       Inl (Asset_missing m) \<Rightarrow> Inl (Skill_error ''SKILL_NOT_FOUND'' m)
     | Inl (Asset_value m) \<Rightarrow> Inl (skill_invalid m)
     | r \<Rightarrow> r))"

text \<open>The text before and after the first occurrence of a separator.\<close>

fun split_first :: "string \<Rightarrow> string \<Rightarrow> (string \<times> string) option" where
  "split_first p [] = (if p = [] then Some ([], []) else None)"
| "split_first p (c # cs) =
     (if starts_with p (c # cs) then Some ([], drop (length p) (c # cs))
      else map_option (\<lambda>(a, b). (c # a, b)) (split_first p cs))"

definition skill_message :: "string \<Rightarrow> string \<Rightarrow> asset_error" where
  "skill_message skill m = skill_invalid (''Skill '' @ repr_str skill @ m)"

definition parse_frontmatter :: "env \<Rightarrow> string \<Rightarrow> string \<Rightarrow> asset_error + dict \<times> string" where
  "parse_frontmatter E raw skill =
     (if \<not> starts_with ''---'' raw
      then Inl (skill_message skill '' must start with YAML frontmatter (---)'')
      else case split_first ''---'' (drop 3 raw) of
        None \<Rightarrow> Inl (skill_message skill '' frontmatter is not closed with ---'')
      | Some (meta_raw, body) \<Rightarrow>
          (case yaml_load E meta_raw of
             Inl e \<Rightarrow> Inl (skill_message skill ('' frontmatter is not valid YAML: '' @ e))
           | Inr loaded \<Rightarrow>
               (case jor loaded (JObj []) of
                  JObj meta \<Rightarrow> Inr (meta, dropWhile (\<lambda>c. c = CHR 0x0A) body)
                | _ \<Rightarrow> Inl (skill_message skill '' frontmatter must be a mapping''))))"

fun allowed_tool_items :: "string \<Rightarrow> json list \<Rightarrow> asset_error + string list" where
  "allowed_tool_items skill [] = Inr []"
| "allowed_tool_items skill (j # js) =
     (if \<not> is_str j \<or> strip (str_of j) = []
      then Inl (skill_message skill '' allowed_tools entries must be non-empty strings'')
      else if strip (str_of j) = ''load_skill''
      then Inl (skill_message skill ('' allowed_tools must not include reserved '' @ repr_str ''load_skill''))
      else and_then (allowed_tool_items skill js) (\<lambda>ts. Inr (strip (str_of j) # ts)))"

definition normalize_allowed_tools :: "json \<Rightarrow> string \<Rightarrow> asset_error + string list" where
  "normalize_allowed_tools raw skill = (case raw of
     JNull \<Rightarrow> Inr []
   | JList js \<Rightarrow> allowed_tool_items skill js
   | _ \<Rightarrow> Inl (skill_message skill '' allowed_tools must be a list''))"

definition parse_skill_document :: "env \<Rightarrow> string \<Rightarrow> string \<Rightarrow> asset_error + skill_document" where
  "parse_skill_document E raw skill_id =
     (let skill = strip skill_id in
      and_then (parse_frontmatter E raw skill) (\<lambda>(meta, body).
      let name = strip (py_str (jor (dget ''name'' meta) (JStr [])));
          description = strip (py_str (jor (dget ''description'' meta) (JStr []))) in
      if name = [] then Inl (skill_message skill '' frontmatter requires non-empty name'')
      else if name \<noteq> skill
      then Inl (skill_invalid (''Skill frontmatter name '' @ repr_str name @ '' must match file stem ''
             @ repr_str skill))
      else if description = [] then Inl (skill_message skill '' frontmatter requires non-empty description'')
      else and_then (normalize_allowed_tools (dget ''allowed_tools'' meta) skill) (\<lambda>tools.
        Inr \<lparr>sk_name = name, sk_description = description, sk_allowed_tools = tools, sk_body = body\<rparr>)))"

definition load_skill_document :: "env \<Rightarrow> string \<Rightarrow> string \<Rightarrow> string \<Rightarrow> asset_error + skill_document" where
  "load_skill_document E root worker_name skill_id =
     and_then (resolved_skill_path E root worker_name skill_id) (\<lambda>path.
     case read_file E path of
       Inr raw \<Rightarrow> parse_skill_document E raw (strip skill_id)
     | Inl e \<Rightarrow> Inl (Skill_error ''SKILL_NOT_FOUND''
                      (''Failed to read skill file: '' @ path @ '': '' @ asset_text e)))"

definition skill_document_to_definition :: "skill_document \<Rightarrow> dict" where
  "skill_document_to_definition doc =
     [(''name'', JStr (sk_name doc)), (''description'', JStr (sk_description doc)),
      (''allowed_tools'', JList (map JStr (sk_allowed_tools doc))), (''body'', JStr (sk_body doc))]"

definition assert_skill_document_complete :: "skill_document \<Rightarrow> string \<Rightarrow> asset_error + unit" where
  "assert_skill_document_complete doc skill_id =
     (if skill_embed_is_complete (skill_document_to_definition doc) then Inr ()
      else Inl (skill_message skill_id '' cannot be frozen: need non-empty body and allowed_tools list''))"

section \<open>Prompts\<close>

definition lstrip_slash :: "string \<Rightarrow> string" where
  "lstrip_slash s = dropWhile (\<lambda>c. c = CHR ''/'') s"

definition resolve_prompts_root :: "env \<Rightarrow> string \<Rightarrow> asset_error + string" where
  "resolve_prompts_root E root =
     (if root = [] then Inl (Asset_value ''PROMPTS_ROOT must be set when using file-based prompts.'')
      else if path_is_dir E root then Inr (path_abs E root)
      else Inl (Asset_value (''PROMPTS_ROOT is not a directory: '' @ root)))"

definition resolved_prompt_path :: "env \<Rightarrow> string \<Rightarrow> string \<Rightarrow> asset_error + string" where
  "resolved_prompt_path E root pref =
     and_then (resolve_prompts_root E root) (\<lambda>base.
     let ref = lstrip_slash (strip pref) in
     if ref = [] then Inl (Asset_value ''prompt must be a non-empty path.'')
     else if unsafe_ref ref
     then Inl (Asset_value (''Invalid prompt (no absolute paths or '..'): '' @ repr_str pref))
     else case path_resolve E base ref of (path, inside) \<Rightarrow>
       if \<not> inside then Inl (Asset_value (''Prompt path escapes PROMPTS_ROOT: '' @ pref))
       else if read_text E path = None then Inl (Asset_value (''Prompt file not found: '' @ path))
       else Inr path)"

definition load_prompt_content :: "env \<Rightarrow> string \<Rightarrow> string \<Rightarrow> asset_error + string" where
  "load_prompt_content E root pref =
     and_then (resolved_prompt_path E root pref) (read_file E)"

definition prompt_message :: "string \<Rightarrow> string \<Rightarrow> asset_error" where
  "prompt_message ref m = Asset_value (''Prompt '' @ repr_str ref @ m)"

definition parse_prompt_ast :: "env \<Rightarrow> string \<Rightarrow> string \<Rightarrow> asset_error + jinja_include list" where
  "parse_prompt_ast E source ref = (case jinja_parse E source of
     Inl e \<Rightarrow> Inl (Asset_value (''Failed to parse prompt '' @ repr_str ref @ '': '' @ e))
   | Inr nodes \<Rightarrow> Inr nodes)"

fun validate_include_nodes :: "string \<Rightarrow> jinja_include list \<Rightarrow> asset_error + unit" where
  "validate_include_nodes ref [] = Inr ()"
| "validate_include_nodes ref (n # ns) =
     (if \<not> inc_static n
      then Inl (prompt_message ref '' uses a dynamic {% include %}; only static string includes can be frozen at saga start.'')
      else if inc_ignore_missing n
      then Inl (prompt_message ref '' uses {% include ... ignore missing %}; include modifiers are not supported at saga start freeze.'')
      else if \<not> inc_with_context n
      then Inl (prompt_message ref '' uses {% include ... without context %}; include modifiers are not supported at saga start freeze.'')
      else validate_include_nodes ref ns)"

definition string_token_to_path :: "env \<Rightarrow> string \<Rightarrow> string \<Rightarrow> asset_error + string" where
  "string_token_to_path E v ref = (case literal_eval E v of
     None \<Rightarrow> Inl (prompt_message ref ('': invalid include path literal '' @ repr_str v))
   | Some path \<Rightarrow>
       if \<not> is_str path \<or> strip (str_of path) = []
       then Inl (prompt_message ref ('': include path must be a non-empty string literal, got '' @ repr_str v))
       else Inr (lstrip_slash (strip (str_of path))))"

definition reject_include_modifiers :: "string list \<Rightarrow> string \<Rightarrow> asset_error + unit" where
  "reject_include_modifiers modifiers ref =
     (if modifiers = [] then Inr ()
      else Inl (prompt_message ref ('' include uses unsupported modifier(s) (''
             @ repr_str (join_str '' '' modifiers) @ ''); only bare {% include 'path' %} can be frozen at saga start ''
             @ ''(no ignore missing / with context / without context).'')))"

text \<open>The tokens after \<open>include\<close> up to the end of its block: the path and the tokens that
  follow the block.\<close>

fun scan_include_block_body ::
  "env \<Rightarrow> string \<Rightarrow> string option \<Rightarrow> string list \<Rightarrow> (string \<times> string) list \<Rightarrow>
   asset_error + string \<times> (string \<times> string) list" where
  "scan_include_block_body E ref path mods [] =
     Inl (prompt_message ref '': unterminated {% include %} while freezing'')"
| "scan_include_block_body E ref path mods ((ty, v) # toks) =
     (if ty = ''block_end''
      then (case path of
              None \<Rightarrow> Inl (prompt_message ref '': static {% include %} requires a non-empty string path'')
            | Some p \<Rightarrow> and_then (reject_include_modifiers mods ref) (\<lambda>_. Inr (p, toks)))
      else if ty = ''whitespace'' then scan_include_block_body E ref path mods toks
      else if ty = ''string'' \<and> path = None
      then and_then (string_token_to_path E v ref)
             (\<lambda>p. scan_include_block_body E ref (Some p) mods toks)
      else if ty = ''name'' then scan_include_block_body E ref path (mods @ [v]) toks
      else Inl (prompt_message ref ('': unsupported {% include %} form while freezing (token ''
             @ ty @ ''='' @ repr_str v @ '')'')))"

text \<open>\<open>None\<close>: no include block starts here.\<close>

definition include_block_span ::
  "env \<Rightarrow> string \<Rightarrow> (string \<times> string) list \<Rightarrow>
   asset_error + (string \<times> (string \<times> string) list) option" where
  "include_block_span E ref toks = (case toks of
     (ty, v) # rest \<Rightarrow>
       if ty \<noteq> ''block_begin'' then Inr None
       else (case dropWhile (\<lambda>(t, _). t = ''whitespace'') rest of
               (ty2, v2) # rest2 \<Rightarrow>
                 if ty2 = ''name'' \<and> v2 = ''include''
                 then and_then (scan_include_block_body E ref None [] rest2) (\<lambda>r. Inr (Some r))
                 else Inr None
             | [] \<Rightarrow> Inr None)
   | [] \<Rightarrow> Inr None)"

lemma scan_include_block_body_shorter:
  "scan_include_block_body E ref path mods toks = Inr (p, rest) \<Longrightarrow> length rest < length toks"
  by (induction E ref path mods toks rule: scan_include_block_body.induct)
    (force simp: and_then_def split: if_splits option.splits sum.splits)+

lemma include_block_span_shorter:
  assumes "include_block_span E ref (t # toks) = Inr (Some (p, rest))"
  shows "length rest < length toks"
proof -
  obtain ty v where t: "t = (ty, v)" by (cases t)
  let ?r = "dropWhile (\<lambda>(t, _). t = ''whitespace'') toks"
  from assms t obtain x rest2 where r: "?r = x # rest2"
      and s: "scan_include_block_body E ref None [] rest2 = Inr (p, rest)"
    by (auto simp: include_block_span_def and_then_def split: if_splits list.splits sum.splits)
  from r have "length (x # rest2) \<le> length toks" by (metis length_dropWhile_le)
  with scan_include_block_body_shorter [OF s] show ?thesis by simp
qed

text \<open>A template as the pieces the loop of \<open>_expand\<close> collects: text kept as it is, the
  includes it replaces, and the error at which it stops.\<close>

datatype piece = Kept string | Included string | Broken asset_error

function (sequential) template_pieces :: "env \<Rightarrow> string \<Rightarrow> (string \<times> string) list \<Rightarrow> piece list" where
  "template_pieces E ref [] = []"
| "template_pieces E ref (t # toks) =
     (case include_block_span E ref (t # toks) of
        Inl e \<Rightarrow> [Broken e]
      | Inr None \<Rightarrow> Kept (snd t) # template_pieces E ref toks
      | Inr (Some (p, rest)) \<Rightarrow> Included p # template_pieces E ref rest)"
  by pat_completeness auto

termination
  by (relation "measure (\<lambda>(E, ref, toks). length toks)")
    (auto dest: include_block_span_shorter)

fun join_pieces ::
  "(string \<Rightarrow> (asset_error + string) option) \<Rightarrow> piece list \<Rightarrow> (asset_error + string) option" where
  "join_pieces f [] = Some (Inr [])"
| "join_pieces f (Kept t # ps) =
     map_option (\<lambda>r. and_then r (\<lambda>u. Inr (t @ u))) (join_pieces f ps)"
| "join_pieces f (Included p # ps) = (case f p of
     None \<Rightarrow> None
   | Some (Inl e) \<Rightarrow> Some (Inl e)
   | Some (Inr t) \<Rightarrow> map_option (\<lambda>r. and_then r (\<lambda>u. Inr (t @ u))) (join_pieces f ps))"
| "join_pieces f (Broken e # ps) = Some (Inl e)"

text \<open>\<open>_expand\<close>; \<open>None\<close>: the fuel is used up.\<close>

definition cycle_message :: "string list \<Rightarrow> string \<Rightarrow> string" where
  "cycle_message stack ref = ''Prompt include cycle detected: '' @ join_str '' -> '' (stack @ [ref])"

fun expand_prompt ::
  "env \<Rightarrow> string \<Rightarrow> nat \<Rightarrow> string list \<Rightarrow> string \<Rightarrow> (asset_error + string) option" where
  "expand_prompt E root 0 stack ref = None"
| "expand_prompt E root (Suc n) stack ref =
     (if ref \<in> set stack then Some (Inl (Asset_value (cycle_message stack ref)))
      else case load_prompt_content E root ref of
        Inl e \<Rightarrow> Some (Inl e)
      | Inr source \<Rightarrow>
          (case parse_prompt_ast E source ref of
             Inl e \<Rightarrow> Some (Inl e)
           | Inr nodes \<Rightarrow>
               (case validate_include_nodes ref nodes of
                  Inl e \<Rightarrow> Some (Inl e)
                | Inr _ \<Rightarrow>
                    if nodes = [] then Some (Inr source)
                    else join_pieces (expand_prompt E root n (stack @ [ref]))
                           (template_pieces E ref (jinja_lex E source)))))"

text \<open>The paths the files on disk include, by which the nesting of includes is bounded.\<close>

fun included_paths :: "piece list \<Rightarrow> string list" where
  "included_paths [] = []"
| "included_paths (Included p # ps) = p # included_paths ps"
| "included_paths (_ # ps) = included_paths ps"

definition disk_includes :: "env \<Rightarrow> string list" where
  "disk_includes E = remdups (concat (map (\<lambda>(_, r). case r of
     Inl _ \<Rightarrow> [] | Inr source \<Rightarrow> included_paths (template_pieces E [] (jinja_lex E source))) (files E)))"

definition prompt_fuel :: "env \<Rightarrow> nat" where
  "prompt_fuel E = length (disk_includes E) + 2"

definition freeze_prompt_definition :: "env \<Rightarrow> string \<Rightarrow> string \<Rightarrow> asset_error + string" where
  "freeze_prompt_definition E root pref =
     (case expand_prompt E root (prompt_fuel E) [] (lstrip_slash (strip pref)) of
        Some r \<Rightarrow> r
      | None \<Rightarrow> Inl (Asset_value ''out of fuel''))"

end
