(* ===== verification/Hydrate.thy ===== *)
theory Hydrate imports Assets begin

text \<open>
  From the authoring form of a saga to the steps a start freezes: the catalog step models
  (\<^verbatim>\<open>common/schemas/step.py\<close>), the authoring and hydrated blueprints
  (\<^verbatim>\<open>common/schemas/saga.py\<close>), the overrides that may only tighten a catalog step
  (\<^verbatim>\<open>common/step_tighten.py\<close>), and hydration with the embedding of assets
  (\<^verbatim>\<open>common/step_hydrate.py\<close>, \<^verbatim>\<open>engine/saga_hydrate.py\<close>).
  As in \<open>SagaSchema\<close>, an accepted mapping is the model, read through accessors.
\<close>

section \<open>Catalog steps\<close>

definition field_or :: "string \<Rightarrow> json \<Rightarrow> dict \<Rightarrow> json" where
  "field_or k dflt d = (if dhas k d then dget k d else dflt)"

definition step_input_spec_ok :: "json \<Rightarrow> bool" where
  "step_input_spec_ok j = (case j of
     JObj d \<Rightarrow> forbid_extra [''required'', ''description'', ''schema''] d = []
       \<and> absent_or ''required'' is_bool d \<and> null_or is_str (dget ''description'' d)
       \<and> null_or is_dict (dget ''schema'' d)
   | _ \<Rightarrow> False)"

definition dump_step_input :: "json \<Rightarrow> json" where
  "dump_step_input j = (let d = coerce_dict j in
     JObj (drop_none [(''required'', field_or ''required'' (JBool True) d),
                        (''description'', dget ''description'' d), (''schema'', dget ''schema'' d)]))"

definition blueprint_fields :: "string list" where
  "blueprint_fields = [''kind'', ''step_kind'', ''name'', ''namespace'', ''version'', ''description'',
     ''title'', ''inputs'', ''worker'', ''worker_version'', ''compensation'', ''timeout_seconds'',
     ''output_schema'', ''policy'', ''hitl'', ''hitl_max_retries'', ''hitl_retry_guidance'', ''resources'',
     ''on_failure'', ''tools'']"

definition blueprint_base_errors :: "dict \<Rightarrow> string list" where
  "blueprint_base_errors d =
     need (field_or ''kind'' (JStr ''step'') d = JStr ''step'') ''kind''
   @ concat (map (\<lambda>k. need (text_ok (dget k d)) k) [''name'', ''version'', ''worker'', ''worker_version''])
   @ need (absent_or ''namespace'' is_str d) ''namespace''
   @ concat (map (\<lambda>k. need (null_or is_str (dget k d)) k)
       [''description'', ''title'', ''compensation'', ''output_schema'', ''policy''])
   @ need (absent_or ''inputs'' is_dict d \<and> list_all (\<lambda>(k, v). strip k \<noteq> [] \<and> step_input_spec_ok v)
             (coerce_dict (dget ''inputs'' d))) ''inputs''
   @ need (absent_or ''timeout_seconds'' is_int d) ''timeout_seconds''
   @ need (absent_or ''hitl'' is_bool d) ''hitl''
   @ need (null_or (int_from 0) (dget ''hitl_max_retries'' d)) ''hitl_max_retries''
   @ need (null_or (\<lambda>j. is_str j \<and> length (str_of j) \<le> 4096) (dget ''hitl_retry_guidance'' d))
       ''hitl_retry_guidance''
   @ need (null_or resources_spec_ok (dget ''resources'' d)) ''resources''
   @ need (null_or on_failure_ok (dget ''on_failure'' d)) ''on_failure''
   @ need (bool_of (dget ''hitl'' d)
           \<or> (dget ''hitl_max_retries'' d = JNull \<and> dget ''hitl_retry_guidance'' d = JNull)) ''hitl''"

definition reason_blueprint_errors :: "dict \<Rightarrow> string list" where
  "reason_blueprint_errors d =
     forbid_extra (blueprint_fields @ [''prompt'', ''agent-adapter'', ''agent_adapter'', ''max_turns'',
       ''max_step_tokens'', ''max_completion_tokens'', ''skills'', ''facts'']) d
   @ blueprint_base_errors d
   @ need (text_ok (dget ''prompt'' d)) ''prompt''
   @ need (agent_adapter_of d = JStr ''react'' \<or> agent_adapter_of d = JStr ''simple'') ''agent-adapter''
   @ need (absent_or ''max_turns'' (int_in 1 200) d) ''max_turns''
   @ need (null_or (int_from 1) (dget ''max_step_tokens'' d)) ''max_step_tokens''
   @ need (null_or (int_from 1) (dget ''max_completion_tokens'' d)) ''max_completion_tokens''
   @ need (null_or tools_spec_ok (dget ''tools'' d)) ''tools''
   @ need (null_or skills_spec_ok (dget ''skills'' d)) ''skills''
   @ need (null_or (\<lambda>j. is_list j \<and> list_all facts_extractor_ok (list_of j)) (dget ''facts'' d)) ''facts''
   @ need (distinct (map fact_into (list_of (dget ''facts'' d)))) ''facts.into''
   @ need (agent_adapter_of d \<noteq> JStr ''simple'' \<or> simple_agent_adapter_constraints_ok d) ''simple''
   @ need (''load_skill'' \<notin> set (tool_names d)) ''tools.allow''
   @ need (list_all (\<lambda>k. dhas k (coerce_dict (dget ''inputs'' d))) (bind_keys (dget ''tools'' d)))
       ''tools.bind''"

definition commit_blueprint_errors :: "dict \<Rightarrow> string list" where
  "commit_blueprint_errors d =
     forbid_extra blueprint_fields d
   @ blueprint_base_errors d
   @ need (tools_spec_ok (dget ''tools'' d)) ''tools''
   @ need (length (allow_items (dget ''tools'' d)) = 1) ''tools.allow''
   @ need (''load_skill'' \<notin> set (tool_names d)) ''tools.allow''
   @ need (bind_keys (dget ''tools'' d) = []) ''tools.bind''"

definition parse_step_blueprint :: "json \<Rightarrow> exc + dict" where
  "parse_step_blueprint j =
     (let d = coerce_dict j;
          locs = (if \<not> is_dict j then [''step'']
                  else if dget ''step_kind'' d = JStr ''reason'' then reason_blueprint_errors d
                  else if dget ''step_kind'' d = JStr ''commit'' then commit_blueprint_errors d
                  else [''step_kind''])
      in if locs = [] then Inr d else Inl (ValidationError locs))"

definition stripped :: "string \<Rightarrow> dict \<Rightarrow> string" where
  "stripped k d = strip (str_of (dget k d))"

definition blueprint_kind :: "dict \<Rightarrow> string" where
  "blueprint_kind b = str_of (dget ''step_kind'' b)"

definition display_title :: "dict \<Rightarrow> string" where
  "display_title b = (if stripped ''title'' b \<noteq> [] then stripped ''title'' b else stripped ''name'' b)"

definition strategy_of :: "json \<Rightarrow> json" where
  "strategy_of j = (if j = JNull then JStr ''auto_compensate''
                    else field_or ''strategy'' (JStr ''auto_compensate'') (coerce_dict j))"

definition shared_capability_dict :: "dict \<Rightarrow> dict" where
  "shared_capability_dict b =
     [(''kind'', JStr (blueprint_kind b)), (''worker'', JStr (stripped ''worker'' b)),
      (''worker_version'', JStr (stripped ''worker_version'' b)),
      (''timeout_seconds'', field_or ''timeout_seconds'' (JInt 600) b),
      (''hitl'', field_or ''hitl'' (JBool False) b),
      (''step_definition_name'', JStr (stripped ''name'' b)),
      (''step_definition_version'', JStr (stripped ''version'' b)),
      (''inputs'', JObj (map (\<lambda>(k, v). (k, dump_step_input v)) (coerce_dict (dget ''inputs'' b))))]
   @ drop_none [(''compensation'', dget ''compensation'' b), (''output_schema'', dget ''output_schema'' b),
      (''policy'', dget ''policy'' b), (''hitl_max_retries'', dget ''hitl_max_retries'' b),
      (''hitl_retry_guidance'', dget ''hitl_retry_guidance'' b),
      (''resources'', null_map dump_resources_spec (dget ''resources'' b))]
   @ [(''on_failure'', JObj [(''strategy'', strategy_of (dget ''on_failure'' b))])]"

definition to_capability_dict :: "dict \<Rightarrow> dict" where
  "to_capability_dict b =
     shared_capability_dict b @
     (if blueprint_kind b = ''reason''
      then [(''prompt'', dget ''prompt'' b), (''agent-adapter'', agent_adapter_of b),
            (''max_turns'', field_or ''max_turns'' (JInt 25) b)]
         @ drop_none [(''max_step_tokens'', dget ''max_step_tokens'' b),
             (''max_completion_tokens'', dget ''max_completion_tokens'' b),
             (''tools'', null_map dump_tools_spec (dget ''tools'' b)),
             (''skills'', null_map dump_skills_spec (dget ''skills'' b)),
             (''facts'', null_map (\<lambda>f. JList (map dump_fact (list_of f))) (dget ''facts'' b))]
      else [(''tools'', dump_tools_spec (dget ''tools'' b))])"

section \<open>Authoring references\<close>

definition step_ref_errors :: "dict \<Rightarrow> string list" where
  "step_ref_errors d =
     forbid_extra [''kind'', ''id'', ''name'', ''use'', ''version'', ''with'', ''with_spec'', ''when'', ''hitl'',
       ''hitl_max_retries'', ''hitl_retry_guidance'', ''timeout_seconds'', ''max_turns'',
       ''max_step_tokens'', ''max_completion_tokens''] d
   @ need (dget ''kind'' d = JStr ''use'') ''kind''
   @ concat (map (\<lambda>k. need (text_ok (dget k d)) k) [''id'', ''use'', ''version''])
   @ need (null_or is_str (dget ''name'' d)) ''name''
   @ need ((\<not> dhas ''with'' d \<and> \<not> dhas ''with_spec'' d) \<or> with_ok (alias_get ''with'' ''with_spec'' d)) ''with''
   @ need (null_or cel_spec_ok (dget ''when'' d)) ''when''
   @ need (null_or is_bool (dget ''hitl'' d)) ''hitl''
   @ need (null_or (int_from 0) (dget ''hitl_max_retries'' d)) ''hitl_max_retries''
   @ need (null_or (\<lambda>j. is_str j \<and> length (str_of j) \<le> 4096) (dget ''hitl_retry_guidance'' d))
       ''hitl_retry_guidance''
   @ need (null_or (int_from 1) (dget ''timeout_seconds'' d)) ''timeout_seconds''
   @ need (null_or (int_in 1 200) (dget ''max_turns'' d)) ''max_turns''
   @ need (null_or (int_from 1) (dget ''max_step_tokens'' d)) ''max_step_tokens''
   @ need (null_or (int_from 1) (dget ''max_completion_tokens'' d)) ''max_completion_tokens''"

definition inject_use_kind :: "json list \<Rightarrow> json list" where
  "inject_use_kind steps = map (\<lambda>item. case item of
     JObj d \<Rightarrow> if dhas ''use'' d \<and> \<not> dhas ''kind'' d then JObj (d @ [(''kind'', JStr ''use'')]) else item
   | _ \<Rightarrow> item) steps"

text \<open>The body of an authoring loop, after the injection.\<close>

definition loop_refs :: "dict \<Rightarrow> dict list" where
  "loop_refs d = map coerce_dict (inject_use_kind (list_of (dget ''steps'' d)))"

definition loop_authoring_errors :: "dict \<Rightarrow> string list" where
  "loop_authoring_errors d =
     forbid_extra [''kind'', ''id'', ''name'', ''max_iterations'', ''until'', ''steps''] d
   @ need (text_ok (dget ''id'' d)) ''id''
   @ need (null_or is_str (dget ''name'' d)) ''name''
   @ need (int_from 1 (dget ''max_iterations'' d)) ''max_iterations''
   @ need (cel_spec_ok (dget ''until'' d)) ''until''
   @ need (list_of (dget ''steps'' d) \<noteq> [] \<and> list_all is_dict (list_of (dget ''steps'' d))) ''steps''
   @ concat (map (\<lambda>r. step_ref_errors (if dhas ''kind'' r then r else r @ [(''kind'', JStr ''use'')]))
               (loop_refs d))"

definition authoring_step_errors :: "json \<Rightarrow> string list" where
  "authoring_step_errors j =
     (let d = coerce_dict j in
      if \<not> is_dict j then [''steps'']
      else if dget ''kind'' d = JStr ''use'' then step_ref_errors d
      else if dget ''kind'' d = JStr ''loop'' then loop_authoring_errors d
      else if dget ''kind'' d = JStr ''spawn_sagas'' \<or> dget ''kind'' d = JStr ''join_sagas''
      then executable_step_errors d
      else [''steps.kind''])"

section \<open>Blueprints\<close>

text \<open>The checks the authoring and the hydrated blueprint share: every node is its kind, its id, and
  for a loop the ids of its body.\<close>

definition is_loop_node :: "dict \<Rightarrow> bool" where
  "is_loop_node d \<longleftrightarrow> dget ''kind'' d = JStr ''loop''"

definition node_id :: "dict \<Rightarrow> string" where
  "node_id d =
     (if dget ''kind'' d = JStr ''loop'' \<or> dget ''kind'' d = JStr ''use'' then stripped ''id'' d
      else str_of (dget ''id'' d))"

definition iter_executable_step_ids :: "dict list \<Rightarrow> string list" where
  "iter_executable_step_ids steps = concat (map (\<lambda>d.
     if is_loop_node d then map node_id (loop_refs d) else [node_id d]) steps)"

definition iter_loop_ids :: "dict list \<Rightarrow> string list" where
  "iter_loop_ids steps = map node_id (filter is_loop_node steps)"

definition unique_ids_ok :: "dict list \<Rightarrow> bool" where
  "unique_ids_ok steps \<longleftrightarrow>
     distinct (iter_executable_step_ids steps) \<and> distinct (iter_loop_ids steps)
     \<and> set (iter_executable_step_ids steps) \<inter> set (iter_loop_ids steps) = {}"

definition spawn_block :: "dict \<Rightarrow> dict" where
  "spawn_block d = coerce_dict (dget ''spawn'' d)"

definition spawn_ids :: "dict list \<Rightarrow> string list" where
  "spawn_ids steps = map node_id (filter (\<lambda>d. dget ''kind'' d = JStr ''spawn_sagas'') steps)"

definition join_targets :: "dict list \<Rightarrow> string list" where
  "join_targets steps = map (\<lambda>d. stripped ''spawn_step_id'' (coerce_dict (dget ''join'' d)))
     (filter (\<lambda>d. dget ''kind'' d = JStr ''join_sagas'') steps)"

definition spawn_join_wiring_ok :: "env \<Rightarrow> dict list \<Rightarrow> bool" where
  "spawn_join_wiring_ok E steps \<longleftrightarrow>
     list_all (\<lambda>d. dget ''kind'' d = JStr ''spawn_sagas'' \<longrightarrow>
         jsonpath_parses E (stripped ''items_from'' (spawn_block d))
       \<and> jsonpath_parses E (stripped ''result_from'' (spawn_block d))) steps
     \<and> set (join_targets steps) \<subseteq> set (spawn_ids steps) \<and> distinct (join_targets steps)"

definition blueprint_wiring_errors :: "env \<Rightarrow> dict list \<Rightarrow> string list" where
  "blueprint_wiring_errors E steps =
     need (unique_ids_ok steps) ''steps'' @ need (spawn_join_wiring_ok E steps) ''blueprint''"

definition authoring_nodes :: "dict \<Rightarrow> dict list" where
  "authoring_nodes d = map coerce_dict (inject_use_kind (list_of (dget ''steps'' d)))"

definition authoring_errors :: "env \<Rightarrow> dict \<Rightarrow> string list" where
  "authoring_errors E d =
     need (field_or ''kind'' (JStr ''saga'') d = JStr ''saga'') ''kind''
   @ need (is_str (dget ''name'' d)) ''name'' @ need (absent_or ''namespace'' is_str d) ''namespace''
   @ need (is_str (dget ''version'' d)) ''version'' @ need (is_str (dget ''description'' d)) ''description''
   @ need (is_list (dget ''steps'' d)) ''steps''
   @ concat (map authoring_step_errors (inject_use_kind (list_of (dget ''steps'' d))))
   @ blueprint_wiring_errors E (authoring_nodes d)"

section \<open>Overrides\<close>

text \<open>The value of an override, when it is set, and the texts of its rejection.\<close>

definition step_error :: "string \<Rightarrow> string \<Rightarrow> exc" where
  "step_error sid m = ValueError (''step '' @ repr_str sid @ m)"

definition cannot_exceed :: "string \<Rightarrow> string \<Rightarrow> int \<Rightarrow> int \<Rightarrow> exc" where
  "cannot_exceed sid field override catalog =
     step_error sid ('' '' @ field @ '' cannot exceed catalog value ('' @ show_int override @ '' > ''
       @ show_int catalog @ '')'')"

definition require_hitl_enabled :: "string \<Rightarrow> dict \<Rightarrow> string \<Rightarrow> exc + unit" where
  "require_hitl_enabled sid capability field =
     (if truthy (dget ''hitl'' capability) then Inr ()
      else Inl (step_error sid ('' '' @ field @ '' requires hitl: true after overrides'')))"

definition override_hitl :: "string \<Rightarrow> dict \<Rightarrow> dict \<Rightarrow> exc + dict" where
  "override_hitl sid ref out =
     (case dget ''hitl'' ref of
        JBool b \<Rightarrow>
          if \<not> b \<and> truthy (dget ''hitl'' out)
          then Inl (step_error sid '' cannot clear catalog hitl: true (tighten-only)'')
          else Inr (if b then dset ''hitl'' (JBool True) out else out)
      | _ \<Rightarrow> Inr out)"

definition override_hitl_max_retries :: "string \<Rightarrow> dict \<Rightarrow> dict \<Rightarrow> exc + dict" where
  "override_hitl_max_retries sid ref out =
     (case dget ''hitl_max_retries'' ref of
        JInt n \<Rightarrow>
          and_then (require_hitl_enabled sid out ''hitl_max_retries'') (\<lambda>_.
            if dget ''hitl_max_retries'' out \<noteq> JNull \<and> n > int_of (dget ''hitl_max_retries'' out)
            then Inl (cannot_exceed sid ''hitl_max_retries'' n (int_of (dget ''hitl_max_retries'' out)))
            else Inr (dset ''hitl_max_retries'' (JInt n) out))
      | _ \<Rightarrow> Inr out)"

definition override_hitl_retry_guidance :: "string \<Rightarrow> dict \<Rightarrow> dict \<Rightarrow> exc + dict" where
  "override_hitl_retry_guidance sid ref out =
     (if dget ''hitl_retry_guidance'' ref = JNull then Inr out
      else and_then (require_hitl_enabled sid out ''hitl_retry_guidance'') (\<lambda>_.
        Inr (dset ''hitl_retry_guidance'' (dget ''hitl_retry_guidance'' ref) out)))"

definition tighten_int_field :: "string \<Rightarrow> string \<Rightarrow> int \<Rightarrow> dict \<Rightarrow> exc + dict" where
  "tighten_int_field sid field override out =
     (let catalog = int_of (field_or field (JInt override) out) in
      if override > catalog then Inl (cannot_exceed sid field override catalog)
      else Inr (dset field (JInt override) out))"

definition override_timeout :: "string \<Rightarrow> dict \<Rightarrow> dict \<Rightarrow> exc + dict" where
  "override_timeout sid ref out =
     (case dget ''timeout_seconds'' ref of
        JInt n \<Rightarrow> tighten_int_field sid ''timeout_seconds'' n out
      | _ \<Rightarrow> Inr out)"

definition override_max_turns :: "string \<Rightarrow> string \<Rightarrow> dict \<Rightarrow> dict \<Rightarrow> exc + dict" where
  "override_max_turns sid kind ref out =
     (case dget ''max_turns'' ref of
        JInt n \<Rightarrow>
          if kind \<noteq> ''reason''
          then Inl (step_error sid '' max_turns override is only valid on reason steps'')
          else tighten_int_field sid ''max_turns'' n out
      | _ \<Rightarrow> Inr out)"

definition tighten_optional_token_cap ::
  "string \<Rightarrow> string \<Rightarrow> string \<Rightarrow> string \<Rightarrow> dict \<Rightarrow> dict \<Rightarrow> exc + dict" where
  "tighten_optional_token_cap sid kind field unset_message ref out =
     (case dget field ref of
        JInt n \<Rightarrow>
          if kind \<noteq> ''reason''
          then Inl (step_error sid ('' '' @ field @ '' override is only valid on reason steps''))
          else if dget field out = JNull then Inl (step_error sid ('' '' @ unset_message))
          else if n > int_of (dget field out)
          then Inl (cannot_exceed sid field n (int_of (dget field out)))
          else Inr (dset field (JInt n) out)
      | _ \<Rightarrow> Inr out)"

definition apply_tighten_overrides :: "string \<Rightarrow> dict \<Rightarrow> dict \<Rightarrow> string \<Rightarrow> exc + dict" where
  "apply_tighten_overrides sid capability ref kind =
     and_then (override_hitl sid ref capability) (\<lambda>out.
     and_then (override_hitl_max_retries sid ref out) (\<lambda>out.
     and_then (override_hitl_retry_guidance sid ref out) (\<lambda>out.
     and_then (override_timeout sid ref out) (\<lambda>out.
     and_then (override_max_turns sid kind ref out) (\<lambda>out.
     and_then (tighten_optional_token_cap sid kind ''max_step_tokens''
                 ''cannot set max_step_tokens when the catalog step leaves it unlimited'' ref out) (\<lambda>out.
     tighten_optional_token_cap sid kind ''max_completion_tokens''
       ''cannot set max_completion_tokens when the catalog step leaves it unset'' ref out))))))"

section \<open>Hydration\<close>

text \<open>\<open>value:\<close> literals are checked against the schema of their port; \<open>from:\<close> bindings
  are checked when they are resolved.\<close>

definition literal_errors :: "env \<Rightarrow> string \<Rightarrow> dict \<Rightarrow> dict \<Rightarrow> string list" where
  "literal_errors E sid with_spec inputs = concat (map (\<lambda>(key, binding).
     let b = coerce_dict binding; schema = dget ''schema'' (coerce_dict (dget key inputs)) in
     if dhas key inputs \<and> schema \<noteq> JNull \<and> dget ''from'' b = JNull
     then (case jsonschema E schema (dget ''value'' b) of
             None \<Rightarrow> []
           | Some m \<Rightarrow> [''step '' @ repr_str sid @ '' input '' @ repr_str key
                          @ '' literal failed schema validation: '' @ m])
     else []) with_spec)"

definition required_inputs :: "dict \<Rightarrow> string list" where
  "required_inputs inputs =
     map fst (filter (\<lambda>(_, i). truthy (field_or ''required'' (JBool True) (coerce_dict i))) inputs)"

definition validate_with_against_inputs :: "env \<Rightarrow> string \<Rightarrow> dict \<Rightarrow> dict \<Rightarrow> exc + unit" where
  "validate_with_against_inputs E sid with_spec inputs =
     (let unknown = filter (\<lambda>k. \<not> dhas k inputs) (map fst with_spec);
          missing = filter (\<lambda>k. \<not> dhas k with_spec) (required_inputs inputs) in
      if unknown \<noteq> []
      then Inl (step_error sid ('' with keys are not declared inputs on the step definition: ''
             @ repr_json (JList (map JStr (sort unknown)))))
      else if missing \<noteq> []
      then Inl (step_error sid ('' missing required inputs: '' @ repr_json (JList (map JStr (sort missing)))))
      else case literal_errors E sid with_spec inputs of
        [] \<Rightarrow> Inr ()
      | m # _ \<Rightarrow> Inl (ValueError m))"

definition with_of :: "dict \<Rightarrow> dict" where
  "with_of d = coerce_dict (alias_get ''with'' ''with_spec'' d)"

definition dump_when :: "json \<Rightarrow> json" where
  "dump_when j = JObj [(''cel'', JStr (cel_of j))]"

definition hydrated_payload :: "dict \<Rightarrow> dict \<Rightarrow> dict \<Rightarrow> dict" where
  "hydrated_payload ref b capability =
     (let base = dset ''with'' (dump_with (JObj (with_of ref)))
                   (dset ''name'' (JStr (if stripped ''name'' ref \<noteq> [] then stripped ''name'' ref
                                         else display_title b))
                     (dset ''id'' (JStr (stripped ''id'' ref)) capability))
      in if dget ''when'' ref = JNull then base else dset ''when'' (dump_when (dget ''when'' ref)) base)"

definition hydrate_step_ref :: "env \<Rightarrow> dict \<Rightarrow> dict \<Rightarrow> exc + dict" where
  "hydrate_step_ref E ref b =
     and_then (validate_with_against_inputs E (stripped ''id'' ref) (with_of ref)
                 (coerce_dict (dget ''inputs'' b))) (\<lambda>_.
     and_then (apply_tighten_overrides (stripped ''id'' ref) (to_capability_dict b) ref (blueprint_kind b))
       (\<lambda>capability. parse_executable_step (hydrated_payload ref b capability)))"

fun map_checked :: "('a \<Rightarrow> 'e + 'b) \<Rightarrow> 'a list \<Rightarrow> 'e + 'b list" where
  "map_checked f [] = Inr []"
| "map_checked f (x # xs) = and_then (f x) (\<lambda>y. and_then (map_checked f xs) (\<lambda>ys. Inr (y # ys)))"

text \<open>The catalog steps a blueprint refers to, by name and version.\<close>

type_synonym step_catalog = "((string \<times> string) \<times> dict) list"

definition resolve_step :: "step_catalog \<Rightarrow> dict \<Rightarrow> dict" where
  "resolve_step loaded ref = the (map_of loaded (stripped ''use'' ref, stripped ''version'' ref))"

definition hydrate_authoring_node :: "env \<Rightarrow> step_catalog \<Rightarrow> dict \<Rightarrow> exc + dict" where
  "hydrate_authoring_node E loaded node =
     (if dget ''kind'' node = JStr ''use'' then hydrate_step_ref E node (resolve_step loaded node)
      else if is_loop_node node
      then and_then (map_checked (\<lambda>r. hydrate_step_ref E r (resolve_step loaded r)) (loop_refs node)) (\<lambda>body.
        Inr [(''kind'', JStr ''loop''), (''id'', JStr (stripped ''id'' node)), (''name'', dget ''name'' node),
             (''max_iterations'', dget ''max_iterations'' node), (''until'', dump_when (dget ''until'' node)),
             (''steps'', JList (map JObj body))])
      else Inr node)"

definition hydrate_authoring_blueprint :: "env \<Rightarrow> step_catalog \<Rightarrow> dict \<Rightarrow> exc + dict list" where
  "hydrate_authoring_blueprint E loaded authoring =
     and_then (map_checked (hydrate_authoring_node E loaded) (authoring_nodes authoring)) (\<lambda>steps.
     case blueprint_wiring_errors E steps of
       [] \<Rightarrow> Inr steps
     | locs \<Rightarrow> Inl (ValidationError locs))"

section \<open>The frozen form of a step\<close>

text \<open>\<open>model_dump_json(by_alias=True, exclude_none=True)\<close> of each step model.\<close>

definition dump_base_step :: "dict \<Rightarrow> dict" where
  "dump_base_step d =
     [(''id'', dget ''id'' d), (''name'', dget ''name'' d), (''worker'', dget ''worker'' d),
      (''worker_version'', dget ''worker_version'' d),
      (''step_definition_name'', dget ''step_definition_name'' d),
      (''step_definition_version'', dget ''step_definition_version'' d),
      (''inputs'', field_or ''inputs'' (JObj []) d), (''with'', dump_with (JObj (with_of d))),
      (''compensation'', dget ''compensation'' d),
      (''compensation_definition'', dget ''compensation_definition'' d),
      (''timeout_seconds'', field_or ''timeout_seconds'' (JInt 600) d),
      (''max_turns'', field_or ''max_turns'' (JInt 25) d), (''output_schema'', dget ''output_schema'' d),
      (''output_schema_definition'', dget ''output_schema_definition'' d), (''policy'', dget ''policy'' d),
      (''policy_definition'', dget ''policy_definition'' d), (''hitl'', field_or ''hitl'' (JBool False) d),
      (''hitl_max_retries'', dget ''hitl_max_retries'' d),
      (''hitl_retry_guidance'', dget ''hitl_retry_guidance'' d),
      (''resources'', null_map dump_resources_spec (dget ''resources'' d)),
      (''when'', null_map dump_when (dget ''when'' d)),
      (''on_failure'', null_map (\<lambda>j. JObj [(''strategy'', strategy_of j)]) (dget ''on_failure'' d)),
      (''kind'', dget ''kind'' d)]"

definition dump_worker_step :: "dict \<Rightarrow> dict" where
  "dump_worker_step d = drop_none (dump_base_step d @
     (if dget ''kind'' d = JStr ''reason''
      then [(''prompt'', dget ''prompt'' d), (''prompt_definition'', dget ''prompt_definition'' d),
            (''agent-adapter'', agent_adapter_of d), (''max_step_tokens'', dget ''max_step_tokens'' d),
            (''max_completion_tokens'', dget ''max_completion_tokens'' d),
            (''tools'', null_map dump_tools_spec (dget ''tools'' d)),
            (''skills'', null_map dump_skills_spec (dget ''skills'' d)),
            (''skills_definition'', dget ''skills_definition'' d),
            (''facts'', null_map (\<lambda>f. JList (map dump_fact (list_of f))) (dget ''facts'' d))]
      else [(''tools'', dump_tools_spec (dget ''tools'' d))]))"

definition dump_spawn_spec :: "json \<Rightarrow> json" where
  "dump_spawn_spec j = (let d = coerce_dict j in JObj (drop_none
     [(''saga_name'', JStr (stripped ''saga_name'' d)), (''saga_version'', JStr (stripped ''saga_version'' d)),
      (''items_from'', JStr (stripped ''items_from'' d)),
      (''item_var'', JStr (strip (str_of (field_or ''item_var'' (JStr ''item'') d)))),
      (''result_from'', JStr (stripped ''result_from'' d)), (''max_children'', dget ''max_children'' d),
      (''input'', dump_with (dget ''input'' d))]))"

definition dump_join_spec :: "json \<Rightarrow> json" where
  "dump_join_spec j = (let d = coerce_dict j in JObj
     [(''spawn_step_id'', JStr (stripped ''spawn_step_id'' d)),
      (''allow_zero_success'', field_or ''allow_zero_success'' (JBool True) d)])"

definition dump_native_step :: "dict \<Rightarrow> dict" where
  "dump_native_step d = drop_none
     [(''id'', dget ''id'' d), (''name'', dget ''name'' d),
      (''timeout_seconds'', field_or ''timeout_seconds'' (JInt 600) d),
      (''when'', null_map dump_when (dget ''when'' d)), (''kind'', dget ''kind'' d),
      (if dget ''kind'' d = JStr ''spawn_sagas'' then (''spawn'', dump_spawn_spec (dget ''spawn'' d))
       else (''join'', dump_join_spec (dget ''join'' d)))]"

definition is_worker_node :: "dict \<Rightarrow> bool" where
  "is_worker_node d \<longleftrightarrow> dget ''kind'' d = JStr ''reason'' \<or> dget ''kind'' d = JStr ''commit''"

section \<open>Embedding of assets\<close>

definition freeze_prompt_onto_step_dict :: "env \<Rightarrow> string \<Rightarrow> dict \<Rightarrow> asset_error + dict" where
  "freeze_prompt_onto_step_dict E pref out =
     (if root_unset (prompts_root E)
      then Inl (Asset_value ''prompts_root is not configured; set PROMPTS_ROOT to freeze reason-step prompts.'')
      else and_then (freeze_prompt_definition E (the_root (prompts_root E)) pref)
             (\<lambda>t. Inr (dset ''prompt_definition'' (JStr t) out)))"

definition freeze_skill_docs_for_step ::
  "env \<Rightarrow> string \<Rightarrow> string \<Rightarrow> string list \<Rightarrow> asset_error + json list" where
  "freeze_skill_docs_for_step E root worker_name ids = map_checked (\<lambda>i.
     and_then (load_skill_document E root worker_name i) (\<lambda>doc.
     and_then (assert_skill_document_complete doc i) (\<lambda>_.
     Inr (JObj (skill_document_to_definition doc))))) ids"

definition skill_ids_from_reason_step :: "dict \<Rightarrow> string list" where
  "skill_ids_from_reason_step d =
     filter (\<lambda>i. i \<noteq> []) (map (\<lambda>j. stripped ''name'' (coerce_dict j)) (allow_items (dget ''skills'' d)))"

definition embed_reason_prompt_and_skills :: "env \<Rightarrow> dict \<Rightarrow> dict \<Rightarrow> asset_error + dict" where
  "embed_reason_prompt_and_skills E d out =
     and_then (if stripped ''prompt'' d = [] then Inr out
               else freeze_prompt_onto_step_dict E (stripped ''prompt'' d) out) (\<lambda>out.
     let ids = skill_ids_from_reason_step d in
     if ids = [] then Inr out
     else if root_unset (skills_root E)
     then Inl (Asset_value ''skills_root is not configured; set SKILLS_ROOT to freeze skill payloads.'')
     else and_then (freeze_skill_docs_for_step E (strip (the_root (skills_root E))) (str_of (dget ''worker'' d)) ids)
            (\<lambda>docs. Inr (if docs = [] then out else dset ''skills_definition'' (JList docs) out)))"

definition set_dict_if :: "string \<Rightarrow> dict option \<Rightarrow> dict \<Rightarrow> dict" where
  "set_dict_if k v out = (case v of
     Some (e # es) \<Rightarrow> dset k (JObj (e # es)) out
   | _ \<Rightarrow> out)"

definition policy_artifact_dict :: "policy_artifact \<Rightarrow> json" where
  "policy_artifact_dict a = JObj [(''name'', JStr (pa_name a)), (''version'', JStr (pa_version a)),
     (''cel'', JStr (pa_cel a))]"

definition embed_worker_assets :: "env \<Rightarrow> dict \<Rightarrow> dict \<Rightarrow> asset_error + dict" where
  "embed_worker_assets E d out =
     and_then (load_compensation_definition E (str_opt (dget ''compensation'' d))) (\<lambda>comp.
     let out = set_dict_if ''compensation_definition'' comp out; policy_ref = stripped ''policy'' d in
     and_then (if policy_ref = [] then Inr out
               else and_then (load_policy_artifact E policy_ref)
                      (\<lambda>a. Inr (dset ''policy_definition'' (policy_artifact_dict a) out))) (\<lambda>out.
     and_then (load_output_schema E (str_opt (dget ''output_schema'' d))) (\<lambda>schema.
     let out = set_dict_if ''output_schema_definition'' schema out in
     if dget ''kind'' d = JStr ''reason'' then embed_reason_prompt_and_skills E d out else Inr out)))"

definition embed_resolved_assets_on_step_dict :: "env \<Rightarrow> dict \<Rightarrow> dict \<Rightarrow> exc + dict" where
  "embed_resolved_assets_on_step_dict E d out =
     (if \<not> is_worker_node d then Inr out
      else case embed_worker_assets E d out of
        Inr r \<Rightarrow> Inr r
      | Inl e \<Rightarrow> Inl (ValueError (''Failed to freeze step assets (id='' @ repr_json (dget ''id'' d) @ ''): ''
                       @ asset_text e)))"

text \<open>The dump of a node with its assets; the payload has the shape of the blueprint it is the dump
  of, so the index checks of \<open>embed_resolved_step_assets\<close> hold.\<close>

definition frozen_worker_step :: "env \<Rightarrow> dict \<Rightarrow> exc + dict" where
  "frozen_worker_step E d =
     embed_resolved_assets_on_step_dict E d (if is_worker_node d then dump_worker_step d else dump_native_step d)"

definition frozen_node :: "env \<Rightarrow> dict \<Rightarrow> exc + dict" where
  "frozen_node E d =
     (if is_loop_node d
      then and_then (map_checked (frozen_worker_step E) (loop_refs d)) (\<lambda>body.
        Inr (drop_none [(''kind'', JStr ''loop''), (''id'', JStr (stripped ''id'' d)),
          (''name'', dget ''name'' d), (''max_iterations'', dget ''max_iterations'' d),
          (''until'', dump_when (dget ''until'' d)), (''steps'', JList (map JObj body))]))
      else frozen_worker_step E d)"

section \<open>The catalog and the start\<close>

definition manifest_error :: "env \<Rightarrow> exc \<Rightarrow> exc" where
  "manifest_error E e = (case e of ValidationError locs \<Rightarrow> ValueError (manifest_text E locs) | _ \<Rightarrow> e)"

definition map_error :: "('e \<Rightarrow> 'e) \<Rightarrow> 'e + 'a \<Rightarrow> 'e + 'a" where
  "map_error f r = (case r of Inl e \<Rightarrow> Inl (f e) | Inr x \<Rightarrow> Inr x)"

definition load_step_blueprint ::
  "env \<Rightarrow> step_definition list \<Rightarrow> string \<Rightarrow> string \<times> string \<Rightarrow> exc + dict" where
  "load_step_blueprint E rows ns ref = (case ref of (name, version) \<Rightarrow>
     case rows_first (\<lambda>r. stdef_namespace r = ns \<and> stdef_name r = name \<and> stdef_version r = version) rows of
       None \<Rightarrow> Inl (CatalogDefinitionNotFound ''step'' ns name version)
     | Some r \<Rightarrow>
         if \<not> stdef_is_active r then Inl (InactiveCatalogDefinition ''step'' ns name version)
         else map_error (manifest_error E) (parse_step_blueprint (stdef_body r)))"

definition collect_authoring_step_refs :: "dict list \<Rightarrow> (string \<times> string) list" where
  "collect_authoring_step_refs nodes = rev (remdups (rev (concat (map (\<lambda>d.
     if dget ''kind'' d = JStr ''use'' then [(stripped ''use'' d, stripped ''version'' d)]
     else if is_loop_node d then map (\<lambda>r. (stripped ''use'' r, stripped ''version'' r)) (loop_refs d)
     else []) nodes))))"

text \<open>The loaded blueprints, and the labels of the missing and of the inactive steps.\<close>

fun load_refs ::
  "env \<Rightarrow> step_definition list \<Rightarrow> string \<Rightarrow> (string \<times> string) list \<Rightarrow>
   exc + step_catalog \<times> (string \<times> string) list \<times> (string \<times> string) list" where
  "load_refs E rows ns [] = Inr ([], [], [])"
| "load_refs E rows ns (ref # refs) =
     (case load_step_blueprint E rows ns ref of
        Inr b \<Rightarrow> and_then (load_refs E rows ns refs) (\<lambda>(ok, miss, inact). Inr ((ref, b) # ok, miss, inact))
      | Inl (CatalogDefinitionNotFound _ _ _ _) \<Rightarrow>
          and_then (load_refs E rows ns refs) (\<lambda>(ok, miss, inact). Inr (ok, ref # miss, inact))
      | Inl (InactiveCatalogDefinition _ _ _ _) \<Rightarrow>
          and_then (load_refs E rows ns refs) (\<lambda>(ok, miss, inact). Inr (ok, miss, ref # inact))
      | Inl e \<Rightarrow> Inl e)"

definition ref_label :: "string \<times> string \<Rightarrow> string" where
  "ref_label ref = fst ref @ ''@'' @ snd ref"

definition sorted_labels :: "(string \<times> string) list \<Rightarrow> string list" where
  "sorted_labels refs = sort (remdups (map ref_label refs))"

text \<open>\<open>label.split("@", 1)\<close> of the first label.\<close>

definition label_parts :: "string list \<Rightarrow> string \<times> string" where
  "label_parts labels = (case split_first ''@'' (hd labels) of None \<Rightarrow> ([], []) | Some p \<Rightarrow> p)"

definition load_catalog_for_authoring ::
  "env \<Rightarrow> step_definition list \<Rightarrow> string \<Rightarrow> dict list \<Rightarrow> exc + step_catalog" where
  "load_catalog_for_authoring E rows ns nodes =
     and_then (load_refs E rows ns (collect_authoring_step_refs nodes)) (\<lambda>(ok, miss, inact).
     if miss \<noteq> []
     then (let labels = sorted_labels miss
           in Inl (StepsNotRegistered ns (fst (label_parts labels)) (snd (label_parts labels)) labels))
     else if inact \<noteq> []
     then (let labels = sorted_labels inact
           in Inl (StepsInactive ns (fst (label_parts labels)) (snd (label_parts labels)) labels))
     else Inr ok)"

definition authoring_data_from_body :: "dict \<Rightarrow> string \<Rightarrow> string \<Rightarrow> string \<Rightarrow> string \<Rightarrow> dict" where
  "authoring_data_from_body body ns name version description =
     (let base = [(''kind'', JStr ''saga''), (''name'', JStr name), (''namespace'', JStr ns),
            (''version'', JStr version),
            (''description'', jor (JStr description) (jor (dget ''description'' body) (JStr []))),
            (''steps'', if is_list (dget ''steps'' body) then dget ''steps'' body else JList [])];
          over = fold (\<lambda>k acc. if dget k body \<noteq> JNull then dset k (dget k body) acc else acc)
            [''kind'', ''name'', ''namespace'', ''version'', ''description'', ''steps''] base
      in dset ''namespace'' (JStr ns) over)"

definition parse_authoring :: "env \<Rightarrow> dict \<Rightarrow> exc + dict" where
  "parse_authoring E d =
     (case authoring_errors E d of [] \<Rightarrow> Inr d | locs \<Rightarrow> Inl (ValueError (manifest_text E locs)))"

definition hydrate_authoring_body_to_frozen_steps ::
  "env \<Rightarrow> step_definition list \<Rightarrow> dict \<Rightarrow> string \<Rightarrow> string \<Rightarrow> string \<Rightarrow> string \<Rightarrow> exc + json list" where
  "hydrate_authoring_body_to_frozen_steps E rows body ns name version description =
     and_then (parse_authoring E (authoring_data_from_body body ns name version description)) (\<lambda>authoring.
     and_then (load_catalog_for_authoring E rows ns (authoring_nodes authoring)) (\<lambda>loaded.
     and_then (map_error (manifest_error E) (hydrate_authoring_blueprint E loaded authoring)) (\<lambda>steps.
     and_then (map_checked (frozen_node E) steps) (\<lambda>frozen. Inr (map JObj frozen)))))"

end
