(* ===== verification/SagaStart.thy ===== *)
theory SagaStart imports Hydrate Lifecycle begin

text \<open>
  Starting a saga from its definition (\<^verbatim>\<open>engine/api/saga_start.py\<close>): the definition
  pin, the idempotent replay of a start, and the creation of the instance with the rows of its first
  segment.
\<close>

definition executable_shell_ids :: "json list \<Rightarrow> string list" where
  "executable_shell_ids frozen = concat (map (\<lambda>raw. case raw of
     JObj d \<Rightarrow>
       (if dget ''kind'' d = JStr ''loop''
        then concat (map (\<lambda>b. case b of
               JObj s \<Rightarrow> (if truthy (dget ''id'' s) then [py_str (dget ''id'' s)] else [])
             | _ \<Rightarrow> []) (list_of (dget ''steps'' d)))
        else if truthy (dget ''id'' d) then [py_str (dget ''id'' d)] else [])
   | _ \<Rightarrow> []) frozen)"

definition step_shells :: "json list \<Rightarrow> dict" where
  "step_shells frozen = fold
     (\<lambda>sid acc. dset sid (JObj [(''output'', JObj [(''data'', JObj [])]), (''facts'', JObj [])]) acc)
     (executable_shell_ids frozen) []"

definition initial_context :: "dict \<Rightarrow> json list \<Rightarrow> json" where
  "initial_context input frozen =
     JObj [(''input'', JObj input), (''steps'', JObj (step_shells frozen)),
           (''loops'', JObj (initial_loops_context frozen))]"

definition resolve_idempotent_start ::
  "string \<Rightarrow> string \<Rightarrow> string option \<Rightarrow> string option M" where
  "resolve_idempotent_start ns def_id key = (case key of
     None \<Rightarrow> return None
   | Some k \<Rightarrow>
       bind (gets (\<lambda>db. rows_first (\<lambda>s. saga_namespace s = ns \<and> definition_id s = def_id
               \<and> start_idempotency_key s = Some k) (db_sagas db))) (\<lambda>same.
       case same of
         Some s \<Rightarrow> return (Some (trace_id s))
       | None \<Rightarrow>
           bind (gets (\<lambda>db. rows_first (\<lambda>s. saga_namespace s = ns
                   \<and> start_idempotency_key s = Some k) (db_sagas db))) (\<lambda>other.
           case other of
             Some s \<Rightarrow> (if definition_id s \<noteq> def_id
                        then raise (StartIdempotencyConflict ns k (definition_id s)) else return None)
           | None \<Rightarrow> return None)))"

definition require_saga_definition :: "string \<Rightarrow> string \<Rightarrow> string \<Rightarrow> saga_definition M" where
  "require_saga_definition ns name version =
     bind (gets (\<lambda>db. rows_first (\<lambda>d. sdef_namespace d = ns \<and> sdef_name d = name
             \<and> sdef_version d = version) (db_saga_defs db))) (\<lambda>found.
     case found of
       None \<Rightarrow> raise (CatalogDefinitionNotFound ''saga'' ns name version)
     | Some d \<Rightarrow> (if sdef_is_active d then return d
                  else raise (InactiveCatalogDefinition ''saga'' ns name version)))"

definition saga_row ::
  "string \<Rightarrow> saga_definition \<Rightarrow> string \<Rightarrow> dict \<Rightarrow> json list \<Rightarrow> dict \<Rightarrow> json \<Rightarrow>
   string option \<Rightarrow> string option \<Rightarrow> int \<Rightarrow> saga" where
  "saga_row tid d ns input frozen loop_defs lstate key parent now =
     \<lparr>trace_id = tid, saga_namespace = ns, definition_id = sdef_id d,
      definition_name = Some (sdef_name d), definition_version = Some (sdef_version d),
      saga_status = Saga_PENDING, saga_context = initial_context input frozen,
      frozen_steps = JList frozen, loop_definitions = JObj loop_defs, loop_state = lstate,
      start_idempotency_key = key, parent_trace_id = parent, saga_started_at = now\<rparr>"

definition create_saga_and_steps ::
  "env \<Rightarrow> saga_definition \<Rightarrow> string \<Rightarrow> string \<Rightarrow> string \<Rightarrow> dict \<Rightarrow> string option \<Rightarrow>
   string option \<Rightarrow> string M" where
  "create_saga_and_steps E d ns name version input key parent =
     (if \<not> is_dict (sdef_body d)
      then raise (ValueError (''Saga definition '' @ repr_str name @ ''@'' @ version
             @ '' body must be a mapping (authoring AST)''))
      else
        bind (gets db_step_defs) (\<lambda>catalog.
        bind (of_sum (hydrate_authoring_body_to_frozen_steps E catalog (coerce_dict (sdef_body d)) ns name
                        version (str_or (dget ''description'' (coerce_dict (sdef_body d))) []))) (\<lambda>frozen.
        bind (of_sum (take_initial_materialization_segment frozen)) (\<lambda>(segment, next, active).
        bind (of_sum (build_loop_definitions frozen)) (\<lambda>loop_defs.
        bind (uuid4_hex (uuid_hex E)) (\<lambda>tid.
        bind (gets db_now) (\<lambda>now.
        let sg = saga_row tid d ns input frozen loop_defs (loop_state_of next active) key parent now in
        seq (create_saga sg)
        (seq (hook (On_saga_created tid (length segment)))
        (bind (materialize_executable_steps E sg segment 0 0) (\<lambda>_.
        seq (emit_saga_payload E ns tid SAGA_STARTED ''PENDING'' [])
        (return tid)))))))))))"

definition start_saga ::
  "env \<Rightarrow> string \<Rightarrow> string \<Rightarrow> string \<Rightarrow> dict \<Rightarrow> string option \<Rightarrow> (string \<times> bool) M" where
  "start_saga E ns name version input key =
     bind (require_saga_definition ns name version) (\<lambda>d0.
     bind (resolve_idempotent_start ns (sdef_id d0) key) (\<lambda>existing0.
     case existing0 of
       Some tid \<Rightarrow> return (tid, False)
     | None \<Rightarrow>
         in_transaction
           (bind (require_saga_definition ns name version) (\<lambda>d.
            bind (resolve_idempotent_start ns (sdef_id d) key) (\<lambda>existing.
            case existing of
              Some tid \<Rightarrow> return (tid, False)
            | None \<Rightarrow>
                bind (create_saga_and_steps E d ns name version input key None)
                  (\<lambda>tid. return (tid, True)))))))"

end
