(* ===== verification/Schedule.thy ===== *)
theory Schedule imports Compensation SagaStart begin

text \<open>
  The forward run of a saga (\<^verbatim>\<open>engine/logic.py\<close>, \<^verbatim>\<open>engine/loop_control.py\<close>,
  \<^verbatim>\<open>engine/child_sagas.py\<close>): completion, the end of a loop body, the spawning and
  joining of children, the dispatch of a step and the choice of the next one.
\<close>

section \<open>Completion\<close>

definition handle_saga_completion :: "env \<Rightarrow> callbacks \<Rightarrow> string \<Rightarrow> unit M" where
  "handle_saga_completion E K tid =
     bind (the_saga tid) (\<lambda>sg.
     if saga_status sg = Saga_COMPLETED then skip
     else
       seq (transition_saga tid Saga_COMPLETED (Some ''saga.completed'') None)
       (seq (notify_unreachable_steps_skipped tid ''saga_completed'')
       (bind (gets db_now) (\<lambda>now.
        seq (emit_saga_payload E (saga_namespace sg) tid SAGA_COMPLETED ''SAGA_COMPLETED''
               [(''completed_at'', stamp now), (''outcome'', JStr ''Success'')])
            (cb_terminal K tid)))))"

section \<open>The end of a loop body\<close>

definition max_forward_seq :: "string \<Rightarrow> db \<Rightarrow> int" where
  "max_forward_seq tid db =
     (case rows_max forward_seq (filter (\<lambda>s. saga_trace_id s = tid \<and> is_forward s) (db_steps db)) of
        None \<Rightarrow> - 1 | Some s \<Rightarrow> forward_seq s)"

definition mint_and_schedule :: "env \<Rightarrow> callbacks \<Rightarrow> string \<Rightarrow> dict list \<Rightarrow> unit M" where
  "mint_and_schedule E K tid specs =
     bind (the_saga tid) (\<lambda>sg.
     bind (gets (max_forward_seq tid)) (\<lambda>m.
     bind (materialize_executable_steps E sg specs (m + 1) (m + 1)) (\<lambda>created.
     case created of
       [] \<Rightarrow> raise IndexError
     | row # _ \<Rightarrow> cb_schedule K tid (forward_seq row - 1))))"

definition loop_context :: "saga \<Rightarrow> dict" where
  "loop_context sg = (if truthy (saga_context sg) then coerce_dict (saga_context sg)
     else [(''input'', JObj []), (''steps'', JObj []), (''loops'', JObj [])])"

definition save_loop_status :: "string \<Rightarrow> string \<Rightarrow> int \<Rightarrow> string \<Rightarrow> int option \<Rightarrow> unit M" where
  "save_loop_status tid lid it status max_it =
     save_saga tid (\<lambda>g. g\<lparr>saga_context :=
       JObj (set_loop_context_status (loop_context g) lid it status max_it)\<rparr>)"

definition fail_saga_after_successful_body ::
  "env \<Rightarrow> callbacks \<Rightarrow> string \<Rightarrow> step \<Rightarrow> dict \<Rightarrow> unit M" where
  "fail_saga_after_successful_body E K tid s details =
     seq (transition_saga tid Saga_COMPENSATING (Some ''saga.compensating'')
            (Some (str_or (dget ''code'' details) ''loop_terminal'')))
     (seq (save_step (span_id s) (\<lambda>r. r\<lparr>error_details :=
             (if truthy (error_details r) then error_details r else JObj details)\<rparr>))
     (trigger_compensation E K tid (forward_seq s)))"

definition exit_loop :: "env \<Rightarrow> callbacks \<Rightarrow> string \<Rightarrow> step \<Rightarrow> string \<Rightarrow> int \<Rightarrow> int \<Rightarrow> unit M" where
  "exit_loop E K tid s lid it max_it =
     seq (save_loop_status tid lid it ''exited'' (Some max_it))
     (bind (the_saga tid) (\<lambda>sg.
     let from_index = int_or (dget ''next_blueprint_index'' (coerce_dict (loop_state sg))) 0 in
     bind (of_sum (take_next_materialization_segment (list_of (frozen_steps sg)) (nat from_index)))
       (\<lambda>(segment, next, active).
     seq (save_saga tid (\<lambda>g. g\<lparr>loop_state := loop_state_of next active\<rparr>))
     (if segment = [] then cb_schedule K tid (forward_seq s)
      else
        seq (case active of
               Some l \<Rightarrow> when_do (l \<noteq> []) (save_loop_status tid l 1 ''running'' None)
             | None \<Rightarrow> skip)
            (mint_and_schedule E K tid segment)))))"

definition continue_loop ::
  "env \<Rightarrow> callbacks \<Rightarrow> string \<Rightarrow> dict \<Rightarrow> string \<Rightarrow> int \<Rightarrow> int \<Rightarrow> unit M" where
  "continue_loop E K tid loop_def lid next_it max_it =
     seq (save_loop_status tid lid next_it ''running'' (Some max_it))
     (bind (of_sum (mint_loop_iteration_body loop_def next_it)) (mint_and_schedule E K tid))"

definition loop_failure :: "string \<Rightarrow> string \<Rightarrow> string \<Rightarrow> int \<Rightarrow> dict \<Rightarrow> dict" where
  "loop_failure code m lid it extra =
     [(''code'', JStr code), (''message'', JStr m), (''loop_id'', JStr lid), (''iteration'', JInt it)] @ extra"

text \<open>The value says whether scheduling has been taken over.\<close>

definition handle_possible_loop_boundary :: "env \<Rightarrow> callbacks \<Rightarrow> string \<Rightarrow> step \<Rightarrow> bool M" where
  "handle_possible_loop_boundary E K tid s =
     bind (the_saga tid) (\<lambda>sg.
     let lid = opt_text (loop_id s); entry = dget lid (coerce_dict (loop_definitions sg)) in
     if lid = [] \<or> \<not> is_dict entry then return False
     else let loop_def = coerce_dict entry in
     if \<not> is_last_body_step s loop_def then return False
     else
       let it = (case iteration s of None \<Rightarrow> 1 | Some i \<Rightarrow> if i = 0 then 1 else i);
           max_it = int_or (dget ''max_iterations'' loop_def) 1;
           until = strip (str_or (dget ''until_cel'' loop_def) [])
       in case evaluate_until E until (until_binding sg lid it max_it) of
            Inl e \<Rightarrow>
              seq (save_loop_status tid lid it ''exhausted'' (Some max_it))
              (seq (fail_saga_after_successful_body E K tid s
                      (loop_failure ''UNTIL_EVALUATION_FAILED'' (exc_text E e) lid it []))
              (return True))
          | Inr True \<Rightarrow> seq (exit_loop E K tid s lid it max_it) (return True)
          | Inr False \<Rightarrow>
              if it \<ge> max_it
              then
                seq (save_loop_status tid lid it ''exhausted'' (Some max_it))
                (seq (fail_saga_after_successful_body E K tid s
                        (loop_failure ''LOOP_EXHAUSTED''
                           (''Loop '' @ repr_str lid @ '' reached max_iterations='' @ show_int max_it
                            @ '' without until.cel becoming true'') lid it
                           [(''max_iterations'', JInt max_it)]))
                (return True))
              else seq (continue_loop E K tid loop_def lid (it + 1) max_it) (return True))"

section \<open>Completing a step\<close>

definition merge_step_context :: "string \<Rightarrow> json \<Rightarrow> saga \<Rightarrow> json" where
  "merge_step_context sid output g =
     (let context = (if truthy (saga_context g) then coerce_dict (saga_context g)
                     else [(''input'', JObj []), (''steps'', JObj [])])
      in JObj (dset ''steps''
           (JObj (dset sid (step_context_entry_for_saga output) (coerce_dict (dget ''steps'' context))))
           context))"

definition finalize_step_output_and_advance ::
  "env \<Rightarrow> callbacks \<Rightarrow> string \<Rightarrow> string \<Rightarrow> json \<Rightarrow> unit M" where
  "finalize_step_output_and_advance E K tid sid output =
     (let normalized = step_output_for_saga_context output in
      bind (the_step sid) (\<lambda>s.
      bind (gets db_now) (\<lambda>now.
      seq (save_step sid (\<lambda>r. r\<lparr>step_status := Step_COMPLETED, output_payload := normalized,
             pending_review_payload := JNull, end_time := Some now\<rparr>))
      (seq (hook (On_step_transition sid (step_status s) Step_COMPLETED (Some ''step.completed'') None None
              (Some (hash_canonical_dict E (coerce_dict normalized)))))
      (seq (save_saga tid (\<lambda>g. g\<lparr>saga_context := merge_step_context (step_id s) output g\<rparr>))
      (seq (resume_saga_running_from_hitl tid ''step_completed_after_hitl'')
      (bind (handle_possible_loop_boundary E K tid s) (\<lambda>handled.
       when_do (\<not> handled) (cb_schedule K tid (forward_seq s))))))))))"

section \<open>Spawning child sagas\<close>

definition is_value_error :: "exc \<Rightarrow> bool" where
  "is_value_error e = (case e of ValueError _ \<Rightarrow> True | ValidationError _ \<Rightarrow> True | _ \<Rightarrow> False)"

fun py_type_name :: "json \<Rightarrow> string" where
  "py_type_name JNull = ''NoneType''"
| "py_type_name (JBool b) = ''bool''"
| "py_type_name (JInt i) = ''int''"
| "py_type_name (JFloat f) = ''float''"
| "py_type_name (JStr s) = ''str''"
| "py_type_name (JList xs) = ''list''"
| "py_type_name (JObj d) = ''dict''"

definition child_start_idempotency_key :: "env \<Rightarrow> string \<Rightarrow> string \<Rightarrow> string \<Rightarrow> string" where
  "child_start_idempotency_key E ptid spawn_id item_id =
     take 256 (sha256_hex E (ptid @ '':'' @ spawn_id @ '':'' @ item_id))"

definition jsonpath_first :: "env \<Rightarrow> json \<Rightarrow> string \<Rightarrow> json" where
  "jsonpath_first E document path =
     (case jsonpath E path document of Some (v # _) \<Rightarrow> v | _ \<Rightarrow> JNull)"

definition resolve_items_from_context :: "env \<Rightarrow> string \<Rightarrow> json \<Rightarrow> exc + json list" where
  "resolve_items_from_context E items_from context =
     (case jsonpath_first E context items_from of
        JNull \<Rightarrow> Inr []
      | JList xs \<Rightarrow> Inr xs
      | v \<Rightarrow> Inl (ValueError (''items_from '' @ repr_str items_from
               @ '' must resolve to a list, got '' @ py_type_name v)))"

fun validated_items :: "nat \<Rightarrow> json list \<Rightarrow> exc + (string \<times> json) list" where
  "validated_items i [] = Inr []"
| "validated_items i (raw # items) =
     (case raw of
        JObj d \<Rightarrow>
          (case dget ''id'' d of
             JStr s \<Rightarrow>
               (if strip s = []
                then Inl (ValueError (''SPAWN_ITEM_MISSING_ID: item at index '' @ show_nat i
                            @ '' requires a non-empty string id''))
                else (case validated_items (Suc i) items of
                        Inl e \<Rightarrow> Inl e | Inr vs \<Rightarrow> Inr ((strip s, raw) # vs)))
           | _ \<Rightarrow> Inl (ValueError (''SPAWN_ITEM_MISSING_ID: item at index '' @ show_nat i
                    @ '' requires a non-empty string id'')))
      | _ \<Rightarrow> Inl (ValueError (''SPAWN_ITEM_MISSING_ID: item at index '' @ show_nat i
               @ '' must be an object with string id'')))"

definition validate_spawn_items :: "json list \<Rightarrow> int option \<Rightarrow> exc + (string \<times> json) list" where
  "validate_spawn_items items max_children =
     (let cap = (case max_children of None \<Rightarrow> MAX_CHILDREN_HARD_CAP | Some m \<Rightarrow> m) in
      if items = [] then Inl (ValueError ''SPAWN_EMPTY_ITEMS: items_from resolved to an empty list'')
      else if int (length items) > cap
      then Inl (ValueError (''TOO_MANY_CHILDREN: '' @ show_nat (length items)
                  @ '' items exceeds max_children='' @ show_int cap))
      else validated_items 0 items)"

definition build_child_resolve_context :: "json \<Rightarrow> json \<Rightarrow> string \<Rightarrow> json" where
  "build_child_resolve_context parent_context item item_var =
     (let var = strip (if item_var = [] then ''item'' else item_var) in
      JObj (dset (if var = [] then ''item'' else var) item
             (dset ''item'' item (coerce_dict parent_context))))"

definition frozen_step_spec :: "saga \<Rightarrow> string \<Rightarrow> dict option" where
  "frozen_step_spec sg sid = map_option coerce_dict
     (rows_first (\<lambda>raw. is_dict raw \<and> dget ''id'' (coerce_dict raw) = JStr sid)
        (list_of (frozen_steps sg)))"

text \<open>\<open>parse_spawn_step\<close> and \<open>parse_join_step\<close>: the step's own block.\<close>

definition parse_native_step :: "string \<Rightarrow> string \<Rightarrow> string \<Rightarrow> saga \<Rightarrow> string \<Rightarrow> exc + dict" where
  "parse_native_step word kind block sg sid = (case frozen_step_spec sg sid of
     None \<Rightarrow> Inl (ValueError (word @ '' step '' @ repr_str sid @ '' not found in frozen_steps''))
   | Some raw \<Rightarrow> (case parse_executable_step raw of
        Inl e \<Rightarrow> Inl e
      | Inr m \<Rightarrow> (if dget ''kind'' m = JStr kind then Inr (coerce_dict (dget block m))
                 else Inl (ValueError (''step '' @ repr_str sid @ '' is not kind '' @ kind)))))"

definition parse_spawn_step :: "saga \<Rightarrow> string \<Rightarrow> exc + dict" where
  "parse_spawn_step sg sid = parse_native_step ''spawn'' ''spawn_sagas'' ''spawn'' sg sid"

definition parse_join_step :: "saga \<Rightarrow> string \<Rightarrow> exc + dict" where
  "parse_join_step sg sid = parse_native_step ''join'' ''join_sagas'' ''join'' sg sid"

definition spawn_validation_error_code :: "string \<Rightarrow> string" where
  "spawn_validation_error_code m =
     (case rows_first (\<lambda>known. contains_str known m)
             [''SPAWN_EMPTY_ITEMS'', ''TOO_MANY_CHILDREN'', ''SPAWN_ITEM_MISSING_ID'',
              ''SPAWN_RESULT_FROM_REQUIRED''] of
        Some known \<Rightarrow> known | None \<Rightarrow> ''SPAWN_VALIDATION_ERROR'')"

definition fail_spawn_step ::
  "env \<Rightarrow> callbacks \<Rightarrow> string \<Rightarrow> string \<Rightarrow> string \<Rightarrow> string \<Rightarrow> unit M" where
  "fail_spawn_step E K tid sid code m =
     bind (the_saga tid) (\<lambda>sg. fail_step E K (saga_namespace sg) tid sid (code_message code m) JNull)"

definition spawn_plan :: "env \<Rightarrow> saga \<Rightarrow> string \<Rightarrow> exc + dict \<times> (string \<times> json) list" where
  "spawn_plan E sg sid = (case parse_spawn_step sg sid of
     Inl e \<Rightarrow> Inl e
   | Inr spec \<Rightarrow>
       (case resolve_items_from_context E (strip (str_of (dget ''items_from'' spec)))
               (jor (saga_context sg) (JObj [])) of
          Inl e \<Rightarrow> Inl e
        | Inr items \<Rightarrow>
            (case validate_spawn_items items (int_opt (dget ''max_children'' spec)) of
               Inl e \<Rightarrow> Inl e | Inr vs \<Rightarrow> Inr (spec, vs))))"

definition spawn_child_input :: "env \<Rightarrow> saga \<Rightarrow> dict \<Rightarrow> json \<Rightarrow> dict" where
  "spawn_child_input E sg spec item =
     fst (resolve_parameters_spec E
       (map (\<lambda>(k, e). (k, JObj (drop_none (coerce_dict e)))) (coerce_dict (dget ''input'' spec)))
       (build_child_resolve_context (jor (saga_context sg) (JObj [])) item
         (if dhas ''item_var'' spec then strip (str_of (dget ''item_var'' spec)) else ''item'')))"

definition spawn_one_child :: "env \<Rightarrow> saga \<Rightarrow> step \<Rightarrow> dict \<Rightarrow> string \<times> json \<Rightarrow> json M" where
  "spawn_one_child E sg s spec vi =
     (let (item_id, item) = vi;
          name = strip (str_of (dget ''saga_name'' spec));
          version = strip (str_of (dget ''saga_version'' spec));
          key = child_start_idempotency_key E (trace_id sg) (step_id s) item_id
      in bind (require_saga_definition (saga_namespace sg) name version) (\<lambda>d.
         bind (resolve_idempotent_start (saga_namespace sg) (sdef_id d) (Some key)) (\<lambda>existing.
         bind (case existing of
                 Some tid \<Rightarrow> return tid
               | None \<Rightarrow> create_saga_and_steps E d (saga_namespace sg) name version
                           (spawn_child_input E sg spec item) (Some key) (Some (trace_id sg))) (\<lambda>ctid.
         bind (gets (\<lambda>db. \<exists>c\<in>set (db_children db). child_idempotency_key c = key)) (\<lambda>linked.
         seq (when_do (\<not> linked)
               (create_child \<lparr>child_namespace = saga_namespace sg, child_parent_trace_id = trace_id sg,
                  child_spawn_step_id = step_id s, child_spawn_span_id = span_id s,
                  child_item_id = item_id, child_trace_id = ctid, child_idempotency_key = key\<rparr>))
         (return (JObj [(''item_id'', JStr item_id), (''child_trace_id'', JStr ctid)])))))))"

definition spawn_failure_code :: "exc \<Rightarrow> string option" where
  "spawn_failure_code e = (case e of
     InactiveCatalogDefinition kind _ _ _ \<Rightarrow>
       Some (if kind = ''saga'' then ''SPAWN_CHILD_DEFINITION_INACTIVE'' else ''SPAWN_CHILD_HYDRATE_FAILED'')
   | CatalogDefinitionNotFound kind _ _ _ \<Rightarrow>
       Some (if kind = ''saga'' then ''SPAWN_CHILD_DEFINITION_NOT_FOUND'' else ''SPAWN_CHILD_HYDRATE_FAILED'')
   | StepsNotRegistered _ _ _ _ \<Rightarrow> Some ''SPAWN_CHILD_HYDRATE_FAILED''
   | StepsInactive _ _ _ _ \<Rightarrow> Some ''SPAWN_CHILD_HYDRATE_FAILED''
   | _ \<Rightarrow> if is_value_error e then Some ''SPAWN_CHILD_HYDRATE_FAILED'' else None)"

definition execute_spawn_sagas :: "env \<Rightarrow> callbacks \<Rightarrow> string \<Rightarrow> string \<Rightarrow> unit M" where
  "execute_spawn_sagas E K tid sid =
     bind (the_saga tid) (\<lambda>sg.
     bind (the_step sid) (\<lambda>s.
     case spawn_plan E sg (step_id s) of
       Inl e \<Rightarrow>
         (if is_value_error e
          then fail_spawn_step E K tid sid (spawn_validation_error_code (exc_text E e)) (exc_text E e)
          else raise e)
     | Inr (spec, items) \<Rightarrow>
         bind (try_except
                 (bind (in_transaction (map_m (spawn_one_child E sg s spec) items))
                       (\<lambda>children. return (Some children)))
                 (\<lambda>e. case spawn_failure_code e of
                         Some code \<Rightarrow> seq (fail_spawn_step E K tid sid code (exc_text E e)) (return None)
                       | None \<Rightarrow> raise e)) (\<lambda>outcome.
         case outcome of
           None \<Rightarrow> skip
         | Some children \<Rightarrow>
             finalize_step_output_and_advance E K tid sid
               (wrap_step_output_data (JObj [(''spawned'', JInt (int (length children))),
                                             (''children'', JList children)])))))"

section \<open>Joining child sagas\<close>

definition summarize_join_children :: "string list \<Rightarrow> int \<times> int \<times> int" where
  "summarize_join_children statuses =
     (int (length statuses),
      int (length (filter (\<lambda>s. s = ''COMPLETED'') statuses)),
      int (length (filter (\<lambda>s. s \<in> {''FAILED'', ''COMPENSATED''}) statuses)))"

definition child_error_details :: "saga \<Rightarrow> db \<Rightarrow> json" where
  "child_error_details child db =
     (let status = saga_status_value (saga_status child);
          fallback = code_message status (''Child saga ended with status '' @ status)
      in case rows_max forward_seq (filter (\<lambda>s. saga_trace_id s = trace_id child \<and> is_forward s
                \<and> step_status s \<in> {Step_FAILED, Step_TIMED_OUT}) (db_steps db)) of
           Some s \<Rightarrow> (if is_dict (error_details s) then error_details s else fallback)
         | None \<Rightarrow> fallback)"

text \<open>The payload entry of one link, with the status counted in the summary.\<close>

definition join_child_entry :: "env \<Rightarrow> string \<Rightarrow> db \<Rightarrow> saga_child \<Rightarrow> json \<times> string" where
  "join_child_entry E result_from db link = (case find_saga (child_trace_id link) db of
     None \<Rightarrow>
       (JObj [(''item_id'', JStr (child_item_id link)),
          (''child_trace_id'', JStr (child_trace_id link)), (''status'', JStr ''FAILED''),
          (''output'', JNull),
          (''error'', code_message ''CHILD_MISSING'' (''Child saga '' @ child_trace_id link @ '' not found''))],
        ''FAILED'')
   | Some child \<Rightarrow>
       (let status = saga_status_value (saga_status child) in
        (JObj [(''item_id'', JStr (child_item_id link)), (''child_trace_id'', JStr (trace_id child)),
           (''status'', JStr status),
           (''output'', if status = ''COMPLETED''
                        then jsonpath_first E (jor (saga_context child) (JObj [])) result_from else JNull),
           (''error'', if status = ''COMPLETED'' then JNull else child_error_details child db)],
         status)))"

definition build_join_payload :: "env \<Rightarrow> saga \<Rightarrow> string \<Rightarrow> db \<Rightarrow> exc + (dict \<times> int)" where
  "build_join_payload E parent join_step_id db = (case parse_join_step parent join_step_id of
     Inl e \<Rightarrow> Inl e
   | Inr join \<Rightarrow>
       (let spawn_id = strip (str_of (dget ''spawn_step_id'' join)) in
        case parse_spawn_step parent spawn_id of
          Inl e \<Rightarrow> Inl e
        | Inr spawn \<Rightarrow>
            (let rows = map (join_child_entry E (strip (str_of (dget ''result_from'' spawn))) db)
                          (spawn_links (saga_namespace parent) (trace_id parent) spawn_id db);
                 (total, succeeded, failed) = summarize_join_children (map snd rows)
             in Inr ([(''summary'', JObj [(''total'', JInt total), (''succeeded'', JInt succeeded),
                         (''failed'', JInt failed)]),
                      (''children'', JList (map fst rows))], succeeded))))"

definition try_complete_join :: "env \<Rightarrow> callbacks \<Rightarrow> string \<Rightarrow> string \<Rightarrow> bool M" where
  "try_complete_join E K tid jsid =
     bind (the_saga tid) (\<lambda>parent.
     bind (the_step jsid) (\<lambda>j.
     if step_status j \<noteq> Step_IN_PROGRESS then return False
     else bind (of_sum (parse_join_step parent (step_id j))) (\<lambda>join.
       bind (gets (load_spawn_children (saga_namespace parent) tid
                     (strip (str_of (dget ''spawn_step_id'' join))))) (\<lambda>children.
       if \<not> all_children_terminal children then return False
       else bind (gets (build_join_payload E parent (step_id j))) (\<lambda>built.
         bind (of_sum built) (\<lambda>(payload, succeeded).
         if \<not> (dhas ''allow_zero_success'' join \<longrightarrow> bool_of (dget ''allow_zero_success'' join))
            \<and> succeeded = 0
         then seq (fail_step E K (saga_namespace parent) tid jsid
                (JObj [(''code'', JStr ''ALL_CHILDREN_FAILED''),
                       (''message'', JStr ''join_sagas: no children completed successfully''),
                       (''summary'', dget ''summary'' payload)]) JNull) (return True)
         else seq (finalize_step_output_and_advance E K tid jsid (wrap_step_output_data (JObj payload)))
                (return True)))))))"

definition park_or_complete_join :: "env \<Rightarrow> callbacks \<Rightarrow> string \<Rightarrow> string \<Rightarrow> unit M" where
  "park_or_complete_join E K tid sid = bind (try_complete_join E K tid sid) (\<lambda>_. skip)"

section \<open>A child has ended\<close>

definition resumable_spawn :: "string \<Rightarrow> db \<Rightarrow> step option" where
  "resumable_spawn ptid db =
     rows_max forward_seq (filter (\<lambda>s. saga_trace_id s = ptid \<and> step_kind s = ''spawn_sagas''
       \<and> is_forward s \<and> forward_eligible_for_compensation s) (db_steps db))"

definition maybe_resume_spawn_compensation :: "env \<Rightarrow> callbacks \<Rightarrow> string \<Rightarrow> unit M" where
  "maybe_resume_spawn_compensation E K ptid =
     bind (the_saga ptid) (\<lambda>parent.
     if saga_status parent \<noteq> Saga_COMPENSATING then skip
     else bind (gets (resumable_spawn ptid)) (\<lambda>found.
       case found of
         None \<Rightarrow> skip
       | Some f \<Rightarrow>
           bind (gets (undo_row_status_exists ptid (span_id f) Step_COMPENSATED)) (\<lambda>already.
           if already then skip
           else bind (compensate_spawn_sagas_forward E
                        (advance_lifo_compensation E K ptid (forward_seq f - 1)) ptid f) (\<lambda>_. skip))))"

definition parked_join :: "string \<Rightarrow> db \<Rightarrow> step option" where
  "parked_join ptid db = rows_first (\<lambda>s. saga_trace_id s = ptid \<and> step_kind s = ''join_sagas''
     \<and> step_status s = Step_IN_PROGRESS \<and> is_forward s) (db_steps db)"

definition on_child_saga_terminal :: "env \<Rightarrow> callbacks \<Rightarrow> string \<Rightarrow> unit M" where
  "on_child_saga_terminal E K ctid =
     bind (the_saga ctid) (\<lambda>child.
     let ptid = opt_text (parent_trace_id child) in
     if ptid = [] then skip
     else bind (gets (find_saga ptid)) (\<lambda>parent.
       if parent = None then skip
       else
         bind (gets (parked_join ptid)) (\<lambda>join.
         seq (case join of
                None \<Rightarrow> skip
              | Some j \<Rightarrow> bind (try_complete_join E K ptid (span_id j)) (\<lambda>_. skip))
         (bind (the_saga ptid) (\<lambda>p.
          when_do (saga_status p = Saga_COMPENSATING) (maybe_resume_spawn_compensation E K ptid))))))"

end
