(* ===== verification/Dispatch.thy ===== *)
theory Dispatch imports Schedule begin

text \<open>
  Dispatching a step (\<open>trigger_step\<close> of \<^verbatim>\<open>engine/logic.py\<close> with the building
  of its worker command, the policy gate before a commit and the hold for review) and choosing the
  next one (\<open>_schedule_next_forward_step\<close>); the knot of the engine's recursion, tied with
  fuel, is at the end.
\<close>

section \<open>Building a worker command\<close>

definition fail_commit_on_policy ::
  "env \<Rightarrow> callbacks \<Rightarrow> string \<Rightarrow> string \<Rightarrow> string \<Rightarrow> string \<Rightarrow> bool M" where
  "fail_commit_on_policy E K tid sid code m =
     bind (the_saga tid) (\<lambda>sg.
     seq (fail_step E K (saga_namespace sg) tid sid (code_message code m) JNull) (return True))"

definition or_text :: "string option \<Rightarrow> string \<Rightarrow> string" where
  "or_text s dflt = (if opt_text s = [] then dflt else opt_text s)"

definition commit_policy_stopped_step ::
  "env \<Rightarrow> callbacks \<Rightarrow> string \<Rightarrow> string \<Rightarrow> dict \<Rightarrow> json list \<Rightarrow> bool M" where
  "commit_policy_stopped_step E K tid sid args tools =
     bind (the_saga tid) (\<lambda>sg.
     bind (the_step sid) (\<lambda>s.
     let pn = strip (opt_text (policy_name s)); pd = step_policy_definition s in
     if \<not> step_has_policy_gate pn pd then return False
     else
       bind (run_policy_gate E pn ''before_commit''
               (policy_binding ''before_commit'' sg s (JObj args) JNull tools)
               ''POLICY_COMMIT_DENIED'' sid pd) (\<lambda>gate.
       case gate_outcome gate of
         Gate_ERRORED \<Rightarrow> fail_commit_on_policy E K tid sid
             (or_text (gate_error_code gate) ''POLICY_EVALUATION_FAILED'')
             (or_text (gate_error_message gate) ''policy evaluation failed'')
       | Gate_DENIED \<Rightarrow> fail_commit_on_policy E K tid sid ''POLICY_COMMIT_DENIED''
             ''policy cel returned false; commit not allowed''
       | Gate_PASSED \<Rightarrow> return False)))"

definition commit_command :: "saga \<Rightarrow> step \<Rightarrow> json list \<Rightarrow> exc + command" where
  "commit_command sg s tools =
     make_command \<lparr>cmd_type = DO_COMMIT, cmd_namespace = saga_namespace sg, cmd_trace = trace_id sg,
       cmd_span = span_id s, cmd_worker_name = worker s, cmd_worker_version = worker_version s,
       cmd_key = idempotency_key s, cmd_prompt_ref = JNull,
       cmd_arguments = jor (resolved_arguments s) (JObj []), cmd_tool_specs = slim_tool_specs tools,
       cmd_resource_specs = JList (list_of (resources_allow s)), cmd_skill_specs = JList [],
       cmd_forward_span = [], cmd_failure_reason = JNull, cmd_worker_snapshot = JNull\<rparr>"

definition build_commit_worker_command ::
  "env \<Rightarrow> callbacks \<Rightarrow> string \<Rightarrow> string \<Rightarrow> dict \<Rightarrow> json list \<Rightarrow> command option M" where
  "build_commit_worker_command E K tid sid args tools =
     (if length tools \<noteq> 1
      then raise (ValueError (''Commit step '' @ sid @ '' must have exactly one tool in tools_allow; got ''
             @ show_nat (length tools)))
      else
        bind (commit_policy_stopped_step E K tid sid args tools) (\<lambda>stopped.
        if stopped then return None
        else
          bind (the_step sid) (\<lambda>s.
          if hitl_required s
          then seq (enter_hitl_hold tid sid ''arguments'' (JObj args)) (return None)
          else
            bind (the_saga tid) (\<lambda>sg.
            bind (of_sum (commit_command sg s tools)) (\<lambda>cmd. return (Some cmd))))))"

definition reason_command :: "saga \<Rightarrow> step \<Rightarrow> json list \<Rightarrow> json list \<Rightarrow> exc + command" where
  "reason_command sg s tools skills =
     make_command \<lparr>cmd_type = DO_STEP, cmd_namespace = saga_namespace sg, cmd_trace = trace_id sg,
       cmd_span = span_id s, cmd_worker_name = worker s, cmd_worker_version = worker_version s,
       cmd_key = idempotency_key s, cmd_prompt_ref = jopt_str (prompt_ref s),
       cmd_arguments = jor (resolved_arguments s) (JObj []), cmd_tool_specs = slim_tool_specs tools,
       cmd_resource_specs = JList (list_of (resources_allow s)), cmd_skill_specs = JList skills,
       cmd_forward_span = [], cmd_failure_reason = JNull, cmd_worker_snapshot = JNull\<rparr>"

definition build_reason_worker_command ::
  "string \<Rightarrow> string \<Rightarrow> json list \<Rightarrow> json list \<Rightarrow> command M" where
  "build_reason_worker_command tid sid tools skills =
     bind (the_saga tid) (\<lambda>sg.
     bind (the_step sid) (\<lambda>s.
     bind (of_sum (require_frozen_prompt_definition s)) (\<lambda>_.
     bind (of_sum (require_frozen_skills_definition s skills)) (\<lambda>_.
     of_sum (reason_command sg s tools skills)))))"

definition build_forward_worker_command ::
  "env \<Rightarrow> callbacks \<Rightarrow> string \<Rightarrow> string \<Rightarrow> dict \<Rightarrow> command option M" where
  "build_forward_worker_command E K tid sid args =
     bind (the_step sid) (\<lambda>s.
     let tools = list_of (tools_allow s); skills = list_of (skills_allow s) in
     if step_kind s \<noteq> ''reason'' \<and> step_kind s \<noteq> ''commit''
     then raise (ValueError (''Step '' @ sid @ '' has invalid step_kind for worker dispatch: ''
            @ repr_str (step_kind s) @ ''; expected one of '' @ repr_names [''commit'', ''reason'']))
     else if step_kind s = ''commit'' then build_commit_worker_command E K tid sid args tools
     else bind (build_reason_worker_command tid sid tools skills) (\<lambda>cmd. return (Some cmd)))"

section \<open>Dispatching a step\<close>

text \<open>The arguments of a dispatch: the resolved bindings, checked against the input ports, with
  the operator's guidance on a retry of a reason step.\<close>

definition resolve_worker_arguments ::
  "env \<Rightarrow> saga \<Rightarrow> step \<Rightarrow> string option \<Rightarrow> exc + dict" where
  "resolve_worker_arguments E sg s guidance =
     (case resolve_parameters_spec E (coerce_dict (parameters_spec s)) (jor (saga_context sg) (JObj [])) of
        (resolved, missing) \<Rightarrow>
          (case assert_jsonpath_bindings_resolved (step_id s) missing of
             Inl e \<Rightarrow> Inl e
           | Inr _ \<Rightarrow>
               (case validate_resolved_arguments_against_input_ports E (step_id s) resolved (input_ports s) of
                  Inl e \<Rightarrow> Inl e
                | Inr _ \<Rightarrow>
                    Inr (if step_kind s = ''reason'' \<and> (hitl_retry_count s > 0 \<or> opt_text guidance \<noteq> [])
                         then merge_hitl_retry_into_arguments resolved s guidance (hitl_retry_count s)
                         else resolved))))"

definition dispatch_native :: "env \<Rightarrow> callbacks \<Rightarrow> string \<Rightarrow> string \<Rightarrow> step_status \<Rightarrow> unit M" where
  "dispatch_native E K tid sid from =
     bind (the_step sid) (\<lambda>s.
     seq (hook (On_step_started sid from))
     (if step_kind s = ''spawn_sagas'' then execute_spawn_sagas E K tid sid
      else park_or_complete_join E K tid sid))"

definition dispatch_worker ::
  "env \<Rightarrow> callbacks \<Rightarrow> string \<Rightarrow> string \<Rightarrow> string option \<Rightarrow> command option M" where
  "dispatch_worker E K tid sid guidance =
     bind (the_saga tid) (\<lambda>sg.
     bind (the_step sid) (\<lambda>s.
     bind (of_sum (resolve_worker_arguments E sg s guidance)) (\<lambda>args.
     seq (save_step sid (\<lambda>r. r\<lparr>resolved_arguments := JObj args\<rparr>))
     (build_forward_worker_command E K tid sid args))))"

definition trigger_ignored :: "bool \<Rightarrow> bool \<Rightarrow> step_status \<Rightarrow> bool" where
  "trigger_ignored allow_human allow_retry st \<longleftrightarrow>
     st = Step_COMPLETED
     \<or> (st = Step_IN_PROGRESS \<and> \<not> (allow_human \<or> allow_retry))
     \<or> (st = Step_AWAITING_HUMAN \<and> \<not> allow_human)"

definition trigger_step ::
  "env \<Rightarrow> callbacks \<Rightarrow> string \<Rightarrow> int \<Rightarrow> step_status option \<Rightarrow> bool \<Rightarrow> bool \<Rightarrow> string option \<Rightarrow> unit M" where
  "trigger_step E K tid fwd_seq start_from allow_human allow_retry guidance =
     bind (gets (forward_at tid fwd_seq)) (\<lambda>found.
     case found of
       None \<Rightarrow> skip
     | Some s \<Rightarrow>
         if trigger_ignored allow_human allow_retry (step_status s) then skip
         else
           let sid = span_id s; from = (case start_from of None \<Rightarrow> step_status s | Some st \<Rightarrow> st) in
           bind (gets db_now) (\<lambda>now.
           seq (save_step sid (\<lambda>r. r\<lparr>step_status := Step_IN_PROGRESS, started_at := now\<rparr>))
           (bind (try_except
                    (if is_engine_native_kind (step_kind s)
                     then seq (dispatch_native E K tid sid from) (return None)
                     else dispatch_worker E K tid sid guidance)
                    (\<lambda>e. if is_value_error e
                          then bind (the_saga tid) (\<lambda>sg.
                                 seq (fail_step E K (saga_namespace sg) tid sid
                                        (code_message ''VALIDATION_ERROR'' (exc_text E e)) JNull)
                                     (return None))
                          else raise e)) (\<lambda>built.
            case built of
              None \<Rightarrow> skip
            | Some cmd \<Rightarrow>
                seq (emit_command E cmd)
                (seq (hook (On_step_scheduled sid))
                     (hook (On_step_started sid from)))))))"

section \<open>The next step\<close>

definition mark_step_skipped_when_false :: "string \<Rightarrow> step \<Rightarrow> unit M" where
  "mark_step_skipped_when_false tid s =
     bind (the_step (span_id s)) (\<lambda>cur.
     bind (gets db_now) (\<lambda>now.
     seq (save_step (span_id s) (\<lambda>r. r\<lparr>step_status := Step_SKIPPED, end_time := Some now\<rparr>))
     (seq (when_do (opt_text (loop_id s) \<noteq> [])
            (save_saga tid (\<lambda>g. g\<lparr>saga_context := JObj (let context = loop_context g in
               dset ''steps'' (JObj (dset (step_id s) (step_context_entry_for_saga JNull)
                 (coerce_dict (dget ''steps'' context)))) context)\<rparr>)))
     (hook (On_step_transition (span_id s) (step_status cur) Step_SKIPPED None None
              (Some ''when_false'') None)))))"

definition notify_when_skipped_summary :: "string \<Rightarrow> nat \<Rightarrow> unit M" where
  "notify_when_skipped_summary tid n =
     when_do (0 < n) (hook (On_steps_skipped_summary tid (int n) ''when_false''))"

fun schedule_candidates :: "env \<Rightarrow> callbacks \<Rightarrow> string \<Rightarrow> nat \<Rightarrow> step list \<Rightarrow> unit M" where
  "schedule_candidates E K tid skipped [] =
     seq (notify_when_skipped_summary tid skipped) (handle_saga_completion E K tid)"
| "schedule_candidates E K tid skipped (s # rest) =
     bind (the_saga tid) (\<lambda>sg.
     let when_src = strip (opt_text (when_cel s)) in
     case (if when_src = [] then Inr True else evaluate_step_when E when_src (step_when_binding sg s)) of
       Inl e \<Rightarrow> fail_step E K (saga_namespace sg) tid (span_id s)
                  (code_message ''WHEN_EVALUATION_FAILED'' (exc_text E e)) JNull
     | Inr True \<Rightarrow>
         seq (notify_when_skipped_summary tid skipped)
             (trigger_step E K tid (forward_seq s) None False False None)
     | Inr False \<Rightarrow>
         seq (mark_step_skipped_when_false tid s)
         (bind (handle_possible_loop_boundary E K tid s) (\<lambda>handled.
          if handled then notify_when_skipped_summary tid (Suc skipped)
          else schedule_candidates E K tid (Suc skipped) rest)))"

definition forward_candidates :: "string \<Rightarrow> int \<Rightarrow> db \<Rightarrow> step list" where
  "forward_candidates tid after_seq db = sort_key forward_seq
     (filter (\<lambda>s. saga_trace_id s = tid \<and> is_forward s \<and> after_seq < forward_seq s) (db_steps db))"

definition schedule_next_forward_step :: "env \<Rightarrow> callbacks \<Rightarrow> string \<Rightarrow> int \<Rightarrow> unit M" where
  "schedule_next_forward_step E K tid after_seq =
     bind (gets (forward_candidates tid after_seq)) (schedule_candidates E K tid 0)"

section \<open>The knot\<close>

fun calls :: "env \<Rightarrow> nat \<Rightarrow> callbacks" where
  "calls E 0 = \<lparr>cb_schedule = (\<lambda>_ _. raise OutOfFuel), cb_terminal = (\<lambda>_. raise OutOfFuel)\<rparr>"
| "calls E (Suc n) = \<lparr>cb_schedule = schedule_next_forward_step E (calls E n),
                      cb_terminal = on_child_saga_terminal E (calls E n)\<rparr>"

end
