(* ===== verification/Handlers.thy ===== *)
theory Handlers imports Dispatch begin

text \<open>
  The consumer of the engine (\<^verbatim>\<open>engine/logic.py\<close>): \<open>process_saga_event\<close> with
  its claim of the ingest key, and the handler of every event.
\<close>

section \<open>Steps\<close>

definition notify_skipped_ingest :: "event \<Rightarrow> string \<Rightarrow> unit M" where
  "notify_skipped_ingest ev reason =
     hook (On_ingest_deduplicated (ev_trace ev) (opt_text (ev_span ev)) (event_type_value (ev_type ev)) reason)"

definition handle_saga_started :: "env \<Rightarrow> callbacks \<Rightarrow> string \<Rightarrow> unit M" where
  "handle_saga_started E K tid =
     bind (the_saga tid) (\<lambda>sg.
     if saga_status sg \<noteq> Saga_PENDING then skip
     else seq (transition_saga tid Saga_RUNNING (Some ''saga.started'') None)
              (schedule_next_forward_step E K tid (- 1)))"

definition fail_reason_on_policy ::
  "env \<Rightarrow> callbacks \<Rightarrow> event \<Rightarrow> string \<Rightarrow> string \<Rightarrow> string \<Rightarrow> unit M" where
  "fail_reason_on_policy E K ev sid code m =
     seq (save_step sid (\<lambda>r. r\<lparr>error_details := code_message code m\<rparr>))
         (fail_step E K (ev_namespace ev) (ev_trace ev) sid (code_message code m) (ev_output ev))"

definition maybe_stop_reason_on_policy :: "env \<Rightarrow> callbacks \<Rightarrow> event \<Rightarrow> string \<Rightarrow> bool M" where
  "maybe_stop_reason_on_policy E K ev sid =
     bind (the_saga (ev_trace ev)) (\<lambda>sg.
     bind (the_step sid) (\<lambda>s.
     let pn = strip (opt_text (policy_name s)); pd = step_policy_definition s in
     if step_kind s \<noteq> ''reason'' \<or> \<not> step_has_policy_gate pn pd then return False
     else
       bind (run_policy_gate E pn ''after_reason''
               (policy_binding ''after_reason'' sg s (jor (resolved_arguments s) (JObj [])) (ev_output ev) [])
               ''POLICY_REASON_DENIED'' sid pd) (\<lambda>gate.
       case gate_outcome gate of
         Gate_ERRORED \<Rightarrow>
           seq (fail_reason_on_policy E K ev sid (or_text (gate_error_code gate) ''POLICY_EVALUATION_FAILED'')
                  (or_text (gate_error_message gate) ''policy evaluation failed'')) (return True)
       | Gate_DENIED \<Rightarrow>
           seq (fail_reason_on_policy E K ev sid ''POLICY_REASON_DENIED''
                  ''policy cel returned false; reason output not allowed'') (return True)
       | Gate_PASSED \<Rightarrow> return False)))"

text \<open>\<open>_fail_step_completed_on_output_schema\<close>; the same check guards an approval.\<close>

definition fail_on_output_schema :: "env \<Rightarrow> callbacks \<Rightarrow> event \<Rightarrow> string \<Rightarrow> json \<Rightarrow> bool M" where
  "fail_on_output_schema E K ev sid output =
     bind (the_step sid) (\<lambda>s.
     if \<not> truthy (output_schema s) then return False
     else case validate_business_data_schema E output (output_schema s)
                 (''Step '' @ step_id s @ '' output'') of
            None \<Rightarrow> return False
          | Some m \<Rightarrow>
              seq (fail_step E K (ev_namespace ev) (ev_trace ev) sid
                     (code_message ''OUTPUT_SCHEMA_VALIDATION_FAILED'' m) output) (return True))"

definition maybe_hold_reason_hitl_on_completed :: "event \<Rightarrow> string \<Rightarrow> bool M" where
  "maybe_hold_reason_hitl_on_completed ev sid =
     bind (the_step sid) (\<lambda>s.
     if \<not> (hitl_required s \<and> step_kind s = ''reason'') then return False
     else seq (enter_hitl_hold (ev_trace ev) sid ''output'' (JObj (coerce_dict (ev_output ev))))
              (return True))"

definition handle_step_completed :: "env \<Rightarrow> callbacks \<Rightarrow> event \<Rightarrow> unit M" where
  "handle_step_completed E K ev =
     (let tid = ev_trace ev in
      bind (gets (step_of_saga tid (opt_text (ev_span ev)))) (\<lambda>found.
      case found of
        None \<Rightarrow> skip
      | Some s \<Rightarrow>
          bind (the_saga tid) (\<lambda>sg.
          if saga_status sg = Saga_AWAITING_RECOVERY then notify_skipped_ingest ev ''awaiting_recovery''
          else if step_status s \<noteq> Step_IN_PROGRESS then notify_skipped_ingest ev ''late_step_state''
          else
            bind (fail_on_output_schema E K ev (span_id s) (ev_output ev)) (\<lambda>failed.
            if failed then skip
            else
              bind (maybe_stop_reason_on_policy E K ev (span_id s)) (\<lambda>stopped.
              if stopped then skip
              else
                bind (maybe_hold_reason_hitl_on_completed ev (span_id s)) (\<lambda>held.
                when_do (\<not> held)
                  (finalize_step_output_and_advance E K tid (span_id s) (ev_output ev))))))))"

definition handle_step_failed :: "env \<Rightarrow> callbacks \<Rightarrow> event \<Rightarrow> unit M" where
  "handle_step_failed E K ev =
     (let tid = ev_trace ev in
      bind (gets (step_of_saga tid (opt_text (ev_span ev)))) (\<lambda>found.
      case found of
        None \<Rightarrow> skip
      | Some s \<Rightarrow>
          bind (the_saga tid) (\<lambda>sg.
          if saga_status sg = Saga_AWAITING_RECOVERY then notify_skipped_ingest ev ''awaiting_recovery''
          else if step_status s \<in> {Step_COMPENSATING, Step_COMPENSATED, Step_FAILED}
          then notify_skipped_ingest ev ''terminal_step_state''
          else if step_status s = Step_TIMED_OUT
             \<and> saga_status sg \<in> {Saga_COMPENSATING, Saga_COMPENSATED, Saga_FAILED, Saga_AWAITING_RECOVERY}
          then notify_skipped_ingest ev ''duplicate_timeout_ingest''
          else apply_step_failure_lifecycle E K tid (span_id s)
                 \<lparr>fl_span = opt_text (ev_span ev), fl_error_details = ev_error_details ev,
                  fl_output = ev_output ev\<rparr>)))"

section \<open>Human decisions\<close>

definition approve_commit :: "env \<Rightarrow> callbacks \<Rightarrow> event \<Rightarrow> step \<Rightarrow> unit M" where
  "approve_commit E K ev s =
     (let tid = ev_trace ev; sid = span_id s; tools = list_of (tools_allow s);
          args = JObj (coerce_dict (resolved_arguments s)); override = (ev_output ev \<noteq> JNull) in
      if length tools \<noteq> 1
      then fail_step E K (ev_namespace ev) tid sid
             (code_message ''VALIDATION_ERROR'' ''Commit step must have exactly one tool in tools_allow'') JNull
      else
        seq (hook (On_hitl_approved sid ''commit'' override args (if override then args else JNull)))
        (bind (the_saga tid) (\<lambda>sg.
         bind (of_sum (commit_command sg (s\<lparr>resolved_arguments := args\<rparr>) tools)) (\<lambda>cmd.
         seq (resume_saga_running_from_hitl tid ''hitl_approved_commit'')
         (seq (hook (On_step_transition sid (step_status s) Step_IN_PROGRESS
                 (Some ''step.resumed_from_hitl'') None (Some ''hitl_approved_commit'') None))
         (seq (save_step sid (\<lambda>r. r\<lparr>step_status := Step_IN_PROGRESS, pending_review_payload := JNull\<rparr>))
         (seq (emit_command E cmd)
         (seq (hook (On_step_scheduled sid))
              (hook (On_step_started sid Step_AWAITING_HUMAN)))))))))) "

definition approve_reason :: "env \<Rightarrow> callbacks \<Rightarrow> event \<Rightarrow> step \<Rightarrow> unit M" where
  "approve_reason E K ev s =
     (let tid = ev_trace ev; sid = span_id s; override = (ev_output ev \<noteq> JNull);
          output = (if override then ev_output ev else pending_review_payload s) in
      if output = JNull then skip
      else
        bind (fail_on_output_schema E K ev sid output) (\<lambda>failed.
        if failed then skip
        else
          seq (hook (On_hitl_approved sid ''reason'' override (JObj (coerce_dict output))
                 (if override then JObj (coerce_dict (pending_review_payload s)) else JNull)))
              (finalize_step_output_and_advance E K tid sid output)))"

definition handle_hitl_approved :: "env \<Rightarrow> callbacks \<Rightarrow> event \<Rightarrow> unit M" where
  "handle_hitl_approved E K ev =
     bind (gets (step_of_saga (ev_trace ev) (opt_text (ev_span ev)))) (\<lambda>found.
     case found of
       None \<Rightarrow> skip
     | Some s \<Rightarrow>
         if step_status s \<noteq> Step_AWAITING_HUMAN then skip
         else if step_kind s = ''commit'' then approve_commit E K ev s
         else approve_reason E K ev s)"

definition rejection_details :: "json \<Rightarrow> dict" where
  "rejection_details details =
     (if truthy details \<and> is_dict details then coerce_dict details
      else [(''code'', JStr ''HUMAN_REJECTED'')])"

definition handle_human_rejected :: "env \<Rightarrow> callbacks \<Rightarrow> event \<Rightarrow> unit M" where
  "handle_human_rejected E K ev =
     bind (gets (step_of_saga (ev_trace ev) (opt_text (ev_span ev)))) (\<lambda>found.
     case found of
       None \<Rightarrow> skip
     | Some s \<Rightarrow>
         if step_status s \<noteq> Step_AWAITING_HUMAN then skip
         else
           let details = rejection_details (ev_error_details ev); m = dget ''message'' details in
           seq (hook (On_hitl_rejected (span_id s) (str_or (dget ''code'' details) ''HUMAN_REJECTED'')
                  (if m = JNull then None else Some (py_str m))))
               (fail_step E K (ev_namespace ev) (ev_trace ev) (span_id s) (JObj details)
                  (pending_review_payload s)))"

definition guidance_of :: "json \<Rightarrow> string option" where
  "guidance_of j = (case j of JStr g \<Rightarrow> nonempty (strip g) | _ \<Rightarrow> None)"

definition human_retry_admissible :: "saga \<Rightarrow> step \<Rightarrow> bool" where
  "human_retry_admissible sg s \<longleftrightarrow>
     step_status s = Step_AWAITING_HUMAN
     \<and> saga_status sg \<in> {Saga_AWAITING_HUMAN, Saga_RUNNING}
     \<and> assert_hitl_retry_allowed s = Inr ()"

definition handle_human_retry :: "env \<Rightarrow> callbacks \<Rightarrow> event \<Rightarrow> unit M" where
  "handle_human_retry E K ev =
     (let tid = ev_trace ev in
      bind (gets (step_of_saga tid (opt_text (ev_span ev)))) (\<lambda>found.
      case found of
        None \<Rightarrow> skip
      | Some s \<Rightarrow>
          bind (the_saga tid) (\<lambda>sg.
          if \<not> is_forward s \<or> \<not> human_retry_admissible sg s then skip
          else
            let sid = span_id s; guidance = guidance_of (ev_retry_guidance ev) in
            bind (reset_step_for_hitl_retry E tid sid) (\<lambda>prior.
            bind (release_worker_claim_for_retry prior) (\<lambda>_.
            seq (clear_worker_result_ingest_dedup E tid sid (saga_namespace sg))
            (seq (save_step sid (\<lambda>r. r\<lparr>hitl_retry_count := hitl_retry_count r + 1\<rparr>))
            (bind (the_step sid) (\<lambda>r.
             seq (hook (On_hitl_retry_requested sid prior (idempotency_key r) guidance
                    (hitl_retry_count r) (hitl_max_retries r)))
             (seq (resume_saga_running_from_hitl tid ''human_retry'')
             (seq (hook (On_step_transition sid Step_AWAITING_HUMAN Step_IN_PROGRESS
                     (Some ''step.resumed_from_hitl'') None (Some ''human_retry'') None))
             (trigger_step E K tid (forward_seq s) (Some Step_AWAITING_HUMAN) True False guidance)))))))))))"

section \<open>Compensation results\<close>

definition handle_compensation_completed :: "env \<Rightarrow> callbacks \<Rightarrow> event \<Rightarrow> unit M" where
  "handle_compensation_completed E K ev =
     (let tid = ev_trace ev in
      bind (gets (step_of_saga tid (opt_text (ev_span ev)))) (\<lambda>found.
      case found of
        None \<Rightarrow> skip
      | Some s \<Rightarrow>
          if step_status s = Step_COMPENSATED then notify_skipped_ingest ev ''already_compensated''
          else if is_forward s then skip
          else if step_status s \<noteq> Step_COMPENSATING then skip
          else
            bind (gets db_now) (\<lambda>now.
            seq (save_step (span_id s) (\<lambda>r. r\<lparr>step_status := Step_COMPENSATED, end_time := Some now,
                   output_payload := ev_output ev\<rparr>))
            (seq (hook (On_step_transition (span_id s) (step_status s) Step_COMPENSATED
                    (Some ''step.compensated'') None None
                    (if is_dict (ev_output ev)
                     then Some (hash_canonical_dict E (coerce_dict (ev_output ev))) else None)))
            (advance_lifo_compensation E K tid (forward_seq s - 1))))))"

definition handle_compensation_failed :: "env \<Rightarrow> callbacks \<Rightarrow> event \<Rightarrow> unit M" where
  "handle_compensation_failed E K ev =
     (let tid = ev_trace ev; details = jor (ev_error_details ev) (ev_output ev) in
      bind (gets (step_of_saga tid (opt_text (ev_span ev)))) (\<lambda>found.
      seq (case found of
             None \<Rightarrow> skip
           | Some s \<Rightarrow>
               bind (gets db_now) (\<lambda>now.
               seq (save_step (span_id s) (\<lambda>r. r\<lparr>step_status := Step_FAILED, end_time := Some now,
                      error_details := details\<rparr>))
                   (hook (On_step_transition (span_id s) (step_status s) Step_FAILED
                      (Some ''step.failed'') None (Some ''compensation_failed'') None))))
          (emit_saga_failed_from_compensation E K tid ''compensation_failed'' (ev_span ev) details)))"

section \<open>Ingest\<close>

definition event_dedup_key :: "event \<Rightarrow> string" where
  "event_dedup_key ev = dedup_key (ev_trace ev) (event_type_value (ev_type ev)) (opt_text (ev_span ev))"

definition handle_event :: "env \<Rightarrow> callbacks \<Rightarrow> event \<Rightarrow> unit M" where
  "handle_event E K ev = (case ev_type ev of
     SAGA_STARTED \<Rightarrow> handle_saga_started E K (ev_trace ev)
   | STEP_COMPLETED \<Rightarrow> handle_step_completed E K ev
   | HUMAN_APPROVED \<Rightarrow> handle_hitl_approved E K ev
   | HUMAN_REJECTED \<Rightarrow> handle_human_rejected E K ev
   | HUMAN_RETRY \<Rightarrow> handle_human_retry E K ev
   | STEP_FAILED \<Rightarrow> handle_step_failed E K ev
   | STEP_COMPENSATED \<Rightarrow> handle_compensation_completed E K ev
   | COMPENSATION_FAILED \<Rightarrow> handle_compensation_failed E K ev
   | SAGA_COMPLETED \<Rightarrow> handle_saga_completion E K (ev_trace ev)
   | SAGA_COMPENSATED \<Rightarrow> skip
   | SAGA_FAILED \<Rightarrow> skip)"

text \<open>\<open>ProcessedIngestEvent.create\<close>: the key is the primary key.\<close>

definition ingest_put :: "string \<Rightarrow> string list \<Rightarrow> string list" where
  "ingest_put k t = (if k \<in> set t then t else t @ [k])"

interpretation ingest_log: keyed_log "\<lambda>k t. k \<in> set t" ingest_put
  by unfold_locales (auto simp: ingest_put_def)

definition find_saga_in :: "string \<Rightarrow> string \<Rightarrow> db \<Rightarrow> saga option" where
  "find_saga_in ns tid db = rows_first (\<lambda>s. trace_id s = tid \<and> saga_namespace s = ns) (db_sagas db)"

definition ingest_event :: "env \<Rightarrow> callbacks \<Rightarrow> event \<Rightarrow> unit M" where
  "ingest_event E K ev =
     bind (gets (\<lambda>db. event_dedup_key ev \<in> set (db_ingested db))) (\<lambda>seen.
     if seen then notify_skipped_ingest ev ''processed_ingest_claim''
     else
       seq (modify (\<lambda>db. db\<lparr>db_ingested := ingest_put (event_dedup_key ev) (db_ingested db)\<rparr>))
       (bind (gets (find_saga_in (ev_namespace ev) (ev_trace ev))) (\<lambda>found.
        if found = None
        then raise (UnrecoverableError (''Saga '' @ ev_trace ev @ '' not found for tenant ''
               @ ev_namespace ev))
        else handle_event E K ev)))"

definition process_saga_event :: "env \<Rightarrow> nat \<Rightarrow> dict \<Rightarrow> unit M" where
  "process_saga_event E fuel event_data =
     bind (of_sum (validate_ingest (coerce_saga_ingest_dict event_data)))
       (\<lambda>ev. in_transaction (ingest_event E (calls E fuel) ev))"

end
