(* ===== verification/Recovery.thy ===== *)
theory Recovery imports Handlers begin

text \<open>
  The operator's side: recovery of stuck or failed steps (\<^verbatim>\<open>engine/recovery.py\<close>), the
  replay of a recovery by its token (\<^verbatim>\<open>engine/recovery_idempotency.py\<close>) and the
  queueing of human decisions (\<^verbatim>\<open>engine/hitl_decisions.py\<close>).
\<close>

type_synonym response = "(string \<times> string) list"

section \<open>Shared parts\<close>

definition load_saga_step_locked :: "string \<Rightarrow> string \<Rightarrow> string \<Rightarrow> (saga \<times> step) M" where
  "load_saga_step_locked ns tid sid =
     bind (gets (find_saga_in ns tid)) (\<lambda>sg.
     case sg of
       None \<Rightarrow> raise (RecoveryNotFound (''Saga '' @ tid @ '' not found.''))
     | Some g \<Rightarrow>
         bind (gets (\<lambda>db. rows_first (\<lambda>s. span_id s = sid \<and> saga_trace_id s = tid
                 \<and> step_namespace s = ns) (db_steps db))) (\<lambda>st.
         case st of
           None \<Rightarrow> raise (RecoveryNotFound (''Step '' @ sid @ '' not found.''))
         | Some s \<Rightarrow> return (g, s)))"

definition enforce_commit_force_gating :: "step \<Rightarrow> bool \<Rightarrow> bool \<Rightarrow> exc + unit" where
  "enforce_commit_force_gating s force allow_destructive =
     (if force \<and> step_kind s = ''commit'' \<and> \<not> allow_destructive
      then Inl (RecoveryConflict (''force retry on commit steps requires allow_destructive=true ''
             @ ''(risk of duplicate side effects).''))
      else Inr ())"

definition handle_active_claim :: "env \<Rightarrow> string \<Rightarrow> bool \<Rightarrow> unit M" where
  "handle_active_claim E key force =
     bind (gets (find_claim key)) (\<lambda>row.
     case row of
       None \<Rightarrow> skip
     | Some c \<Rightarrow>
         if pc_result_emitted c then skip
         else bind (gets db_now) (\<lambda>now.
           if claim_is_stale E now c \<or> force
           then bind (release_worker_claim_for_retry key) (\<lambda>_. skip)
           else raise (RecoveryClaimActive key)))"

definition requeue_row :: "string \<Rightarrow> unit M" where
  "requeue_row oid = bind (set_outbox_status oid Outbox_PENDING None) (\<lambda>_. skip)"

definition requeue_worker_outbox :: "env \<Rightarrow> string \<Rightarrow> string \<Rightarrow> bool \<Rightarrow> bool M" where
  "requeue_worker_outbox E ns key force =
     bind (gets (\<lambda>db. rows_first (\<lambda>r. ob_namespace r = ns \<and> ob_topic r = topic_commands E
             \<and> ob_idempotency_key r = Some key) (db_outbox db))) (\<lambda>row.
     case row of
       None \<Rightarrow> return False
     | Some r \<Rightarrow>
         bind (gets db_now) (\<lambda>now.
         if ob_status r = Outbox_PENDING then return True
         else if ob_status r = Outbox_FAILED
              \<or> (ob_status r = Outbox_IN_PROGRESS \<and> (force \<or> outbox_row_stale E now r))
         then seq (requeue_row (ob_id r)) (return True)
         else return False))"

definition clear_compensation_ingest_dedup :: "string \<Rightarrow> string \<Rightarrow> unit M" where
  "clear_compensation_ingest_dedup tid sid =
     (let keys = [dedup_key tid ''STEP_COMPENSATED'' sid, dedup_key tid ''COMPENSATION_FAILED'' sid] in
      modify (\<lambda>db. db\<lparr>db_ingested := rows_delete (\<lambda>k. k \<in> set keys) (db_ingested db)\<rparr>))"

definition emit_compensation_retry :: "env \<Rightarrow> saga \<Rightarrow> step \<Rightarrow> step \<Rightarrow> unit M" where
  "emit_compensation_retry E sg undo fwd =
     bind (gets (worker_snapshot (saga_namespace sg) (fst (undo_worker fwd)) (snd (undo_worker fwd)))) (\<lambda>snap.
     case compensation_command E sg fwd (span_id undo) (idempotency_key undo) snap of
       Inl e \<Rightarrow> (if is_value_error e
                 then raise (RecoveryConflict (''Cannot rebuild compensation command: '' @ exc_text E e))
                 else raise e)
     | Inr cmd \<Rightarrow> emit_command E cmd)"

definition recovery_response :: "string \<Rightarrow> string \<Rightarrow> string \<Rightarrow> response" where
  "recovery_response status key token =
     [(''status'', status), (''idempotency_key'', key), (''worker_command_key'', key),
      (''recovery_token'', token)]"

text \<open>The hook of a recovery and its response, with the step's key as it is by then.\<close>

definition recovery_done ::
  "string \<Rightarrow> string \<Rightarrow> string \<Rightarrow> string \<Rightarrow> bool \<Rightarrow> response M" where
  "recovery_done kind status sid token force =
     bind (the_step sid) (\<lambda>s.
     seq (hook (On_operator_recovery_requested kind sid token force))
         (return (recovery_response status (idempotency_key s) token)))"

definition status_conflict :: "string \<Rightarrow> string \<Rightarrow> string \<Rightarrow> exc" where
  "status_conflict what status expected =
     RecoveryConflict (what @ '' status is '' @ status @ ''; expected '' @ expected)"

section \<open>Retrying a forward step in flight\<close>

text \<open>The claim is checked under \<open>try\<close>: \<open>None\<close> when it is active.\<close>

definition claim_released :: "env \<Rightarrow> string \<Rightarrow> bool \<Rightarrow> bool M" where
  "claim_released E key force =
     try_except (seq (handle_active_claim E key force) (return True))
       (\<lambda>e. case e of RecoveryClaimActive _ \<Rightarrow> return False | _ \<Rightarrow> raise e)"

definition execute_step_retry ::
  "env \<Rightarrow> callbacks \<Rightarrow> string \<Rightarrow> string \<Rightarrow> string \<Rightarrow> string \<Rightarrow> bool \<Rightarrow> bool \<Rightarrow> response M" where
  "execute_step_retry E K ns tid sid token force allow_destructive =
     bind (load_saga_step_locked ns tid sid) (\<lambda>(sg, s).
     if saga_status sg \<noteq> Saga_RUNNING
     then raise (status_conflict ''Saga'' (saga_status_value (saga_status sg)) ''RUNNING for retry-step.'')
     else if \<not> is_forward s
     then raise (RecoveryConflict ''retry-step applies to forward steps only.'')
     else if step_status s \<noteq> Step_IN_PROGRESS
     then raise (status_conflict ''Step'' (step_status_value (step_status s)) ''IN_PROGRESS for retry-step.'')
     else if step_kind s = ''join_sagas''
     then bind (try_complete_join E K tid sid) (\<lambda>_. recovery_done ''retry-step'' ''ok'' sid token force)
     else if step_kind s = ''spawn_sagas''
     then seq (trigger_step E K tid (forward_seq s) None False True None)
              (recovery_done ''retry-step'' ''scheduled'' sid token force)
     else
       let prior = idempotency_key s in
       bind (of_sum (enforce_commit_force_gating s force allow_destructive)) (\<lambda>_.
       bind (claim_released E prior force) (\<lambda>released.
       if \<not> released then return (recovery_response ''claim_active'' prior token)
       else
         bind (requeue_worker_outbox E ns prior force) (\<lambda>requeued.
         if requeued
         then
           seq (save_step sid (\<lambda>r. r\<lparr>output_payload := JNull, error_details := JNull,
                  pending_review_payload := JNull\<rparr>))
           (seq (clear_worker_result_ingest_dedup E tid sid ns)
           (recovery_done ''retry-step'' ''requeued'' sid token force))
         else
           bind (reset_step_for_worker_retry E tid sid) (\<lambda>_.
           seq (trigger_step E K tid (forward_seq s) None False True None)
           (recovery_done ''retry-step'' ''scheduled'' sid token force))))))"

section \<open>Retrying an undo\<close>

definition execute_compensation_retry ::
  "env \<Rightarrow> string \<Rightarrow> string \<Rightarrow> string \<Rightarrow> string \<Rightarrow> bool \<Rightarrow> response M" where
  "execute_compensation_retry E ns tid sid token force =
     bind (load_saga_step_locked ns tid sid) (\<lambda>(sg, undo).
     if is_forward undo
     then raise (RecoveryConflict ''retry-compensation applies to compensation steps only.'')
     else if saga_status sg \<notin> {Saga_COMPENSATING, Saga_FAILED}
     then raise (status_conflict ''Saga'' (saga_status_value (saga_status sg)) ''COMPENSATING or FAILED.'')
     else if step_status undo \<notin> {Step_FAILED, Step_IN_PROGRESS, Step_COMPENSATING}
     then raise (status_conflict ''Step'' (step_status_value (step_status undo))
            ''FAILED, IN_PROGRESS, or COMPENSATING.'')
     else
       bind (gets (\<lambda>db. step_of_saga tid (opt_text (compensates_span_id undo)) db)) (\<lambda>found.
       case found of
         None \<Rightarrow> raise (RecoveryNotFound ''Forward step for compensation not found.'')
       | Some fwd \<Rightarrow>
           seq (when_do (saga_status sg = Saga_FAILED)
                 (save_saga tid (\<lambda>g. g\<lparr>saga_status := Saga_COMPENSATING\<rparr>)))
           (seq (save_step sid (\<lambda>r. r\<lparr>step_status := Step_COMPENSATING, error_details := JNull,
                  end_time := None\<rparr>))
           (seq (clear_compensation_ingest_dedup tid sid)
           (seq (handle_active_claim E (idempotency_key undo) force)
           (bind (requeue_worker_outbox E ns (idempotency_key undo) force) (\<lambda>requeued.
            seq (when_do (\<not> requeued) (emit_compensation_retry E sg undo fwd))
                (recovery_done ''retry-compensation'' (if requeued then ''requeued'' else ''scheduled'')
                   sid token force))))))))"

section \<open>Leaving a hold for recovery\<close>

definition assert_awaiting_recovery_forward :: "saga \<Rightarrow> step \<Rightarrow> string \<Rightarrow> exc + unit" where
  "assert_awaiting_recovery_forward sg s kind =
     (if saga_status sg \<noteq> Saga_AWAITING_RECOVERY
      then Inl (status_conflict ''Saga'' (saga_status_value (saga_status sg))
             (''AWAITING_RECOVERY for '' @ kind @ ''.''))
      else if \<not> is_forward s then Inl (RecoveryConflict (kind @ '' applies to forward steps only.''))
      else if step_status s \<notin> {Step_FAILED, Step_TIMED_OUT}
      then Inl (status_conflict ''Step'' (step_status_value (step_status s))
             (''FAILED or TIMED_OUT for '' @ kind @ ''.''))
      else Inr ())"

definition execute_retry_forward ::
  "env \<Rightarrow> callbacks \<Rightarrow> string \<Rightarrow> string \<Rightarrow> string \<Rightarrow> string \<Rightarrow> bool \<Rightarrow> bool \<Rightarrow> response M" where
  "execute_retry_forward E K ns tid sid token force allow_destructive =
     bind (load_saga_step_locked ns tid sid) (\<lambda>(sg, s).
     bind (of_sum (assert_awaiting_recovery_forward sg s ''retry-forward'')) (\<lambda>_.
     if is_dirty_forward_step s \<and> \<not> allow_destructive
     then raise (RecoveryConflict (''retry-forward on a dirty failure (timeout/SYSTEM_CRASH) requires ''
            @ ''allow_destructive=true (risk of duplicate side effects).''))
     else
       bind (of_sum (enforce_commit_force_gating s force allow_destructive)) (\<lambda>_.
       bind (claim_released E (idempotency_key s) force) (\<lambda>released.
       if \<not> released then return (recovery_response ''claim_active'' (idempotency_key s) token)
       else
         bind (reset_step_for_worker_retry E tid sid) (\<lambda>_.
         seq (transition_saga tid Saga_RUNNING (Some ''saga.resumed_from_recovery'') (Some ''retry_forward''))
         (seq (trigger_step E K tid (forward_seq s) (Some (step_status s)) False True None)
         (recovery_done ''retry-forward'' ''scheduled'' sid token force)))))))"

definition execute_start_compensation ::
  "env \<Rightarrow> callbacks \<Rightarrow> string \<Rightarrow> string \<Rightarrow> string \<Rightarrow> string \<Rightarrow> bool \<Rightarrow> response M" where
  "execute_start_compensation E K ns tid sid token force =
     bind (load_saga_step_locked ns tid sid) (\<lambda>(sg, s).
     bind (of_sum (assert_awaiting_recovery_forward sg s ''start-compensation'')) (\<lambda>_.
     let start = (if is_dirty_forward_step s then forward_seq s else forward_seq s - 1) in
     if start < 0
     then
       let raw = coerce_dict (error_details s) in
       bind (of_sum (step_failed_event (saga_namespace sg) tid sid (JObj raw) JNull)) (\<lambda>ev.
       seq (fail_saga_no_compensation_window E K tid sid ev raw)
       (recovery_done ''start-compensation'' ''failed'' sid token force))
     else
       seq (transition_saga tid Saga_COMPENSATING (Some ''saga.compensating'') (Some ''start_compensation''))
       (seq (trigger_compensation E K tid start)
       (recovery_done ''start-compensation'' ''scheduled'' sid token force))))"

section \<open>Replay by token\<close>

definition operator_recovery_dedup_key ::
  "string \<Rightarrow> string \<Rightarrow> string \<Rightarrow> string \<Rightarrow> string \<Rightarrow> string" where
  "operator_recovery_dedup_key ns kind tid sid token =
     ''operator-recovery:'' @ kind @ '':'' @ ns @ '':'' @ tid @ '':'' @ sid @ '':'' @ token"

definition operator_recovery_request_fingerprint ::
  "env \<Rightarrow> string \<Rightarrow> bool \<Rightarrow> bool option \<Rightarrow> string" where
  "operator_recovery_request_fingerprint E kind force allow_destructive =
     hash_canonical_dict E ([(''recovery_kind'', JStr kind), (''force'', JBool force)]
       @ (case allow_destructive of None \<Rightarrow> [] | Some b \<Rightarrow> [(''allow_destructive'', JBool b)]))"

definition find_recovery :: "string \<Rightarrow> db \<Rightarrow> operator_recovery option" where
  "find_recovery key db = rows_first (\<lambda>r. rec_key r = key) (db_recoveries db)"

definition save_processed_operator_recovery :: "string \<Rightarrow> string \<Rightarrow> response \<Rightarrow> unit M" where
  "save_processed_operator_recovery key fingerprint resp db =
     (if find_recovery key db \<noteq> None then (Inl IntegrityError, db)
      else (Inr (), db\<lparr>db_recoveries := db_recoveries db @
              [\<lparr>rec_key = key, rec_fingerprint = fingerprint, rec_response = resp\<rparr>]\<rparr>))"

definition replay_or_conflict :: "operator_recovery \<Rightarrow> string \<Rightarrow> exc + response" where
  "replay_or_conflict existing fingerprint =
     (if rec_fingerprint existing \<noteq> fingerprint
      then Inl (RecoveryConflict ''recovery_token reused with different request parameters.'')
      else Inr (rec_response existing))"

definition with_operator_recovery_idempotency ::
  "env \<Rightarrow> string option \<Rightarrow> string \<Rightarrow> string \<Rightarrow> string \<Rightarrow> string \<Rightarrow> bool \<Rightarrow> bool option \<Rightarrow>
   response M \<Rightarrow> response M" where
  "with_operator_recovery_idempotency E token ns kind tid sid force allow_destructive action =
     (case token of
        None \<Rightarrow> in_transaction action
      | Some t \<Rightarrow>
          let key = operator_recovery_dedup_key ns kind tid sid t;
              fingerprint = operator_recovery_request_fingerprint E kind force allow_destructive in
          in_transaction
            (bind (gets (find_recovery key)) (\<lambda>existing.
             case existing of
               Some r \<Rightarrow> of_sum (replay_or_conflict r fingerprint)
             | None \<Rightarrow>
                 bind action (\<lambda>result.
                 seq (save_processed_operator_recovery key fingerprint result) (return result)))))"

text \<open>\<open>token = recovery_token or uuid4().hex\<close>.\<close>

definition token_or_fresh :: "env \<Rightarrow> string option \<Rightarrow> string M" where
  "token_or_fresh E token = (case token of
     Some t \<Rightarrow> (if t = [] then uuid4_hex (uuid_hex E) else return t)
   | None \<Rightarrow> uuid4_hex (uuid_hex E))"

definition enqueue_step_retry ::
  "env \<Rightarrow> nat \<Rightarrow> string \<Rightarrow> string \<Rightarrow> string \<Rightarrow> string option \<Rightarrow> bool \<Rightarrow> bool \<Rightarrow> response M" where
  "enqueue_step_retry E fuel ns tid sid recovery_token force allow_destructive =
     bind (token_or_fresh E recovery_token) (\<lambda>token.
     with_operator_recovery_idempotency E recovery_token ns ''retry-step'' tid sid force
       (Some allow_destructive)
       (execute_step_retry E (calls E fuel) ns tid sid token force allow_destructive))"

definition enqueue_compensation_retry ::
  "env \<Rightarrow> string \<Rightarrow> string \<Rightarrow> string \<Rightarrow> string option \<Rightarrow> bool \<Rightarrow> response M" where
  "enqueue_compensation_retry E ns tid sid recovery_token force =
     bind (token_or_fresh E recovery_token) (\<lambda>token.
     with_operator_recovery_idempotency E recovery_token ns ''retry-compensation'' tid sid force None
       (execute_compensation_retry E ns tid sid token force))"

definition enqueue_retry_forward ::
  "env \<Rightarrow> nat \<Rightarrow> string \<Rightarrow> string \<Rightarrow> string \<Rightarrow> string option \<Rightarrow> bool \<Rightarrow> bool \<Rightarrow> response M" where
  "enqueue_retry_forward E fuel ns tid sid recovery_token force allow_destructive =
     bind (token_or_fresh E recovery_token) (\<lambda>token.
     with_operator_recovery_idempotency E recovery_token ns ''retry-forward'' tid sid force
       (Some allow_destructive)
       (execute_retry_forward E (calls E fuel) ns tid sid token force allow_destructive))"

definition enqueue_start_compensation ::
  "env \<Rightarrow> nat \<Rightarrow> string \<Rightarrow> string \<Rightarrow> string \<Rightarrow> string option \<Rightarrow> bool \<Rightarrow> response M" where
  "enqueue_start_compensation E fuel ns tid sid recovery_token force =
     bind (token_or_fresh E recovery_token) (\<lambda>token.
     with_operator_recovery_idempotency E recovery_token ns ''start-compensation'' tid sid force None
       (execute_start_compensation E (calls E fuel) ns tid sid token force))"

end
