(* ===== verification/Decisions.thy ===== *)
theory Decisions imports Recovery begin

text \<open>
  Human decisions on a held step (\<^verbatim>\<open>engine/hitl_decisions.py\<close>): approve, reject and
  retry requests, each queued once as an event for the engine.
\<close>

definition human_decision_idempotency_key :: "string \<Rightarrow> string \<Rightarrow> string" where
  "human_decision_idempotency_key tid sid = ''human-decision-'' @ tid @ ''-'' @ sid"

definition human_retry_outbox_idempotency_key :: "string \<Rightarrow> string \<Rightarrow> string \<Rightarrow> string" where
  "human_retry_outbox_idempotency_key tid sid token = ''human-retry:'' @ tid @ '':'' @ sid @ '':'' @ token"

text \<open>The three outbox payloads; building one validates the envelope.\<close>

definition human_payload_errors :: "string \<Rightarrow> string \<Rightarrow> string \<Rightarrow> string \<Rightarrow> string list" where
  "human_payload_errors ns tid sid key =
     need (namespace_ok ns) ''namespace'' @ need (trace_ok tid) ''saga_trace_id''
   @ need (span_ok sid) ''step_span_id''
   @ need (8 \<le> length key \<and> length key \<le> 256) ''idempotency_key''"

definition human_payload ::
  "string \<Rightarrow> string \<Rightarrow> string \<Rightarrow> string \<Rightarrow> string list \<Rightarrow> dict \<Rightarrow> exc + dict" where
  "human_payload ns tid sid key extra kvs =
     (case human_payload_errors ns tid sid key @ extra of
        [] \<Rightarrow> Inr (drop_none ([(''namespace'', JStr ns), (''saga_trace_id'', JStr tid),
                (''step_span_id'', JStr sid), (''idempotency_key'', JStr key)] @ kvs))
      | locs \<Rightarrow> Inl (ValidationError locs))"

definition resolve_decision_event ::
  "string \<Rightarrow> string \<Rightarrow> string \<Rightarrow> string \<Rightarrow> string \<Rightarrow> json \<Rightarrow> json \<Rightarrow> exc + string \<times> dict" where
  "resolve_decision_event decision ns tid sid key output details =
     (if decision = ''APPROVE''
      then (case human_payload ns tid sid key (need (dict_or_none output) ''output'')
                   [(''output'', output)] of
              Inl e \<Rightarrow> Inl e | Inr p \<Rightarrow> Inr (''HUMAN_APPROVED'', p))
      else if decision = ''REJECT''
      then (case human_payload ns tid sid key (need (dict_or_none details) ''error_details'')
                   [(''error_details'', details)] of
              Inl e \<Rightarrow> Inl e | Inr p \<Rightarrow> Inr (''HUMAN_REJECTED'', p))
      else Inl (InvalidHumanDecision decision))"

definition load_step_for_decision :: "string \<Rightarrow> string \<Rightarrow> string \<Rightarrow> step M" where
  "load_step_for_decision ns tid sid =
     bind (gets (\<lambda>db. rows_first (\<lambda>s. step_namespace s = ns \<and> saga_trace_id s = tid \<and> span_id s = sid
             \<and> is_forward s) (db_steps db))) (\<lambda>found.
     case found of
       None \<Rightarrow> raise HumanDecisionNotFound
     | Some s \<Rightarrow> (if step_status s \<noteq> Step_AWAITING_HUMAN
                  then raise (HumanDecisionConflict (step_status_value (step_status s))) else return s))"

definition outbox_row_of :: "string \<Rightarrow> string \<Rightarrow> db \<Rightarrow> outbox_event option" where
  "outbox_row_of topic key db =
     rows_first (\<lambda>r. ob_topic r = topic \<and> ob_idempotency_key r = Some key) (db_outbox db)"

text \<open>A request whose event exists already: requeued when its delivery failed.\<close>

definition requeue_if_failed :: "outbox_event \<Rightarrow> string M" where
  "requeue_if_failed r =
     (if ob_status r = Outbox_FAILED then seq (requeue_row (ob_id r)) (return ''requeued'')
      else return ''already_queued'')"

definition emit_human_decision ::
  "env \<Rightarrow> string \<Rightarrow> string \<Rightarrow> string \<Rightarrow> string \<Rightarrow> string \<Rightarrow> json \<Rightarrow> json \<Rightarrow> unit M" where
  "emit_human_decision E ns tid sid decision key output details =
     bind (of_sum (resolve_decision_event decision ns tid sid key output details)) (\<lambda>(ety, payload).
     seq (hook (On_hitl_decision_queued sid decision key))
         (emit_saga_event E (topic_events E) ety payload ns tid (Some sid) (Some key)))"

definition enqueue_human_decision ::
  "env \<Rightarrow> string \<Rightarrow> string \<Rightarrow> string \<Rightarrow> string \<Rightarrow> json \<Rightarrow> json \<Rightarrow> response M" where
  "enqueue_human_decision E ns tid sid decision output details =
     (let key = human_decision_idempotency_key tid sid in
      in_transaction
        (bind (gets (outbox_row_of (topic_events E) key)) (\<lambda>existing.
         case existing of
           Some r \<Rightarrow> bind (requeue_if_failed r)
             (\<lambda>st. return [(''status'', st), (''idempotency_key'', key)])
         | None \<Rightarrow>
             bind (load_step_for_decision ns tid sid) (\<lambda>_.
             seq (emit_human_decision E ns tid sid decision key output details)
                 (return [(''status'', ''queued''), (''idempotency_key'', key)])))))"

definition retry_payload ::
  "string \<Rightarrow> string \<Rightarrow> string \<Rightarrow> string \<Rightarrow> string option \<Rightarrow> exc + dict" where
  "retry_payload ns tid sid key guidance =
     human_payload ns tid sid key (need (length (opt_text guidance) \<le> 4096) ''retry_guidance'')
       [(''retry_guidance'', jopt_str guidance)]"

definition enqueue_hitl_retry ::
  "env \<Rightarrow> string \<Rightarrow> string \<Rightarrow> string \<Rightarrow> string option \<Rightarrow> string option \<Rightarrow> response M" where
  "enqueue_hitl_retry E ns tid sid retry_token retry_guidance =
     bind (token_or_fresh E retry_token) (\<lambda>token.
     let key = human_retry_outbox_idempotency_key tid sid token in
     in_transaction
       (bind (gets (outbox_row_of (topic_events E) key)) (\<lambda>existing.
        case existing of
          Some r \<Rightarrow> bind (requeue_if_failed r)
            (\<lambda>st. return ([(''status'', st), (''idempotency_key'', key)]
               @ (if st = ''requeued'' then [(''retry_token'', token)] else [])))
        | None \<Rightarrow>
            bind (load_step_for_decision ns tid sid) (\<lambda>s.
            bind (of_sum (assert_hitl_retry_allowed s)) (\<lambda>_.
            let guidance = nonempty (strip (opt_text retry_guidance)) in
            seq (hook (On_hitl_retry_queued sid key guidance (hitl_retry_count s + 1) (hitl_max_retries s)))
            (bind (of_sum (retry_payload ns tid sid key guidance)) (\<lambda>payload.
             seq (emit_saga_event E (topic_events E) ''HUMAN_RETRY'' payload ns tid (Some sid) (Some key))
                 (return [(''status'', ''queued''), (''idempotency_key'', key),
                          (''retry_token'', token)]))))))))"

end
