(* ===== verification/Worker.thy ===== *)
theory Worker imports Hydrate begin

text \<open>
  The worker runtime (\<^verbatim>\<open>workers/logic.py\<close>): a command taken from the outbox is
  parsed, its idempotency key claimed, its execution prepared from the frozen step row, run by an
  agent adapter, and its result emitted to the engine under the claim.  The adapter, which runs the
  model and the tools, is a function from the prepared execution to an outcome.
\<close>

section \<open>Parsing a command\<close>

definition coerce_worker_command_dict :: "dict \<Rightarrow> dict" where
  "coerce_worker_command_dict d = filter (\<lambda>(k, _). k \<notin> {''event_type'', ''trace_context''}) d"

definition command_type_of :: "json \<Rightarrow> command_type option" where
  "command_type_of j = (case j of
     JStr s \<Rightarrow> rows_first (\<lambda>t. command_type_value t = s) [DO_STEP, DO_COMMIT, EXECUTE_COMPENSATION]
   | _ \<Rightarrow> None)"

fun command_fields :: "command_type \<Rightarrow> string list" where
  "command_fields DO_STEP = [''prompt_ref'', ''arguments'', ''skill_specs'']"
| "command_fields DO_COMMIT = [''arguments'']"
| "command_fields EXECUTE_COMPENSATION =
     [''forward_step_span_id'', ''original_input'', ''failure_reason'', ''worker_snapshot'']"

definition command_common_fields :: "string list" where
  "command_common_fields = [''namespace'', ''saga_trace_id'', ''step_span_id'', ''type'', ''worker_name'',
     ''worker_version'', ''idempotency_key'', ''tool_specs'', ''resource_specs'']"

definition command_of_dict :: "command_type \<Rightarrow> dict \<Rightarrow> command" where
  "command_of_dict ty d =
     \<lparr>cmd_type = ty, cmd_namespace = str_of (field_or ''namespace'' (JStr ''default'') d),
      cmd_trace = str_of (dget ''saga_trace_id'' d), cmd_span = str_of (dget ''step_span_id'' d),
      cmd_worker_name = str_of (dget ''worker_name'' d), cmd_worker_version = str_of (dget ''worker_version'' d),
      cmd_key = str_of (dget ''idempotency_key'' d), cmd_prompt_ref = dget ''prompt_ref'' d,
      cmd_arguments = field_or (if ty = EXECUTE_COMPENSATION then ''original_input'' else ''arguments'') (JObj []) d,
      cmd_tool_specs = field_or ''tool_specs'' (JList []) d,
      cmd_resource_specs = field_or ''resource_specs'' (JList []) d,
      cmd_skill_specs = field_or ''skill_specs'' (JList []) d,
      cmd_forward_span = str_of (dget ''forward_step_span_id'' d),
      cmd_failure_reason = dget ''failure_reason'' d, cmd_worker_snapshot = dget ''worker_snapshot'' d\<rparr>"

definition command_dict_errors :: "command_type \<Rightarrow> dict \<Rightarrow> string list" where
  "command_dict_errors ty d =
     forbid_extra (command_common_fields @ command_fields ty) d
   @ concat (map (\<lambda>k. need (is_str (dget k d)) k)
       [''saga_trace_id'', ''step_span_id'', ''worker_name'', ''worker_version'', ''idempotency_key''])
   @ need (absent_or ''namespace'' is_str d) ''namespace''
   @ concat (map (\<lambda>k. need (absent_or k is_list d) k) [''tool_specs'', ''resource_specs'', ''skill_specs''])
   @ need (list_all is_dict (list_of (dget ''tool_specs'' d))) ''tool_specs''
   @ need (null_or is_dict (dget ''worker_snapshot'' d)) ''worker_snapshot''
   @ command_errors (command_of_dict ty d)"

text \<open>The command, or the rejection code and the reason.\<close>

definition parse_worker_command :: "env \<Rightarrow> dict \<Rightarrow> (string \<times> string) + command" where
  "parse_worker_command E raw =
     (let wire = coerce_worker_command_dict raw in
      case command_type_of (dget ''type'' wire) of
        None \<Rightarrow> Inl (''unknown_command_type'', ''unknown command type: '' @ repr_json (dget ''type'' wire))
      | Some ty \<Rightarrow>
          (case command_dict_errors ty wire of
             [] \<Rightarrow> Inr (command_of_dict ty wire)
           | loc # locs \<Rightarrow> Inl (''schema_validation_failed'',
               take 512 (show_nat (Suc (length locs)) @ '' error(s); first at '' @ loc @ '': '' @ error_message E loc))))"

section \<open>Preparing an execution\<close>

record prepared =
  pr_tool_specs :: "json list"
  pr_resource_specs :: "json list"
  pr_skill_specs :: "json list"
  pr_skills_definition :: "json list"
  pr_output_schema :: json
  pr_prompt_template :: "string option"
  pr_step_output :: json
  pr_context_snapshot :: json
  pr_saga_vars :: json
  pr_max_turns :: int
  pr_max_step_tokens :: "int option"
  pr_max_completion_tokens :: "int option"
  pr_facts_extractors :: "json list"
  pr_agent_adapter :: string
  pr_tool_bind_keys :: "json list"

definition tool_specs_by_name :: "json list \<Rightarrow> dict" where
  "tool_specs_by_name specs = fold (\<lambda>s acc. case s of
     JObj d \<Rightarrow> if truthy (dget ''name'' d) then dset (py_str (dget ''name'' d)) s acc else acc
   | _ \<Rightarrow> acc) specs []"

definition merge_tool_specs :: "json \<Rightarrow> json \<Rightarrow> json list" where
  "merge_tool_specs slim full =
     (let by_name = tool_specs_by_name (list_of full);
          merged = map (\<lambda>s. let n = py_str (dget ''name'' (coerce_dict s)) in
                       if dhas n by_name then dget n by_name else JObj [(''name'', JStr n)])
                     (filter (\<lambda>s. truthy (dget ''name'' (coerce_dict s))) (list_of slim))
      in if merged \<noteq> [] then merged else filter is_dict (list_of full))"

definition prefer_wire :: "string \<Rightarrow> json \<Rightarrow> json \<Rightarrow> json list" where
  "prefer_wire key wire full =
     map (\<lambda>s. if is_dict s then s else JObj [(key, JStr (py_str s))])
       (if list_of wire \<noteq> [] then list_of wire else list_of full)"

definition merge_resource_specs :: "json \<Rightarrow> json \<Rightarrow> json list" where
  "merge_resource_specs wire full = prefer_wire ''uri'' wire full"

definition merge_skill_specs :: "json \<Rightarrow> json \<Rightarrow> json list" where
  "merge_skill_specs wire full = prefer_wire ''name'' wire full"

definition load_forward_step :: "string \<Rightarrow> string \<Rightarrow> string \<Rightarrow> step M" where
  "load_forward_step ns tid sid =
     bind (gets (\<lambda>db. rows_first (\<lambda>s. step_namespace s = ns \<and> saga_trace_id s = tid \<and> span_id s = sid)
                        (db_steps db))) (\<lambda>found.
     case found of
       Some s \<Rightarrow> return s
     | None \<Rightarrow> raise (ValueError (''Saga step not found: namespace='' @ repr_str ns @ '' trace='' @ repr_str tid
                 @ '' span='' @ repr_str sid)))"

definition load_saga_instance :: "string \<Rightarrow> string \<Rightarrow> saga M" where
  "load_saga_instance ns tid =
     bind (gets (\<lambda>db. rows_first (\<lambda>g. saga_namespace g = ns \<and> trace_id g = tid) (db_sagas db))) (\<lambda>found.
     case found of
       Some g \<Rightarrow> return g
     | None \<Rightarrow> raise (ValueError (''Saga not found: namespace='' @ repr_str ns @ '' trace_id='' @ repr_str tid)))"

definition prepare_compensation_command :: "command \<Rightarrow> prepared M" where
  "prepare_compensation_command c =
     bind (load_forward_step (cmd_namespace c) (cmd_trace c) (cmd_span c)) (\<lambda>undo.
     bind (load_forward_step (cmd_namespace c) (cmd_trace c) (cmd_forward_span c)) (\<lambda>fwd.
     bind (load_saga_instance (cmd_namespace c) (cmd_trace c)) (\<lambda>sg.
     let snapshot = compensation_parameter_context sg fwd (cmd_span c) (cmd_key c) in
     return \<lparr>pr_tool_specs = merge_tool_specs (cmd_tool_specs c) (tools_allow undo),
       pr_resource_specs = merge_resource_specs (cmd_resource_specs c) (resources_allow undo),
       pr_skill_specs = [], pr_skills_definition = [], pr_output_schema = JNull, pr_prompt_template = None,
       pr_step_output = effective_forward_step_output fwd, pr_context_snapshot = snapshot,
       pr_saga_vars = snapshot, pr_max_turns = 1, pr_max_step_tokens = None, pr_max_completion_tokens = None,
       pr_facts_extractors = [], pr_agent_adapter = ''react'', pr_tool_bind_keys = []\<rparr>)))"

definition load_do_step_prompt :: "command \<Rightarrow> step \<Rightarrow> exc + string" where
  "load_do_step_prompt c s =
     (if strip (opt_text (prompt_definition s)) \<noteq> [] then Inr (opt_text (prompt_definition s))
      else Inl (ValueError (''Step '' @ cmd_span c @ '' has no prompt_definition; ''
             @ ''cannot execute reason step without a start-frozen prompt template.'')))"

definition prepare_forward_command :: "command \<Rightarrow> prepared M" where
  "prepare_forward_command c =
     bind (load_forward_step (cmd_namespace c) (cmd_trace c) (cmd_span c)) (\<lambda>s.
     bind (of_sum (if cmd_type c = DO_STEP then and_then (load_do_step_prompt c s) (\<lambda>t. Inr (Some t)) else Inr None)) (\<lambda>template.
     return \<lparr>pr_tool_specs = merge_tool_specs (cmd_tool_specs c) (tools_allow s),
       pr_resource_specs = merge_resource_specs (cmd_resource_specs c) (resources_allow s),
       pr_skill_specs = merge_skill_specs (if cmd_type c = DO_STEP then cmd_skill_specs c else JNull) (skills_allow s),
       pr_skills_definition = filter is_dict (list_of (skills_definition s)),
       pr_output_schema = (if is_dict (output_schema s) then output_schema s else JNull),
       pr_prompt_template = template, pr_step_output = JNull, pr_context_snapshot = JNull,
       pr_saga_vars = jor (cmd_arguments c) (JObj []), pr_max_turns = max_turns s,
       pr_max_step_tokens = max_step_tokens s, pr_max_completion_tokens = max_completion_tokens s,
       pr_facts_extractors = filter is_dict (list_of (facts_extractors s)),
       pr_agent_adapter = (if agent_adapter s = [] then ''react'' else agent_adapter s),
       pr_tool_bind_keys = list_of (tools_bind s)\<rparr>))"

definition prepare_worker_command :: "command \<Rightarrow> prepared M" where
  "prepare_worker_command c =
     (if cmd_type c = EXECUTE_COMPENSATION then prepare_compensation_command c else prepare_forward_command c)"

section \<open>The claim\<close>

text \<open>\<open>ProcessedCommand.create\<close>: the idempotency key is the primary key.\<close>

definition create_claim :: "string \<Rightarrow> string \<Rightarrow> string \<Rightarrow> unit M" where
  "create_claim key ns token =
     bind (gets (\<lambda>db. find_claim key db \<noteq> None)) (\<lambda>taken.
     if taken then raise IntegrityError
     else modify (\<lambda>db. db\<lparr>db_claims := db_claims db @
            [\<lparr>pc_key = key, pc_namespace = ns, pc_claim_token = token, pc_result_emitted = False,
              pc_created_at = db_now db\<rparr>]\<rparr>))"

definition claim_attempt :: "env \<Rightarrow> string \<Rightarrow> string \<Rightarrow> string M" where
  "claim_attempt E key ns =
     bind (uuid4_hex (uuid_hex E)) (\<lambda>token.
     seq (in_transaction (seq (create_claim key ns token) (hook (On_command_claimed key))))
         (return token))"

definition is_integrity_error :: "exc \<Rightarrow> bool" where
  "is_integrity_error e = (case e of IntegrityError \<Rightarrow> True | _ \<Rightarrow> False)"

text \<open>The token of the claim; \<open>None\<close>: a duplicate.  A stale claim is reaped once.\<close>

definition claim_idempotency_key :: "env \<Rightarrow> string \<Rightarrow> string \<Rightarrow> string option M" where
  "claim_idempotency_key E key ns =
     try_except (bind (claim_attempt E key ns) (\<lambda>t. return (Some t))) (\<lambda>e.
       if \<not> is_integrity_error e then raise e
       else bind (reap_stale_claim_by_key E key) (\<lambda>reaped.
         if \<not> reaped then return None
         else try_except (bind (claim_attempt E key ns) (\<lambda>t. return (Some t))) (\<lambda>e'.
           if is_integrity_error e' then return None else raise e')))"

definition release_command_claim :: "string \<Rightarrow> string \<Rightarrow> unit M" where
  "release_command_claim key token =
     modify (\<lambda>db. db\<lparr>db_claims := rows_delete (\<lambda>c. pc_key c = key \<and> pc_claim_token c = token) (db_claims db)\<rparr>)"

section \<open>Results\<close>

text \<open>The payload of a \<open>WorkerResultEvent\<close>; the contract is checked when it is built.\<close>

definition result_errors :: "string \<Rightarrow> string \<Rightarrow> string \<Rightarrow> string list" where
  "result_errors ns tid sid =
     need (namespace_ok ns) ''namespace'' @ need (trace_ok tid) ''saga_trace_id''
   @ need (span_ok sid) ''step_span_id''"

definition result_payload ::
  "event_type \<Rightarrow> string \<Rightarrow> string \<Rightarrow> string \<Rightarrow> dict \<Rightarrow> json \<Rightarrow> json \<Rightarrow> dict" where
  "result_payload ety ns tid sid output timing usage = drop_none
     ([(''namespace'', JStr ns), (''saga_trace_id'', JStr tid), (''step_span_id'', JStr sid),
       (''output'', JObj output), (''timing'', timing), (''usage'', usage),
       (''type'', JStr (event_type_value ety))]
      @ (if ety = STEP_FAILED \<or> ety = COMPENSATION_FAILED then [(''error_details'', JObj output)] else []))"

definition report_result ::
  "env \<Rightarrow> event_type \<Rightarrow> string \<Rightarrow> string \<Rightarrow> string \<Rightarrow> dict \<Rightarrow> json \<Rightarrow> json \<Rightarrow> unit M" where
  "report_result E ety ns tid sid output timing usage =
     (if ety \<notin> {STEP_COMPLETED, STEP_FAILED, STEP_COMPENSATED, COMPENSATION_FAILED} then skip
      else case result_errors ns tid sid of
        [] \<Rightarrow> emit_saga_event E (topic_events E) (event_type_value ety)
                (result_payload ety ns tid sid output timing usage) ns tid (Some sid) None
      | locs \<Rightarrow> raise (ValidationError locs))"

definition finalize_success ::
  "env \<Rightarrow> command \<Rightarrow> string \<Rightarrow> event_type \<Rightarrow> dict \<Rightarrow> json \<Rightarrow> json \<Rightarrow> unit M" where
  "finalize_success E c token ety output timing usage =
     in_transaction
       (bind (mark_claim_result_emitted (cmd_key c) token) (\<lambda>marked.
        when_do marked
          (seq (report_result E ety (cmd_namespace c) (cmd_trace c) (cmd_span c) output timing usage)
          (seq (hook (On_execution_completed (cmd_span c)))
               (hook (On_result_emitted (cmd_span c) (event_type_value ety) (JObj output)))))))"

definition finalize_failure ::
  "env \<Rightarrow> command \<Rightarrow> string \<Rightarrow> event_type \<Rightarrow> dict \<Rightarrow> string \<Rightarrow> json \<Rightarrow> json \<Rightarrow> unit M" where
  "finalize_failure E c token ety output error_code timing usage =
     in_transaction
       (bind (verify_claim_before_emit (cmd_key c) token) (\<lambda>owned.
        when_do owned
          (seq (report_result E ety (cmd_namespace c) (cmd_trace c) (cmd_span c) output timing usage)
          (seq (hook (On_execution_failed (cmd_span c) error_code))
          (seq (hook (On_result_emitted (cmd_span c) (event_type_value ety) (JObj output)))
               (release_command_claim (cmd_key c) token))))))"

definition finalize_worker_config_load_failure ::
  "env \<Rightarrow> command \<Rightarrow> string \<Rightarrow> string \<Rightarrow> string \<Rightarrow> unit M" where
  "finalize_worker_config_load_failure E c token error code =
     (let detail = take 512 error;
          ety = (if cmd_type c = EXECUTE_COMPENSATION then COMPENSATION_FAILED else STEP_FAILED) in
      in_transaction
        (seq (hook (On_command_rejected code detail))
             (finalize_failure E c token ety [(''error'', JStr detail), (''code'', JStr code)] code JNull JNull)))"

definition finalize_adapter_resolution_failure :: "env \<Rightarrow> command \<Rightarrow> string \<Rightarrow> string \<Rightarrow> unit M" where
  "finalize_adapter_resolution_failure E c token error =
     in_transaction
       (finalize_failure E c token STEP_FAILED
          [(''error'', JStr error), (''code'', JStr ''adapter_resolution_failed'')]
          ''adapter_resolution_failed'' JNull JNull)"

section \<open>The worker definition\<close>

definition mcp_server_ok :: "json \<Rightarrow> bool" where
  "mcp_server_ok j = (case j of
     JObj d \<Rightarrow>
       is_str (dget ''name'' d)
       \<and> (field_or ''transport'' (JStr ''streamable_http'') d = JStr ''streamable_http''
          \<or> dget ''transport'' d = JStr ''stdio'')
       \<and> list_all (\<lambda>k. null_or is_str (dget k d)) [''url'', ''command'', ''cwd'']
       \<and> absent_or ''args'' (\<lambda>a. is_list a \<and> list_all is_str (list_of a)) d
       \<and> list_all (\<lambda>k. null_or (\<lambda>m. is_dict m \<and> list_all (\<lambda>(_, v). is_str v) (coerce_dict m)) (dget k d))
           [''env'', ''headers'']
       \<and> text_ok (dget (if dget ''transport'' d = JStr ''stdio'' then ''command'' else ''url'') d)
   | _ \<Rightarrow> False)"

text \<open>\<open>model_dump_json(by_alias=True, exclude_none=True)\<close> of a tool source.\<close>

definition dump_mcp_server :: "json \<Rightarrow> json" where
  "dump_mcp_server j = (let d = coerce_dict j in JObj (drop_none
     [(''name'', dget ''name'' d), (''transport'', field_or ''transport'' (JStr ''streamable_http'') d),
      (''url'', dget ''url'' d), (''command'', dget ''command'' d), (''args'', field_or ''args'' (JList []) d),
      (''cwd'', dget ''cwd'' d), (''env'', dget ''env'' d), (''headers'', dget ''headers'' d)]))"

fun is_number :: "json \<Rightarrow> bool" where
  "is_number (JInt i) = True"
| "is_number (JFloat s) = True"
| "is_number _ = False"

definition worker_blueprint_errors :: "dict \<Rightarrow> string list" where
  "worker_blueprint_errors d =
     need (dget ''kind'' d = JStr ''worker'') ''kind''
   @ concat (map (\<lambda>k. need (is_str (dget k d)) k) [''name'', ''version'', ''model_name'', ''system_prompt''])
   @ need (absent_or ''namespace'' is_str d) ''namespace''
   @ need (null_or is_str (dget ''description'' d)) ''description''
   @ need (dget ''provider'' d \<in> JStr ` {''openai'', ''anthropic'', ''azure'', ''local'', ''mock''}) ''provider''
   @ need (absent_or ''temperature'' is_number d) ''temperature''
   @ need (absent_or ''tool_sources'' (\<lambda>a. is_list a \<and> list_all mcp_server_ok (list_of a)) d) ''tool_sources''
   @ need (absent_or ''adapter'' is_str d) ''adapter''
   @ need (dget ''provider'' d \<noteq> JStr ''mock'' \<or> text_ok (dget ''model_name'' d)) ''model_name''"

definition require_worker_definition :: "string \<Rightarrow> string \<Rightarrow> string \<Rightarrow> worker_row M" where
  "require_worker_definition ns name version =
     bind (gets (\<lambda>db. rows_first (\<lambda>w. wdef_namespace w = ns \<and> wdef_name w = name \<and> wdef_version w = version)
                        (db_worker_defs db))) (\<lambda>found.
     case found of
       None \<Rightarrow> raise (CatalogDefinitionNotFound ''worker'' ns name version)
     | Some w \<Rightarrow> if wdef_is_active w then return w
                 else raise (InactiveCatalogDefinition ''worker'' ns name version))"

definition assert_worker_snapshot_version :: "json \<Rightarrow> string \<Rightarrow> exc + unit" where
  "assert_worker_snapshot_version snapshot expected =
     (let v = dget ''version'' (coerce_dict snapshot) in
      if \<not> truthy snapshot \<or> v = JNull \<or> py_str v = expected then Inr ()
      else Inl (ValueError (''worker_snapshot.version '' @ repr_json v @ '' does not match command worker_version ''
             @ repr_str expected @ ''.'')))"

definition env_var_for_provider :: "string \<Rightarrow> string option" where
  "env_var_for_provider provider =
     (let p = lower (strip provider) in
      if p = ''openai'' \<or> p = ''local'' then Some ''OPENAI_API_KEY''
      else if p = ''anthropic'' then Some ''ANTHROPIC_API_KEY''
      else if p = ''azure'' then Some ''AZURE_OPENAI_API_KEY'' else None)"

definition strip_non_empty :: "string option \<Rightarrow> string option" where
  "strip_non_empty v = (case v of None \<Rightarrow> None | Some t \<Rightarrow> if strip t = [] then None else Some (strip t))"

definition api_key_from_env :: "env \<Rightarrow> string \<Rightarrow> string option" where
  "api_key_from_env E provider =
     (case env_var_for_provider provider of None \<Rightarrow> None | Some v \<Rightarrow> strip_non_empty (environ E v))"

text \<open>The API key the adapter gets; a stored secret is passed as it is stored.\<close>

definition resolve_provider_secret :: "env \<Rightarrow> string \<Rightarrow> string \<Rightarrow> string M" where
  "resolve_provider_secret E ns provider =
     bind (gets (\<lambda>db. rows_first (\<lambda>s. ps_namespace s = ns \<and> ps_provider s = provider) (db_secrets db))) (\<lambda>secret.
     let p = lower (strip provider); stored = strip_non_empty (map_option ps_api_key secret) in
     case stored of
       Some _ \<Rightarrow> return (opt_text (map_option ps_api_key secret))
     | None \<Rightarrow>
         if api_key_from_env E p = None \<and> p \<noteq> ''local'' \<and> p \<noteq> ''mock''
         then raise (ValueError (''No API key found for '' @ p @ '' (Namespace: '' @ ns @ ''). ''
                @ ''Add a row to provider_secrets or set the provider's API key in the environment.''))
         else return (opt_text (api_key_from_env E p)))"

definition load_worker_config :: "env \<Rightarrow> string \<Rightarrow> string \<Rightarrow> string \<Rightarrow> (json \<times> string) M" where
  "load_worker_config E name ns version =
     bind (require_worker_definition ns name version) (\<lambda>row.
     case (if is_dict (wdef_body row) then worker_blueprint_errors (coerce_dict (wdef_body row)) else [''worker'']) of
       [] \<Rightarrow>
         bind (resolve_provider_secret E ns (str_of (dget ''provider'' (coerce_dict (wdef_body row)))))
           (\<lambda>api_key. return (wdef_body row, api_key))
     | locs \<Rightarrow> raise (ValueError (''WorkerDefinition '' @ name @ ''@'' @ version @ '' body is invalid: ''
                 @ pydantic_text E locs)))"

text \<open>\<open>resolve_adapter\<close> (\<^verbatim>\<open>workers/adapter_resolver.py\<close>): the text of
  what it raises, if it raises.\<close>

definition resolve_adapter_error :: "env \<Rightarrow> json \<Rightarrow> string option" where
  "resolve_adapter_error E body =
     (let name = lower (strip (str_of (field_or ''adapter'' (JStr ''langchain'') (coerce_dict body)))) in
      if name = [] \<or> name = ''langchain'' then adapter_error E body
      else if name = ''adk'' then Some ''Adapter 'adk' is not implemented. Use adapter='langchain'.''
      else Some (''Unknown adapter '' @ repr_str name @ ''. Supported: langchain.''))"

section \<open>Handling a command\<close>

record execution =
  ex_command :: command
  ex_prepared :: prepared
  ex_worker :: json
  ex_api_key :: string
  ex_token :: string

text \<open>What the adapter did: its output, an \<open>ExecutionStepError\<close> with its details, tool and text,
  or another exception by its flattened chain and its text; with the timing and usage it measured.\<close>

datatype adapter_outcome =
    Adapter_output dict
  | Adapter_step_error dict "string option" string
  | Adapter_exception string string

record adapter_run =
  run_outcome :: adapter_outcome
  run_timing :: json
  run_usage :: json

definition catalog_error_code :: "exc \<Rightarrow> string option" where
  "catalog_error_code e = (case e of
     CatalogDefinitionNotFound _ _ _ _ \<Rightarrow> Some ''CATALOG_DEFINITION_NOT_FOUND''
   | InactiveCatalogDefinition _ _ _ _ \<Rightarrow> Some ''INACTIVE_CATALOG_DEFINITION''
   | _ \<Rightarrow> None)"

definition is_plain_value_error :: "exc \<Rightarrow> bool" where
  "is_plain_value_error e = (case e of ValueError _ \<Rightarrow> True | ValidationError _ \<Rightarrow> True | _ \<Rightarrow> False)"

definition resolve_and_start :: "env \<Rightarrow> command \<Rightarrow> prepared \<Rightarrow> string \<Rightarrow> json \<times> string \<Rightarrow> execution option M" where
  "resolve_and_start E c p token config =
     (case resolve_adapter_error E (fst config) of
        Some e \<Rightarrow> seq (finalize_adapter_resolution_failure E c token e) (return None)
      | None \<Rightarrow>
          seq (hook (On_definition_snapshot (cmd_span c)
                 (map (\<lambda>s. py_str (dget ''name'' (coerce_dict s)))
                    (filter (\<lambda>s. truthy (dget ''name'' (coerce_dict s))) (pr_tool_specs p)))))
          (seq (hook (On_execution_started (cmd_span c)))
               (return (Some \<lparr>ex_command = c, ex_prepared = p, ex_worker = fst config,
                              ex_api_key = snd config, ex_token = token\<rparr>))))"

definition load_config_and_start :: "env \<Rightarrow> command \<Rightarrow> prepared \<Rightarrow> string \<Rightarrow> execution option M" where
  "load_config_and_start E c p token =
     bind (try_except
             (bind (of_sum (assert_worker_snapshot_version (cmd_worker_snapshot c) (cmd_worker_version c)))
                (\<lambda>_. bind (load_worker_config E (cmd_worker_name c) (cmd_namespace c) (cmd_worker_version c))
                       (\<lambda>config. return (Some config))))
             (\<lambda>e. case catalog_error_code e of
                Some code \<Rightarrow> seq (finalize_worker_config_load_failure E c token (exc_text E e) code) (return None)
              | None \<Rightarrow>
                  if is_plain_value_error e
                  then seq (finalize_worker_config_load_failure E c token (exc_text E e) ''worker_config_load_failed'')
                         (return None)
                  else raise e)) (\<lambda>loaded.
     case loaded of
       None \<Rightarrow> return None
     | Some config \<Rightarrow> resolve_and_start E c p token config)"

definition execute_claimed :: "env \<Rightarrow> command \<Rightarrow> string \<Rightarrow> execution option M" where
  "execute_claimed E c token =
     bind (try_except (bind (prepare_worker_command c) (\<lambda>p. return (Some p)))
             (\<lambda>e. if is_plain_value_error e
                   then seq (finalize_worker_config_load_failure E c token (exc_text E e) ''worker_config_load_failed'')
                          (return None)
                   else raise e)) (\<lambda>prep.
     case prep of
       None \<Rightarrow> return None
     | Some p \<Rightarrow> load_config_and_start E c p token)"

definition prepare_worker_command_execution :: "env \<Rightarrow> dict \<Rightarrow> execution option M" where
  "prepare_worker_command_execution E raw =
     (case parse_worker_command E raw of
        Inl (code, reason) \<Rightarrow> seq (hook (On_command_rejected code (take 512 reason))) (return None)
      | Inr c \<Rightarrow>
          bind (claim_idempotency_key E (cmd_key c) (cmd_namespace c)) (\<lambda>claim.
          case claim of
            None \<Rightarrow> return None
          | Some token \<Rightarrow> execute_claimed E c token))"

text \<open>\<open>step_error.tool or "execution_step_error"\<close>.\<close>

definition or_default :: "string option \<Rightarrow> string" where
  "or_default tool = (if opt_text tool = [] then ''execution_step_error'' else opt_text tool)"

definition run_forward_command :: "env \<Rightarrow> command \<Rightarrow> string \<Rightarrow> string \<Rightarrow> adapter_run \<Rightarrow> unit M" where
  "run_forward_command E c token generic_code r =
     (case run_outcome r of
        Adapter_output output \<Rightarrow>
          finalize_success E c token STEP_COMPLETED output (run_timing r) (run_usage r)
      | Adapter_step_error details tool message \<Rightarrow>
          (let output = (if details = [] then [(''error'', JStr message)] else details);
               code = (case dget ''code'' output of
                         JStr s \<Rightarrow> if s = [] then or_default tool else s
                       | _ \<Rightarrow> or_default tool) in
           finalize_failure E c token STEP_FAILED output code (run_timing r) (run_usage r))
      | Adapter_exception chain message \<Rightarrow>
          finalize_failure E c token STEP_FAILED [(''error'', JStr chain)] generic_code
            (run_timing r) (run_usage r))"

definition run_compensation_command :: "env \<Rightarrow> command \<Rightarrow> string \<Rightarrow> adapter_run \<Rightarrow> unit M" where
  "run_compensation_command E c token r =
     (let failed = (\<lambda>message. finalize_failure E c token COMPENSATION_FAILED [(''error'', JStr message)]
                       ''compensation_failed'' (run_timing r) (run_usage r)) in
      case run_outcome r of
        Adapter_output output \<Rightarrow>
          finalize_success E c token STEP_COMPENSATED output (run_timing r) (run_usage r)
      | Adapter_step_error details tool message \<Rightarrow> failed message
      | Adapter_exception chain message \<Rightarrow> failed message)"

definition dispatch_worker_command_execution :: "env \<Rightarrow> execution \<Rightarrow> adapter_run \<Rightarrow> unit M" where
  "dispatch_worker_command_execution E x r =
     (case cmd_type (ex_command x) of
        EXECUTE_COMPENSATION \<Rightarrow> run_compensation_command E (ex_command x) (ex_token x) r
      | DO_STEP \<Rightarrow>
          if opt_text (pr_prompt_template (ex_prepared x)) = []
          then raise (ValueError ''DO_STEP prepare did not load prompt_template'')
          else run_forward_command E (ex_command x) (ex_token x) ''step_failed'' r
      | DO_COMMIT \<Rightarrow> run_forward_command E (ex_command x) (ex_token x) ''commit_failed'' r)"

definition handle_worker_command :: "env \<Rightarrow> (execution \<Rightarrow> adapter_run) \<Rightarrow> dict \<Rightarrow> unit M" where
  "handle_worker_command E A raw =
     bind (prepare_worker_command_execution E raw) (\<lambda>ex.
     case ex of None \<Rightarrow> skip | Some x \<Rightarrow> dispatch_worker_command_execution E x (A x))"

end
