(* ===== verification/Registry.thy ===== *)
theory Registry imports SagaStart Worker begin

text \<open>
  The catalog (\<^verbatim>\<open>engine/registry/service.py\<close>): worker, step and saga manifests are
  validated, checked against the files and the definitions they refer to, and stored; a worker or a
  step version is immutable, a saga is replaced.  The activation of a definition is that of
  \<^verbatim>\<open>engine/api/routes/definitions.py\<close>, the check of a prompt's variables that of
  \<^verbatim>\<open>engine/utils.py\<close>.
\<close>

section \<open>Variables of a prompt\<close>

definition is_word :: "char \<Rightarrow> bool" where
  "is_word c = (let n = (of_char c :: nat) in
     48 \<le> n \<and> n \<le> 57 \<or> 65 \<le> n \<and> n \<le> 90 \<or> 97 \<le> n \<and> n \<le> 122 \<or> n = 95)"

text \<open>The text after a prefix; \<open>_JINJA_VAR_PATTERN\<close> and \<open>_JINJA_FOR_PATTERN\<close> at the
  start of a text: what they capture.  Their parts match disjoint characters, so the greedy match is
  the only one.\<close>

definition after :: "string \<Rightarrow> string \<Rightarrow> string option" where
  "after p s = (if starts_with p s then Some (drop (length p) s) else None)"

definition match_variable :: "string \<Rightarrow> string option" where
  "match_variable s = (case after ''{{'' s of
     None \<Rightarrow> None
   | Some r \<Rightarrow>
       (let r = dropWhile is_space r; name = takeWhile is_word r; r = dropWhile is_word r;
            r = (if starts_with ''.'' r then dropWhile (\<lambda>c. is_word c \<or> c = CHR ''.'') r else r)
        in if name \<noteq> [] \<and> starts_with ''}}'' (dropWhile is_space r) then Some name else None))"

definition match_for :: "string \<Rightarrow> string list option" where
  "match_for s = (case after ''{%'' s of
     None \<Rightarrow> None
   | Some r \<Rightarrow>
       (let r = (if starts_with ''-'' r then drop 1 r else r); r = dropWhile is_space r in
        if lower (take 3 r) \<noteq> ''for'' \<or> \<not> list_ex is_space (take 1 (drop 3 r)) then None
        else
          (let r = dropWhile is_space (drop 3 r); x = takeWhile is_word r; r = dropWhile is_word r;
               r' = dropWhile is_space r;
               second = (if starts_with '','' r' then takeWhile is_word (dropWhile is_space (drop 1 r')) else []);
               r = (if second = [] then r else dropWhile is_word (dropWhile is_space (drop 1 r')));
               w = dropWhile is_space r
           in if x = [] \<or> \<not> list_ex is_space (take 1 r) \<or> lower (take 2 w) \<noteq> ''in''
                \<or> \<not> list_ex is_space (take 1 (drop 2 w)) then None
              else Some (x # (if second = [] then [] else [second])))))"

text \<open>\<open>findall\<close>: a match never overlaps the next one, as a match contains no further opening
  brace.\<close>

fun jinja_variables :: "string \<Rightarrow> string list" where
  "jinja_variables [] = []"
| "jinja_variables (c # s) = (case match_variable (c # s) of
     Some v \<Rightarrow> v # jinja_variables s | None \<Rightarrow> jinja_variables s)"

fun jinja_for_targets :: "string \<Rightarrow> string list" where
  "jinja_for_targets [] = []"
| "jinja_for_targets (c # s) = (case match_for (c # s) of
     Some vs \<Rightarrow> vs @ jinja_for_targets s | None \<Rightarrow> jinja_for_targets s)"

definition jinja_for_loop_names :: "string \<Rightarrow> string list" where
  "jinja_for_loop_names t = (let ns = jinja_for_targets t in if ns = [] then [] else ns @ [''loop''])"

definition validate_prompt_variables :: "string \<Rightarrow> string list \<Rightarrow> asset_error + unit" where
  "validate_prompt_variables content keys =
     (let missing = filter (\<lambda>v. v \<notin> set keys \<and> v \<notin> set (jinja_for_loop_names content))
                      (jinja_variables content) in
      if missing = [] then Inr ()
      else Inl (Asset_value (''Prompt uses variable(s) not defined in step 'with': ''
             @ repr_names (sort (remdups missing)) @ ''. Available keys: ''
             @ (if keys = [] then ''(none)'' else repr_names (sort (remdups keys))) @ ''.'')))"

definition validate_reason_step_prompt_at_rest :: "env \<Rightarrow> string \<Rightarrow> string list \<Rightarrow> asset_error + unit" where
  "validate_reason_step_prompt_at_rest E pref keys =
     (if root_unset (prompts_root E)
      then Inl (Asset_value ''prompts_root is not configured; set PROMPTS_ROOT when a reason step sets prompt.'')
      else and_then (load_prompt_content E (the_root (prompts_root E)) pref)
             (\<lambda>content. validate_prompt_variables content keys))"

section \<open>Checks of a step at registration\<close>

definition compile_cel_program :: "env \<Rightarrow> string \<Rightarrow> string option" where
  "compile_cel_program E source = (case celpy E source [] of
     Cel_parse_error m \<Rightarrow> Some (''CEL parse error: '' @ m) | _ \<Rightarrow> None)"

definition invalid :: "string \<Rightarrow> string \<Rightarrow> string \<Rightarrow> exc" where
  "invalid label what m = ValueError (label @ '' '' @ what @ m)"

definition validate_step_files :: "env \<Rightarrow> string \<Rightarrow> dict \<Rightarrow> exc + dict option" where
  "validate_step_files E label d =
     (case and_then (load_output_schema E (str_opt (dget ''output_schema'' d)))
           (\<lambda>_. load_compensation_definition E (str_opt (dget ''compensation'' d))) of
        Inl e \<Rightarrow> Inl (invalid label ''output_schema or compensation is invalid: '' (asset_text e))
      | Inr cd \<Rightarrow> Inr cd)"

definition validate_reason_prompt :: "env \<Rightarrow> string \<Rightarrow> string list \<Rightarrow> string \<Rightarrow> exc + unit" where
  "validate_reason_prompt E pref keys label =
     (case validate_reason_step_prompt_at_rest E pref keys of
        Inl e \<Rightarrow> Inl (invalid label ''prompt is invalid: '' (asset_text e))
      | Inr _ \<Rightarrow> Inr ())"

definition validate_step_skills :: "env \<Rightarrow> string \<Rightarrow> string list \<Rightarrow> string \<Rightarrow> exc + unit" where
  "validate_step_skills E worker_name ids label =
     (if ids = [] then Inr ()
      else case and_then (resolve_skills_root E (the_root (skills_root E)))
                  (\<lambda>root. map_checked (load_skill_document E root worker_name) ids) of
        Inl e \<Rightarrow> Inl (invalid label ''skills are invalid: '' (asset_text e))
      | Inr _ \<Rightarrow> Inr ())"

text \<open>A YAML error of a policy file is not among the exceptions that are caught.\<close>

definition validate_step_policy :: "env \<Rightarrow> dict \<Rightarrow> string \<Rightarrow> exc + unit" where
  "validate_step_policy E d label =
     (let ref = stripped ''policy'' d in
      if ref = [] then Inr ()
      else case load_policy_artifact E ref of
        Inl (Asset_yaml m) \<Rightarrow> Inl (YamlError m)
      | Inl e \<Rightarrow> Inl (invalid label ''policy is invalid: '' (asset_text e))
      | Inr a \<Rightarrow> (case compile_cel_program E (pa_cel a) of
           Some m \<Rightarrow> Inl (invalid label ''policy is invalid: '' m)
         | None \<Rightarrow> Inr ()))"

definition validate_cel :: "env \<Rightarrow> json \<Rightarrow> string \<Rightarrow> string \<Rightarrow> exc + unit" where
  "validate_cel E spec label what =
     (case compile_cel_program E (strip (str_of (dget ''cel'' (coerce_dict spec)))) of
        Some m \<Rightarrow> Inl (invalid label (what @ ''.cel is invalid: '') m)
      | None \<Rightarrow> Inr ())"

definition validate_when :: "env \<Rightarrow> dict \<Rightarrow> string \<Rightarrow> exc + unit" where
  "validate_when E d label =
     (if dget ''when'' d = JNull then Inr () else validate_cel E (dget ''when'' d) label ''when'')"

fun facts_field_error :: "env \<Rightarrow> dict \<Rightarrow> string option" where
  "facts_field_error E [] = None"
| "facts_field_error E ((k, p) # d) = (case jsonpath_error E (str_of p) of
     Some m \<Rightarrow> Some (''facts.fields['' @ repr_str k @ ''] invalid JSONPath '' @ repr_json p @ '': '' @ m)
   | None \<Rightarrow> facts_field_error E d)"

fun facts_error :: "env \<Rightarrow> string list \<Rightarrow> json list \<Rightarrow> string option" where
  "facts_error E seen [] = None"
| "facts_error E seen (f # fs) =
     (if fact_into f \<in> set seen
      then Some (''duplicate facts.into key '' @ repr_str (fact_into f) @ '' in step'')
      else case facts_field_error E (coerce_dict (dget ''fields'' (coerce_dict f))) of
        Some m \<Rightarrow> Some m
      | None \<Rightarrow> facts_error E (fact_into f # seen) fs)"

definition validate_facts :: "env \<Rightarrow> dict \<Rightarrow> string \<Rightarrow> exc + unit" where
  "validate_facts E d label = (case facts_error E [] (list_of (dget ''facts'' d)) of
     Some m \<Rightarrow> Inl (invalid label ''facts extractors are invalid: '' m)
   | None \<Rightarrow> Inr ())"

text \<open>The checks that only a reason step has, of a saga step or of a catalog step.\<close>

definition validate_reason_assets :: "env \<Rightarrow> dict \<Rightarrow> string list \<Rightarrow> string \<Rightarrow> string \<Rightarrow> exc + unit" where
  "validate_reason_assets E d keys worker_name label =
     and_then (validate_reason_prompt E (str_of (dget ''prompt'' d)) keys label) (\<lambda>_.
     validate_step_skills E worker_name (map (\<lambda>j. stripped ''name'' (coerce_dict j)) (allow_items (dget ''skills'' d))) label)"

definition validate_one_saga_step_at_registration :: "env \<Rightarrow> string \<Rightarrow> dict \<Rightarrow> exc + dict option" where
  "validate_one_saga_step_at_registration E index d =
     (let label = ''Saga step '' @ index @ '' (id='' @ repr_json (dget ''id'' d) @ '')'';
          reason = (dget ''kind'' d = JStr ''reason'') in
      and_then (validate_step_files E label d) (\<lambda>cd.
      and_then (if reason
                then validate_reason_assets E d (map fst (with_of d)) (str_of (dget ''worker'' d)) label
                else Inr ()) (\<lambda>_.
      and_then (validate_step_policy E d label) (\<lambda>_.
      and_then (validate_when E d label) (\<lambda>_.
      and_then (if reason then validate_facts E d label else Inr ()) (\<lambda>_. Inr cd))))))"

definition input_schema_error :: "env \<Rightarrow> string \<Rightarrow> json \<Rightarrow> string option" where
  "input_schema_error E name schema =
     (case check_schema E schema of
        Some m \<Rightarrow> Some (''inputs['' @ repr_str name @ ''].schema is not a valid Draft-7 schema: '' @ m)
      | None \<Rightarrow>
          (case assert_output_schema_bind_supported (''$.inputs.'' @ name @ ''.schema'') (coerce_dict schema) of
             Inl e \<Rightarrow> Some (''inputs['' @ repr_str name @ ''].schema: '' @ asset_text e)
           | Inr _ \<Rightarrow> None))"

fun input_schemas_error :: "env \<Rightarrow> dict \<Rightarrow> string option" where
  "input_schemas_error E [] = None"
| "input_schemas_error E ((name, port) # d) =
     (let schema = dget ''schema'' (coerce_dict port) in
      case (if schema = JNull then None else input_schema_error E name schema) of
        Some m \<Rightarrow> Some m
      | None \<Rightarrow> input_schemas_error E d)"

definition validate_step_blueprint_at_registration :: "env \<Rightarrow> dict \<Rightarrow> exc + dict option" where
  "validate_step_blueprint_at_registration E b =
     (let label = ''Step '' @ repr_str (stripped ''name'' b) @ ''@'' @ stripped ''version'' b;
          inputs = coerce_dict (dget ''inputs'' b) in
      and_then (validate_step_files E label b) (\<lambda>cd.
      and_then (if blueprint_kind b = ''reason''
                then and_then (validate_reason_assets E b (map fst inputs) (stripped ''worker'' b) label)
                       (\<lambda>_. validate_facts E b label)
                else Inr ()) (\<lambda>_.
      and_then (validate_step_policy E b label) (\<lambda>_.
      case input_schemas_error E inputs of
        Some m \<Rightarrow> Inl (invalid label ''inputs are invalid: '' m)
      | None \<Rightarrow> Inr cd))))"

section \<open>Dependencies\<close>

type_synonym identity = "string \<times> string"

definition sort_identities :: "identity list \<Rightarrow> identity list" where
  "sort_identities ids = sort_key fst (sort_key snd (remdups ids))"

text \<open>The dependencies that are not registered, or registered but inactive, are reported by their
  labels under the identity of the first one.\<close>

definition missing_text :: "string \<Rightarrow> string list \<Rightarrow> string" where
  "missing_text kind labels =
     (if kind = ''saga''
      then ''This saga spawns child definitions that are not registered. Please register these saga manifests first: ''
      else ''This saga requires workers that are not registered. Please register these worker manifests first: '')
     @ repr_names labels"

definition inactive_text :: "string \<Rightarrow> string list \<Rightarrow> string" where
  "inactive_text kind labels =
     (if kind = ''saga'' then ''This saga spawns child definitions that are inactive. ''
      else ''This saga requires workers that are inactive. '')
     @ ''Re-activate them or pin an active version: '' @ repr_names labels"

definition require_dependencies :: "string \<Rightarrow> string \<Rightarrow> (identity \<Rightarrow> bool option) \<Rightarrow> identity list \<Rightarrow> exc + unit" where
  "require_dependencies kind ns active ids =
     (let missing = map ref_label (filter (\<lambda>i. active i = None) ids);
          off = map ref_label (filter (\<lambda>i. active i = Some False) ids) in
      if missing \<noteq> []
      then Inl (DependencyNotRegistered kind ns (fst (label_parts missing)) (snd (label_parts missing))
                  (missing_text kind missing))
      else if off \<noteq> []
      then Inl (DependencyInactive kind ns (fst (label_parts off)) (snd (label_parts off)) (inactive_text kind off))
      else Inr ())"

definition worker_active :: "string \<Rightarrow> db \<Rightarrow> identity \<Rightarrow> bool option" where
  "worker_active ns db i = map_option wdef_is_active (rows_first
     (\<lambda>w. wdef_namespace w = ns \<and> wdef_name w = fst i \<and> wdef_version w = snd i) (db_worker_defs db))"

definition saga_active :: "string \<Rightarrow> db \<Rightarrow> identity \<Rightarrow> bool option" where
  "saga_active ns db i = map_option sdef_is_active (rows_first
     (\<lambda>d. sdef_namespace d = ns \<and> sdef_name d = fst i \<and> sdef_version d = snd i) (db_saga_defs db))"

definition assert_saga_workers_registered :: "string \<Rightarrow> identity list \<Rightarrow> unit M" where
  "assert_saga_workers_registered ns workers =
     bind (gets (worker_active ns)) (\<lambda>active.
       of_sum (require_dependencies ''worker'' ns active (sort_identities workers)))"

definition spawned_children :: "dict list \<Rightarrow> identity list" where
  "spawned_children steps =
     map (\<lambda>d. (stripped ''saga_name'' (spawn_block d), stripped ''saga_version'' (spawn_block d)))
       (filter (\<lambda>d. dget ''kind'' d = JStr ''spawn_sagas'') steps)"

text \<open>The labels are sorted here, not the identities.\<close>

definition sort_by_label :: "identity list \<Rightarrow> identity list" where
  "sort_by_label ids = sort_key ref_label (remdups ids)"

definition assert_child_saga_definitions_registered :: "string \<Rightarrow> dict list \<Rightarrow> unit M" where
  "assert_child_saga_definitions_registered ns steps =
     bind (gets (saga_active ns)) (\<lambda>active.
       of_sum (require_dependencies ''saga'' ns active (sort_by_label (spawned_children steps))))"

definition assert_step_worker_registered :: "string \<Rightarrow> dict \<Rightarrow> unit M" where
  "assert_step_worker_registered ns b =
     bind (gets (worker_active ns)) (\<lambda>active.
     let i = (stripped ''worker'' b, stripped ''worker_version'' b) in
     case active i of
       None \<Rightarrow> raise (DependencyNotRegistered ''worker'' ns (fst i) (snd i)
         (''This step requires a worker that is not registered. Please register this worker manifest first: ''
          @ ref_label i))
     | Some a \<Rightarrow> if a then skip else raise (InactiveCatalogDefinition ''worker'' ns (fst i) (snd i)))"

definition step_workers :: "env \<Rightarrow> string \<Rightarrow> dict \<Rightarrow> exc + identity list" where
  "step_workers E index d =
     (let own = (str_of (dget ''worker'' d), str_of (dget ''worker_version'' d)) in
      and_then (validate_one_saga_step_at_registration E index d) (\<lambda>cd.
      case cd of
        Some (e # es) \<Rightarrow> Inr [own, resolve_worker_from_compensation (e # es) (fst own) (snd own)]
      | _ \<Rightarrow> Inr [own]))"

fun indexed_workers :: "env \<Rightarrow> (nat \<Rightarrow> string) \<Rightarrow> nat \<Rightarrow> dict list \<Rightarrow> exc + identity list" where
  "indexed_workers E label n [] = Inr []"
| "indexed_workers E label n (d # ds) =
     and_then (step_workers E (label n) d) (\<lambda>ws.
     and_then (indexed_workers E label (Suc n) ds) (\<lambda>rest. Inr (ws @ rest)))"

definition node_workers :: "env \<Rightarrow> nat \<Rightarrow> dict \<Rightarrow> exc + identity list" where
  "node_workers E i d =
     (let label = ''Saga step '' @ show_nat i @ '' (id='' @ repr_json (dget ''id'' d) @ '')'' in
      if is_loop_node d
      then and_then (validate_cel E (dget ''until'' d)
                       (''Saga step '' @ show_nat i @ '' (loop id='' @ repr_json (dget ''id'' d) @ '')'') ''until'')
             (\<lambda>_. indexed_workers E (\<lambda>j. show_nat i @ ''.body['' @ show_nat j @ '']'') 0 (loop_refs d))
      else if \<not> is_worker_node d then and_then (validate_when E d label) (\<lambda>_. Inr [])
      else step_workers E (show_nat i) d)"

fun collect_saga_registration_workers :: "env \<Rightarrow> nat \<Rightarrow> dict list \<Rightarrow> exc + identity list" where
  "collect_saga_registration_workers E i [] = Inr []"
| "collect_saga_registration_workers E i (d # ds) =
     and_then (node_workers E i d) (\<lambda>ws.
     and_then (collect_saga_registration_workers E (Suc i) ds) (\<lambda>rest. Inr (ws @ rest)))"

section \<open>The stored bodies\<close>

definition as_float :: "json \<Rightarrow> json" where
  "as_float j = (case j of JInt i \<Rightarrow> JFloat (show_int i @ ''.0'') | _ \<Rightarrow> j)"

definition dump_worker_blueprint :: "dict \<Rightarrow> dict" where
  "dump_worker_blueprint d = drop_none
     [(''kind'', dget ''kind'' d), (''name'', dget ''name'' d),
      (''namespace'', field_or ''namespace'' (JStr ''default'') d), (''version'', dget ''version'' d),
      (''description'', dget ''description'' d), (''provider'', dget ''provider'' d),
      (''model_name'', dget ''model_name'' d),
      (''temperature'', as_float (field_or ''temperature'' (JFloat ''0.0'') d)),
      (''system_prompt'', dget ''system_prompt'' d),
      (''tool_sources'', JList (map dump_mcp_server (list_of (dget ''tool_sources'' d)))),
      (''adapter'', field_or ''adapter'' (JStr ''langchain'') d)]"

definition dump_step_blueprint :: "dict \<Rightarrow> dict" where
  "dump_step_blueprint b = drop_none (
     [(''kind'', JStr ''step''), (''name'', JStr (stripped ''name'' b)),
      (''namespace'', field_or ''namespace'' (JStr ''default'') b), (''version'', JStr (stripped ''version'' b)),
      (''description'', dget ''description'' b), (''title'', dget ''title'' b),
      (''inputs'', JObj (map (\<lambda>(k, v). (k, dump_step_input v)) (coerce_dict (dget ''inputs'' b)))),
      (''worker'', JStr (stripped ''worker'' b)), (''worker_version'', JStr (stripped ''worker_version'' b)),
      (''compensation'', dget ''compensation'' b),
      (''timeout_seconds'', field_or ''timeout_seconds'' (JInt 600) b),
      (''output_schema'', dget ''output_schema'' b), (''policy'', dget ''policy'' b),
      (''hitl'', field_or ''hitl'' (JBool False) b), (''hitl_max_retries'', dget ''hitl_max_retries'' b),
      (''hitl_retry_guidance'', dget ''hitl_retry_guidance'' b),
      (''resources'', null_map dump_resources_spec (dget ''resources'' b)),
      (''on_failure'', null_map (\<lambda>j. JObj [(''strategy'', strategy_of j)]) (dget ''on_failure'' b)),
      (''step_kind'', dget ''step_kind'' b)]
   @ (if blueprint_kind b = ''reason''
      then [(''prompt'', dget ''prompt'' b), (''agent-adapter'', agent_adapter_of b),
            (''max_turns'', field_or ''max_turns'' (JInt 25) b),
            (''max_step_tokens'', dget ''max_step_tokens'' b),
            (''max_completion_tokens'', dget ''max_completion_tokens'' b),
            (''tools'', null_map dump_tools_spec (dget ''tools'' b)),
            (''skills'', null_map dump_skills_spec (dget ''skills'' b)),
            (''facts'', null_map (\<lambda>f. JList (map dump_fact (list_of f))) (dget ''facts'' b))]
      else [(''tools'', dump_tools_spec (dget ''tools'' b))]))"

definition dump_step_ref :: "dict \<Rightarrow> dict" where
  "dump_step_ref d = drop_none
     [(''kind'', JStr ''use''), (''id'', JStr (stripped ''id'' d)), (''name'', dget ''name'' d),
      (''use'', JStr (stripped ''use'' d)), (''version'', JStr (stripped ''version'' d)),
      (''with'', dump_with (JObj (with_of d))), (''when'', null_map dump_when (dget ''when'' d)),
      (''hitl'', dget ''hitl'' d), (''hitl_max_retries'', dget ''hitl_max_retries'' d),
      (''hitl_retry_guidance'', dget ''hitl_retry_guidance'' d),
      (''timeout_seconds'', dget ''timeout_seconds'' d), (''max_turns'', dget ''max_turns'' d),
      (''max_step_tokens'', dget ''max_step_tokens'' d),
      (''max_completion_tokens'', dget ''max_completion_tokens'' d)]"

definition dump_authoring_node :: "dict \<Rightarrow> dict" where
  "dump_authoring_node d =
     (if dget ''kind'' d = JStr ''use'' then dump_step_ref d
      else if is_loop_node d
      then drop_none [(''kind'', JStr ''loop''), (''id'', JStr (stripped ''id'' d)), (''name'', dget ''name'' d),
             (''max_iterations'', dget ''max_iterations'' d), (''until'', dump_when (dget ''until'' d)),
             (''steps'', JList (map (\<lambda>r. JObj (dump_step_ref r)) (loop_refs d)))]
      else dump_native_step d)"

definition dump_authoring :: "dict \<Rightarrow> dict" where
  "dump_authoring d =
     [(''kind'', JStr ''saga''), (''name'', dget ''name'' d),
      (''namespace'', field_or ''namespace'' (JStr ''default'') d), (''version'', dget ''version'' d),
      (''description'', dget ''description'' d),
      (''steps'', JList (map (\<lambda>n. JObj (dump_authoring_node n)) (authoring_nodes d)))]"

section \<open>Registration\<close>

definition quoted :: "string \<Rightarrow> string" where
  "quoted s = [CHR 0x27] @ s @ [CHR 0x27]"

definition immutable_version_error :: "string \<Rightarrow> string \<Rightarrow> string \<Rightarrow> exc" where
  "immutable_version_error kind name version =
     ValueError ((if kind = ''step'' then ''Step capability '' else ''Worker '') @ quoted name @ '' version ''
       @ quoted version
       @ '' already exists and is immutable. Bump the version in your manifest to deploy changes.'')"

definition create_worker_definition :: "string \<Rightarrow> string \<Rightarrow> string \<Rightarrow> json \<Rightarrow> unit M" where
  "create_worker_definition ns name version body =
     bind (gets (\<lambda>db. worker_active ns db (name, version))) (\<lambda>existing.
     if existing \<noteq> None then raise (immutable_version_error ''worker'' name version)
     else modify (\<lambda>db. db\<lparr>db_worker_defs := db_worker_defs db @
            [\<lparr>wdef_namespace = ns, wdef_name = name, wdef_version = version, wdef_is_active = True,
              wdef_body = body\<rparr>]\<rparr>))"

definition find_step_definition :: "string \<Rightarrow> string \<Rightarrow> string \<Rightarrow> db \<Rightarrow> step_definition option" where
  "find_step_definition ns name version db = rows_first
     (\<lambda>r. stdef_namespace r = ns \<and> stdef_name r = name \<and> stdef_version r = version) (db_step_defs db)"

definition create_step_definition :: "string \<Rightarrow> string \<Rightarrow> string \<Rightarrow> json \<Rightarrow> unit M" where
  "create_step_definition ns name version body =
     bind (gets (find_step_definition ns name version)) (\<lambda>existing.
     if existing \<noteq> None then raise (immutable_version_error ''step'' name version)
     else modify (\<lambda>db. db\<lparr>db_step_defs := db_step_defs db @
            [\<lparr>stdef_namespace = ns, stdef_name = name, stdef_version = version, stdef_is_active = True,
              stdef_body = body\<rparr>]\<rparr>))"

definition same_saga :: "string \<Rightarrow> string \<Rightarrow> string \<Rightarrow> saga_definition \<Rightarrow> bool" where
  "same_saga ns name version d \<longleftrightarrow> sdef_namespace d = ns \<and> sdef_name d = name \<and> sdef_version d = version"

definition upsert_saga_definition :: "env \<Rightarrow> string \<Rightarrow> string \<Rightarrow> string \<Rightarrow> json \<Rightarrow> unit M" where
  "upsert_saga_definition E ns name version body =
     bind (gets (\<lambda>db. rows_first (same_saga ns name version) (db_saga_defs db))) (\<lambda>existing.
     if existing \<noteq> None
     then modify (\<lambda>db. db\<lparr>db_saga_defs :=
            rows_update (same_saga ns name version) (\<lambda>d. d\<lparr>sdef_body := body\<rparr>) (db_saga_defs db)\<rparr>)
     else bind (uuid4_hex (uuid_hex E)) (\<lambda>i.
            modify (\<lambda>db. db\<lparr>db_saga_defs := db_saga_defs db @
              [\<lparr>sdef_id = i, sdef_namespace = ns, sdef_name = name, sdef_version = version,
                sdef_is_active = True, sdef_body = body\<rparr>]\<rparr>)))"

text \<open>The write of a registration with its hook, in a transaction; nothing of it in a dry run.\<close>

definition deploy :: "bool \<Rightarrow> unit M \<Rightarrow> string \<Rightarrow> string \<Rightarrow> string \<Rightarrow> string \<Rightarrow> string \<Rightarrow> string M" where
  "deploy dry_run create kind ns name version label =
     (if dry_run then return (label @ '' dry-run OK (not registered)'')
      else seq (in_transaction (seq create (hook (On_manifest_registered kind ns name version))))
               (return (label @ '' registered successfully'')))"

definition register_worker :: "env \<Rightarrow> dict \<Rightarrow> bool \<Rightarrow> string M" where
  "register_worker E d dry_run =
     (case worker_blueprint_errors d of
        [] \<Rightarrow>
          (let ns = str_of (field_or ''namespace'' (JStr ''default'') d); name = str_of (dget ''name'' d);
               version = str_of (dget ''version'' d)
           in deploy dry_run (create_worker_definition ns name version (JObj (dump_worker_blueprint d)))
                ''worker'' ns name version (''Worker '' @ quoted name))
      | locs \<Rightarrow> raise (ValueError (manifest_text E locs)))"

definition register_step :: "env \<Rightarrow> dict \<Rightarrow> bool \<Rightarrow> string M" where
  "register_step E d dry_run =
     bind (of_sum (map_error (manifest_error E) (parse_step_blueprint (JObj d)))) (\<lambda>b.
     let ns = str_of (field_or ''namespace'' (JStr ''default'') b); name = stripped ''name'' b;
         version = stripped ''version'' b in
     seq (assert_step_worker_registered ns b)
     (bind (of_sum (validate_step_blueprint_at_registration E b)) (\<lambda>_.
      deploy dry_run (create_step_definition ns name version (JObj (dump_step_blueprint b)))
        ''step'' ns name version (''Step '' @ quoted name @ '' v'' @ version))))"

text \<open>The graph of a saga, checked as a start would hydrate it; nothing of it is stored.\<close>

definition link_check :: "env \<Rightarrow> step_definition list \<Rightarrow> string \<Rightarrow> dict \<Rightarrow> exc + dict list" where
  "link_check E rows ns authoring =
     and_then (load_catalog_for_authoring E rows ns (authoring_nodes authoring)) (\<lambda>loaded.
     map_error (manifest_error E) (hydrate_authoring_blueprint E loaded authoring))"

definition register_saga :: "env \<Rightarrow> dict \<Rightarrow> bool \<Rightarrow> string M" where
  "register_saga E d dry_run =
     bind (of_sum (parse_authoring E d)) (\<lambda>authoring.
     let ns = str_of (field_or ''namespace'' (JStr ''default'') authoring); name = str_of (dget ''name'' authoring);
         version = str_of (dget ''version'' authoring) in
     bind (gets db_step_defs) (\<lambda>rows.
     bind (of_sum (link_check E rows ns authoring)) (\<lambda>hydrated.
     bind (of_sum (collect_saga_registration_workers E 0 hydrated)) (\<lambda>workers.
     seq (assert_saga_workers_registered ns workers)
     (seq (assert_child_saga_definitions_registered ns hydrated)
          (deploy dry_run (upsert_saga_definition E ns name version (JObj (dump_authoring authoring)))
             ''saga'' ns name version (''Saga '' @ quoted name @ '' v'' @ version)))))))"

definition register_manifest_from_dict :: "env \<Rightarrow> json \<Rightarrow> bool \<Rightarrow> string M" where
  "register_manifest_from_dict E data dry_run = (case data of
     JObj d \<Rightarrow>
       (if dget ''kind'' d = JStr ''worker'' then register_worker E d dry_run
        else if dget ''kind'' d = JStr ''step'' then register_step E d dry_run
        else if dget ''kind'' d = JStr ''saga'' then register_saga E d dry_run
        else raise (ValueError (''Unknown manifest kind: '' @ repr_json (dget ''kind'' d) @ ''.'')))
   | _ \<Rightarrow> raise (ValueError ''Invalid manifest: root must be a mapping (e.g. kind, name, ...).''))"

definition register_manifest :: "env \<Rightarrow> string \<Rightarrow> bool \<Rightarrow> string M" where
  "register_manifest E yaml_content dry_run = (case yaml_load E yaml_content of
     Inl e \<Rightarrow> raise (ValueError (''Invalid YAML format: '' @ e))
   | Inr data \<Rightarrow> register_manifest_from_dict E data dry_run)"

section \<open>Activation\<close>

text \<open>\<open>_set_definition_active\<close> of the definition of an identity.\<close>

definition set_definition_active :: "string \<Rightarrow> string \<Rightarrow> string \<Rightarrow> string \<Rightarrow> bool \<Rightarrow> db \<Rightarrow> db" where
  "set_definition_active kind ns name version active db =
     (if kind = ''worker''
      then db\<lparr>db_worker_defs := rows_update
             (\<lambda>w. wdef_namespace w = ns \<and> wdef_name w = name \<and> wdef_version w = version)
             (\<lambda>w. w\<lparr>wdef_is_active := active\<rparr>) (db_worker_defs db)\<rparr>
      else if kind = ''step''
      then db\<lparr>db_step_defs := rows_update
             (\<lambda>r. stdef_namespace r = ns \<and> stdef_name r = name \<and> stdef_version r = version)
             (\<lambda>r. r\<lparr>stdef_is_active := active\<rparr>) (db_step_defs db)\<rparr>
      else db\<lparr>db_saga_defs := rows_update (same_saga ns name version)
             (\<lambda>d. d\<lparr>sdef_is_active := active\<rparr>) (db_saga_defs db)\<rparr>)"

end
