(* ===== verification/Frame.thy ===== *)
theory Frame imports Decisions Registry begin

text \<open>
  What every operation of the engine leaves in place.  \<open>keeps R m\<close> says that running
  \<open>m\<close> relates the database before to the database after by \<open>R\<close>, whether it returns or
  raises.  The locale \<open>engine_frame\<close> names the writes the engine is made of; any preorder
  closed under those writes is kept by every handler, whatever the fuel.  \<open>retry_frame\<close> adds
  the writes only a retry makes, \<open>operator_frame\<close> those of the operator's requests.
\<close>

section \<open>Relations kept by a computation\<close>

definition keeps :: "(db \<Rightarrow> db \<Rightarrow> bool) \<Rightarrow> 'a M \<Rightarrow> bool" where
  "keeps R m \<longleftrightarrow> (\<forall>db. R db (snd (m db)))"

lemma keepsI: "(\<And>db. R db (snd (m db))) \<Longrightarrow> keeps R m"
  by (simp add: keeps_def)

lemma keepsD: "keeps R m \<Longrightarrow> R db (snd (m db))"
  by (simp add: keeps_def)

text \<open>The columns of a row that the engine may write, blanked.\<close>

definition step_frozen :: "step \<Rightarrow> step" where
  "step_frozen s = s\<lparr>step_status := Step_PENDING, started_at := 0, end_time := None,
     resolved_arguments := JNull, output_payload := JNull, error_details := JNull,
     pending_review_payload := JNull, hitl_retry_count := 0, hitl_review_started_at := None\<rparr>"

definition saga_frozen :: "saga \<Rightarrow> saga" where
  "saga_frozen g = g\<lparr>saga_status := Saga_PENDING, saga_context := JNull, loop_state := JNull\<rparr>"

fun is_saga_transition :: "hook \<Rightarrow> bool" where
  "is_saga_transition (On_saga_transition tid old new ev reason) = True"
| "is_saga_transition h = False"

named_theorems keeps_intros \<open>rules that decompose a \<open>keeps\<close> goal along the program\<close>

section \<open>The writes of the engine\<close>

text \<open>The database after each of the writes the engine is made of.\<close>

named_theorems write_effects \<open>the database after a primitive write\<close>

lemma after_transition_saga [write_effects]:
  "snd (transition_saga tid new ev reason db) = (case find_saga tid db of
     None \<Rightarrow> db
   | Some g \<Rightarrow> db\<lparr>db_sagas := rows_update (\<lambda>s. trace_id s = tid) (\<lambda>s. s\<lparr>saga_status := new\<rparr>) (db_sagas db),
       db_hooks := db_hooks db @ [On_saga_transition tid (saga_status g) new ev reason]\<rparr>)"
  by (simp add: transition_saga_def the_saga_def save_saga_def hook_def monad_simps split: option.split)

lemma after_create_step [write_effects]:
  "snd (create_step row db) =
     (if (\<exists>s\<in>set (db_steps db). span_id s = span_id row \<or> idempotency_key s = idempotency_key row)
      then db else db\<lparr>db_steps := db_steps db @ [row]\<rparr>)"
  by (simp add: create_step_def)

lemma after_create_saga:
  "snd (create_saga row db) = db \<or>
   (\<forall>s\<in>set (db_sagas db). trace_id s \<noteq> trace_id row)
   \<and> snd (create_saga row db) = db\<lparr>db_sagas := db_sagas db @ [row]\<rparr>"
  by (auto simp: create_saga_def)

lemma after_create_child [write_effects]:
  "snd (create_child row db) =
     (if (\<exists>c\<in>set (db_children db). child_idempotency_key c = child_idempotency_key row) then db
      else db\<lparr>db_children := db_children db @ [row]\<rparr>)"
  by (simp add: create_child_def)

lemma after_publish:
  "\<exists>n r. ob_status r = Outbox_PENDING \<and> ob_topic r = topic \<and>
     snd (publish E topic payload ns tid sid ety key db) =
       db\<lparr>db_uuids := n, db_outbox := outbox_put r (db_outbox db)\<rparr>"
  by (simp add: publish_def uuid4_hex_def monad_simps) (metis outbox_event.select_convs(6,9))

lemma after_clear_worker_result:
  "\<exists>P. snd (clear_worker_result_ingest_dedup E tid sid ns db) =
     db\<lparr>db_ingested := rows_delete (\<lambda>k. k \<in> set (worker_result_keys tid sid)) (db_ingested db),
        db_outbox := rows_delete P (db_outbox db)\<rparr>"
  by (simp add: clear_worker_result_ingest_dedup_def modify_def Let_def) blast

lemma after_save_step_key [write_effects]:
  "snd (save_step_key sid key db) =
     (if (\<exists>s\<in>set (db_steps db). span_id s \<noteq> sid \<and> idempotency_key s = key) then db
      else db\<lparr>db_steps := rows_update (\<lambda>s. span_id s = sid) (\<lambda>r. r\<lparr>idempotency_key := key\<rparr>) (db_steps db)\<rparr>)"
  by (auto simp: save_step_key_def save_step_def update_steps_def modify_def)

lemma after_release_claim [write_effects]:
  "snd (release_worker_claim_for_retry key db) =
     db\<lparr>db_claims := rows_delete (\<lambda>c. pc_key c = key) (db_claims db)\<rparr>"
  by (simp add: release_worker_claim_for_retry_def)

lemma after_save_recovery [write_effects]:
  "snd (save_processed_operator_recovery key fp resp db) =
     (if find_recovery key db \<noteq> None then db
      else db\<lparr>db_recoveries := db_recoveries db @
             [\<lparr>rec_key = key, rec_fingerprint = fp, rec_response = resp\<rparr>]\<rparr>)"
  by (simp add: save_processed_operator_recovery_def)

lemma after_reopen [write_effects]:
  "snd (save_saga tid f db) = db\<lparr>db_sagas := rows_update (\<lambda>s. trace_id s = tid) f (db_sagas db)\<rparr>"
  by (simp add: save_saga_def modify_def)

lemma after_clear_undo [write_effects]:
  "snd (clear_compensation_ingest_dedup tid sid db) = db\<lparr>db_ingested := rows_delete
     (\<lambda>k. k \<in> {dedup_key tid ''STEP_COMPENSATED'' sid, dedup_key tid ''COMPENSATION_FAILED'' sid})
     (db_ingested db)\<rparr>"
  by (simp add: clear_compensation_ingest_dedup_def modify_def Let_def)

lemma after_create_worker [write_effects]:
  "snd (create_worker_definition ns name version body db) =
     (if worker_active ns db (name, version) \<noteq> None then db
      else db\<lparr>db_worker_defs := db_worker_defs db @ [\<lparr>wdef_namespace = ns, wdef_name = name,
             wdef_version = version, wdef_is_active = True, wdef_body = body\<rparr>]\<rparr>)"
  by (simp add: create_worker_definition_def monad_simps)

lemma after_create_step_def [write_effects]:
  "snd (create_step_definition ns name version body db) =
     (if find_step_definition ns name version db \<noteq> None then db
      else db\<lparr>db_step_defs := db_step_defs db @ [\<lparr>stdef_namespace = ns, stdef_name = name,
             stdef_version = version, stdef_is_active = True, stdef_body = body\<rparr>]\<rparr>)"
  by (simp add: create_step_definition_def monad_simps)

lemma after_upsert_saga [write_effects]:
  "snd (upsert_saga_definition E ns name version body db) =
     (if rows_first (same_saga ns name version) (db_saga_defs db) \<noteq> None
      then db\<lparr>db_saga_defs := rows_update (same_saga ns name version) (\<lambda>d. d\<lparr>sdef_body := body\<rparr>) (db_saga_defs db)\<rparr>
      else db\<lparr>db_uuids := Suc (db_uuids db), db_saga_defs := db_saga_defs db @
             [\<lparr>sdef_id = uuid_hex E (db_uuids db), sdef_namespace = ns, sdef_name = name, sdef_version = version,
               sdef_is_active = True, sdef_body = body\<rparr>]\<rparr>)"
  by (simp add: upsert_saga_definition_def uuid4_hex_def monad_simps)

section \<open>The engine\<close>

locale engine_frame =
  fixes R :: "db \<Rightarrow> db \<Rightarrow> bool"
  assumes R_refl: "R db db"
    and R_trans: "R a b \<Longrightarrow> R b c \<Longrightarrow> R a c"
    and R_uuids: "R db (db\<lparr>db_uuids := n\<rparr>)"
    and R_steps: "(\<And>s. step_frozen (f s) = step_frozen s) \<Longrightarrow>
          R db (db\<lparr>db_steps := rows_update P f (db_steps db)\<rparr>)"
    and R_saga: "(\<And>g. saga_frozen (h g) = saga_frozen g \<and> saga_status (h g) = saga_status g) \<Longrightarrow>
          R db (db\<lparr>db_sagas := rows_update (\<lambda>g. trace_id g = tid) h (db_sagas db)\<rparr>)"
    and R_hook: "\<not> is_saga_transition hk \<Longrightarrow> R db (db\<lparr>db_hooks := db_hooks db @ [hk]\<rparr>)"
    and R_transition: "R db (snd (transition_saga tid new ev reason db))"
    and R_create_step: "R db (snd (create_step row db))"
    and R_create_saga: "R db (snd (create_saga sg db))"
    and R_create_child: "R db (snd (create_child ch db))"
    and R_publish: "R db (snd (publish E topic payload ns tid sid ety key db))"
    and R_ingest: "R db (db\<lparr>db_ingested := ingest_put k (db_ingested db)\<rparr>)"
begin

lemma keeps_return [keeps_intros]: "keeps R (return x)"
  by (rule keepsI) (simp add: monad_simps R_refl)

lemma keeps_raise [keeps_intros]: "keeps R (raise e)"
  by (rule keepsI) (simp add: monad_simps R_refl)

lemma keeps_skip [keeps_intros]: "keeps R skip"
  by (rule keepsI) (simp add: monad_simps R_refl)

lemma keeps_gets [keeps_intros]: "keeps R (gets f)"
  by (rule keepsI) (simp add: monad_simps R_refl)

lemma keeps_of_sum [keeps_intros]: "keeps R (of_sum r)"
  by (rule keepsI) (simp add: monad_simps R_refl split: sum.split)

lemma keeps_the_saga [keeps_intros]: "keeps R (the_saga tid)"
  by (rule keepsI) (simp add: the_saga_def R_refl split: option.split)

lemma keeps_the_step [keeps_intros]: "keeps R (the_step sid)"
  by (rule keepsI) (simp add: the_step_def R_refl split: option.split)

lemma keeps_bind [keeps_intros]: "keeps R m \<Longrightarrow> (\<And>x. keeps R (k x)) \<Longrightarrow> keeps R (bind m k)"
  by (rule keepsI) (auto simp: bind_def keeps_def split: prod.split sum.split intro: R_trans,
      (metis R_trans snd_conv)+)

lemma keeps_seq [keeps_intros]: "keeps R m \<Longrightarrow> keeps R k \<Longrightarrow> keeps R (seq m k)"
  unfolding seq_def by (rule keeps_bind)

lemma keeps_when_do [keeps_intros]: "keeps R m \<Longrightarrow> keeps R (when_do b m)"
  by (simp add: when_do_def keeps_skip)

lemma keeps_try_except [keeps_intros]:
  "keeps R m \<Longrightarrow> (\<And>e. keeps R (h e)) \<Longrightarrow> keeps R (try_except m h)"
  by (rule keepsI) (auto simp: try_except_def keeps_def split: prod.split sum.split,
      (metis R_trans snd_conv)+)

lemma keeps_in_transaction [keeps_intros]: "keeps R m \<Longrightarrow> keeps R (in_transaction m)"
  by (rule keepsI) (auto simp: in_transaction_def keeps_def R_refl split: prod.split sum.split,
      metis snd_conv)

lemma keeps_map_m [keeps_intros]: "(\<And>x. keeps R (f x)) \<Longrightarrow> keeps R (map_m f xs)"
  by (induction xs) (simp_all add: keeps_return keeps_bind)

lemma keeps_if [keeps_intros]: "keeps R a \<Longrightarrow> keeps R b \<Longrightarrow> keeps R (if c then a else b)"
  by simp

lemma keeps_Let [keeps_intros]: "keeps R (f x) \<Longrightarrow> keeps R (Let x f)"
  by simp

lemma keeps_option [keeps_intros]:
  "keeps R a \<Longrightarrow> (\<And>x. keeps R (b x)) \<Longrightarrow> keeps R (case_option a b x)"
  by (cases x) simp_all

lemma keeps_sum [keeps_intros]:
  "(\<And>x. keeps R (a x)) \<Longrightarrow> (\<And>x. keeps R (b x)) \<Longrightarrow> keeps R (case_sum a b x)"
  by (cases x) simp_all

lemma keeps_prod [keeps_intros]: "(\<And>x y. keeps R (a x y)) \<Longrightarrow> keeps R (case_prod a x)"
  by (cases x) simp_all

lemma keeps_bool [keeps_intros]: "keeps R a \<Longrightarrow> keeps R b \<Longrightarrow> keeps R (case_bool a b x)"
  by (cases x) simp_all

lemma keeps_list [keeps_intros]:
  "keeps R a \<Longrightarrow> (\<And>x xs. keeps R (b x xs)) \<Longrightarrow> keeps R (case_list a b x)"
  by (cases x) simp_all

lemma keeps_gate [keeps_intros]:
  "keeps R a \<Longrightarrow> keeps R b \<Longrightarrow> keeps R c \<Longrightarrow> keeps R (case_gate_outcome a b c x)"
  by (cases x) simp_all

lemma keeps_update_steps [keeps_intros]:
  "(\<And>s. step_frozen (f s) = step_frozen s) \<Longrightarrow> keeps R (update_steps P f)"
  by (rule keepsI) (simp add: update_steps_def monad_simps R_steps)

lemma keeps_save_step [keeps_intros]:
  "(\<And>s. step_frozen (f s) = step_frozen s) \<Longrightarrow> keeps R (save_step sid f)"
  unfolding save_step_def by (rule keeps_update_steps)

lemma keeps_save_saga [keeps_intros]:
  "(\<And>g. saga_frozen (h g) = saga_frozen g \<and> saga_status (h g) = saga_status g) \<Longrightarrow>
   keeps R (save_saga tid h)"
  by (rule keepsI) (simp add: save_saga_def monad_simps R_saga)

lemma keeps_hook [keeps_intros]: "\<not> is_saga_transition hk \<Longrightarrow> keeps R (hook hk)"
  by (rule keepsI) (simp add: hook_def monad_simps R_hook)

lemma keeps_transition_saga [keeps_intros]: "keeps R (transition_saga tid new ev reason)"
  by (rule keepsI) (rule R_transition)

lemma keeps_create_step [keeps_intros]: "keeps R (create_step row)"
  by (rule keepsI) (rule R_create_step)

lemma keeps_create_saga [keeps_intros]: "keeps R (create_saga sg)"
  by (rule keepsI) (rule R_create_saga)

lemma keeps_create_child [keeps_intros]: "keeps R (create_child ch)"
  by (rule keepsI) (rule R_create_child)

lemma keeps_publish [keeps_intros]: "keeps R (publish E topic payload ns tid sid ety key)"
  by (rule keepsI) (rule R_publish)

lemma keeps_uuid [keeps_intros]: "keeps R (uuid4_hex f)"
  by (rule keepsI) (simp add: uuid4_hex_def R_uuids)

lemma keeps_ingest [keeps_intros]:
  "keeps R (modify (\<lambda>db. db\<lparr>db_ingested := ingest_put k (db_ingested db)\<rparr>))"
  by (rule keepsI) (simp add: modify_def R_ingest)

end

definition callbacks_keep :: "(db \<Rightarrow> db \<Rightarrow> bool) \<Rightarrow> callbacks \<Rightarrow> bool" where
  "callbacks_keep R K \<longleftrightarrow> (\<forall>t n. keeps R (cb_schedule K t n)) \<and> (\<forall>t. keeps R (cb_terminal K t))"

lemma keeps_cb_schedule [keeps_intros]: "callbacks_keep R K \<Longrightarrow> keeps R (cb_schedule K t n)"
  by (simp add: callbacks_keep_def)

lemma keeps_cb_terminal [keeps_intros]: "callbacks_keep R K \<Longrightarrow> keeps R (cb_terminal K t)"
  by (simp add: callbacks_keep_def)

context engine_frame
begin

lemma keeps_emit_saga_event [keeps_intros]: "keeps R (emit_saga_event E topic ety payload ns tid sid key)"
  unfolding emit_saga_event_def
  by (rule keeps_intros | assumption | simp add: step_frozen_def saga_frozen_def)+

lemma keeps_emit_command [keeps_intros]: "keeps R (emit_command E c)"
  unfolding emit_command_def
  by (rule keeps_intros | assumption | simp add: step_frozen_def saga_frozen_def)+

lemma keeps_emit_saga_payload [keeps_intros]: "keeps R (emit_saga_payload E ns tid ety status output)"
  unfolding emit_saga_payload_def
  by (rule keeps_intros | assumption | simp add: step_frozen_def saga_frozen_def)+

lemma keeps_dispatch_policy_gate_hooks [keeps_intros]: "keeps R (dispatch_policy_gate_hooks r phase sid)"
  unfolding dispatch_policy_gate_hooks_def
  by (rule keeps_intros | assumption | simp add: step_frozen_def saga_frozen_def)+

lemma keeps_run_policy_gate [keeps_intros]: "keeps R (run_policy_gate E policy phase binding code sid pd)"
  unfolding run_policy_gate_def
  by (rule keeps_intros | assumption | simp add: step_frozen_def saga_frozen_def)+

lemma keeps_mint_step [keeps_intros]: "keeps R (mint_step E sg spec n ord)"
  unfolding mint_step_def
  by (rule keeps_intros | assumption | simp add: step_frozen_def saga_frozen_def)+

lemma keeps_materialize [keeps_intros]: "keeps R (materialize_executable_steps E sg specs n ord)"
  by (induction specs arbitrary: n ord) (simp_all add: keeps_return keeps_bind keeps_mint_step)

lemma keeps_mark_unreachable_forward_steps_skipped [keeps_intros]: "keeps R (mark_unreachable_forward_steps_skipped tid)"
  unfolding mark_unreachable_forward_steps_skipped_def
  by (rule keeps_intros | assumption | simp add: step_frozen_def saga_frozen_def)+

lemma keeps_notify_unreachable_steps_skipped [keeps_intros]: "keeps R (notify_unreachable_steps_skipped tid reason)"
  unfolding notify_unreachable_steps_skipped_def
  by (rule keeps_intros | assumption | simp add: step_frozen_def saga_frozen_def)+

lemma keeps_fail_saga_no_compensation_window [keeps_intros]: "callbacks_keep R K \<Longrightarrow> keeps R (fail_saga_no_compensation_window E K tid sid ev raw)"
  unfolding fail_saga_no_compensation_window_def
  by (rule keeps_intros | assumption | simp add: step_frozen_def saga_frozen_def)+

lemma keeps_enter_hitl_hold [keeps_intros]: "keeps R (enter_hitl_hold tid sid subject pending)"
  unfolding enter_hitl_hold_def
  by (rule keeps_intros | assumption | simp add: step_frozen_def saga_frozen_def)+

lemma keeps_resume_saga_running_from_hitl [keeps_intros]: "keeps R (resume_saga_running_from_hitl tid reason)"
  unfolding resume_saga_running_from_hitl_def
  by (rule keeps_intros | assumption | simp add: step_frozen_def saga_frozen_def)+

lemma keeps_finalize_saga_compensated [keeps_intros]: "callbacks_keep R K \<Longrightarrow> keeps R (finalize_saga_compensated E K tid)"
  unfolding finalize_saga_compensated_def
  by (rule keeps_intros | assumption | simp add: step_frozen_def saga_frozen_def)+

lemma keeps_emit_saga_failed_from_compensation [keeps_intros]: "callbacks_keep R K \<Longrightarrow> keeps R (emit_saga_failed_from_compensation E K tid reason sid details)"
  unfolding emit_saga_failed_from_compensation_def
  by (rule keeps_intros | assumption | simp add: step_frozen_def saga_frozen_def)+

lemma keeps_fail_compensation_build [keeps_intros]: "callbacks_keep R K \<Longrightarrow> keeps R (fail_compensation_build E K tid f e)"
  unfolding fail_compensation_build_def
  by (rule keeps_intros | assumption | simp add: step_frozen_def saga_frozen_def)+

lemma keeps_schedule_compensation_for_forward [keeps_intros]: "callbacks_keep R K \<Longrightarrow> keeps R (schedule_compensation_for_forward E K tid f)"
  unfolding schedule_compensation_for_forward_def
  by (rule keeps_intros | assumption | simp add: step_frozen_def saga_frozen_def)+

lemma keeps_compensate_spawn [keeps_intros]:
  "keeps R advance \<Longrightarrow> keeps R (compensate_spawn_sagas_forward E advance tid f)"
  unfolding compensate_spawn_sagas_forward_def by (rule keeps_intros | assumption)+

lemma keeps_lifo_walk [keeps_intros]: "callbacks_keep R K \<Longrightarrow> keeps R (lifo_walk E K tid n)"
proof (induction n)
  case 0
  then show ?case by (simp add: keeps_finalize_saga_compensated)
next
  case (Suc n)
  then show ?case
    unfolding lifo_walk.simps by (intro keeps_intros | simp)+
qed

lemma keeps_advance_lifo_compensation [keeps_intros]: "callbacks_keep R K \<Longrightarrow> keeps R (advance_lifo_compensation E K tid n)"
  unfolding advance_lifo_compensation_def
  by (rule keeps_intros | assumption | simp add: step_frozen_def saga_frozen_def)+

lemma keeps_trigger_compensation [keeps_intros]: "callbacks_keep R K \<Longrightarrow> keeps R (trigger_compensation E K tid n)"
  unfolding trigger_compensation_def
  by (rule keeps_intros | assumption | simp add: step_frozen_def saga_frozen_def)+

lemma keeps_apply_step_failure_lifecycle [keeps_intros]: "callbacks_keep R K \<Longrightarrow> keeps R (apply_step_failure_lifecycle E K tid sid ev)"
  unfolding apply_step_failure_lifecycle_def
  by (rule keeps_intros | assumption | simp add: step_frozen_def saga_frozen_def)+

lemma keeps_fail_step [keeps_intros]: "callbacks_keep R K \<Longrightarrow> keeps R (fail_step E K ns tid sid details output)"
  unfolding fail_step_def
  by (rule keeps_intros | assumption | simp add: step_frozen_def saga_frozen_def)+

lemma keeps_resolve_idempotent_start [keeps_intros]: "keeps R (resolve_idempotent_start ns d key)"
  unfolding resolve_idempotent_start_def
  by (rule keeps_intros | assumption | simp add: step_frozen_def saga_frozen_def)+

lemma keeps_require_saga_definition [keeps_intros]: "keeps R (require_saga_definition ns name version)"
  unfolding require_saga_definition_def
  by (rule keeps_intros | assumption | simp add: step_frozen_def saga_frozen_def)+

lemma keeps_create_saga_and_steps [keeps_intros]: "keeps R (create_saga_and_steps E d ns name version input key parent)"
  unfolding create_saga_and_steps_def
  by (rule keeps_intros | assumption | simp add: step_frozen_def saga_frozen_def)+

lemma keeps_start_saga [keeps_intros]: "keeps R (start_saga E ns name version input key)"
  unfolding start_saga_def
  by (rule keeps_intros | assumption | simp add: step_frozen_def saga_frozen_def)+

lemma keeps_handle_saga_completion [keeps_intros]: "callbacks_keep R K \<Longrightarrow> keeps R (handle_saga_completion E K tid)"
  unfolding handle_saga_completion_def
  by (rule keeps_intros | assumption | simp add: step_frozen_def saga_frozen_def)+

lemma keeps_mint_and_schedule [keeps_intros]: "callbacks_keep R K \<Longrightarrow> keeps R (mint_and_schedule E K tid specs)"
  unfolding mint_and_schedule_def
  by (rule keeps_intros | assumption | simp add: step_frozen_def saga_frozen_def)+

lemma keeps_save_loop_status [keeps_intros]: "keeps R (save_loop_status tid lid it status m)"
  unfolding save_loop_status_def
  by (rule keeps_intros | assumption | simp add: step_frozen_def saga_frozen_def)+

lemma keeps_fail_saga_after_successful_body [keeps_intros]: "callbacks_keep R K \<Longrightarrow> keeps R (fail_saga_after_successful_body E K tid s details)"
  unfolding fail_saga_after_successful_body_def
  by (rule keeps_intros | assumption | simp add: step_frozen_def saga_frozen_def)+

lemma keeps_exit_loop [keeps_intros]: "callbacks_keep R K \<Longrightarrow> keeps R (exit_loop E K tid s lid it m)"
  unfolding exit_loop_def
  by (rule keeps_intros | assumption | simp add: step_frozen_def saga_frozen_def)+

lemma keeps_continue_loop [keeps_intros]: "callbacks_keep R K \<Longrightarrow> keeps R (continue_loop E K tid ld lid it m)"
  unfolding continue_loop_def
  by (rule keeps_intros | assumption | simp add: step_frozen_def saga_frozen_def)+

lemma keeps_handle_possible_loop_boundary [keeps_intros]: "callbacks_keep R K \<Longrightarrow> keeps R (handle_possible_loop_boundary E K tid s)"
  unfolding handle_possible_loop_boundary_def
  by (rule keeps_intros | assumption | simp add: step_frozen_def saga_frozen_def)+

lemma keeps_finalize_step_output_and_advance [keeps_intros]: "callbacks_keep R K \<Longrightarrow> keeps R (finalize_step_output_and_advance E K tid sid output)"
  unfolding finalize_step_output_and_advance_def
  by (rule keeps_intros | assumption | simp add: step_frozen_def saga_frozen_def)+

lemma keeps_fail_spawn_step [keeps_intros]: "callbacks_keep R K \<Longrightarrow> keeps R (fail_spawn_step E K tid sid code m)"
  unfolding fail_spawn_step_def
  by (rule keeps_intros | assumption | simp add: step_frozen_def saga_frozen_def)+

lemma keeps_spawn_one_child [keeps_intros]: "keeps R (spawn_one_child E sg s spec vi)"
  unfolding spawn_one_child_def
  by (rule keeps_intros | assumption | simp add: step_frozen_def saga_frozen_def)+

lemma keeps_execute_spawn_sagas [keeps_intros]: "callbacks_keep R K \<Longrightarrow> keeps R (execute_spawn_sagas E K tid sid)"
  unfolding execute_spawn_sagas_def
  by (rule keeps_intros | assumption | simp add: step_frozen_def saga_frozen_def)+

lemma keeps_try_complete_join [keeps_intros]: "callbacks_keep R K \<Longrightarrow> keeps R (try_complete_join E K tid sid)"
  unfolding try_complete_join_def
  by (rule keeps_intros | assumption | simp add: step_frozen_def saga_frozen_def)+

lemma keeps_park_or_complete_join [keeps_intros]: "callbacks_keep R K \<Longrightarrow> keeps R (park_or_complete_join E K tid sid)"
  unfolding park_or_complete_join_def
  by (rule keeps_intros | assumption | simp add: step_frozen_def saga_frozen_def)+

lemma keeps_maybe_resume_spawn_compensation [keeps_intros]: "callbacks_keep R K \<Longrightarrow> keeps R (maybe_resume_spawn_compensation E K tid)"
  unfolding maybe_resume_spawn_compensation_def
  by (rule keeps_intros | assumption | simp add: step_frozen_def saga_frozen_def)+

lemma keeps_on_child_saga_terminal [keeps_intros]: "callbacks_keep R K \<Longrightarrow> keeps R (on_child_saga_terminal E K tid)"
  unfolding on_child_saga_terminal_def
  by (rule keeps_intros | assumption | simp add: step_frozen_def saga_frozen_def)+

lemma keeps_fail_commit_on_policy [keeps_intros]: "callbacks_keep R K \<Longrightarrow> keeps R (fail_commit_on_policy E K tid sid code m)"
  unfolding fail_commit_on_policy_def
  by (rule keeps_intros | assumption | simp add: step_frozen_def saga_frozen_def)+

lemma keeps_commit_policy_stopped_step [keeps_intros]: "callbacks_keep R K \<Longrightarrow> keeps R (commit_policy_stopped_step E K tid sid args tools)"
  unfolding commit_policy_stopped_step_def
  by (rule keeps_intros | assumption | simp add: step_frozen_def saga_frozen_def)+

lemma keeps_build_commit_worker_command [keeps_intros]: "callbacks_keep R K \<Longrightarrow> keeps R (build_commit_worker_command E K tid sid args tools)"
  unfolding build_commit_worker_command_def
  by (rule keeps_intros | assumption | simp add: step_frozen_def saga_frozen_def)+

lemma keeps_build_reason_worker_command [keeps_intros]: "keeps R (build_reason_worker_command tid sid tools skills)"
  unfolding build_reason_worker_command_def
  by (rule keeps_intros | assumption | simp add: step_frozen_def saga_frozen_def)+

lemma keeps_build_forward_worker_command [keeps_intros]: "callbacks_keep R K \<Longrightarrow> keeps R (build_forward_worker_command E K tid sid args)"
  unfolding build_forward_worker_command_def
  by (rule keeps_intros | assumption | simp add: step_frozen_def saga_frozen_def)+

lemma keeps_dispatch_native [keeps_intros]: "callbacks_keep R K \<Longrightarrow> keeps R (dispatch_native E K tid sid from)"
  unfolding dispatch_native_def
  by (rule keeps_intros | assumption | simp add: step_frozen_def saga_frozen_def)+

lemma keeps_dispatch_worker [keeps_intros]: "callbacks_keep R K \<Longrightarrow> keeps R (dispatch_worker E K tid sid g)"
  unfolding dispatch_worker_def
  by (rule keeps_intros | assumption | simp add: step_frozen_def saga_frozen_def)+

lemma keeps_trigger_step [keeps_intros]: "callbacks_keep R K \<Longrightarrow> keeps R (trigger_step E K tid n st ah ar g)"
  unfolding trigger_step_def
  by (rule keeps_intros | assumption | simp add: step_frozen_def saga_frozen_def)+

lemma keeps_mark_step_skipped_when_false [keeps_intros]: "keeps R (mark_step_skipped_when_false tid s)"
  unfolding mark_step_skipped_when_false_def
  by (rule keeps_intros | assumption | simp add: step_frozen_def saga_frozen_def)+

lemma keeps_notify_when_skipped_summary [keeps_intros]: "keeps R (notify_when_skipped_summary tid n)"
  unfolding notify_when_skipped_summary_def
  by (rule keeps_intros | assumption | simp add: step_frozen_def saga_frozen_def)+

lemma keeps_schedule_candidates [keeps_intros]:
  "callbacks_keep R K \<Longrightarrow> keeps R (schedule_candidates E K tid n rows)"
proof (induction rows arbitrary: n)
  case Nil
  then show ?case unfolding schedule_candidates.simps by (intro keeps_intros)
next
  case (Cons s rows)
  then show ?case unfolding schedule_candidates.simps by (intro keeps_intros | simp)+
qed

lemma keeps_schedule_next_forward_step [keeps_intros]: "callbacks_keep R K \<Longrightarrow> keeps R (schedule_next_forward_step E K tid n)"
  unfolding schedule_next_forward_step_def
  by (rule keeps_intros | assumption | simp add: step_frozen_def saga_frozen_def)+

lemma callbacks_keep_calls [keeps_intros]: "callbacks_keep R (calls E n)"
  by (induction n) (simp_all add: callbacks_keep_def keeps_raise keeps_schedule_next_forward_step
      keeps_on_child_saga_terminal)

lemma keeps_notify_skipped_ingest [keeps_intros]: "keeps R (notify_skipped_ingest ev reason)"
  unfolding notify_skipped_ingest_def
  by (rule keeps_intros | assumption | simp add: step_frozen_def saga_frozen_def)+

lemma keeps_handle_saga_started [keeps_intros]: "callbacks_keep R K \<Longrightarrow> keeps R (handle_saga_started E K tid)"
  unfolding handle_saga_started_def
  by (rule keeps_intros | assumption | simp add: step_frozen_def saga_frozen_def)+

lemma keeps_fail_reason_on_policy [keeps_intros]: "callbacks_keep R K \<Longrightarrow> keeps R (fail_reason_on_policy E K ev sid code m)"
  unfolding fail_reason_on_policy_def
  by (rule keeps_intros | assumption | simp add: step_frozen_def saga_frozen_def)+

lemma keeps_maybe_stop_reason_on_policy [keeps_intros]: "callbacks_keep R K \<Longrightarrow> keeps R (maybe_stop_reason_on_policy E K ev sid)"
  unfolding maybe_stop_reason_on_policy_def
  by (rule keeps_intros | assumption | simp add: step_frozen_def saga_frozen_def)+

lemma keeps_fail_on_output_schema [keeps_intros]: "callbacks_keep R K \<Longrightarrow> keeps R (fail_on_output_schema E K ev sid output)"
  unfolding fail_on_output_schema_def
  by (rule keeps_intros | assumption | simp add: step_frozen_def saga_frozen_def)+

lemma keeps_maybe_hold_reason_hitl_on_completed [keeps_intros]: "keeps R (maybe_hold_reason_hitl_on_completed ev sid)"
  unfolding maybe_hold_reason_hitl_on_completed_def
  by (rule keeps_intros | assumption | simp add: step_frozen_def saga_frozen_def)+

lemma keeps_handle_step_completed [keeps_intros]: "callbacks_keep R K \<Longrightarrow> keeps R (handle_step_completed E K ev)"
  unfolding handle_step_completed_def
  by (rule keeps_intros | assumption | simp add: step_frozen_def saga_frozen_def)+

lemma keeps_handle_step_failed [keeps_intros]: "callbacks_keep R K \<Longrightarrow> keeps R (handle_step_failed E K ev)"
  unfolding handle_step_failed_def
  by (rule keeps_intros | assumption | simp add: step_frozen_def saga_frozen_def)+

lemma keeps_approve_commit [keeps_intros]: "callbacks_keep R K \<Longrightarrow> keeps R (approve_commit E K ev s)"
  unfolding approve_commit_def
  by (rule keeps_intros | assumption | simp add: step_frozen_def saga_frozen_def)+

lemma keeps_approve_reason [keeps_intros]: "callbacks_keep R K \<Longrightarrow> keeps R (approve_reason E K ev s)"
  unfolding approve_reason_def
  by (rule keeps_intros | assumption | simp add: step_frozen_def saga_frozen_def)+

lemma keeps_handle_hitl_approved [keeps_intros]: "callbacks_keep R K \<Longrightarrow> keeps R (handle_hitl_approved E K ev)"
  unfolding handle_hitl_approved_def
  by (rule keeps_intros | assumption | simp add: step_frozen_def saga_frozen_def)+

lemma keeps_handle_human_rejected [keeps_intros]: "callbacks_keep R K \<Longrightarrow> keeps R (handle_human_rejected E K ev)"
  unfolding handle_human_rejected_def
  by (rule keeps_intros | assumption | simp add: step_frozen_def saga_frozen_def)+

lemma keeps_handle_compensation_completed [keeps_intros]: "callbacks_keep R K \<Longrightarrow> keeps R (handle_compensation_completed E K ev)"
  unfolding handle_compensation_completed_def
  by (rule keeps_intros | assumption | simp add: step_frozen_def saga_frozen_def)+

lemma keeps_handle_compensation_failed [keeps_intros]: "callbacks_keep R K \<Longrightarrow> keeps R (handle_compensation_failed E K ev)"
  unfolding handle_compensation_failed_def
  by (rule keeps_intros | assumption | simp add: step_frozen_def saga_frozen_def)+

lemma keeps_handle_event_but_retry:
  "callbacks_keep R K \<Longrightarrow> ev_type ev \<noteq> HUMAN_RETRY \<Longrightarrow> keeps R (handle_event E K ev)"
  unfolding handle_event_def
  by (cases "ev_type ev") (auto intro: keeps_intros)

end

section \<open>Retries\<close>

text \<open>A retry also drops the dedup keys of the worker's former result, gives the row a fresh
  idempotency key and frees the worker's claim.\<close>

locale retry_frame = engine_frame +
  assumes R_clear: "R db (snd (clear_worker_result_ingest_dedup E tid sid ns db))"
    and R_step_key: "R db (snd (save_step_key sid key db))"
    and R_claims: "R db (db\<lparr>db_claims := cs\<rparr>)"
begin

lemma keeps_clear_worker_result_ingest_dedup [keeps_intros]:
  "keeps R (clear_worker_result_ingest_dedup E tid sid ns)"
  by (rule keepsI) (rule R_clear)

lemma keeps_save_step_key [keeps_intros]: "keeps R (save_step_key sid key)"
  by (rule keepsI) (rule R_step_key)

lemma keeps_release_worker_claim_for_retry [keeps_intros]:
  "keeps R (release_worker_claim_for_retry key)"
  by (rule keepsI) (simp add: write_effects R_claims)

lemma keeps_reset_step_for_worker_retry [keeps_intros]: "keeps R (reset_step_for_worker_retry E tid sid)"
  unfolding reset_step_for_worker_retry_def
  by (rule keeps_intros | assumption | simp add: step_frozen_def saga_frozen_def blank_draft_def)+

lemma keeps_reset_step_for_hitl_retry [keeps_intros]: "keeps R (reset_step_for_hitl_retry E tid sid)"
  unfolding reset_step_for_hitl_retry_def
  by (rule keeps_intros | assumption | simp add: step_frozen_def saga_frozen_def blank_draft_def)+

lemma keeps_handle_human_retry [keeps_intros]: "callbacks_keep R K \<Longrightarrow> keeps R (handle_human_retry E K ev)"
  unfolding handle_human_retry_def
  by (rule keeps_intros | assumption | simp add: step_frozen_def saga_frozen_def blank_draft_def)+

lemma keeps_handle_event [keeps_intros]: "callbacks_keep R K \<Longrightarrow> keeps R (handle_event E K ev)"
  using keeps_handle_event_but_retry [of K ev E] keeps_handle_human_retry [of K E ev]
  by (cases "ev_type ev = HUMAN_RETRY") (simp_all add: handle_event_def)

lemma keeps_ingest_event [keeps_intros]: "callbacks_keep R K \<Longrightarrow> keeps R (ingest_event E K ev)"
  unfolding ingest_event_def by (rule keeps_intros | assumption)+

lemma keeps_process_saga_event: "keeps R (process_saga_event E n d)"
  unfolding process_saga_event_def by (rule keeps_intros)+

end

section \<open>The operator\<close>

locale operator_frame = retry_frame +
  assumes R_outbox_status: "R db (db\<lparr>db_outbox :=
          rows_update P (\<lambda>r. r\<lparr>ob_status := st, ob_updated_at := db_now db\<rparr>) (db_outbox db)\<rparr>)"
    and R_clock: "R db (db\<lparr>db_now := now\<rparr>)"
    and R_recovery: "R db (snd (save_processed_operator_recovery key fp resp db))"
    and R_create_worker: "R db (snd (create_worker_definition ns name version body db))"
    and R_create_step_def: "R db (snd (create_step_definition ns name version body db))"
    and R_upsert_saga: "R db (snd (upsert_saga_definition E ns name version body db))"
    and R_activate: "R db (set_definition_active kind ns name version active db)"
begin

lemma keeps_set_outbox_status [keeps_intros]: "keeps R (set_outbox_status oid st cur)"
  by (rule keepsI) (simp add: set_outbox_status_def R_outbox_status Let_def)

lemma keeps_save_processed_operator_recovery [keeps_intros]:
  "keeps R (save_processed_operator_recovery key fp resp)"
  by (rule keepsI) (rule R_recovery)

lemma keeps_claim_released [keeps_intros]: "keeps R (claim_released E key force)"
  unfolding claim_released_def handle_active_claim_def
  by (rule keeps_intros)+ (auto split: exc.split intro: keeps_intros)

lemma keeps_load_saga_step_locked [keeps_intros]: "keeps R (load_saga_step_locked ns tid sid)"
  unfolding load_saga_step_locked_def
  by (rule keeps_intros | assumption | simp add: step_frozen_def saga_frozen_def blank_draft_def)+

lemma keeps_requeue_row [keeps_intros]: "keeps R (requeue_row oid)"
  unfolding requeue_row_def
  by (rule keeps_intros | assumption | simp add: step_frozen_def saga_frozen_def blank_draft_def)+

lemma keeps_requeue_worker_outbox [keeps_intros]: "keeps R (requeue_worker_outbox E ns key force)"
  unfolding requeue_worker_outbox_def
  by (rule keeps_intros | assumption | simp add: step_frozen_def saga_frozen_def blank_draft_def)+

lemma keeps_recovery_done [keeps_intros]: "keeps R (recovery_done kind status sid token force)"
  unfolding recovery_done_def
  by (rule keeps_intros | assumption | simp add: step_frozen_def saga_frozen_def blank_draft_def)+

lemma keeps_execute_step_retry [keeps_intros]: "callbacks_keep R K \<Longrightarrow> keeps R (execute_step_retry E K ns tid sid token force ad)"
  unfolding execute_step_retry_def
  by (rule keeps_intros | assumption | simp add: step_frozen_def saga_frozen_def blank_draft_def)+

lemma keeps_execute_retry_forward [keeps_intros]: "callbacks_keep R K \<Longrightarrow> keeps R (execute_retry_forward E K ns tid sid token force ad)"
  unfolding execute_retry_forward_def
  by (rule keeps_intros | assumption | simp add: step_frozen_def saga_frozen_def blank_draft_def)+

lemma keeps_execute_start_compensation [keeps_intros]: "callbacks_keep R K \<Longrightarrow> keeps R (execute_start_compensation E K ns tid sid token force)"
  unfolding execute_start_compensation_def
  by (rule keeps_intros | assumption | simp add: step_frozen_def saga_frozen_def blank_draft_def)+

lemma keeps_with_operator_recovery_idempotency [keeps_intros]:
  "keeps R action \<Longrightarrow>
   keeps R (with_operator_recovery_idempotency E token ns kind tid sid force ad action)"
  unfolding with_operator_recovery_idempotency_def by (rule keeps_intros | assumption)+

lemma keeps_token_or_fresh [keeps_intros]: "keeps R (token_or_fresh E token)"
  unfolding token_or_fresh_def
  by (rule keeps_intros | assumption | simp add: step_frozen_def saga_frozen_def blank_draft_def)+

lemma keeps_enqueue_step_retry [keeps_intros]: "keeps R (enqueue_step_retry E n ns tid sid token force ad)"
  unfolding enqueue_step_retry_def
  by (rule keeps_intros | assumption | simp add: step_frozen_def saga_frozen_def blank_draft_def)+

lemma keeps_enqueue_retry_forward [keeps_intros]: "keeps R (enqueue_retry_forward E n ns tid sid token force ad)"
  unfolding enqueue_retry_forward_def
  by (rule keeps_intros | assumption | simp add: step_frozen_def saga_frozen_def blank_draft_def)+

lemma keeps_enqueue_start_compensation [keeps_intros]: "keeps R (enqueue_start_compensation E n ns tid sid token force)"
  unfolding enqueue_start_compensation_def
  by (rule keeps_intros | assumption | simp add: step_frozen_def saga_frozen_def blank_draft_def)+

lemma keeps_load_step_for_decision [keeps_intros]: "keeps R (load_step_for_decision ns tid sid)"
  unfolding load_step_for_decision_def
  by (rule keeps_intros | assumption | simp add: step_frozen_def saga_frozen_def blank_draft_def)+

lemma keeps_requeue_if_failed [keeps_intros]: "keeps R (requeue_if_failed r)"
  unfolding requeue_if_failed_def
  by (rule keeps_intros | assumption | simp add: step_frozen_def saga_frozen_def blank_draft_def)+

lemma keeps_emit_human_decision [keeps_intros]: "keeps R (emit_human_decision E ns tid sid decision key output details)"
  unfolding emit_human_decision_def
  by (rule keeps_intros | assumption | simp add: step_frozen_def saga_frozen_def blank_draft_def)+

lemma keeps_enqueue_human_decision [keeps_intros]: "keeps R (enqueue_human_decision E ns tid sid decision output details)"
  unfolding enqueue_human_decision_def
  by (rule keeps_intros | assumption | simp add: step_frozen_def saga_frozen_def blank_draft_def)+

lemma keeps_enqueue_hitl_retry [keeps_intros]: "keeps R (enqueue_hitl_retry E ns tid sid token guidance)"
  unfolding enqueue_hitl_retry_def
  by (rule keeps_intros | assumption | simp add: step_frozen_def saga_frozen_def blank_draft_def)+

end

section \<open>The catalog\<close>

context operator_frame
begin

lemma keeps_create_definition [keeps_intros]:
  "keeps R (create_worker_definition ns name version body)"
  "keeps R (create_step_definition ns name version body)"
  "keeps R (upsert_saga_definition E ns name version body)"
  by (rule keepsI, rule R_create_worker R_create_step_def R_upsert_saga)+

lemma keeps_deploy [keeps_intros]: "keeps R create \<Longrightarrow> keeps R (deploy dry_run create kind ns name version label)"
  unfolding deploy_def by (rule keeps_intros | assumption | simp)+

lemma keeps_register_worker [keeps_intros]: "keeps R (register_worker E d dry_run)"
  unfolding register_worker_def by (rule keeps_intros)+

lemma keeps_register_step [keeps_intros]: "keeps R (register_step E d dry_run)"
  unfolding register_step_def assert_step_worker_registered_def by (rule keeps_intros)+

lemma keeps_register_saga [keeps_intros]: "keeps R (register_saga E d dry_run)"
  unfolding register_saga_def assert_saga_workers_registered_def assert_child_saga_definitions_registered_def
  by (rule keeps_intros)+

lemma keeps_register: "keeps R (register_manifest_from_dict E data dry_run)"
  by (cases data) (auto simp: register_manifest_from_dict_def intro: keeps_intros)

end

section \<open>The consumer\<close>

context operator_frame
begin

lemma keeps_poll_and_claim [keeps_intros]: "keeps R (poll_and_claim topic batch locked)"
  by (rule keepsI) (simp add: poll_and_claim_def R_outbox_status Let_def)

lemma keeps_process_row [keeps_intros]:
  "(\<And>p. keeps R (handler p)) \<Longrightarrow> keeps R (process_row handler row)"
  unfolding process_row_def by (rule keeps_intros | assumption)+

lemma keeps_reap_stale [keeps_intros]: "keeps R (reap_stale_in_progress_outbox_rows E topic limit)"
  by (rule keepsI) (simp add: reap_stale_in_progress_outbox_rows_def R_outbox_status Let_def)

lemma keeps_reap_paired_once [keeps_intros]: "keeps R (reap_paired_once E topic)"
proof (rule keepsI)
  fix db
  have "R db (db\<lparr>db_claims := cs, db_outbox := rows_update P
            (\<lambda>r. r\<lparr>ob_status := Outbox_PENDING, ob_updated_at := db_now db\<rparr>) (db_outbox db)\<rparr>)" for cs P
    using R_trans [OF R_claims R_outbox_status [of "db\<lparr>db_claims := cs\<rparr>"]] by simp
  then show "R db (snd (reap_paired_once E topic db))"
    by (auto simp: reap_paired_once_def R_refl split: list.split)
qed

lemma keeps_reap_paired [keeps_intros]: "keeps R (reap_paired_worker_commands_outbox E topic limit)"
  by (induction limit) (auto intro: keeps_intros)

lemma keeps_reap_claim_by_key [keeps_intros]: "keeps R (reap_stale_claim_by_key E key)"
  by (rule keepsI) (simp add: reap_stale_claim_by_key_def R_claims Let_def)

lemma keeps_reap_claims [keeps_intros]: "keeps R (reap_stale_processed_commands E batch)"
  by (rule keepsI) (simp add: reap_stale_processed_commands_def R_claims Let_def)

lemma keeps_mark_emitted [keeps_intros]: "keeps R (mark_claim_result_emitted key token)"
  by (rule keepsI) (simp add: mark_claim_result_emitted_def R_claims Let_def)

end

text \<open>Retrying a failed undo reopens the saga without a reported transition, and drops the dedup
  keys of the undo's former result.\<close>

locale recovery_frame = operator_frame +
  assumes R_reopen: "R db (snd (save_saga tid (\<lambda>g. g\<lparr>saga_status := Saga_COMPENSATING\<rparr>) db))"
    and R_clear_undo: "R db (snd (clear_compensation_ingest_dedup tid sid db))"
begin

lemma keeps_reopen [keeps_intros]:
  "keeps R (save_saga tid (\<lambda>g. g\<lparr>saga_status := Saga_COMPENSATING\<rparr>))"
  by (rule keepsI) (rule R_reopen)

lemma keeps_clear_compensation_ingest_dedup [keeps_intros]:
  "keeps R (clear_compensation_ingest_dedup tid sid)"
  by (rule keepsI) (rule R_clear_undo)

lemma keeps_emit_compensation_retry [keeps_intros]: "keeps R (emit_compensation_retry E sg undo fwd)"
  unfolding emit_compensation_retry_def by (rule keeps_intros)+

lemma keeps_handle_active_claim [keeps_intros]: "keeps R (handle_active_claim E key force)"
  unfolding handle_active_claim_def by (rule keeps_intros)+

lemma keeps_execute_compensation_retry [keeps_intros]:
  "keeps R (execute_compensation_retry E ns tid sid token force)"
  unfolding execute_compensation_retry_def
  by (rule keeps_reopen keeps_intros | simp add: step_frozen_def)+

lemma keeps_enqueue_compensation_retry [keeps_intros]:
  "keeps R (enqueue_compensation_retry E ns tid sid token force)"
  unfolding enqueue_compensation_retry_def by (rule keeps_intros)+

end

end
