(* ===== verification/Guarantees.thy ===== *)
theory Guarantees imports Frame begin

text \<open>
  The relations that every operation of the engine keeps, each an interpretation of a locale of
  \<open>Frame\<close>: rows are never removed and their frozen columns never rewritten, keys stay
  unique, every status change of a saga is reported, the dedup keys of human retries are never
  dropped, and events other than retries only append pending messages to the outbox.
\<close>

section \<open>Rows stay\<close>

definition step_identity :: "step \<Rightarrow> step" where
  "step_identity s = step_frozen (s\<lparr>idempotency_key := []\<rparr>)"

definition rows_stay :: "db \<Rightarrow> db \<Rightarrow> bool" where
  "rows_stay a b \<longleftrightarrow>
     prefix (map step_identity (db_steps a)) (map step_identity (db_steps b))
   \<and> prefix (map saga_frozen (db_sagas a)) (map saga_frozen (db_sagas b))
   \<and> prefix (db_children a) (db_children b)"

lemma step_identity_frozen: "step_frozen s' = step_frozen s \<Longrightarrow> step_identity s' = step_identity s"
proof -
  have blank: "step_identity r = (step_frozen r)\<lparr>idempotency_key := []\<rparr>" for r
    by (simp add: step_identity_def step_frozen_def)
  show "step_frozen s' = step_frozen s \<Longrightarrow> step_identity s' = step_identity s"
    by (simp add: blank)
qed

lemma step_identity_key [simp]: "step_identity (s\<lparr>idempotency_key := k\<rparr>) = step_identity s"
  by (simp add: step_identity_def)

lemma saga_frozen_status [simp]: "saga_frozen (g\<lparr>saga_status := st\<rparr>) = saga_frozen g"
  by (simp add: saga_frozen_def)

interpretation stay: recovery_frame rows_stay
proof (unfold_locales, goal_cases)
  case (2 a b c)
  then show ?case by (auto simp: rows_stay_def dest: prefix_order.trans)
next
  case (4 f db P)
  then have "step_identity (f s) = step_identity s" for s by (rule step_identity_frozen)
  then show ?case by (simp add: rows_stay_def map_rows_update)
next
  case (5 h db tid)
  then show ?case by (simp add: rows_stay_def map_rows_update)
next
  case (9 db sg)
  show ?case using after_create_saga [of sg db] by (auto simp: rows_stay_def)
next
  case (11 db E topic payload ns tid sid ety key)
  show ?case using after_publish [of topic E payload ns tid sid ety key db] by (auto simp: rows_stay_def)
next
  case (13 db E tid sid ns)
  show ?case using after_clear_worker_result [of E tid sid ns db] by (auto simp: rows_stay_def)
qed (simp_all add: rows_stay_def write_effects map_rows_update set_definition_active_def split: option.split)

section \<open>Keys are unique\<close>

definition outbox_row_key :: "outbox_event \<Rightarrow> string \<times> string \<times> string option" where
  "outbox_row_key r = (ob_namespace r, ob_topic r, ob_idempotency_key r)"

definition outbox_unique :: "outbox_event list \<Rightarrow> bool" where
  "outbox_unique t \<longleftrightarrow> distinct (filter (\<lambda>(_, _, k). k \<noteq> None) (map outbox_row_key t))"

definition worker_key :: "worker_row \<Rightarrow> string \<times> string \<times> string" where
  "worker_key w = (wdef_namespace w, wdef_name w, wdef_version w)"

definition step_definition_key :: "step_definition \<Rightarrow> string \<times> string \<times> string" where
  "step_definition_key r = (stdef_namespace r, stdef_name r, stdef_version r)"

definition saga_definition_key :: "saga_definition \<Rightarrow> string \<times> string \<times> string" where
  "saga_definition_key d = (sdef_namespace d, sdef_name d, sdef_version d)"

definition keys_unique :: "db \<Rightarrow> bool" where
  "keys_unique db \<longleftrightarrow>
     distinct (map span_id (db_steps db)) \<and> distinct (map idempotency_key (db_steps db))
   \<and> distinct (map trace_id (db_sagas db)) \<and> distinct (map child_idempotency_key (db_children db))
   \<and> distinct (db_ingested db) \<and> distinct (map rec_key (db_recoveries db))
   \<and> outbox_unique (db_outbox db)
   \<and> distinct (map worker_key (db_worker_defs db)) \<and> distinct (map step_definition_key (db_step_defs db))
   \<and> distinct (map saga_definition_key (db_saga_defs db))"

definition keys_kept :: "db \<Rightarrow> db \<Rightarrow> bool" where
  "keys_kept a b \<longleftrightarrow> (keys_unique a \<longrightarrow> keys_unique b)"

lemma outbox_unique_put: "outbox_unique t \<Longrightarrow> outbox_unique (outbox_put r t)"
  by (auto simp: outbox_unique_def outbox_put_def outbox_has_def outbox_row_key_def split: option.splits)

lemma outbox_unique_delete: "outbox_unique t \<Longrightarrow> outbox_unique (rows_delete P t)"
  by (induction t) (auto simp: outbox_unique_def rows_delete_def split: if_splits)

lemma outbox_unique_status:
  "outbox_unique (rows_update P (\<lambda>r. r\<lparr>ob_status := st, ob_updated_at := now\<rparr>) t) = outbox_unique t"
  by (simp add: outbox_unique_def map_rows_update outbox_row_key_def)

lemma step_frozen_keys:
  "step_frozen s' = step_frozen s \<Longrightarrow> span_id s' = span_id s \<and> idempotency_key s' = idempotency_key s"
proof -
  assume eq: "step_frozen s' = step_frozen s"
  have "span_id (step_frozen r) = span_id r" "idempotency_key (step_frozen r) = idempotency_key r" for r
    by (simp_all add: step_frozen_def)
  with eq show ?thesis by metis
qed

lemma saga_frozen_trace: "saga_frozen g' = saga_frozen g \<Longrightarrow> trace_id g' = trace_id g"
proof -
  assume eq: "saga_frozen g' = saga_frozen g"
  have "trace_id (saga_frozen r) = trace_id r" for r by (simp add: saga_frozen_def)
  with eq show ?thesis by metis
qed

text \<open>A new key no other row has keeps the column unique.\<close>

lemma distinct_new_key:
  assumes "distinct (map span_id t)" "distinct (map idempotency_key t)"
    and fresh: "\<forall>s\<in>set t. span_id s \<noteq> sid \<longrightarrow> idempotency_key s \<noteq> key"
  shows "distinct (map idempotency_key
           (rows_update (\<lambda>s. span_id s = sid) (\<lambda>r. r\<lparr>idempotency_key := key\<rparr>) t))"
  using assms
proof (induction t)
  case (Cons s t)
  have same: "r \<in> set t \<Longrightarrow> span_id r = span_id s \<Longrightarrow> False" for r
    using Cons.prems(1) by (auto simp: rev_image_eqI)
  show ?case
  proof (cases "span_id s = sid")
    case True
    then have "rows_update (\<lambda>s. span_id s = sid) (\<lambda>r. r\<lparr>idempotency_key := key\<rparr>) t = t"
      using same by (intro rows_update_cong_none) auto
    then show ?thesis using Cons.prems True same by auto
  next
    case False
    have "distinct (map idempotency_key
            (rows_update (\<lambda>s. span_id s = sid) (\<lambda>r. r\<lparr>idempotency_key := key\<rparr>) t))"
      using Cons by simp
    moreover have "idempotency_key s \<notin> idempotency_key `
        set (rows_update (\<lambda>s. span_id s = sid) (\<lambda>r. r\<lparr>idempotency_key := key\<rparr>) t)"
      using Cons.prems(2,3) False by (auto simp: set_rows_update)
    ultimately show ?thesis using False by simp
  qed
qed simp

lemma catalog_keys [simp]:
  "worker_key (w\<lparr>wdef_is_active := a\<rparr>) = worker_key w"
  "step_definition_key (r\<lparr>stdef_is_active := a\<rparr>) = step_definition_key r"
  "saga_definition_key (d\<lparr>sdef_is_active := a\<rparr>) = saga_definition_key d"
  "saga_definition_key (d\<lparr>sdef_body := body\<rparr>) = saga_definition_key d"
  by (simp_all add: worker_key_def step_definition_key_def saga_definition_key_def)

interpretation keys: recovery_frame keys_kept
proof (unfold_locales, goal_cases)
  case (4 f db P)
  then have "span_id (f s) = span_id s" "idempotency_key (f s) = idempotency_key s" for s
    using step_frozen_keys by blast+
  then show ?case by (simp add: keys_kept_def keys_unique_def map_rows_update)
next
  case (5 h db tid)
  then have "trace_id (h g) = trace_id g" for g using saga_frozen_trace by blast
  then show ?case by (simp add: keys_kept_def keys_unique_def map_rows_update)
next
  case (8 db row)
  show ?case by (auto simp: keys_kept_def keys_unique_def write_effects)
next
  case (9 db sg)
  show ?case using after_create_saga [of sg db]
    by (elim disjE conjE) (simp_all add: keys_kept_def keys_unique_def image_iff, metis)
next
  case (10 db ch)
  show ?case by (auto simp: keys_kept_def keys_unique_def write_effects)
next
  case (11 db E topic payload ns tid sid ety key)
  show ?case using after_publish [of topic E payload ns tid sid ety key db]
    by (auto simp: keys_kept_def keys_unique_def outbox_unique_put)
next
  case (12 db k)
  show ?case by (auto simp: keys_kept_def keys_unique_def ingest_put_def)
next
  case (13 db E tid sid ns)
  show ?case using after_clear_worker_result [of E tid sid ns db]
    by (auto simp: keys_kept_def keys_unique_def outbox_unique_delete) (simp add: rows_delete_def)
next
  case (14 db sid key)
  show ?case
    by (auto simp: keys_kept_def keys_unique_def write_effects map_rows_update intro!: distinct_new_key)
next
  case (18 db key fp resp)
  show ?case
    by (auto simp: keys_kept_def keys_unique_def write_effects find_recovery_def rows_first_None)
next
  case (19 ns name version body db)
  show ?case
    by (auto simp: keys_kept_def keys_unique_def write_effects worker_active_def rows_first_None worker_key_def)
next
  case (20 ns name version body db)
  show ?case
    by (auto simp: keys_kept_def keys_unique_def write_effects find_step_definition_def rows_first_None
        step_definition_key_def)
next
  case (21 E ns name version body db)
  show ?case
    by (auto simp: keys_kept_def keys_unique_def write_effects rows_first_None same_saga_def map_rows_update
        saga_definition_key_def)
next
  case (24 db tid sid)
  show ?case by (simp add: keys_kept_def keys_unique_def write_effects rows_delete_def)
qed (simp_all add: keys_kept_def keys_unique_def write_effects map_rows_update outbox_unique_status
    set_definition_active_def split: option.split)

section \<open>Every status change is reported\<close>

text \<open>The status the reported transitions of a saga lead to, when each starts where the one
  before it ended.\<close>

fun audit :: "string \<Rightarrow> saga_status \<Rightarrow> hook list \<Rightarrow> saga_status option" where
  "audit tid st [] = Some st"
| "audit tid st (On_saga_transition t old new ev reason # hs) =
     (if t \<noteq> tid then audit tid st hs else if old = st then audit tid new hs else None)"
| "audit tid st (h # hs) = audit tid st hs"

definition audited :: "db \<Rightarrow> db \<Rightarrow> bool" where
  "audited a b \<longleftrightarrow> (\<exists>hs. db_hooks b = db_hooks a @ hs
     \<and> (\<forall>tid g. find_saga tid a = Some g \<longrightarrow>
          (\<exists>g'. find_saga tid b = Some g' \<and> audit tid (saga_status g) hs = Some (saga_status g'))))"

lemma audit_append:
  "audit tid st (xs @ ys) = (case audit tid st xs of None \<Rightarrow> None | Some st' \<Rightarrow> audit tid st' ys)"
  by (induction tid st xs rule: audit.induct) auto

lemma audited_same:
  "db_hooks b = db_hooks a \<Longrightarrow> db_sagas b = db_sagas a \<Longrightarrow> audited a b"
  by (simp add: audited_def find_saga_def)

lemma audited_trans: "audited a b \<Longrightarrow> audited b c \<Longrightarrow> audited a c"
  unfolding audited_def by (fastforce simp: audit_append)

lemma audit_other: "\<not> is_saga_transition h \<Longrightarrow> audit tid st [h] = Some st"
  by (cases h) auto

lemma find_saga_update:
  "(\<And>g. trace_id (h g) = trace_id g) \<Longrightarrow>
   rows_first (\<lambda>s. trace_id s = t) (rows_update (\<lambda>s. trace_id s = tid) h rows) =
     map_option (\<lambda>g. if t = tid then h g else g) (rows_first (\<lambda>s. trace_id s = t) rows)"
  by (induction rows) auto

lemma audited_transition: "audited db (snd (transition_saga tid new ev reason db))"
proof (cases "find_saga tid db")
  case None
  then show ?thesis by (simp add: write_effects audited_same)
next
  case (Some g)
  then show ?thesis
    by (auto simp: write_effects audited_def find_saga_def find_saga_update)
qed

interpretation audit: operator_frame audited
proof (unfold_locales, goal_cases)
  case (2 a b c)
  then show ?case by (rule audited_trans)
next
  case (5 h db tid)
  then have "trace_id (h g) = trace_id g" "saga_status (h g) = saga_status g" for g
    using saga_frozen_trace by blast+
  then show ?case
    by (auto simp: audited_def find_saga_def find_saga_update)
next
  case (6 hk db)
  then show ?case by (auto simp: audited_def find_saga_def audit_other)
next
  case (7 db tid new ev reason)
  show ?case by (rule audited_transition)
next
  case (9 db sg)
  show ?case using after_create_saga [of sg db]
    by (auto simp: audited_def find_saga_def table_simps)
next
  case (11 db E topic payload ns tid sid ety key)
  show ?case using after_publish [of topic E payload ns tid sid ety key db] by (auto simp: audited_same)
next
  case (13 db E tid sid ns)
  show ?case using after_clear_worker_result [of E tid sid ns db] by (auto simp: audited_same)
qed (simp_all add: audited_same write_effects set_definition_active_def)

section \<open>The dedup key of a human retry is never dropped\<close>

definition colon_free :: "string \<Rightarrow> bool" where
  "colon_free s \<longleftrightarrow> CHR 0x3A \<notin> set s"

definition retry_keys_kept :: "db \<Rightarrow> db \<Rightarrow> bool" where
  "retry_keys_kept a b \<longleftrightarrow> (\<forall>tid sid. colon_free tid \<longrightarrow> colon_free sid \<longrightarrow>
     dedup_key tid ''HUMAN_RETRY'' sid \<in> set (db_ingested a) \<longrightarrow>
     dedup_key tid ''HUMAN_RETRY'' sid \<in> set (db_ingested b))"

text \<open>The event type can be read off a key whose ids have no colon.\<close>

lemma colon_split:
  "colon_free x \<Longrightarrow> colon_free x' \<Longrightarrow> x @ CHR 0x3A # r = x' @ CHR 0x3A # r' \<Longrightarrow> x = x' \<and> r = r'"
proof (induction x arbitrary: x')
  case Nil
  then show ?case by (cases x') (auto simp: colon_free_def)
next
  case (Cons a x)
  then show ?case by (cases x') (auto simp: colon_free_def)
qed

lemma dedup_key_event:
  assumes eq: "dedup_key tid e sid = dedup_key tid' e' sid'"
    and free: "colon_free tid" "colon_free sid" "colon_free e" "colon_free e'"
  shows "e = e'"
proof -
  have count: "count_list (dedup_key t x s) (CHR 0x3A) =
      count_list t (CHR 0x3A) + count_list x (CHR 0x3A) + count_list s (CHR 0x3A) + 2" for t x s
    by (simp add: dedup_key_def count_list_append)
  have free_count: "colon_free s \<longleftrightarrow> count_list s (CHR 0x3A) = 0" for s
    by (simp add: colon_free_def count_list_0_iff)
  have "colon_free tid'" "colon_free sid'"
    using arg_cong [OF eq, of "\<lambda>k. count_list k (CHR 0x3A)"] free by (simp_all add: count free_count)
  with eq free show ?thesis
    unfolding dedup_key_def by (metis append_Cons append_Nil colon_split)
qed

lemma retry_key_not_result:
  assumes "colon_free tid" "colon_free sid"
    and "e \<in> {''STEP_COMPLETED'', ''STEP_FAILED'', ''STEP_COMPENSATED'', ''COMPENSATION_FAILED''}"
  shows "dedup_key tid ''HUMAN_RETRY'' sid \<noteq> dedup_key tid' e sid'"
proof
  assume eq: "dedup_key tid ''HUMAN_RETRY'' sid = dedup_key tid' e sid'"
  have "colon_free e" "colon_free ''HUMAN_RETRY''"
    using assms(3) by (auto simp: colon_free_def)
  from dedup_key_event [OF eq assms(1,2) this(2,1)] assms(3) show False by auto
qed

interpretation retry_keys: recovery_frame retry_keys_kept
proof (unfold_locales, goal_cases)
  case (9 db sg)
  show ?case using after_create_saga [of sg db] by (auto simp: retry_keys_kept_def)
next
  case (11 db E topic payload ns tid sid ety key)
  show ?case using after_publish [of topic E payload ns tid sid ety key db]
    by (auto simp: retry_keys_kept_def)
next
  case (13 db E tid sid ns)
  show ?case using after_clear_worker_result [of E tid sid ns db]
    by (auto simp: retry_keys_kept_def rows_delete_def worker_result_keys_def retry_key_not_result)
next
  case (24 db tid sid)
  show ?case
    by (auto simp: retry_keys_kept_def write_effects rows_delete_def retry_key_not_result)
qed (auto simp: retry_keys_kept_def write_effects ingest_put_def set_definition_active_def split: option.split)

section \<open>Catalog versions are immutable\<close>

definition worker_frozen :: "worker_row \<Rightarrow> worker_row" where
  "worker_frozen w = w\<lparr>wdef_is_active := True\<rparr>"

definition step_definition_frozen :: "step_definition \<Rightarrow> step_definition" where
  "step_definition_frozen r = r\<lparr>stdef_is_active := True\<rparr>"

definition catalog_kept :: "db \<Rightarrow> db \<Rightarrow> bool" where
  "catalog_kept a b \<longleftrightarrow>
     prefix (map worker_frozen (db_worker_defs a)) (map worker_frozen (db_worker_defs b))
   \<and> prefix (map step_definition_frozen (db_step_defs a)) (map step_definition_frozen (db_step_defs b))
   \<and> prefix (map saga_definition_key (db_saga_defs a)) (map saga_definition_key (db_saga_defs b))"

lemma definition_frozen_active [simp]:
  "worker_frozen (w\<lparr>wdef_is_active := a\<rparr>) = worker_frozen w"
  "step_definition_frozen (r\<lparr>stdef_is_active := a\<rparr>) = step_definition_frozen r"
  by (simp_all add: worker_frozen_def step_definition_frozen_def)

lemma catalog_same:
  "db_worker_defs b = db_worker_defs a \<Longrightarrow> db_step_defs b = db_step_defs a \<Longrightarrow>
   db_saga_defs b = db_saga_defs a \<Longrightarrow> catalog_kept a b"
  by (simp add: catalog_kept_def)

interpretation catalog: recovery_frame catalog_kept
proof (unfold_locales, goal_cases)
  case (2 a b c)
  then show ?case by (auto simp: catalog_kept_def dest: prefix_order.trans)
next
  case (9 db sg)
  show ?case using after_create_saga [of sg db] by (auto simp: catalog_same)
next
  case (11 db E topic payload ns tid sid ety key)
  show ?case using after_publish [of topic E payload ns tid sid ety key db] by (auto simp: catalog_same)
next
  case (13 db E tid sid ns)
  show ?case using after_clear_worker_result [of E tid sid ns db] by (auto simp: catalog_same)
qed (simp_all add: catalog_kept_def write_effects map_rows_update set_definition_active_def split: option.split)

section \<open>Events other than retries only add\<close>

definition appended :: "db \<Rightarrow> db \<Rightarrow> bool" where
  "appended a b \<longleftrightarrow> (\<exists>new. db_outbox b = db_outbox a @ new \<and> (\<forall>r\<in>set new. ob_status r = Outbox_PENDING))
     \<and> prefix (db_ingested a) (db_ingested b)"

lemma appended_trans: "appended a b \<Longrightarrow> appended b c \<Longrightarrow> appended a c"
  unfolding appended_def by (auto intro: prefix_order.trans)

lemma appended_same: "db_outbox b = db_outbox a \<Longrightarrow> db_ingested b = db_ingested a \<Longrightarrow> appended a b"
  by (simp add: appended_def)

interpretation append: engine_frame appended
proof (unfold_locales, goal_cases)
  case (2 a b c)
  then show ?case by (rule appended_trans)
next
  case (9 db sg)
  show ?case using after_create_saga [of sg db] by (auto simp: appended_same)
next
  case (11 db E topic payload ns tid sid ety key)
  show ?case using after_publish [of topic E payload ns tid sid ety key db]
    by (auto simp: appended_def outbox_put_def)
next
  case (12 db k)
  show ?case by (auto simp: appended_def ingest_put_def)
qed (simp_all add: appended_same write_effects split: option.split)

end
