(* ===== verification/System.thy ===== *)
theory System imports Guarantees begin

text \<open>
  The system as a transition relation: the requests the API, the consumers, the workers, the reapers
  and the clock make, in any order, each one run to its end.  A worker makes two of them, the claim of
  a command and the report of its execution; between the two anything else may happen.  The invariants of every
  reachable database follow from the relations of \<open>Guarantees\<close>.
\<close>

section \<open>Requests\<close>

datatype request =
    Ingest dict
  | Start string string string dict "string option"
  | Decide string string string string json json
  | Retry_held string string string "string option" "string option"
  | Retry_step string string string "string option" bool bool
  | Retry_undo string string string "string option" bool
  | Retry_forward string string string "string option" bool bool
  | Start_compensation string string string "string option" bool
  | Poll string nat
  | Deliver outbox_event
  | Work dict
  | Report execution adapter_run
  | Reap string nat
  | Reap_commands string nat
  | Reap_claims nat
  | Clock int
  | Register json bool
  | Activate string string string string bool

definition perform :: "env \<Rightarrow> nat \<Rightarrow> request \<Rightarrow> db \<Rightarrow> db" where
  "perform E n rq db = (case rq of
     Ingest d \<Rightarrow> snd (process_saga_event E n d db)
   | Start ns name version input key \<Rightarrow> snd (start_saga E ns name version input key db)
   | Decide ns tid sid decision output details \<Rightarrow>
       snd (enqueue_human_decision E ns tid sid decision output details db)
   | Retry_held ns tid sid token guidance \<Rightarrow> snd (enqueue_hitl_retry E ns tid sid token guidance db)
   | Retry_step ns tid sid token force ad \<Rightarrow> snd (enqueue_step_retry E n ns tid sid token force ad db)
   | Retry_undo ns tid sid token force \<Rightarrow> snd (enqueue_compensation_retry E ns tid sid token force db)
   | Retry_forward ns tid sid token force ad \<Rightarrow>
       snd (enqueue_retry_forward E n ns tid sid token force ad db)
   | Start_compensation ns tid sid token force \<Rightarrow>
       snd (enqueue_start_compensation E n ns tid sid token force db)
   | Poll topic batch \<Rightarrow> snd (poll_and_claim topic batch (\<lambda>_. False) db)
   | Deliver row \<Rightarrow> snd (process_row (process_saga_event E n) row db)
   | Work raw \<Rightarrow> snd (prepare_worker_command_execution E raw db)
   | Report ex r \<Rightarrow> snd (dispatch_worker_command_execution E ex r db)
   | Reap topic limit \<Rightarrow> snd (reap_stale_in_progress_outbox_rows E topic limit db)
   | Reap_commands topic limit \<Rightarrow> snd (reap_paired_worker_commands_outbox E topic limit db)
   | Reap_claims batch \<Rightarrow> snd (reap_stale_processed_commands E batch db)
   | Clock now \<Rightarrow> db\<lparr>db_now := now\<rparr>
   | Register data dry_run \<Rightarrow> snd (register_manifest_from_dict E data dry_run db)
   | Activate kind ns name version active \<Rightarrow> set_definition_active kind ns name version active db)"

text \<open>The requests whose transitions are all reported: all but the retry of an undo.\<close>

fun reported :: "request \<Rightarrow> bool" where
  "reported (Retry_undo ns tid sid token force) = False"
| "reported rq = True"

section \<open>The worker keeps what the operator keeps\<close>

context operator_frame
begin

lemma keeps_adapter_outcome [keeps_intros]:
  "(\<And>x. keeps R (a x)) \<Longrightarrow> (\<And>x y z. keeps R (b x y z)) \<Longrightarrow> (\<And>x y. keeps R (c x y)) \<Longrightarrow>
   keeps R (case_adapter_outcome a b c r)"
  by (cases r) simp_all

lemma keeps_command_type [keeps_intros]:
  "keeps R a \<Longrightarrow> keeps R b \<Longrightarrow> keeps R c \<Longrightarrow> keeps R (case_command_type a b c ty)"
  by (cases ty) simp_all

lemma keeps_create_claim [keeps_intros]: "keeps R (create_claim key ns token)"
proof (rule keepsI)
  show "R db (snd (create_claim key ns token db))" for db
    by (cases "find_claim key db") (simp_all add: create_claim_def monad_simps R_refl R_claims)
qed

lemma keeps_release_command_claim [keeps_intros]: "keeps R (release_command_claim key token)"
  by (rule keepsI) (simp add: release_command_claim_def modify_def R_claims)

lemma keeps_verify_claim [keeps_intros]: "keeps R (verify_claim_before_emit key token)"
  unfolding verify_claim_before_emit_def by (rule keeps_intros)

lemma keeps_claim_idempotency_key [keeps_intros]: "keeps R (claim_idempotency_key E key ns)"
  unfolding claim_idempotency_key_def claim_attempt_def by (rule keeps_intros | simp)+

lemma keeps_report_result [keeps_intros]: "keeps R (report_result E ety ns tid sid output timing usage)"
  unfolding report_result_def by (rule keeps_intros)+

lemma keeps_finalize_success [keeps_intros]: "keeps R (finalize_success E c token ety output timing usage)"
  unfolding finalize_success_def by (rule keeps_intros | simp)+

lemma keeps_finalize_failure [keeps_intros]:
  "keeps R (finalize_failure E c token ety output code timing usage)"
  unfolding finalize_failure_def by (rule keeps_intros | simp)+

lemma keeps_finalize_load_failure [keeps_intros]:
  "keeps R (finalize_worker_config_load_failure E c token error code)"
  unfolding finalize_worker_config_load_failure_def by (rule keeps_intros | simp)+

lemma keeps_finalize_adapter_failure [keeps_intros]:
  "keeps R (finalize_adapter_resolution_failure E c token error)"
  unfolding finalize_adapter_resolution_failure_def by (rule keeps_intros)+

lemma keeps_prepare_worker_command [keeps_intros]: "keeps R (prepare_worker_command c)"
  unfolding prepare_worker_command_def prepare_compensation_command_def prepare_forward_command_def
    load_forward_step_def load_saga_instance_def
  by (rule keeps_intros)+

lemma keeps_load_worker_config [keeps_intros]: "keeps R (load_worker_config E name ns version)"
  unfolding load_worker_config_def require_worker_definition_def resolve_provider_secret_def
  by (rule keeps_intros)+

lemma keeps_resolve_and_start [keeps_intros]: "keeps R (resolve_and_start E c p token config)"
  unfolding resolve_and_start_def by (rule keeps_intros | simp)+

lemma keeps_load_config_and_start [keeps_intros]: "keeps R (load_config_and_start E c p token)"
  unfolding load_config_and_start_def by (rule keeps_intros)+

lemma keeps_prepare_worker_execution: "keeps R (prepare_worker_command_execution E raw)"
  unfolding prepare_worker_command_execution_def execute_claimed_def by (rule keeps_intros | simp)+

lemma keeps_dispatch_worker_execution: "keeps R (dispatch_worker_command_execution E ex r)"
  unfolding dispatch_worker_command_execution_def run_forward_command_def run_compensation_command_def
  by (rule keeps_intros)+

lemma perform_reported: "reported rq \<Longrightarrow> R db (perform E n rq db)"
  unfolding perform_def
  by (cases rq) (auto intro: keepsD keeps_intros keeps_process_saga_event keeps_start_saga R_clock
      keeps_prepare_worker_execution keeps_dispatch_worker_execution keeps_register R_activate)

end

context recovery_frame
begin

lemma perform_keeps: "R db (perform E n rq db)"
proof (cases "reported rq")
  case False
  then show ?thesis
    by (cases rq) (auto simp: perform_def intro: keepsD keeps_enqueue_compensation_retry)
qed (rule perform_reported)

end

section \<open>Reachable databases\<close>

inductive reachable :: "env \<Rightarrow> db \<Rightarrow> db \<Rightarrow> bool" for E where
  start: "reachable E db db"
| step: "reachable E db db' \<Longrightarrow> reachable E db (perform E n rq db')"

inductive reachable_reported :: "env \<Rightarrow> db \<Rightarrow> db \<Rightarrow> bool" for E where
  start: "reachable_reported E db db"
| step: "reachable_reported E db db' \<Longrightarrow> reported rq \<Longrightarrow> reachable_reported E db (perform E n rq db')"

inductive_cases reachable_cases: "reachable E db db'"

context recovery_frame
begin

lemma reachable_keeps: "reachable E db db' \<Longrightarrow> R db db'"
  by (induction rule: reachable.induct) (auto intro: R_refl R_trans perform_keeps)

end

context operator_frame
begin

lemma reachable_reported_keeps: "reachable_reported E db db' \<Longrightarrow> R db db'"
  by (induction rule: reachable_reported.induct) (auto intro: R_refl R_trans perform_reported)

end

end
