(* ===== verification/Ingest.thy ===== *)
theory Ingest imports System begin

text \<open>
  Exactly-once ingest: an event whose key has been claimed changes nothing but the audit log, the
  claim of a processed event stays, and a failed event leaves the database as it was.
\<close>

section \<open>The claim of an event\<close>

abbreviation parsed_event :: "dict \<Rightarrow> exc + event" where
  "parsed_event d \<equiv> validate_ingest (coerce_saga_ingest_dict d)"

definition log_duplicate :: "event \<Rightarrow> db \<Rightarrow> db" where
  "log_duplicate ev db = db\<lparr>db_hooks := db_hooks db @
     [On_ingest_deduplicated (ev_trace ev) (opt_text (ev_span ev)) (event_type_value (ev_type ev))
        ''processed_ingest_claim'']\<rparr>"

lemma process_parsed:
  "parsed_event d = Inr ev \<Longrightarrow>
   process_saga_event E n d = in_transaction (ingest_event E (calls E n) ev)"
  by (simp add: process_saga_event_def of_sum_def)

lemma ingest_seen:
  "event_dedup_key ev \<in> set (db_ingested db) \<Longrightarrow> ingest_event E K ev db = (Inr (), log_duplicate ev db)"
  by (simp add: ingest_event_def notify_skipped_ingest_def hook_def monad_simps log_duplicate_def)

lemma process_seen:
  "parsed_event d = Inr ev \<Longrightarrow> event_dedup_key ev \<in> set (db_ingested db) \<Longrightarrow>
   process_saga_event E n d db = (Inr (), log_duplicate ev db)"
  by (simp add: process_parsed in_transaction_def ingest_seen)

text \<open>The part of the ingest after the claim.\<close>

definition ingest_claimed :: "env \<Rightarrow> callbacks \<Rightarrow> event \<Rightarrow> unit M" where
  "ingest_claimed E K ev =
     bind (gets (find_saga_in (ev_namespace ev) (ev_trace ev))) (\<lambda>found.
       if found = None
       then raise (UnrecoverableError (''Saga '' @ ev_trace ev @ '' not found for tenant ''
              @ ev_namespace ev))
       else handle_event E K ev)"

lemma ingest_unseen:
  "event_dedup_key ev \<notin> set (db_ingested db) \<Longrightarrow>
   ingest_event E K ev db =
     ingest_claimed E K ev (db\<lparr>db_ingested := db_ingested db @ [event_dedup_key ev]\<rparr>)"
  by (simp add: ingest_event_def ingest_claimed_def seq_def bind_def gets_def modify_def ingest_put_def)

text \<open>A processed event keeps its claim to the end of its transaction.\<close>

lemma span_colon_free: "span_ok s \<Longrightarrow> colon_free s"
proof -
  assume "span_ok s"
  then have "list_all is_hex s" by (simp add: span_ok_def)
  moreover have "\<not> is_hex (CHR 0x3A)" by (simp add: is_hex_def)
  ultimately show "colon_free s" by (auto simp: colon_free_def list_all_iff)
qed

lemma validated_event:
  assumes "validate_ingest d = Inr ev"
  shows "event_errors (ev_type ev) d = []"
    and "ev_trace ev = (case dget ''saga_trace_id'' d of JStr s \<Rightarrow> s | _ \<Rightarrow> [])"
    and "ev_span ev = span_of (dget ''step_span_id'' d)"
proof -
  obtain t where t: "event_errors t d = []" and ev: "validate_ingest d = Inr ev" "ev_type ev = t"
    "ev_trace ev = (case dget ''saga_trace_id'' d of JStr s \<Rightarrow> s | _ \<Rightarrow> [])"
    "ev_span ev = span_of (dget ''step_span_id'' d)"
    using assms unfolding validate_ingest_def
    by (auto simp del: event_errors_def split: option.splits list.splits)
  then show "event_errors (ev_type ev) d = []"
    "ev_trace ev = (case dget ''saga_trace_id'' d of JStr s \<Rightarrow> s | _ \<Rightarrow> [])"
    "ev_span ev = span_of (dget ''step_span_id'' d)" by simp_all
qed

lemma event_errors_ids:
  assumes "event_errors t d = []"
  shows "case dget ''saga_trace_id'' d of JStr s \<Rightarrow> trace_ok s | _ \<Rightarrow> False"
    and "case dget ''step_span_id'' d of JNull \<Rightarrow> True | JStr s \<Rightarrow> s = [] \<or> span_ok s | _ \<Rightarrow> False"
    and "\<not> step_level t \<or> span_of (dget ''step_span_id'' d) \<noteq> None"
  using assms unfolding event_errors_def by (simp_all only: append_is_Nil_conv need_Nil)

lemma parsed_event_fields:
  assumes "parsed_event d = Inr ev"
  shows "trace_ok (ev_trace ev)" "ev_span ev = None \<or> span_ok (opt_text (ev_span ev))"
    "step_level (ev_type ev) \<Longrightarrow> ev_span ev \<noteq> None" "colon_free (opt_text (ev_span ev))"
proof -
  note v = validated_event [OF assms] and e = event_errors_ids [OF validated_event(1) [OF assms]]
  show "trace_ok (ev_trace ev)" using v(2) e(1) by (simp split: json.splits)
  show span: "ev_span ev = None \<or> span_ok (opt_text (ev_span ev))"
    using v(3) e(2) by (auto simp: span_of_def opt_text_def split: json.splits if_splits)
  show "step_level (ev_type ev) \<Longrightarrow> ev_span ev \<noteq> None" using v(3) e(3) by simp
  show "colon_free (opt_text (ev_span ev))"
    using span by (auto simp: opt_text_def colon_free_def dest: span_colon_free)
qed

lemma claimed_keeps_key:
  assumes "parsed_event d = Inr ev" "ev_type ev = HUMAN_RETRY \<longrightarrow> colon_free (ev_trace ev)"
    and "event_dedup_key ev \<in> set (db_ingested db)"
  shows "event_dedup_key ev \<in> set (db_ingested (snd (ingest_claimed E (calls E n) ev db)))"
proof (cases "ev_type ev = HUMAN_RETRY")
  case True
  have "retry_keys_kept db (snd (ingest_claimed E (calls E n) ev db))"
    unfolding ingest_claimed_def by (intro keepsD keeps_intros)
  with True assms parsed_event_fields(4) [OF assms(1)] show ?thesis
    by (simp add: retry_keys_kept_def event_dedup_key_def)
next
  case False
  have "appended db (snd (ingest_claimed E (calls E n) ev db))"
    unfolding ingest_claimed_def
    by (intro keepsD keeps_intros append.keeps_handle_event_but_retry False)
  with assms(3) show ?thesis
    by (auto simp: appended_def prefix_def)
qed

lemma processed_is_claimed:
  assumes "parsed_event d = Inr ev" "ev_type ev = HUMAN_RETRY \<longrightarrow> colon_free (ev_trace ev)"
    and "process_saga_event E n d db = (Inr (), db')"
  shows "event_dedup_key ev \<in> set (db_ingested db')"
proof (cases "event_dedup_key ev \<in> set (db_ingested db)")
  case True
  with assms(3) process_seen [OF assms(1) True] show ?thesis by (auto simp: log_duplicate_def)
next
  case False
  let ?db = "db\<lparr>db_ingested := db_ingested db @ [event_dedup_key ev]\<rparr>"
  from assms(3) False have "snd (ingest_claimed E (calls E n) ev ?db) = db'"
    by (auto simp: process_parsed [OF assms(1)] in_transaction_def ingest_unseen
        split: prod.splits sum.splits)
  then show ?thesis
    using claimed_keeps_key [OF assms(1,2), of ?db E n] by simp
qed

end
