(* ===== verification/Sample.thy ===== *)
theory Sample imports Ingest begin

text \<open>
  A concrete environment and concrete databases: the inputs on which the witnesses evaluate the
  model.  \<open>demo_env\<close> stands for the libraries by small functions: the n-th uuid is
  \<open>n\<close> in decimal padded to 32 digits, a CEL text is true when it is \<open>true\<close> and
  does not parse when it is neither \<open>true\<close> nor \<open>false\<close>, only the JSONPath
  \<open>$.items\<close> matches, every schema accepts, and the disk holds three prompts:
  \<open>r/main\<close> includes \<open>part\<close>, \<open>r/loop\<close> includes itself.

  \<open>run_engine\<close> unfolds the engine's functions once they are applied to a database,
  \<open>run_data\<close> the functions on values; together they evaluate the model by \<open>simp\<close>.
\<close>

section \<open>The environment\<close>

definition demo_uuid :: "nat \<Rightarrow> string" where
  "demo_uuid n = (let t = show_nat n in replicate (16 - length t) (CHR ''0'') @ t @ replicate 16 (CHR ''a''))"

definition demo_env :: env where
  "demo_env = \<lparr>uuid_hex = demo_uuid,
     celpy = (\<lambda>src b. if src = ''true'' then Cel_bool True else if src = ''false'' then Cel_bool False
                      else Cel_parse_error ''syntax''),
     jsonpath = (\<lambda>p doc. if p = ''$.items'' then Some [dget ''items'' (coerce_dict (dget ''input'' (coerce_dict doc)))]
                         else None),
     jsonschema = (\<lambda>s v. None), pydantic_text = concat, sha256_hex = (\<lambda>s. s),
     manifest_text = concat, error_message = (\<lambda>l. l), jsonpath_error = (\<lambda>p. None), check_schema = (\<lambda>s. None),
     path_abs = (\<lambda>p. p), path_is_dir = (\<lambda>p. True), path_resolve = (\<lambda>root ref. (root @ ''/'' @ ref, True)),
     files = [(''r/main'', Inr ''MAIN''), (''r/part'', Inr ''PART''), (''r/loop'', Inr ''LOOP'')],
     yaml_load = (\<lambda>t. Inl ''yaml''), json_load = (\<lambda>t. Inl ''json''),
     jinja_parse = (\<lambda>t. Inr (if t = ''PART'' then [] else [\<lparr>inc_static = True, inc_ignore_missing = False,
                       inc_with_context = True\<rparr>])),
     jinja_lex = (\<lambda>t. [(''data'', ''<''), (''block_begin'', []), (''name'', ''include''),
                     (''string'', if t = ''MAIN'' then ''part'' else ''loop''), (''block_end'', []), (''data'', ''>'')]),
     literal_eval = (\<lambda>v. Some (JStr v)),
     environ = (\<lambda>v. None), int_of_text = (\<lambda>t. None), adapter_error = (\<lambda>w. None),
     compensations_root = None, policies_root = None, schemas_root = None, prompts_root = Some ''r'',
     skills_root = None,
     topic_events = ''evt'', topic_commands = ''cmd'',
     outbox_max_payload_bytes = 262144, outbox_stale_seconds = 300, stale_claim_seconds = 900\<rparr>"

section \<open>Rows\<close>

definition demo_tid :: string where
  "demo_tid = replicate 32 (CHR ''a'')"

definition demo_span :: string where
  "demo_span = replicate 16 (CHR ''b'')"

definition demo_saga :: "saga_status \<Rightarrow> saga" where
  "demo_saga st = \<lparr>trace_id = demo_tid, saga_namespace = ''n'', definition_id = ''d'',
     definition_name = None, definition_version = None, saga_status = st,
     saga_context = JObj [(''input'', JObj []), (''steps'', JObj []), (''loops'', JObj [])],
     frozen_steps = JList [], loop_definitions = JObj [], loop_state = JNull,
     start_idempotency_key = None, parent_trace_id = None, saga_started_at = 0\<rparr>"

definition demo_step :: "string \<Rightarrow> int \<Rightarrow> step_status \<Rightarrow> step" where
  "demo_step span n st =
     \<lparr>span_id = span, saga_trace_id = demo_tid, step_namespace = ''n'', step_id = span,
      step_name = span, step_definition_name = None, step_definition_version = None,
      input_ports = JObj [], order_index = n, forward_seq = n, loop_id = None, iteration = None,
      idempotency_key = ''k'' @ span, started_at = 0, end_time = None, timeout_seconds = 600,
      max_turns = 25, max_step_tokens = None, max_completion_tokens = None, agent_adapter = ''react'',
      step_status = st, worker = ''w'', worker_version = ''1'', step_kind = ''commit'',
      tools_allow = JList [JObj [(''name'', JStr ''t'')]], tools_bind = JList [],
      resources_allow = JList [], skills_allow = JList [], skills_definition = JNull,
      parameters_spec = JObj [], resolved_arguments = JObj [], prompt_ref = None,
      prompt_definition = None, output_payload = JNull, error_details = JNull,
      compensation_definition = JObj [(''worker'', JStr ''u'')], output_schema = JNull,
      policy_name = None, policy_definition = JNull, hitl_required = False, hitl_max_retries = None,
      hitl_retry_count = 0, hitl_retry_guidance = None, hitl_review_started_at = None,
      pending_review_payload = JNull, on_failure_strategy = ''auto_compensate'', when_cel = None,
      facts_extractors = JList [], compensates_span_id = None\<rparr>"

definition empty_db :: db where
  "empty_db = \<lparr>db_sagas = [], db_steps = [], db_children = [], db_saga_defs = [], db_step_defs = [],
     db_worker_defs = [], db_secrets = [],
     db_outbox = [], db_ingested = [], db_claims = [], db_recoveries = [], db_hooks = [],
     db_uuids = 0, db_now = 100\<rparr>"

text \<open>A saga with the given steps.\<close>

definition demo_db :: "saga_status \<Rightarrow> step list \<Rightarrow> db" where
  "demo_db st rows = empty_db\<lparr>db_sagas := [demo_saga st], db_steps := rows\<rparr>"

definition demo_event :: "string \<Rightarrow> string \<Rightarrow> dict" where
  "demo_event ety sid = [(''event_type'', JStr ety), (''namespace'', JStr ''n''),
     (''saga_trace_id'', JStr demo_tid), (''step_span_id'', JStr sid)]"

section \<open>Evaluation\<close>

lemmas run_engine =
  return_def raise_def bind_def seq_def [THEN fun_cong] skip_def [THEN fun_cong]
  when_do_def [THEN fun_cong] gets_def modify_def try_except_def in_transaction_def
  of_sum_def [THEN fun_cong] uuid4_hex_def the_saga_def the_step_def save_saga_def [THEN fun_cong]
  update_steps_def [THEN fun_cong] save_step_def [THEN fun_cong] create_step_def create_saga_def
  create_child_def hook_def [THEN fun_cong] dispatch_policy_gate_hooks_def [THEN fun_cong]
  run_policy_gate_def [THEN fun_cong] publish_def [THEN fun_cong]
  emit_saga_event_def [THEN fun_cong] emit_command_def [THEN fun_cong]
  emit_saga_payload_def [THEN fun_cong] set_outbox_status_def poll_and_claim_def
  process_row_def [THEN fun_cong] reap_stale_in_progress_outbox_rows_def reap_paired_once_def
  release_worker_claim_for_retry_def reap_stale_claim_by_key_def reap_stale_processed_commands_def
  verify_claim_before_emit_def [THEN fun_cong] mark_claim_result_emitted_def
  mint_step_def [THEN fun_cong] transition_saga_def [THEN fun_cong]
  mark_unreachable_forward_steps_skipped_def [THEN fun_cong]
  notify_unreachable_steps_skipped_def [THEN fun_cong]
  fail_saga_no_compensation_window_def [THEN fun_cong] enter_hitl_hold_def [THEN fun_cong]
  resume_saga_running_from_hitl_def [THEN fun_cong]
  clear_worker_result_ingest_dedup_def [THEN fun_cong] save_step_key_def
  reset_step_for_worker_retry_def [THEN fun_cong] reset_step_for_hitl_retry_def [THEN fun_cong]
  finalize_saga_compensated_def [THEN fun_cong]
  emit_saga_failed_from_compensation_def [THEN fun_cong]
  fail_compensation_build_def [THEN fun_cong] schedule_compensation_for_forward_def [THEN fun_cong]
  compensate_spawn_sagas_forward_def [THEN fun_cong] advance_lifo_compensation_def [THEN fun_cong]
  trigger_compensation_def [THEN fun_cong] apply_step_failure_lifecycle_def [THEN fun_cong]
  fail_step_def [THEN fun_cong] resolve_idempotent_start_def [THEN fun_cong]
  require_saga_definition_def [THEN fun_cong] create_saga_and_steps_def [THEN fun_cong]
  start_saga_def [THEN fun_cong] handle_saga_completion_def [THEN fun_cong]
  mint_and_schedule_def [THEN fun_cong] save_loop_status_def [THEN fun_cong]
  fail_saga_after_successful_body_def [THEN fun_cong] exit_loop_def [THEN fun_cong]
  continue_loop_def [THEN fun_cong] handle_possible_loop_boundary_def [THEN fun_cong]
  finalize_step_output_and_advance_def [THEN fun_cong] fail_spawn_step_def [THEN fun_cong]
  spawn_one_child_def [THEN fun_cong] execute_spawn_sagas_def [THEN fun_cong]
  try_complete_join_def [THEN fun_cong] park_or_complete_join_def [THEN fun_cong]
  maybe_resume_spawn_compensation_def [THEN fun_cong] on_child_saga_terminal_def [THEN fun_cong]
  fail_commit_on_policy_def [THEN fun_cong] commit_policy_stopped_step_def [THEN fun_cong]
  build_commit_worker_command_def [THEN fun_cong] build_reason_worker_command_def [THEN fun_cong]
  build_forward_worker_command_def [THEN fun_cong] dispatch_native_def [THEN fun_cong]
  dispatch_worker_def [THEN fun_cong] trigger_step_def [THEN fun_cong]
  mark_step_skipped_when_false_def [THEN fun_cong] notify_when_skipped_summary_def [THEN fun_cong]
  schedule_next_forward_step_def [THEN fun_cong] notify_skipped_ingest_def [THEN fun_cong]
  handle_saga_started_def [THEN fun_cong] fail_reason_on_policy_def [THEN fun_cong]
  maybe_stop_reason_on_policy_def [THEN fun_cong] fail_on_output_schema_def [THEN fun_cong]
  maybe_hold_reason_hitl_on_completed_def [THEN fun_cong] handle_step_completed_def [THEN fun_cong]
  handle_step_failed_def [THEN fun_cong] approve_commit_def [THEN fun_cong]
  approve_reason_def [THEN fun_cong] handle_hitl_approved_def [THEN fun_cong]
  handle_human_rejected_def [THEN fun_cong] handle_human_retry_def [THEN fun_cong]
  handle_compensation_completed_def [THEN fun_cong] handle_compensation_failed_def [THEN fun_cong]
  handle_event_def [THEN fun_cong] ingest_event_def [THEN fun_cong]
  process_saga_event_def [THEN fun_cong] load_saga_step_locked_def [THEN fun_cong]
  handle_active_claim_def [THEN fun_cong] requeue_row_def [THEN fun_cong]
  requeue_worker_outbox_def [THEN fun_cong] clear_compensation_ingest_dedup_def [THEN fun_cong]
  emit_compensation_retry_def [THEN fun_cong] recovery_done_def [THEN fun_cong]
  claim_released_def [THEN fun_cong] execute_step_retry_def [THEN fun_cong]
  execute_compensation_retry_def [THEN fun_cong] execute_retry_forward_def [THEN fun_cong]
  execute_start_compensation_def [THEN fun_cong] save_processed_operator_recovery_def
  with_operator_recovery_idempotency_def [THEN fun_cong] token_or_fresh_def [THEN fun_cong]
  enqueue_step_retry_def [THEN fun_cong] enqueue_compensation_retry_def [THEN fun_cong]
  enqueue_retry_forward_def [THEN fun_cong] enqueue_start_compensation_def [THEN fun_cong]
  load_step_for_decision_def [THEN fun_cong] requeue_if_failed_def [THEN fun_cong]
  emit_human_decision_def [THEN fun_cong] enqueue_human_decision_def [THEN fun_cong]
  enqueue_hitl_retry_def [THEN fun_cong] assert_saga_workers_registered_def [THEN fun_cong]
  assert_child_saga_definitions_registered_def [THEN fun_cong]
  assert_step_worker_registered_def [THEN fun_cong] create_worker_definition_def [THEN fun_cong]
  create_step_definition_def [THEN fun_cong] upsert_saga_definition_def [THEN fun_cong]
  deploy_def [THEN fun_cong] register_worker_def [THEN fun_cong] register_step_def [THEN fun_cong]
  register_saga_def [THEN fun_cong] register_manifest_from_dict_def [THEN fun_cong]
  register_manifest_def [THEN fun_cong] ingest_claimed_def [THEN fun_cong]

lemmas run_data =
  is_space_def lstrip_def strip_def starts_with_def upper_char_def lower_char_def upper_def
  lower_def show_int_def hex_digit_def repr_char_def repr_str_def dget_def ddel_def dhas_def
  dupdate_def jor_def jopt_str_def jopt_int_def py_str_def json_char_def dumps_str_def
  is_forward_def find_saga_def find_step_def forward_at_def step_of_saga_def jsonpath_parses_def
  hash_canonical_dict_def capitalize_def catalog_identity_def is_hex_def namespace_ok_def
  trace_ok_def span_ok_def need_def resource_spec_ok_def command_errors_def make_command_def
  drop_none_def command_dict_def dump_command_def event_type_of_def ingest_strip_def
  coerce_saga_ingest_dict_def envelope_fields_def step_level_def dict_or_none_def span_of_def
  event_errors_def validate_ingest_def wrap_step_output_data_def business_data_from_step_output_def
  facts_from_step_output_def data_or_empty_def step_context_entry_for_saga_def
  step_output_for_saga_context_def validate_business_data_schema_def
  forward_step_has_compensation_def forward_eligible_for_compensation_def normalize_spec_list_def
  allow_of_def compensation_tool_resource_specs_def slim_tool_specs_def str_or_def
  resolve_worker_from_compensation_def effective_forward_step_output_def
  forward_step_has_rollback_output_def is_dirty_forward_step_def build_compensation_metadata_def
  attach_forward_step_output_layer_def compensation_parameter_context_def fence_tool_arguments_def
  forward_tool_idempotency_key_def hitl_retries_remaining_def assert_hitl_retry_allowed_def
  opt_text_def merge_hitl_retry_into_arguments_def resolve_from_binding_def
  assert_jsonpath_bindings_resolved_def validate_resolved_arguments_against_input_ports_def
  skill_ids_from_specs_def skills_definition_by_name_def skill_embed_is_complete_def
  skills_coverage_gaps_def repr_names_def require_frozen_skills_definition_def
  require_frozen_prompt_definition_def error_code_indicates_timeout_def
  error_text_indicates_timeout_def payload_indicates_timeout_def evaluate_cel_bool_def
  saga_binding_def step_binding_def context_section_def step_when_binding_def
  evaluate_step_when_def until_binding_def evaluate_until_def first_tool_name_def
  policy_binding_def step_policy_definition_def step_has_policy_gate_def gate_errored_def
  nonempty_def resolve_gate_artifact_def evaluate_policy_gate_def outbox_has_def outbox_put_def
  keyed_row_def default_key_def claim_candidates_def assemble_consumer_payload_def
  stale_outbox_cutoff_def outbox_row_stale_def stale_claim_cutoff_def claim_is_stale_def
  find_claim_def claim_owned_def claim_still_owned_def alias_get_def null_or_def absent_or_def
  text_ok_def int_in_def int_from_def forbid_extra_def step_parameter_spec_ok_def with_ok_def
  tool_ok_def dump_tool_def bind_keys_def allow_items_def tools_spec_ok_def resource_ok_def
  dump_resource_def resources_spec_ok_def skill_ok_def dump_skill_def skills_spec_ok_def
  cel_spec_ok_def cel_of_def facts_extractor_ok_def fact_into_def dump_fact_def on_failure_ok_def
  base_fields_def reason_only_fields_def step_base_errors_def
  simple_agent_adapter_constraints_ok_def tool_names_def agent_adapter_of_def
  reason_step_errors_def commit_step_errors_def jsonpath_text_ok_def MAX_CHILDREN_HARD_CAP_def
  spawn_spec_ok_def join_spec_ok_def native_base_errors_def executable_step_errors_def
  loop_step_errors_def parse_executable_step_def parse_loop_step_def int_or_def stripped_id_def
  is_loop_spec_def loop_shell_def initial_loops_context_def loop_definition_of_def
  build_loop_definitions_def annotate_def take_initial_materialization_segment_def
  take_next_materialization_segment_def loop_state_of_def mint_loop_iteration_body_def
  loop_body_step_ids_def is_last_body_step_def set_loop_context_status_def
  forward_idempotency_key_def frozen_dict_asset_def frozen_list_asset_def frozen_str_asset_def
  default_int_def base_step_row_def worker_step_row_def is_engine_native_kind_def
  step_create_fields_def step_failed_event_def step_failure_payload_def code_message_def stamp_def
  dedup_key_def worker_result_keys_def retry_idempotency_key_def blank_draft_def
  context_without_step_def undo_row_def undo_row_status_exists_def undo_idempotency_key_def
  worker_snapshot_def undo_worker_def undo_input_def compensation_command_def worker_undo_row_def
  child_terminal_def all_children_terminal_def spawn_links_def load_spawn_children_def
  children_all_terminal_for_spawn_def spawn_undo_row_def is_dirty_failure_def failed_status_def
  executable_shell_ids_def step_shells_def initial_context_def saga_row_def max_forward_seq_def
  loop_context_def loop_failure_def merge_step_context_def is_value_error_def
  child_start_idempotency_key_def jsonpath_first_def resolve_items_from_context_def
  validate_spawn_items_def build_child_resolve_context_def frozen_step_spec_def
  parse_native_step_def parse_spawn_step_def parse_join_step_def spawn_validation_error_code_def
  spawn_plan_def spawn_child_input_def spawn_failure_code_def summarize_join_children_def
  child_error_details_def join_child_entry_def build_join_payload_def resumable_spawn_def
  parked_join_def or_text_def commit_command_def reason_command_def resolve_worker_arguments_def
  trigger_ignored_def forward_candidates_def rejection_details_def guidance_of_def
  human_retry_admissible_def event_dedup_key_def ingest_put_def find_saga_in_def
  enforce_commit_force_gating_def recovery_response_def status_conflict_def
  assert_awaiting_recovery_forward_def operator_recovery_dedup_key_def
  operator_recovery_request_fingerprint_def find_recovery_def replay_or_conflict_def
  human_decision_idempotency_key_def human_retry_outbox_idempotency_key_def
  human_payload_errors_def human_payload_def resolve_decision_event_def outbox_row_of_def
  retry_payload_def log_duplicate_def demo_uuid_def demo_tid_def demo_span_def demo_saga_def
  demo_step_def empty_db_def demo_db_def demo_event_def

lemmas run_hydrate =
  and_then_def path_parts_def is_absolute_def unsafe_ref_def read_text_def candidate_in_root_def
  resolve_asset_path_def candidate_asset_path_def read_file_def from_parser_def
  OUTPUT_SCHEMA_UNSUPPORTED_KEYWORDS_def unsupported_message_def
  assert_output_schema_bind_supported_def root_unset_def the_root_def blank_ref_def
  load_output_schema_def compensation_step_errors_def dump_parameter_def dump_with_def
  dump_tools_spec_def dump_resources_spec_def dump_skills_spec_def null_map_def
  dump_compensation_step_def validate_compensation_definition_dict_def
  load_compensation_definition_def last_dot_def default_policy_artifact_name_def
  resolve_policy_path_def parse_policy_file_def load_policy_artifact_def skill_invalid_def
  resolve_skills_root_def require_safe_path_segment_def skill_relpath_def resolved_skill_path_def
  skill_message_def parse_frontmatter_def normalize_allowed_tools_def parse_skill_document_def
  load_skill_document_def skill_document_to_definition_def assert_skill_document_complete_def
  lstrip_slash_def resolve_prompts_root_def resolved_prompt_path_def load_prompt_content_def
  prompt_message_def parse_prompt_ast_def string_token_to_path_def reject_include_modifiers_def
  include_block_span_def cycle_message_def disk_includes_def prompt_fuel_def
  freeze_prompt_definition_def field_or_def step_input_spec_ok_def dump_step_input_def
  blueprint_fields_def blueprint_base_errors_def reason_blueprint_errors_def
  commit_blueprint_errors_def parse_step_blueprint_def stripped_def blueprint_kind_def
  display_title_def strategy_of_def shared_capability_dict_def to_capability_dict_def
  step_ref_errors_def inject_use_kind_def loop_refs_def loop_authoring_errors_def
  authoring_step_errors_def is_loop_node_def node_id_def iter_executable_step_ids_def
  iter_loop_ids_def unique_ids_ok_def spawn_block_def spawn_ids_def join_targets_def
  spawn_join_wiring_ok_def blueprint_wiring_errors_def authoring_nodes_def authoring_errors_def
  step_error_def cannot_exceed_def require_hitl_enabled_def override_hitl_def
  override_hitl_max_retries_def override_hitl_retry_guidance_def tighten_int_field_def
  override_timeout_def override_max_turns_def tighten_optional_token_cap_def
  apply_tighten_overrides_def literal_errors_def required_inputs_def
  validate_with_against_inputs_def with_of_def dump_when_def hydrated_payload_def
  hydrate_step_ref_def resolve_step_def hydrate_authoring_node_def hydrate_authoring_blueprint_def
  dump_base_step_def dump_worker_step_def dump_spawn_spec_def dump_join_spec_def
  dump_native_step_def is_worker_node_def freeze_prompt_onto_step_dict_def
  freeze_skill_docs_for_step_def skill_ids_from_reason_step_def embed_reason_prompt_and_skills_def
  set_dict_if_def policy_artifact_dict_def embed_worker_assets_def
  embed_resolved_assets_on_step_dict_def frozen_worker_step_def frozen_node_def manifest_error_def
  map_error_def load_step_blueprint_def collect_authoring_step_refs_def ref_label_def
  sorted_labels_def label_parts_def load_catalog_for_authoring_def authoring_data_from_body_def
  parse_authoring_def hydrate_authoring_body_to_frozen_steps_def is_word_def after_def
  match_variable_def match_for_def jinja_for_loop_names_def validate_prompt_variables_def
  validate_reason_step_prompt_at_rest_def compile_cel_program_def invalid_def
  validate_step_files_def validate_reason_prompt_def validate_step_skills_def
  validate_step_policy_def validate_cel_def validate_when_def validate_facts_def
  validate_reason_assets_def validate_one_saga_step_at_registration_def input_schema_error_def
  validate_step_blueprint_at_registration_def sort_identities_def missing_text_def
  inactive_text_def require_dependencies_def worker_active_def saga_active_def spawned_children_def
  sort_by_label_def step_workers_def node_workers_def as_float_def dump_mcp_server_def
  dump_worker_blueprint_def dump_step_blueprint_def dump_step_ref_def dump_authoring_node_def
  dump_authoring_def quoted_def immutable_version_error_def find_step_definition_def same_saga_def
  link_check_def set_definition_active_def

lemma show_nat_digit: "n < 10 \<Longrightarrow> show_nat n = [char_of (48 + n)]"
  by (subst show_nat.simps) simp

lemma show_nat_step: "\<not> n < 10 \<Longrightarrow> show_nat n = show_nat (n div 10) @ [char_of (48 + n mod 10)]"
  by (subst show_nat.simps) simp

lemma list_all_replicate: "list_all P (replicate n x) \<longleftrightarrow> n = 0 \<or> P x"
  by (induction n) auto

lemma Let_applied: "Let v f x = f v x"
  by (simp add: Let_def)

lemma demo_env_fields:
  "uuid_hex demo_env n = demo_uuid n"
  "celpy demo_env src b = (if src = ''true'' then Cel_bool True else if src = ''false'' then Cel_bool False
                           else Cel_parse_error ''syntax'')"
  "jsonpath demo_env p doc = (if p = ''$.items''
     then Some [dget ''items'' (coerce_dict (dget ''input'' (coerce_dict doc)))] else None)"
  "jsonschema demo_env sch v = None" "pydantic_text demo_env = concat" "sha256_hex demo_env t = t"
  "manifest_text demo_env = concat" "error_message demo_env l = l" "environ demo_env var = None"
  "int_of_text demo_env t = None" "adapter_error demo_env w = None" "jsonpath_error demo_env p = None" "check_schema demo_env sch = None"
  "path_abs demo_env p = p" "path_is_dir demo_env p = True"
  "path_resolve demo_env root r = (root @ ''/'' @ r, True)" "prompts_root demo_env = Some ''r''"
  "compensations_root demo_env = None" "policies_root demo_env = None" "schemas_root demo_env = None"
  "skills_root demo_env = None"
  "topic_events demo_env = ''evt''" "topic_commands demo_env = ''cmd''"
  "outbox_max_payload_bytes demo_env = 262144" "outbox_stale_seconds demo_env = 300"
  "stale_claim_seconds demo_env = 900"
  by (simp_all add: demo_env_def)

lemmas run = run_engine run_data show_nat_digit show_nat_step list_all_replicate Let_applied
  demo_env_fields

section \<open>A start\<close>

text \<open>A definition of one spawn step, and what hydration makes of it.\<close>

definition demo_node :: dict where
  "demo_node = [(''kind'', JStr ''spawn_sagas''), (''id'', JStr ''s''), (''name'', JStr ''s''),
     (''spawn'', JObj [(''saga_name'', JStr ''c''), (''saga_version'', JStr ''1''),
        (''items_from'', JStr ''$.items''), (''result_from'', JStr ''$.r'')])]"

definition demo_frozen_node :: dict where
  "demo_frozen_node = [(''id'', JStr ''s''), (''name'', JStr ''s''), (''timeout_seconds'', JInt 600),
     (''kind'', JStr ''spawn_sagas''),
     (''spawn'', JObj [(''saga_name'', JStr ''c''), (''saga_version'', JStr ''1''),
        (''items_from'', JStr ''$.items''), (''item_var'', JStr ''item''), (''result_from'', JStr ''$.r''),
        (''input'', JObj [])])]"

lemmas run_catalog = run_hydrate run_data list_all_replicate Let_applied demo_env_fields

lemma demo_authoring:
  "authoring_data_from_body [(''steps'', JList [JObj demo_node])] ''n'' ''saga'' ''1'' [] =
     [(''kind'', JStr ''saga''), (''name'', JStr ''saga''), (''namespace'', JStr ''n''), (''version'', JStr ''1''),
      (''description'', JStr []), (''steps'', JList [JObj demo_node])]"
  by (simp add: authoring_data_from_body_def Let_def jor_def dget_def)

lemma demo_nodes: "inject_use_kind [JObj demo_node] = [JObj demo_node]"
  by (simp add: inject_use_kind_def demo_node_def dhas_def)

lemma demo_node_ok: "authoring_step_errors (JObj demo_node) = []"
  by (simp add: authoring_step_errors_def demo_node_def run_catalog)

lemma demo_wiring_ok: "blueprint_wiring_errors demo_env [demo_node] = []"
  by (simp add: demo_node_def run_catalog)

lemma demo_frozen: "frozen_node demo_env demo_node = Inr demo_frozen_node"
  by (simp add: demo_node_def demo_frozen_node_def run_catalog)

lemma demo_kind: "dget ''kind'' demo_node = JStr ''spawn_sagas''"
  by (simp add: demo_node_def dget_def)

lemma demo_hydrated:
  "hydrate_authoring_body_to_frozen_steps demo_env [] [(''steps'', JList [JObj demo_node])] ''n'' ''saga'' ''1'' []
   = Inr [JObj demo_frozen_node]"
  by (simp add: hydrate_authoring_body_to_frozen_steps_def demo_authoring parse_authoring_def
      authoring_errors_def need_def field_or_def absent_or_def dget_def dhas_def authoring_nodes_def
      demo_nodes demo_node_ok demo_wiring_ok and_then_def load_catalog_for_authoring_def
      collect_authoring_step_refs_def is_loop_node_def demo_kind [unfolded dget_def]
      hydrate_authoring_blueprint_def hydrate_authoring_node_def map_error_def demo_frozen)

section \<open>A run\<close>

text \<open>A saga of one commit step is started, then the clock moves.\<close>

definition demo_start :: db where
  "demo_start = demo_db Saga_PENDING [demo_step demo_span 0 Step_PENDING]"

definition demo_later :: db where
  "demo_later = perform demo_env 2 (Clock 107)
     (perform demo_env 2 (Ingest (demo_event ''SAGA_STARTED'' [])) demo_start)"

lemma demo_later_reachable: "reachable demo_env demo_start demo_later"
  unfolding demo_later_def by (intro reachable.intros)

lemma demo_later_reported: "reachable_reported demo_env demo_start demo_later"
  unfolding demo_later_def by (intro reachable_reported.intros) simp_all

end
