(* ===== verification/Rollback.thy ===== *)
theory Rollback imports Sample begin

text \<open>
  Compensation against its specification: the walk undoes, one at a time, the latest forward row
  that still needs it, and a saga that has ended leaves no row waiting.
\<close>

section \<open>The specification of the walk\<close>

text \<open>The row at a sequence number still needs an undo.\<close>

definition pending_undo :: "string \<Rightarrow> db \<Rightarrow> nat \<Rightarrow> bool" where
  "pending_undo tid db i = (case forward_at tid (int i) db of
     None \<Rightarrow> False
   | Some f \<Rightarrow> forward_step_has_compensation f \<and> forward_eligible_for_compensation f
       \<and> \<not> undo_row_status_exists tid (span_id f) Step_COMPENSATED db)"

definition next_undo :: "string \<Rightarrow> nat \<Rightarrow> db \<Rightarrow> step option" where
  "next_undo tid n db = (case filter (pending_undo tid db) (rev [0..<n]) of
     [] \<Rightarrow> None | i # _ \<Rightarrow> forward_at tid (int i) db)"

text \<open>What is done with it: nothing while its undo is in flight, a wait for the children of a
  spawn step, a command otherwise.\<close>

definition undo_step :: "env \<Rightarrow> callbacks \<Rightarrow> string \<Rightarrow> step \<Rightarrow> unit M" where
  "undo_step E K tid f =
     bind (gets (undo_row_status_exists tid (span_id f) Step_COMPENSATING)) (\<lambda>in_flight.
       if in_flight then skip
       else if step_kind f = ''spawn_sagas''
       then bind (compensate_spawn_sagas_forward E (lifo_walk E K tid (nat (forward_seq f))) tid f)
              (\<lambda>_. skip)
       else schedule_compensation_for_forward E K tid f)"

lemma forward_at_Some:
  "forward_at tid n db = Some f \<Longrightarrow>
   f \<in> set (db_steps db) \<and> saga_trace_id f = tid \<and> forward_seq f = n \<and> is_forward f"
  unfolding forward_at_def by (drule rows_first_Some) simp

lemma next_undo_Suc:
  "next_undo tid (Suc n) db = (if pending_undo tid db n then forward_at tid (int n) db
                               else next_undo tid n db)"
  by (simp add: next_undo_def)

lemma next_undo_Some_iff:
  "next_undo tid n db = Some f \<longleftrightarrow>
     (\<exists>i<n. forward_at tid (int i) db = Some f \<and> pending_undo tid db i
        \<and> (\<forall>j. i < j \<and> j < n \<longrightarrow> \<not> pending_undo tid db j))"
proof (induction n)
  case 0
  then show ?case by (simp add: next_undo_def)
next
  case (Suc n)
  show ?case
  proof (cases "pending_undo tid db n")
    case True
    then show ?thesis by (auto simp: next_undo_Suc less_Suc_eq)
  next
    case False
    then show ?thesis by (auto simp: next_undo_Suc Suc less_Suc_eq)
  qed
qed

lemma next_undo_None_iff:
  "next_undo tid n db = None \<longleftrightarrow> (\<forall>i<n. \<not> pending_undo tid db i)"
proof (induction n)
  case 0
  then show ?case by (simp add: next_undo_def)
next
  case (Suc n)
  then show ?case
    by (auto simp: next_undo_Suc less_Suc_eq) (auto simp: pending_undo_def split: option.splits)
qed

text \<open>C3: the loop of \<open>_advance_lifo_compensation\<close> implements the specification: it
  finalizes the saga when no row below the cursor needs an undo, and otherwise takes exactly the row
  the specification names.\<close>

theorem lifo_walk_refines_spec:
  "lifo_walk E K tid n db = (case next_undo tid n db of
     None \<Rightarrow> finalize_saga_compensated E K tid db
   | Some f \<Rightarrow> undo_step E K tid f db)"
proof (induction n)
  case 0
  then show ?case by (simp add: next_undo_def)
next
  case (Suc n)
  show ?case
  proof (cases "forward_at tid (int n) db")
    case None
    then have "\<not> pending_undo tid db n" by (simp add: pending_undo_def)
    then show ?thesis using Suc None by (simp add: next_undo_Suc monad_simps)
  next
    case (Some f)
    then have "forward_seq f = int n" using forward_at_Some by blast
    then show ?thesis using Suc Some
      by (auto simp: next_undo_Suc pending_undo_def undo_step_def monad_simps)
  qed
qed


definition demo_rollback :: db where
  "demo_rollback = demo_db Saga_COMPENSATING
     [demo_step demo_span 0 Step_COMPLETED, demo_step (demo_uuid 1) 1 Step_COMPLETED,
      demo_step (demo_uuid 2) 2 Step_SKIPPED]"


section \<open>Nothing waits in a saga that has ended\<close>

lemma emit_saga_payload_tables:
  "db_steps (snd (emit_saga_payload E ns tid ety status output db)) = db_steps db"
  "db_sagas (snd (emit_saga_payload E ns tid ety status output db)) = db_sagas db"
  by (auto simp: emit_saga_payload_def emit_saga_event_def publish_def uuid4_hex_def monad_simps Let_def
      split: list.split)

lemma transition_then:
  "find_saga tid db = Some g \<Longrightarrow>
   transition_saga tid new ev reason db =
     (Inr (), db\<lparr>db_sagas := rows_update (\<lambda>s. trace_id s = tid) (\<lambda>s. s\<lparr>saga_status := new\<rparr>) (db_sagas db),
       db_hooks := db_hooks db @ [On_saga_transition tid (saga_status g) new ev reason]\<rparr>)"
  by (simp add: transition_saga_def the_saga_def save_saga_def hook_def monad_simps)

definition skip_unreachable :: "string \<Rightarrow> db \<Rightarrow> step list" where
  "skip_unreachable tid db = rows_update
     (\<lambda>s. saga_trace_id s = tid \<and> is_forward s \<and> step_status s = Step_PENDING)
     (\<lambda>s. s\<lparr>step_status := Step_SKIPPED, end_time := Some (db_now db)\<rparr>) (db_steps db)"

lemma notify_unreachable_then:
  "\<exists>hs. notify_unreachable_steps_skipped tid reason db =
     (Inr (), db\<lparr>db_steps := skip_unreachable tid db, db_hooks := hs\<rparr>)"
proof -
  let ?n = "length (filter (\<lambda>s. saga_trace_id s = tid \<and> is_forward s \<and> step_status s = Step_PENDING) (db_steps db))"
  have "notify_unreachable_steps_skipped tid reason db =
      when_do (0 < ?n) (hook (On_steps_skipped_summary tid (int ?n) reason))
        (db\<lparr>db_steps := skip_unreachable tid db\<rparr>)"
    by (simp add: notify_unreachable_steps_skipped_def mark_unreachable_forward_steps_skipped_def
        update_steps_def skip_unreachable_def bind_def seq_def gets_def modify_def return_def Let_def)
  also have "\<dots> = (Inr (), db\<lparr>db_steps := skip_unreachable tid db, db_hooks :=
      db_hooks db @ (if 0 < ?n then [On_steps_skipped_summary tid (int ?n) reason] else [])\<rparr>)"
    by (cases "0 < ?n") (simp_all add: when_do_def skip_def return_def hook_def modify_def)
  finally show ?thesis by blast
qed

text \<open>The common course of the four ends of a saga.\<close>

definition ending :: "env \<Rightarrow> callbacks \<Rightarrow> string \<Rightarrow> saga_status \<Rightarrow> string option \<Rightarrow> string option \<Rightarrow>
    string \<Rightarrow> (saga \<Rightarrow> int \<Rightarrow> unit M) \<Rightarrow> unit M" where
  "ending E K tid st ev reason skipped emit =
     seq (transition_saga tid st ev reason)
     (seq (notify_unreachable_steps_skipped tid skipped)
     (bind (the_saga tid) (\<lambda>sg. bind (gets db_now) (\<lambda>now. seq (emit sg now) (cb_terminal K tid)))))"

lemma finalize_is_ending:
  "finalize_saga_compensated E K tid = ending E K tid Saga_COMPENSATED (Some ''saga.compensated'') None
     ''saga_compensated'' (\<lambda>sg now. emit_saga_payload E (saga_namespace sg) tid SAGA_COMPENSATED
        ''SAGA_COMPENSATED'' [(''completed_at'', stamp now), (''outcome'', JStr ''STATE_RESTORED'')])"
  by (simp add: finalize_saga_compensated_def ending_def)

lemma emit_failed_is_ending:
  "emit_saga_failed_from_compensation E K tid reason sid details =
     ending E K tid Saga_FAILED (Some ''saga.failed'') (Some reason) ''saga_failed''
       (\<lambda>sg now. emit_saga_payload E (saga_namespace sg) tid SAGA_FAILED ''SAGA_FAILED''
          ([(''reason'', JStr reason), (''failed_at'', stamp now)]
           @ (case sid of None \<Rightarrow> [] | Some x \<Rightarrow> [(''step_span_id'', JStr x)])
           @ (if details = JNull then [] else [(''error_details'', details)])))"
  by (simp add: emit_saga_failed_from_compensation_def ending_def)

lemma root_terminal:
  "find_saga tid db = Some g \<Longrightarrow> opt_text (parent_trace_id g) = [] \<Longrightarrow>
   cb_terminal (calls E (Suc n)) tid db = (Inr (), db)"
  by (simp add: on_child_saga_terminal_def the_saga_def monad_simps)

lemma find_saga_status_update:
  "find_saga tid (db\<lparr>db_sagas := rows_update (\<lambda>s. trace_id s = tid) (\<lambda>s. s\<lparr>saga_status := st\<rparr>) (db_sagas db)\<rparr>)
     = map_option (\<lambda>s. s\<lparr>saga_status := st\<rparr>) (find_saga tid db)"
  by (simp add: find_saga_def rows_first_update_same)

lemma ending_leaves:
  assumes root: "find_saga tid db = Some g" "opt_text (parent_trace_id g) = []"
    and emit: "\<And>sg now db. db_steps (snd (emit sg now db)) = db_steps db"
      "\<And>sg now db. db_sagas (snd (emit sg now db)) = db_sagas db"
  shows "db_steps (snd (ending E (calls E (Suc n)) tid st ev reason skipped emit db)) = skip_unreachable tid db
       \<and> find_saga tid (snd (ending E (calls E (Suc n)) tid st ev reason skipped emit db))
           = Some (g\<lparr>saga_status := st\<rparr>)"
proof -
  let ?a = "db\<lparr>db_sagas := rows_update (\<lambda>s. trace_id s = tid) (\<lambda>s. s\<lparr>saga_status := st\<rparr>) (db_sagas db),
       db_hooks := db_hooks db @ [On_saga_transition tid (saga_status g) st ev reason]\<rparr>"
  obtain hs where skip: "notify_unreachable_steps_skipped tid skipped ?a =
      (Inr (), ?a\<lparr>db_steps := skip_unreachable tid ?a, db_hooks := hs\<rparr>)" (is "_ = (_, ?b)")
    using notify_unreachable_then by blast
  have fa: "find_saga tid ?b = Some (g\<lparr>saga_status := st\<rparr>)"
    using root(1) by (simp add: find_saga_def rows_first_update_same)
  let ?e = "emit (g\<lparr>saga_status := st\<rparr>) (db_now db) ?b"
  have steps: "db_steps (snd ?e) = skip_unreachable tid db" by (simp add: emit skip_unreachable_def)
  have fe: "find_saga tid (snd ?e) = Some (g\<lparr>saga_status := st\<rparr>)"
    using fa by (simp add: find_saga_def emit)
  have "ending E (calls E (Suc n)) tid st ev reason skipped emit db =
      seq (emit (g\<lparr>saga_status := st\<rparr>) (db_now db)) (cb_terminal (calls E (Suc n)) tid) ?b"
    using fa by (simp add: ending_def seq_def bind_def transition_then [OF root(1)] skip the_saga_def gets_def)
  moreover have "snd (seq (emit (g\<lparr>saga_status := st\<rparr>) (db_now db)) (cb_terminal (calls E (Suc n)) tid) ?b) = snd ?e"
    using root_terminal [OF fe, of E n] root(2)
    by (auto simp: seq_def bind_def simp del: calls.simps split: prod.split sum.split)
  ultimately show ?thesis using steps fe by simp
qed

lemma skip_unreachable_done:
  "\<forall>s\<in>set (skip_unreachable tid db). saga_trace_id s = tid \<longrightarrow> is_forward s \<longrightarrow> step_status s \<noteq> Step_PENDING"
proof
  fix s assume "s \<in> set (skip_unreachable tid db)"
  then show "saga_trace_id s = tid \<longrightarrow> is_forward s \<longrightarrow> step_status s \<noteq> Step_PENDING"
    unfolding skip_unreachable_def by (rule rows_update_cases) simp_all
qed

text \<open>C23: when a root saga has been rolled back it is COMPENSATED and no forward row of it is
  left PENDING, whatever happens to the notification.\<close>

theorem compensated_saga_has_no_pending_row:
  assumes "find_saga tid db = Some g" "opt_text (parent_trace_id g) = []"
  shows "(\<forall>s\<in>set (db_steps (snd (finalize_saga_compensated E (calls E (Suc n)) tid db))).
            saga_trace_id s = tid \<longrightarrow> is_forward s \<longrightarrow> step_status s \<noteq> Step_PENDING)
       \<and> find_saga tid (snd (finalize_saga_compensated E (calls E (Suc n)) tid db))
           = Some (g\<lparr>saga_status := Saga_COMPENSATED\<rparr>)"
proof -
  have "db_steps (snd (finalize_saga_compensated E (calls E (Suc n)) tid db)) = skip_unreachable tid db"
    "find_saga tid (snd (finalize_saga_compensated E (calls E (Suc n)) tid db))
       = Some (g\<lparr>saga_status := Saga_COMPENSATED\<rparr>)"
    unfolding finalize_is_ending
    by (rule ending_leaves [OF assms, THEN conjunct1] ending_leaves [OF assms, THEN conjunct2];
        rule emit_saga_payload_tables)+
  then show ?thesis using skip_unreachable_done [of tid db] by (simp only: simp_thms)
qed

theorem compensated_saga_has_no_pending_row_witness:
  "find_saga demo_tid (snd (finalize_saga_compensated demo_env (calls demo_env (Suc 0)) demo_tid
       (demo_db Saga_COMPENSATING [demo_step demo_span 0 Step_PENDING])))
     = Some (demo_saga Saga_COMPENSATED)"
proof -
  have "find_saga demo_tid (demo_db Saga_COMPENSATING [demo_step demo_span 0 Step_PENDING])
      = Some (demo_saga Saga_COMPENSATING)" "opt_text (parent_trace_id (demo_saga Saga_COMPENSATING)) = []"
    by (simp_all add: find_saga_def demo_db_def demo_saga_def opt_text_def)
  from compensated_saga_has_no_pending_row [OF this] show ?thesis
    by (simp add: demo_saga_def del: calls.simps)
qed

section \<open>Failing\<close>

lemma find_step_save:
  "(\<And>s. span_id (f s) = span_id s) \<Longrightarrow>
   rows_first (\<lambda>s. span_id s = x) (rows_update (\<lambda>s. span_id s = sid) f t) =
     map_option (\<lambda>s. if x = sid then f s else s) (rows_first (\<lambda>s. span_id s = x) t)"
  by (induction t) auto

text \<open>A step that fails under \<open>await_operator\<close> stops the saga at AWAITING_RECOVERY: it
  gets its failure status and details, nothing is undone and no message is queued.\<close>

theorem await_operator_holds:
  assumes "find_step sid db = Some s" "find_saga tid db = Some g"
    and "on_failure_strategy s = ''await_operator''"
  shows "\<exists>db'. apply_step_failure_lifecycle E K tid sid ev db = (Inr (), db')
       \<and> find_saga tid db' = Some (g\<lparr>saga_status := Saga_AWAITING_RECOVERY\<rparr>)
       \<and> map_option step_status (find_step sid db') = Some (failed_status (step_status s) (step_failure_payload ev))
       \<and> db_outbox db' = db_outbox db \<and> length (db_steps db') = length (db_steps db)"
  using assms
  by (simp add: apply_step_failure_lifecycle_def the_step_def save_step_def update_steps_def hook_def
      transition_saga_def the_saga_def save_saga_def find_saga_def find_step_def monad_simps Let_def
      find_step_save find_saga_update)

theorem await_operator_holds_witness:
  "\<exists>db'. apply_step_failure_lifecycle demo_env (calls demo_env 0) demo_tid demo_span
       \<lparr>fl_span = demo_span, fl_error_details = code_message ''TIMEOUT'' [], fl_output = JNull\<rparr>
       (demo_db Saga_RUNNING [(demo_step demo_span 0 Step_IN_PROGRESS)\<lparr>on_failure_strategy := ''await_operator''\<rparr>])
     = (Inr (), db') \<and> find_saga demo_tid db' = Some (demo_saga Saga_AWAITING_RECOVERY)
     \<and> map_option step_status (find_step demo_span db') = Some Step_TIMED_OUT"
proof -
  let ?s = "(demo_step demo_span 0 Step_IN_PROGRESS)\<lparr>on_failure_strategy := ''await_operator''\<rparr>"
  have "find_step demo_span (demo_db Saga_RUNNING [?s]) = Some ?s"
    "find_saga demo_tid (demo_db Saga_RUNNING [?s]) = Some (demo_saga Saga_RUNNING)"
    by (simp_all add: find_step_def find_saga_def demo_db_def demo_saga_def demo_step_def)
  from await_operator_holds [OF this, of demo_env "calls demo_env 0"
      "\<lparr>fl_span = demo_span, fl_error_details = code_message ''TIMEOUT'' [], fl_output = JNull\<rparr>"]
  show ?thesis
    by (auto simp: demo_saga_def demo_step_def failed_status_def step_failure_payload_def code_message_def
        payload_indicates_timeout_def error_code_indicates_timeout_def run simp del: calls.simps)
qed

text \<open>\<open>COMPENSATION_FAILED\<close> for a root saga leads to FAILED from whatever status, a
  finished rollback or a completed saga included: unlike \<open>STEP_COMPENSATED\<close>, the handler
  looks neither at the saga nor at the undo row.\<close>

theorem compensation_failed_from_any_status:
  assumes "find_saga (ev_trace ev) db = Some g" "opt_text (parent_trace_id g) = []"
  shows "find_saga (ev_trace ev) (snd (handle_compensation_failed E (calls E (Suc n)) ev db))
           = Some (g\<lparr>saga_status := Saga_FAILED\<rparr>)"
proof -
  let ?tid = "ev_trace ev" and ?details = "jor (ev_error_details ev) (ev_output ev)"
  define mark where "mark = (case step_of_saga ?tid (opt_text (ev_span ev)) db of
      None \<Rightarrow> skip
    | Some s \<Rightarrow> bind (gets db_now) (\<lambda>now.
        seq (save_step (span_id s) (\<lambda>r. r\<lparr>step_status := Step_FAILED, end_time := Some now,
               error_details := ?details\<rparr>))
            (hook (On_step_transition (span_id s) (step_status s) Step_FAILED
               (Some ''step.failed'') None (Some ''compensation_failed'') None))))"
  have mark: "mark db = (Inr (), snd (mark db))" "db_sagas (snd (mark db)) = db_sagas db"
    by (auto simp: mark_def save_step_def update_steps_def hook_def monad_simps split: option.split)
  have "find_saga ?tid (snd (mark db)) = Some g" using assms(1) mark(2) by (simp add: find_saga_def)
  note ended = ending_leaves [OF this assms(2), THEN conjunct2]
  have "handle_compensation_failed E (calls E (Suc n)) ev db =
      emit_saga_failed_from_compensation E (calls E (Suc n)) ?tid ''compensation_failed'' (ev_span ev)
        ?details (snd (mark db))"
    by (simp add: handle_compensation_failed_def Let_def bind_def gets_def seq_def mark_def [symmetric]
        del: calls.simps) (subst mark(1), simp del: calls.simps)
  then show ?thesis
    unfolding emit_failed_is_ending
    by (simp only: ended [OF emit_saga_payload_tables])
qed

definition demo_undo_failed :: event where
  "demo_undo_failed = \<lparr>ev_type = COMPENSATION_FAILED, ev_namespace = ''n'', ev_trace = demo_tid,
     ev_span = Some demo_span, ev_output = JNull, ev_error_details = JNull, ev_retry_guidance = JNull\<rparr>"

theorem compensation_failed_from_any_status_witness:
  "find_saga demo_tid (snd (handle_compensation_failed demo_env (calls demo_env (Suc 0)) demo_undo_failed
       (demo_db Saga_COMPENSATED []))) = Some (demo_saga Saga_FAILED)"
proof -
  have "find_saga (ev_trace demo_undo_failed) (demo_db Saga_COMPENSATED []) = Some (demo_saga Saga_COMPENSATED)"
    "opt_text (parent_trace_id (demo_saga Saga_COMPENSATED)) = []"
    by (simp_all add: demo_undo_failed_def find_saga_def demo_db_def demo_saga_def opt_text_def)
  from compensation_failed_from_any_status [OF this, of demo_env 0] show ?thesis
    by (simp add: demo_undo_failed_def demo_saga_def del: calls.simps)
qed

end
