(* ===== verification/Gating.thy ===== *)
theory Gating imports Sample begin

text \<open>
  What stands between a step and its side effects: the policy gate and the human review of a
  commit, the limit on manual retries, and the events that come too late.
\<close>

section \<open>Commits\<close>

definition commit_gate :: "env \<Rightarrow> saga \<Rightarrow> step \<Rightarrow> dict \<Rightarrow> json list \<Rightarrow> gate_result" where
  "commit_gate E g s args tools =
     evaluate_policy_gate E (strip (opt_text (policy_name s)))
       (policy_binding ''before_commit'' g s (JObj args) JNull tools) ''POLICY_COMMIT_DENIED''
       (step_policy_definition s)"

definition gated :: "step \<Rightarrow> bool" where
  "gated s \<longleftrightarrow> step_has_policy_gate (strip (opt_text (policy_name s))) (step_policy_definition s)"

lemma run_policy_gate_result:
  "\<exists>hs. run_policy_gate E pn phase b code sid pd db =
     (Inr (evaluate_policy_gate E pn b code pd), db\<lparr>db_hooks := hs\<rparr>)"
proof -
  let ?r = "evaluate_policy_gate E pn b code pd"
  have "\<exists>hs. dispatch_policy_gate_hooks r phase sid db = (Inr (), db\<lparr>db_hooks := hs\<rparr>)" for r
    by (cases "gate_outcome r"; cases "gate_policy_name r")
      (auto simp: dispatch_policy_gate_hooks_def hook_def monad_simps intro: exI [of _ "db_hooks db"])
  then obtain hs where "dispatch_policy_gate_hooks ?r phase sid db = (Inr (), db\<lparr>db_hooks := hs\<rparr>)"
    by blast
  then show ?thesis
    by (intro exI [of _ hs]) (simp add: run_policy_gate_def bind_def seq_def return_def Let_def)
qed

lemma find_hooks [simp]:
  "find_step sid (db\<lparr>db_hooks := hs\<rparr>) = find_step sid db"
  "find_saga tid (db\<lparr>db_hooks := hs\<rparr>) = find_saga tid db"
  by (simp_all add: find_step_def find_saga_def)


text \<open>The command of the demonstration step, which has no gate.\<close>

definition demo_tools :: "json list" where
  "demo_tools = [JObj [(''name'', JStr ''t'')]]"

definition demo_gated :: "string \<Rightarrow> step" where
  "demo_gated cel = (demo_step demo_span 0 Step_IN_PROGRESS)
     \<lparr>policy_definition := JObj [(''cel'', JStr cel)]\<rparr>"

definition demo_ev :: "event_type \<Rightarrow> event" where
  "demo_ev t = \<lparr>ev_type = t, ev_namespace = ''n'', ev_trace = demo_tid, ev_span = Some demo_span,
     ev_output = JNull, ev_error_details = JNull, ev_retry_guidance = JNull\<rparr>"


section \<open>Review\<close>

lemma find_step_update:
  "(\<And>s. span_id (f s) = span_id s) \<Longrightarrow> find_step sid db = Some s \<Longrightarrow>
   find_step sid (db\<lparr>db_steps := rows_update (\<lambda>s. span_id s = sid) f (db_steps db)\<rparr>) = Some (f s)"
  by (simp add: find_step_def rows_first_update_same)

text \<open>A review puts the step and its saga to AWAITING_HUMAN with the reviewed payload and
  queues nothing: no command leaves the engine for a held step.\<close>

theorem hold_stops_the_step:
  assumes "find_saga tid db = Some g" "find_step sid db = Some s"
  shows "\<exists>db'. enter_hitl_hold tid sid subject pending db = (Inr (), db')
       \<and> find_step sid db' = Some (s\<lparr>step_status := Step_AWAITING_HUMAN,
            pending_review_payload := pending, hitl_review_started_at := Some (db_now db)\<rparr>)
       \<and> find_saga tid db' = Some (g\<lparr>saga_status := Saga_AWAITING_HUMAN\<rparr>)
       \<and> db_outbox db' = db_outbox db"
  using assms
  by (simp add: enter_hitl_hold_def the_step_def save_step_def update_steps_def hook_def transition_saga_def
      the_saga_def save_saga_def find_saga_def find_step_def monad_simps Let_def rows_first_update_same)

theorem hold_stops_the_step_witness:
  "\<exists>db'. enter_hitl_hold demo_tid demo_span ''arguments'' (JObj [])
       (demo_db Saga_RUNNING [demo_step demo_span 0 Step_IN_PROGRESS]) = (Inr (), db')
     \<and> find_saga demo_tid db' = Some (demo_saga Saga_AWAITING_HUMAN)"
proof -
  let ?db = "demo_db Saga_RUNNING [demo_step demo_span 0 Step_IN_PROGRESS]"
  have "find_saga demo_tid ?db = Some (demo_saga Saga_RUNNING)"
    "find_step demo_span ?db = Some (demo_step demo_span 0 Step_IN_PROGRESS)"
    by (simp_all add: find_step_def find_saga_def demo_db_def demo_saga_def demo_step_def)
  from hold_stops_the_step [OF this, of "''arguments''" "JObj []"] show ?thesis
    by (auto simp: demo_saga_def)
qed



section \<open>Retries and late results\<close>

text \<open>A held step is retried at most \<open>hitl_max_retries\<close> times: with the count at the
  maximum the request leaves the database as it is.\<close>

theorem retry_limit_enforced:
  assumes "step_of_saga (ev_trace ev) (opt_text (ev_span ev)) db = Some s"
    and "find_saga (ev_trace ev) db = Some g"
    and "hitl_max_retries s = Some m" "m \<le> hitl_retry_count s"
  shows "handle_human_retry E K ev db = (Inr (), db)"
  using assms
  by (simp add: handle_human_retry_def human_retry_admissible_def assert_hitl_retry_allowed_def
      hitl_retries_remaining_def the_saga_def bind_def gets_def skip_def return_def Let_def)

theorem retry_limit_enforced_witness:
  "handle_human_retry demo_env (calls demo_env 2) (demo_ev HUMAN_RETRY)
     (demo_db Saga_AWAITING_HUMAN [(demo_step demo_span 0 Step_AWAITING_HUMAN)
        \<lparr>hitl_max_retries := Some 2, hitl_retry_count := 2\<rparr>])
   = (Inr (), demo_db Saga_AWAITING_HUMAN [(demo_step demo_span 0 Step_AWAITING_HUMAN)
        \<lparr>hitl_max_retries := Some 2, hitl_retry_count := 2\<rparr>])"
  by (rule retry_limit_enforced [where m = 2 and g = "demo_saga Saga_AWAITING_HUMAN"
        and s = "(demo_step demo_span 0 Step_AWAITING_HUMAN)\<lparr>hitl_max_retries := Some 2, hitl_retry_count := 2\<rparr>"])
    (simp_all add: demo_ev_def run)

text \<open>A worker result for a step that is no longer IN_PROGRESS, or of a saga that waits for
  recovery, is only logged.\<close>

theorem late_completion_only_logged:
  assumes "step_of_saga (ev_trace ev) (opt_text (ev_span ev)) db = Some s"
    and "find_saga (ev_trace ev) db = Some g"
    and "saga_status g = Saga_AWAITING_RECOVERY \<or> step_status s \<noteq> Step_IN_PROGRESS"
  shows "\<exists>hs. handle_step_completed E K ev db = (Inr (), db\<lparr>db_hooks := db_hooks db @ hs\<rparr>)"
  using assms
  by (auto simp: handle_step_completed_def notify_skipped_ingest_def hook_def modify_def the_saga_def bind_def
      gets_def Let_def)

theorem late_completion_only_logged_witness:
  "\<exists>hs. handle_step_completed demo_env (calls demo_env 2) (demo_ev STEP_COMPLETED)
       (demo_db Saga_RUNNING [demo_step demo_span 0 Step_TIMED_OUT])
     = (Inr (), demo_db Saga_RUNNING [demo_step demo_span 0 Step_TIMED_OUT]\<lparr>db_hooks := hs\<rparr>)"
proof -
  let ?db = "demo_db Saga_RUNNING [demo_step demo_span 0 Step_TIMED_OUT]"
  have rows: "step_of_saga (ev_trace (demo_ev STEP_COMPLETED)) (opt_text (ev_span (demo_ev STEP_COMPLETED))) ?db
      = Some (demo_step demo_span 0 Step_TIMED_OUT)"
    "find_saga (ev_trace (demo_ev STEP_COMPLETED)) ?db = Some (demo_saga Saga_RUNNING)"
    "saga_status (demo_saga Saga_RUNNING) = Saga_AWAITING_RECOVERY
      \<or> step_status (demo_step demo_span 0 Step_TIMED_OUT) \<noteq> Step_IN_PROGRESS"
    by (simp_all add: demo_ev_def run)
  from late_completion_only_logged [OF rows] show ?thesis by blast
qed

text \<open>A failure that was already applied is only logged: the step is in a terminal failure
  or undo state, timed out in a saga that has moved on, or waits for an operator.\<close>

theorem late_failure_only_logged:
  assumes "step_of_saga (ev_trace ev) (opt_text (ev_span ev)) db = Some s"
    and "find_saga (ev_trace ev) db = Some g"
    and "saga_status g = Saga_AWAITING_RECOVERY
       \<or> step_status s \<in> {Step_COMPENSATING, Step_COMPENSATED, Step_FAILED}
       \<or> step_status s = Step_TIMED_OUT \<and> saga_status g \<in> {Saga_COMPENSATING, Saga_COMPENSATED, Saga_FAILED}"
  shows "\<exists>hs. handle_step_failed E K ev db = (Inr (), db\<lparr>db_hooks := db_hooks db @ hs\<rparr>)"
  using assms
  by (auto simp: handle_step_failed_def notify_skipped_ingest_def hook_def modify_def the_saga_def bind_def
      gets_def Let_def)

theorem late_failure_only_logged_witness:
  "\<exists>hs. handle_step_failed demo_env (calls demo_env 2) (demo_ev STEP_FAILED)
       (demo_db Saga_COMPENSATING [demo_step demo_span 0 Step_TIMED_OUT])
     = (Inr (), demo_db Saga_COMPENSATING [demo_step demo_span 0 Step_TIMED_OUT]\<lparr>db_hooks := hs\<rparr>)"
proof -
  let ?db = "demo_db Saga_COMPENSATING [demo_step demo_span 0 Step_TIMED_OUT]"
  have rows: "step_of_saga (ev_trace (demo_ev STEP_FAILED)) (opt_text (ev_span (demo_ev STEP_FAILED))) ?db
      = Some (demo_step demo_span 0 Step_TIMED_OUT)"
    "find_saga (ev_trace (demo_ev STEP_FAILED)) ?db = Some (demo_saga Saga_COMPENSATING)"
    "saga_status (demo_saga Saga_COMPENSATING) = Saga_AWAITING_RECOVERY
      \<or> step_status (demo_step demo_span 0 Step_TIMED_OUT) \<in> {Step_COMPENSATING, Step_COMPENSATED, Step_FAILED}
      \<or> step_status (demo_step demo_span 0 Step_TIMED_OUT) = Step_TIMED_OUT
         \<and> saga_status (demo_saga Saga_COMPENSATING) \<in> {Saga_COMPENSATING, Saga_COMPENSATED, Saga_FAILED}"
    by (simp_all add: demo_ev_def run)
  from late_failure_only_logged [OF rows] show ?thesis by blast
qed

end
