(* ===== verification/Data.thy ===== *)
theory Data imports Sample begin

text \<open>
  The data a saga runs on: the segments of its blueprint and their rows, the context of a
  completed step and of an undo, the arguments of a dispatch, the items of a spawn and the payload of
  a join, and the keys that make rows and events unique.
\<close>

section \<open>Segments and rows\<close>

text \<open>The executable steps one blueprint entry contributes to its segment.\<close>

definition expand :: "json \<Rightarrow> dict list" where
  "expand raw = (let d = coerce_dict raw in
     if is_loop_spec raw
     then map (\<lambda>b. annotate (stripped_id d) 1 (coerce_dict b)) (list_of (dget ''steps'' d))
     else [d])"

lemma annotate_body_Inr:
  "annotate_body lid it body = Inr seg \<Longrightarrow> seg = map (\<lambda>b. annotate lid it (coerce_dict b)) body"
  by (induction lid it body arbitrary: seg rule: annotate_body.induct) (auto split: json.splits sum.splits)

lemma segment_from_Inr:
  "segment_from i raws = Inr (seg, next, active) \<Longrightarrow>
   \<exists>n \<le> length raws. next = i + n \<and> seg = concat (map expand (take n raws))
     \<and> (case active of
          None \<Rightarrow> n = length raws \<and> (\<forall>raw\<in>set raws. \<not> is_loop_spec raw)
        | Some l \<Rightarrow> 0 < n \<and> is_loop_spec (raws ! (n - 1)) \<and> (\<forall>raw\<in>set (take (n - 1) raws). \<not> is_loop_spec raw))"
proof (induction i raws arbitrary: seg "next" active rule: segment_from.induct)
  case (1 index)
  then show ?case by simp
next
  case (2 index raw rest)
  obtain d where raw: "raw = JObj d" using 2(2) by (auto split: json.splits)
  show ?case
  proof (cases "dget ''kind'' d = JStr ''loop''")
    case True
    then obtain body where b: "annotate_body (stripped_id d) 1 (list_of (dget ''steps'' d)) = Inr seg"
      "next = Suc index" "active = Some (stripped_id d)"
      using 2(2) raw by (auto split: sum.splits if_splits)
    have "seg = expand raw" using annotate_body_Inr [OF b(1)] True raw
      by (simp add: expand_def is_loop_spec_def Let_def)
    then show ?thesis using b True raw by (intro exI [of _ 1]) (simp add: is_loop_spec_def)
  next
    case False
    then obtain seg' where r: "segment_from (Suc index) rest = Inr (seg', next, active)" "seg = d # seg'"
      using 2(2) raw by (auto split: sum.splits)
    from 2(1) [OF raw False r(1)] obtain n where n: "n \<le> length rest" "next = Suc index + n"
      "seg' = concat (map expand (take n rest))"
      "case active of
          None \<Rightarrow> n = length rest \<and> (\<forall>raw\<in>set rest. \<not> is_loop_spec raw)
        | Some l \<Rightarrow> 0 < n \<and> is_loop_spec (rest ! (n - 1)) \<and> (\<forall>raw\<in>set (take (n - 1) rest). \<not> is_loop_spec raw)"
      by blast
    have "\<not> is_loop_spec raw" "expand raw = [d]" using False raw
      by (simp_all add: is_loop_spec_def expand_def)
    then show ?thesis using n r(2)
      by (intro exI [of _ "Suc n"]) (auto split: option.splits simp: take_Cons' nth_Cons')
  qed
qed

text \<open>C24: a segment is exactly the steps of the blueprint entries between its two indices, in
  order, loops by their first pass; it ends with the first loop or at the end of the blueprint, so no
  entry is lost or materialized twice.\<close>

theorem segment_covers_blueprint:
  assumes "take_next_materialization_segment frozen from = Inr (seg, next, active)" "from \<le> length frozen"
  shows "from \<le> next \<and> next \<le> length frozen
       \<and> seg = concat (map expand (take (next - from) (drop from frozen)))
       \<and> (active = None \<longrightarrow> next = length frozen)
       \<and> (active \<noteq> None \<longrightarrow> from < next \<and> is_loop_spec (frozen ! (next - 1)))"
proof -
  from segment_from_Inr [OF assms(1) [unfolded take_next_materialization_segment_def]]
  obtain n where n: "n \<le> length frozen - from" "next = from + n"
    "seg = concat (map expand (take n (drop from frozen)))"
    "case active of
        None \<Rightarrow> n = length (drop from frozen) \<and> (\<forall>raw\<in>set (drop from frozen). \<not> is_loop_spec raw)
      | Some l \<Rightarrow> 0 < n \<and> is_loop_spec (drop from frozen ! (n - 1))
          \<and> (\<forall>raw\<in>set (take (n - 1) (drop from frozen)). \<not> is_loop_spec raw)"
    by auto
  have "active \<noteq> None \<longrightarrow> 0 < n \<and> is_loop_spec (frozen ! (from + (n - 1)))"
    using n(1,4) assms(2) by (auto split: option.splits)
  moreover have "0 < n \<Longrightarrow> from + (n - 1) = from + n - 1" by simp
  ultimately show ?thesis using n assms(2) by (auto split: option.splits)
qed

definition demo_blueprint :: "json list" where
  "demo_blueprint =
     [JObj [(''kind'', JStr ''reason''), (''id'', JStr ''a'')],
      JObj [(''kind'', JStr ''loop''), (''id'', JStr ''L''),
        (''steps'', JList [JObj [(''kind'', JStr ''reason''), (''id'', JStr ''b'')]])],
      JObj [(''kind'', JStr ''reason''), (''id'', JStr ''c'')]]"

theorem segment_covers_blueprint_witness:
  "\<exists>seg. take_next_materialization_segment demo_blueprint 0 = Inr (seg, 2, Some ''L'')
     \<and> seg = concat (map expand (take 2 demo_blueprint))"
proof -
  have "take_next_materialization_segment demo_blueprint 0 = Inr
      ([[(''kind'', JStr ''reason''), (''id'', JStr ''a'')],
        annotate ''L'' 1 [(''kind'', JStr ''reason''), (''id'', JStr ''b'')]], 2, Some ''L'')"
    by (simp add: take_next_materialization_segment_def demo_blueprint_def stripped_id_def str_or_def
        py_str_def dget_def strip_def is_space_def)
  from this segment_covers_blueprint [OF this] show ?thesis by simp
qed

text \<open>A frozen join step.\<close>

definition demo_spec :: dict where
  "demo_spec = [(''kind'', JStr ''join_sagas''), (''id'', JStr ''j''), (''name'', JStr ''j''),
     (''join'', JObj [(''spawn_step_id'', JStr ''s'')])]"

lemma step_create_fields_Inr:
  "step_create_fields sg spec n ord span now = Inr row \<Longrightarrow>
   forward_seq row = n \<and> order_index row = ord \<and> span_id row = span \<and> is_forward row
   \<and> step_status row = Step_PENDING \<and> saga_trace_id row = trace_id sg"
  by (auto simp: step_create_fields_def base_step_row_def worker_step_row_def is_forward_def Let_def
      split: sum.splits)

lemma mint_step_Inr:
  "mint_step E sg spec n ord db = (Inr row, db') \<Longrightarrow>
   db_steps db' = db_steps db @ [row] \<and> forward_seq row = n \<and> is_forward row
   \<and> step_status row = Step_PENDING \<and> saga_trace_id row = trace_id sg"
  by (auto simp: mint_step_def uuid4_hex_def create_step_def hook_def monad_simps
      dest: step_create_fields_Inr split: sum.splits if_splits)

lemma int_upt_Suc:
  "map (\<lambda>i. n + int i) [0..<Suc k] = n # map (\<lambda>i. n + 1 + int i) [0..<k]"
  by (induction k) simp_all

text \<open>Minting appends one PENDING forward row of the saga per step of the segment, numbered
  consecutively from the given sequence number.\<close>

theorem minted_rows_consecutive:
  assumes "materialize_executable_steps E sg specs n ord db = (Inr rows, db')"
  shows "db_steps db' = db_steps db @ rows
       \<and> map forward_seq rows = map (\<lambda>i. n + int i) [0..<length specs]
       \<and> (\<forall>r\<in>set rows. is_forward r \<and> step_status r = Step_PENDING \<and> saga_trace_id r = trace_id sg)"
  using assms
proof (induction specs arbitrary: n ord db rows)
  case Nil
  then show ?case by (simp add: return_def)
next
  case (Cons spec specs)
  then obtain row db1 rest where r: "mint_step E sg spec n ord db = (Inr row, db1)"
    "materialize_executable_steps E sg specs (n + 1) (ord + 1) db1 = (Inr rest, db')" "rows = row # rest"
    by (auto simp: bind_def return_def split: prod.splits sum.splits)
  note row = mint_step_Inr [OF r(1)] and rest = Cons.IH [OF r(2)]
  have "map forward_seq (row # rest) = map (\<lambda>i. n + int i) [0..<length (spec # specs)]"
    using row rest by (simp only: list.map list.size add_0_right add_Suc_right int_upt_Suc)
  moreover have "db_steps db' = db_steps db @ row # rest" using row rest by (metis append.assoc append_Cons append_Nil)
  moreover have "\<forall>r\<in>set (row # rest). is_forward r \<and> step_status r = Step_PENDING \<and> saga_trace_id r = trace_id sg"
    using row rest by auto
  ultimately show ?case unfolding r(3) by (intro conjI)
qed

theorem minted_rows_consecutive_witness:
  "\<exists>rows db'. materialize_executable_steps demo_env (demo_saga Saga_RUNNING) [demo_spec] 3 3
       (demo_db Saga_RUNNING []) = (Inr rows, db') \<and> map forward_seq rows = [3]"
proof -
  obtain rows db' where minted: "materialize_executable_steps demo_env (demo_saga Saga_RUNNING) [demo_spec] 3 3
       (demo_db Saga_RUNNING []) = (Inr rows, db')"
    by (simp add: run demo_spec_def)
  from minted_rows_consecutive [OF this] minted show ?thesis by auto
qed

section \<open>The context of a step and of an undo\<close>

text \<open>Completing a step writes its own entry of \<open>context.steps\<close>, the output and
  facts of the event, and leaves every other step's entry and every other key of the context as it
  was.\<close>

theorem completion_writes_own_entry:
  "dget sid (coerce_dict (dget ''steps'' (coerce_dict (merge_step_context sid output g))))
     = step_context_entry_for_saga output
   \<and> (\<forall>other. other \<noteq> sid \<longrightarrow>
        dget other (coerce_dict (dget ''steps'' (coerce_dict (merge_step_context sid output g))))
      = dget other (coerce_dict (dget ''steps'' (coerce_dict (saga_context g)))))
   \<and> (\<forall>k. k \<noteq> ''steps'' \<longrightarrow> k \<noteq> ''input'' \<longrightarrow>
        dget k (coerce_dict (merge_step_context sid output g)) = dget k (coerce_dict (saga_context g)))"
proof (cases "truthy (saga_context g)")
  case True
  then show ?thesis by (simp add: merge_step_context_def Let_def)
next
  case False
  then have "coerce_dict (saga_context g) = []" by (cases "saga_context g") auto
  with False show ?thesis by (simp add: merge_step_context_def Let_def dget_def)
qed

theorem completion_writes_own_entry_witness:
  "dget ''b'' (coerce_dict (dget ''steps'' (coerce_dict (merge_step_context ''a'' JNull
      ((demo_saga Saga_RUNNING)\<lparr>saga_context := JObj [(''steps'', JObj [(''b'', JInt 1)])]\<rparr>)))))
   = JInt 1"
  using completion_writes_own_entry [of "''a''" JNull
      "(demo_saga Saga_RUNNING)\<lparr>saga_context := JObj [(''steps'', JObj [(''b'', JInt 1)])]\<rparr>"]
  by (simp add: dget_def)

text \<open>C25: what an undo is resolved from is frozen at its forward step: the saga's input, the
  arguments and the output of that step alone.  Later changes to the saga's context, the outputs of
  other steps included, cannot reach it.\<close>

theorem undo_context_frozen:
  assumes "k \<noteq> ''input''"
  shows "compensation_parameter_context (g\<lparr>saga_context := JObj (dset k v ctx)\<rparr>) s undo key
       = compensation_parameter_context (g\<lparr>saga_context := JObj ctx\<rparr>) s undo key"
proof -
  have base: "(if truthy (JObj c) then coerce_dict (dget ''input'' (coerce_dict (JObj c))) else [])
      = coerce_dict (dget ''input'' c)" for c
    by (cases c) (simp_all add: dget_def)
  have ctx: "saga_context (g\<lparr>saga_context := x\<rparr>) = x" for x by simp
  show ?thesis
    unfolding compensation_parameter_context_def ctx base dget_dset_other [OF assms [symmetric]]
    by (rule refl)
qed

theorem undo_context_frozen_witness:
  "compensation_parameter_context ((demo_saga Saga_COMPENSATING)\<lparr>saga_context :=
       JObj (dset ''steps'' (JObj [(''later'', JInt 1)]) [(''input'', JObj [])])\<rparr>)
     (demo_step demo_span 0 Step_COMPLETED) ''u'' ''k''
   = compensation_parameter_context ((demo_saga Saga_COMPENSATING)\<lparr>saga_context :=
       JObj [(''input'', JObj [])]\<rparr>) (demo_step demo_span 0 Step_COMPLETED) ''u'' ''k''"
  by (rule undo_context_frozen) simp

section \<open>Arguments\<close>

text \<open>Where the value of a resolved parameter comes from.\<close>

definition bound_to :: "env \<Rightarrow> dict \<Rightarrow> json \<Rightarrow> string \<Rightarrow> json \<Rightarrow> bool" where
  "bound_to E spec ctx k v \<longleftrightarrow> (\<exists>e. (k, JObj e) \<in> set spec \<and>
     (if dhas ''from'' e
      then (\<exists>p rest. dget ''from'' e = JStr p \<and> starts_with ''$'' p \<and> jsonpath E p ctx = Some (v # rest))
      else dhas ''value'' e \<and> v = dget ''value'' e))"

lemma resolve_from_binding_found:
  "resolve_from_binding E path ctx = (v, None) \<Longrightarrow>
   \<exists>p rest. path = JStr p \<and> starts_with ''$'' p \<and> jsonpath E p ctx = Some (v # rest)"
  by (auto simp: resolve_from_binding_def split: json.splits if_splits option.splits list.splits)

lemma bound_to_Cons: "bound_to E spec ctx k v \<Longrightarrow> bound_to E (x # spec) ctx k v"
  unfolding bound_to_def by auto

lemma resolved_is_bound:
  "resolve_parameters_spec E spec ctx = (resolved, []) \<Longrightarrow> (k, v) \<in> set resolved \<Longrightarrow>
   bound_to E spec ctx k v"
proof (induction E spec ctx arbitrary: resolved rule: resolve_parameters_spec.induct)
  case (1 E ctx)
  then show ?case by simp
next
  case (2 E key entry spec ctx)
  obtain res miss where r: "resolve_parameters_spec E spec ctx = (res, miss)" by fastforce
  have IH: "miss = [] \<Longrightarrow> (k, v) \<in> set res \<Longrightarrow> bound_to E ((key, entry) # spec) ctx k v"
    using 2(1) r by (blast intro: bound_to_Cons)
  show ?case
  proof (cases entry)
    case (JObj e)
    show ?thesis
    proof (cases "dhas ''from'' e")
      case True
      obtain w f where f: "resolve_from_binding E (dget ''from'' e) ctx = (w, f)" by fastforce
      with 2(2) r JObj True have "f = None" "miss = []" "resolved = (key, w) # res"
        by (auto split: option.splits)
      moreover from this f True JObj have "bound_to E ((key, entry) # spec) ctx key w"
        unfolding bound_to_def by (intro exI [of _ e]) (auto dest: resolve_from_binding_found)
      ultimately show ?thesis using IH 2(3) by auto
    next
      case False
      have here: "dhas ''value'' e \<Longrightarrow> bound_to E ((key, entry) # spec) ctx key (dget ''value'' e)"
        using False JObj unfolding bound_to_def by (intro exI [of _ e]) simp
      show ?thesis
      proof (cases "dhas ''value'' e")
        case True
        with 2(2) r JObj False have "miss = []" "resolved = (key, dget ''value'' e) # res" by auto
        then show ?thesis using here [OF True] IH 2(3) by auto
      next
        case nothing: False
        with 2(2,3) r JObj False IH show ?thesis by simp
      qed
    qed
  qed (use 2(2,3) r IH in auto)
qed

lemma port_values_ok:
  "validate_port_values E sid ports resolved = Inr () \<Longrightarrow> (k, v) \<in> set resolved \<Longrightarrow>
   dget k ports = JObj port \<Longrightarrow> is_dict (dget ''schema'' port) \<Longrightarrow>
   jsonschema E (dget ''schema'' port) v = None"
  by (induction E sid ports resolved rule: validate_port_values.induct)
    (auto split: json.splits if_splits option.splits)

lemma set_dset: "(k', v') \<in> set (dset k v d) \<Longrightarrow> (k', v') \<in> set d \<or> k' = k"
  by (induction d) (auto split: if_splits)



text \<open>Fencing a tool call adds the idempotency key when the call has none, keeps every other
  argument, never replaces a key the call already carries, and is idempotent.\<close>

theorem fencing_keeps_arguments:
  "(\<forall>k. dhas k input \<longrightarrow> dget k (fence_tool_arguments input key) = dget k input)
   \<and> fence_tool_arguments (fence_tool_arguments input key) key' =
       (if opt_text key = [] then fence_tool_arguments input key' else fence_tool_arguments input key)
   \<and> (opt_text key \<noteq> [] \<longrightarrow> \<not> dhas ''warden_idempotency_key'' input \<longrightarrow>
        dget ''warden_idempotency_key'' (fence_tool_arguments input key) = JStr (opt_text key))"
  by (auto simp: fence_tool_arguments_def opt_text_def dget_dset split: option.splits)

theorem fencing_keeps_arguments_witness:
  "dget ''warden_idempotency_key'' (fence_tool_arguments [(''path'', JStr ''f'')] (Some ''k'')) = JStr ''k''"
  using fencing_keeps_arguments [of "[(''path'', JStr ''f'')]" "Some ''k''" None]
  by (simp add: opt_text_def dhas_def)

section \<open>Spawning and joining\<close>

text \<open>An item with its identifier.\<close>

definition spawn_item_ok :: "json \<Rightarrow> bool" where
  "spawn_item_ok raw \<longleftrightarrow> is_dict raw \<and> is_str (dget ''id'' (coerce_dict raw))
     \<and> strip (str_of (dget ''id'' (coerce_dict raw))) \<noteq> []"

definition spawn_item :: "json \<Rightarrow> string \<times> json" where
  "spawn_item raw = (strip (str_of (dget ''id'' (coerce_dict raw))), raw)"

lemma validated_items_Inr_iff:
  "validated_items i items = Inr vs \<longleftrightarrow> list_all spawn_item_ok items \<and> vs = map spawn_item items"
proof (induction items arbitrary: i vs)
  case Nil
  then show ?case by auto
next
  case (Cons raw items)
  show ?case
  proof (cases "validated_items (Suc i) items")
    case (Inl e)
    with Cons.IH [of "Suc i" "map spawn_item items"] have "\<not> list_all spawn_item_ok items" by simp
    with Inl show ?thesis by (auto split: json.splits)
  next
    case (Inr ws)
    with Cons.IH [of "Suc i" ws] show ?thesis
      by (auto simp: spawn_item_ok_def spawn_item_def split: json.splits)
  qed
qed

text \<open>The items of a spawn are accepted exactly when there are some, no more than the cap,
  and each is an object with a non-blank string id; they are then spawned in their order under their
  stripped ids.\<close>

theorem spawn_items_accepted_iff:
  "validate_spawn_items items cap = Inr vs \<longleftrightarrow>
     items \<noteq> [] \<and> int (length items) \<le> (case cap of None \<Rightarrow> 16 | Some m \<Rightarrow> m)
     \<and> list_all spawn_item_ok items \<and> vs = map spawn_item items"
  by (auto simp: validate_spawn_items_def MAX_CHILDREN_HARD_CAP_def validated_items_Inr_iff Let_def
      split: option.splits)

lemma spawn_cap:
  assumes "parse_spawn_step g sid = Inr spec" "int_opt (dget ''max_children'' spec) = Some m"
  shows "m \<le> 16"
proof -
  obtain d where d: "executable_step_errors d = []" "dget ''kind'' d = JStr ''spawn_sagas''"
    "spec = coerce_dict (dget ''spawn'' d)"
    using assms(1)
    by (auto simp: parse_spawn_step_def parse_native_step_def parse_executable_step_def
        split: option.splits sum.splits list.splits if_splits)
  then have "spawn_spec_ok (dget ''spawn'' d)" by (simp add: executable_step_errors_def)
  then have "null_or (int_in 1 MAX_CHILDREN_HARD_CAP) (dget ''max_children'' spec)"
    using d(3) by (auto simp: spawn_spec_ok_def split: json.splits)
  with assms(2) show ?thesis
    by (cases "dget ''max_children'' spec") (auto simp: null_or_def int_in_def MAX_CHILDREN_HARD_CAP_def)
qed

text \<open>A spawn step starts at least one and at most sixteen children, whatever its frozen
  specification says.\<close>

theorem spawn_fan_out_bounded:
  assumes "spawn_plan E g sid = Inr (spec, items)"
  shows "1 \<le> length items \<and> length items \<le> 16 \<and> list_all (\<lambda>(i, _). i \<noteq> []) items"
proof -
  obtain raws where p: "parse_spawn_step g sid = Inr spec"
    "validate_spawn_items raws (int_opt (dget ''max_children'' spec)) = Inr items"
    using assms by (auto simp: spawn_plan_def split: sum.splits)
  from p(2) have v: "raws \<noteq> []" "items = map spawn_item raws" "list_all spawn_item_ok raws"
    "int (length raws) \<le> (case int_opt (dget ''max_children'' spec) of None \<Rightarrow> 16 | Some m \<Rightarrow> m)"
    by (auto simp: validate_spawn_items_def MAX_CHILDREN_HARD_CAP_def validated_items_Inr_iff Let_def
        split: option.splits if_splits)
  then have "length raws \<le> 16" using spawn_cap [OF p(1)] by (fastforce split: option.splits)
  with v show ?thesis by (cases raws) (auto simp: spawn_item_def spawn_item_ok_def list_all_iff)
qed

definition demo_parent :: saga where
  "demo_parent = (demo_saga Saga_RUNNING)\<lparr>
     saga_context := JObj [(''input'', JObj [(''items'', JList [JObj [(''id'', JStr ''i'')]])])],
     frozen_steps := JList [JObj [(''kind'', JStr ''spawn_sagas''), (''id'', JStr ''s''), (''name'', JStr ''s''),
       (''spawn'', JObj [(''saga_name'', JStr ''c''), (''saga_version'', JStr ''1''),
          (''items_from'', JStr ''$.items''), (''result_from'', JStr ''$.out'')])]]\<rparr>"

theorem spawn_fan_out_bounded_witness:
  "\<exists>spec items. spawn_plan demo_env demo_parent ''s'' = Inr (spec, items) \<and> length items \<le> 16"
proof -
  obtain spec items where p: "spawn_plan demo_env demo_parent ''s'' = Inr (spec, items)"
    by (simp add: run demo_parent_def)
  from spawn_fan_out_bounded [OF this] p show ?thesis by blast
qed

lemma join_entry_status:
  "snd (join_child_entry E rf db link) = (case find_saga (child_trace_id link) db of
     None \<Rightarrow> ''FAILED'' | Some child \<Rightarrow> saga_status_value (saga_status child))"
  by (simp add: join_child_entry_def Let_def split: option.split)

lemma filter_parts:
  "(\<And>x. x \<in> set xs \<Longrightarrow> P x \<noteq> Q x) \<Longrightarrow> length (filter P xs) + length (filter Q xs) = length xs"
  by (induction xs) auto

lemma terminal_status_value:
  "child_terminal st \<Longrightarrow> (saga_status_value st = ''COMPLETED'') \<noteq> (saga_status_value st \<in> {''FAILED'', ''COMPENSATED''})"
  by (cases st) (simp_all add: child_terminal_def)

text \<open>Once every linked child has ended, the summary of a join accounts for each of them:
  one entry per link, each counted as succeeded or as failed; a child that cannot be found counts as
  failed.\<close>

theorem join_accounts_for_every_child:
  assumes "\<forall>link\<in>set links. \<forall>child. find_saga (child_trace_id link) db = Some child \<longrightarrow>
             child_terminal (saga_status child)"
    and "summarize_join_children (map (\<lambda>l. snd (join_child_entry E rf db l)) links) = (all, succeeded, failed)"
  shows "all = int (length links) \<and> succeeded + failed = all"
proof -
  define st where "st = map (\<lambda>l. snd (join_child_entry E rf db l)) links"
  have "(s = ''COMPLETED'') \<noteq> (s \<in> {''FAILED'', ''COMPENSATED''})" if s: "s \<in> set st" for s
  proof -
    obtain l where l: "l \<in> set links" "s = snd (join_child_entry E rf db l)"
      using s by (auto simp: st_def)
    show ?thesis
    proof (cases "find_saga (child_trace_id l) db")
      case None
      then show ?thesis by (simp add: l(2) join_entry_status)
    next
      case (Some child)
      then have "child_terminal (saga_status child)" using assms(1) l(1) by blast
      from terminal_status_value [OF this] show ?thesis
        unfolding l(2) join_entry_status Some option.case .
    qed
  qed
  from filter_parts [of st "\<lambda>s. s = ''COMPLETED''" "\<lambda>s. s \<in> {''FAILED'', ''COMPENSATED''}", OF this]
  have "int (length (filter (\<lambda>s. s = ''COMPLETED'') st))
      + int (length (filter (\<lambda>s. s \<in> {''FAILED'', ''COMPENSATED''}) st)) = int (length st)"
    by (simp only: of_nat_add [symmetric])
  moreover have "length st = length links" by (simp add: st_def)
  ultimately show ?thesis using assms(2) unfolding st_def [symmetric] summarize_join_children_def
    by (simp only: prod.inject)
qed

definition demo_link :: saga_child where
  "demo_link = \<lparr>child_namespace = ''n'', child_parent_trace_id = demo_tid, child_spawn_step_id = ''s'',
     child_spawn_span_id = demo_span, child_item_id = ''i'', child_trace_id = demo_tid,
     child_idempotency_key = ''k''\<rparr>"

theorem join_accounts_for_every_child_witness:
  "summarize_join_children (map (\<lambda>l. snd (join_child_entry demo_env ''$.out'' (demo_db Saga_FAILED []) l)) [demo_link])
     = (1, 0, 1) \<and> (0::int) + 1 = 1"
proof -
  have eq: "summarize_join_children (map (\<lambda>l. snd (join_child_entry demo_env ''$.out'' (demo_db Saga_FAILED []) l)) [demo_link])
     = (1, 0, 1)"
    by (simp add: join_entry_status summarize_join_children_def demo_link_def find_saga_def demo_db_def demo_saga_def)
  have "\<forall>link\<in>set [demo_link]. \<forall>child. find_saga (child_trace_id link) (demo_db Saga_FAILED []) = Some child \<longrightarrow>
      child_terminal (saga_status child)"
    by (simp add: run demo_link_def)
  from join_accounts_for_every_child [OF this eq] eq show ?thesis by simp
qed

section \<open>Keys\<close>

text \<open>The ingest key of every accepted event fits the 256 characters of its column.\<close>

theorem ingest_key_fits:
  assumes "validate_ingest (coerce_saga_ingest_dict d) = Inr ev"
  shows "length (event_dedup_key ev) \<le> 256"
proof -
  have "length (ev_trace ev) = 32" "length (opt_text (ev_span ev)) \<le> 16"
    using parsed_event_fields(1,2) [OF assms] by (auto simp: trace_ok_def span_ok_def opt_text_def)
  moreover have "length (event_type_value (ev_type ev)) \<le> 20" by (cases "ev_type ev") simp_all
  ultimately show ?thesis by (simp add: event_dedup_key_def dedup_key_def)
qed

theorem ingest_key_fits_witness:
  "\<exists>ev. parsed_event (demo_event ''HUMAN_RETRY'' demo_span) = Inr ev \<and> length (event_dedup_key ev) \<le> 256"
proof -
  obtain ev where e: "parsed_event (demo_event ''HUMAN_RETRY'' demo_span) = Inr ev" by (simp add: run)
  from ingest_key_fits [OF this] e show ?thesis by blast
qed


end
