(* ===== verification/Delivery.thy ===== *)
theory Delivery imports Sample begin

text \<open>
  At-least-once delivery made effectively once: the replay of recoveries and starts, the first
  decision on a held step, the claims of worker commands, and the consumer and reapers of the outbox.
\<close>

section \<open>Requests made twice\<close>

lemma find_recovery_saved:
  "save_processed_operator_recovery key fp resp db = (Inr u, db') \<Longrightarrow>
   find_recovery key db' = Some \<lparr>rec_key = key, rec_fingerprint = fp, rec_response = resp\<rparr>"
  by (auto simp: save_processed_operator_recovery_def find_recovery_def rows_first_append
      split: if_splits option.splits)

text \<open>C20: a recovery request that succeeded is replayed: the same request with the same token
  returns the stored response and changes nothing, whatever the action would do now; with other
  parameters it is refused, and changes nothing either.\<close>

theorem recovery_replayed:
  assumes "with_operator_recovery_idempotency E (Some t) ns kind tid sid force ad action db = (Inr r, db')"
  shows "with_operator_recovery_idempotency E (Some t) ns kind tid sid force' ad' action' db' =
     ((if operator_recovery_request_fingerprint E kind force' ad'
            = operator_recovery_request_fingerprint E kind force ad
       then Inr r
       else Inl (RecoveryConflict ''recovery_token reused with different request parameters.'')), db')"
proof -
  let ?key = "operator_recovery_dedup_key ns kind tid sid t"
  let ?fp = "operator_recovery_request_fingerprint E kind force ad"
  have "\<exists>row. find_recovery ?key db' = Some row \<and> rec_fingerprint row = ?fp \<and> rec_response row = r"
  proof (cases "find_recovery ?key db")
    case (Some row)
    then show ?thesis using assms
      by (auto simp: with_operator_recovery_idempotency_def replay_or_conflict_def monad_simps Let_def
          split: if_splits)
  next
    case None
    then show ?thesis using assms
      by (auto simp: with_operator_recovery_idempotency_def monad_simps Let_def
          dest!: find_recovery_saved split: prod.splits sum.splits)
  qed
  then show ?thesis
    by (auto simp: with_operator_recovery_idempotency_def replay_or_conflict_def monad_simps Let_def)
qed

theorem recovery_replayed_witness:
  "with_operator_recovery_idempotency demo_env (Some ''t'') ''n'' ''retry-step'' demo_tid demo_span False (Some False)
     (raise IndexError)
     (snd (with_operator_recovery_idempotency demo_env (Some ''t'') ''n'' ''retry-step'' demo_tid demo_span False
        (Some False) (return [(''status'', ''ok'')]) (demo_db Saga_RUNNING [])))
   = (Inr [(''status'', ''ok'')],
      snd (with_operator_recovery_idempotency demo_env (Some ''t'') ''n'' ''retry-step'' demo_tid demo_span False
        (Some False) (return [(''status'', ''ok'')]) (demo_db Saga_RUNNING [])))"
proof -
  have "with_operator_recovery_idempotency demo_env (Some ''t'') ''n'' ''retry-step'' demo_tid demo_span False
      (Some False) (return [(''status'', ''ok'')]) (demo_db Saga_RUNNING [])
    = (Inr [(''status'', ''ok'')], snd (with_operator_recovery_idempotency demo_env (Some ''t'') ''n'' ''retry-step''
        demo_tid demo_span False (Some False) (return [(''status'', ''ok'')]) (demo_db Saga_RUNNING [])))"
    by (simp add: with_operator_recovery_idempotency_def save_processed_operator_recovery_def find_recovery_def
        demo_db_def empty_db_def monad_simps Let_def)
  from recovery_replayed [OF this, of False "Some False" "raise IndexError"] show ?thesis by simp
qed

text \<open>The tables a start leaves alone.\<close>

lemma materialize_keeps:
  "db_sagas (snd (materialize_executable_steps E sg specs n ord db)) = db_sagas db \<and>
   db_saga_defs (snd (materialize_executable_steps E sg specs n ord db)) = db_saga_defs db"
proof (induction specs arbitrary: n ord db)
  case Nil
  then show ?case by (simp add: return_def)
next
  case (Cons spec specs)
  have "db_sagas (snd (mint_step E sg spec n ord db)) = db_sagas db \<and>
        db_saga_defs (snd (mint_step E sg spec n ord db)) = db_saga_defs db"
    by (auto simp: mint_step_def uuid4_hex_def create_step_def hook_def monad_simps split: sum.split)
  with Cons.IH show ?case
    by (auto simp: bind_def return_def split: prod.split sum.split) (metis snd_conv)+
qed

lemma emit_saga_payload_keeps:
  "db_sagas (snd (emit_saga_payload E ns tid ety status output db)) = db_sagas db \<and>
   db_saga_defs (snd (emit_saga_payload E ns tid ety status output db)) = db_saga_defs db"
  by (auto simp: emit_saga_payload_def emit_saga_event_def publish_def uuid4_hex_def monad_simps Let_def
      split: list.split)

text \<open>The saga a start looks for.\<close>

definition started_with :: "string \<Rightarrow> string \<Rightarrow> string \<Rightarrow> saga \<Rightarrow> bool" where
  "started_with ns def_id k s \<longleftrightarrow>
     saga_namespace s = ns \<and> definition_id s = def_id \<and> start_idempotency_key s = Some k"

definition definition_at :: "string \<Rightarrow> string \<Rightarrow> string \<Rightarrow> db \<Rightarrow> saga_definition option" where
  "definition_at ns name version db =
     rows_first (\<lambda>d. sdef_namespace d = ns \<and> sdef_name d = name \<and> sdef_version d = version) (db_saga_defs db)"

lemma start_saga_existing:
  assumes "definition_at ns name version db = Some d" "sdef_is_active d"
    and "rows_first (started_with ns (sdef_id d) k) (db_sagas db) = Some s"
  shows "start_saga E ns name version input (Some k) db = (Inr (trace_id s, False), db)"
  using assms
  by (simp add: start_saga_def require_saga_definition_def definition_at_def resolve_idempotent_start_def
      started_with_def [abs_def] monad_simps)

lemma create_saga_and_steps_Inr:
  assumes "create_saga_and_steps E d ns name version input key parent db = (Inr tid, db')"
  shows "\<exists>row. db_sagas db' = db_sagas db @ [row] \<and> trace_id row = tid \<and> saga_namespace row = ns
       \<and> definition_id row = sdef_id d \<and> start_idempotency_key row = key \<and> saga_status row = Saga_PENDING
       \<and> db_saga_defs db' = db_saga_defs db"
proof -
  from assms obtain sg segment db1 rows db2 where m: "trace_id sg = tid" "saga_namespace sg = ns"
    "definition_id sg = sdef_id d" "start_idempotency_key sg = key" "saga_status sg = Saga_PENDING"
    "db_sagas db1 = db_sagas db @ [sg]" "db_saga_defs db1 = db_saga_defs db"
    "materialize_executable_steps E sg segment 0 0 db1 = (Inr rows, db2)"
    "emit_saga_payload E ns tid SAGA_STARTED ''PENDING'' [] db2 = (Inr (), db')"
    by (auto simp: create_saga_and_steps_def uuid4_hex_def create_saga_def hook_def saga_row_def monad_simps Let_def
        split: sum.splits if_splits prod.splits) (rule that [rotated 7], assumption, simp_all)
  from m(8,9) materialize_keeps [of E sg segment 0 0 db1]
    emit_saga_payload_keeps [of E ns tid SAGA_STARTED "''PENDING''" "[]" db2]
  show ?thesis using m(1-7) by auto
qed

text \<open>C19: a start with an idempotency key happens once: the same definition and key return the
  trace id of the first start, with \<open>created\<close> false, and change nothing; the input of the
  repetition is ignored.\<close>

theorem start_happens_once:
  assumes "start_saga E ns name version input (Some k) db = (Inr (tid, created), db')"
  shows "start_saga E' ns name version input' (Some k) db' = (Inr (tid, False), db')"
proof -
  obtain d where d: "definition_at ns name version db = Some d" "sdef_is_active d"
    using assms
    by (auto simp: start_saga_def require_saga_definition_def definition_at_def monad_simps
        split: option.splits if_splits)
  show ?thesis
  proof (cases "rows_first (started_with ns (sdef_id d) k) (db_sagas db)")
    case (Some s)
    from start_saga_existing [OF d Some] start_saga_existing [OF d Some] assms show ?thesis by simp
  next
    case None
    then have c: "create_saga_and_steps E d ns name version input (Some k) None db = (Inr tid, db')"
      using assms d
      by (auto simp: start_saga_def require_saga_definition_def definition_at_def resolve_idempotent_start_def
          started_with_def [abs_def] monad_simps split: option.splits if_splits prod.splits sum.splits)
    from create_saga_and_steps_Inr [OF c] obtain row where row: "db_sagas db' = db_sagas db @ [row]"
      "trace_id row = tid" "started_with ns (sdef_id d) k row" "db_saga_defs db' = db_saga_defs db"
      by (auto simp: started_with_def)
    have "definition_at ns name version db' = Some d" using d row(4) by (simp add: definition_at_def)
    moreover have "rows_first (started_with ns (sdef_id d) k) (db_sagas db') = Some row"
      using None row by (simp add: rows_first_append)
    ultimately show ?thesis using start_saga_existing d(2) row(2) by blast
  qed
qed

definition demo_definition :: saga_definition where
  "demo_definition = \<lparr>sdef_id = ''d'', sdef_namespace = ''n'', sdef_name = ''saga'', sdef_version = ''1'',
     sdef_is_active = True,
     sdef_body = JObj [(''steps'', JList [JObj demo_node])]\<rparr>"

theorem start_happens_once_witness:
  "\<exists>tid db'. start_saga demo_env ''n'' ''saga'' ''1'' [] (Some ''key-1'')
       (empty_db\<lparr>db_saga_defs := [demo_definition]\<rparr>) = (Inr (tid, True), db')
     \<and> start_saga demo_env ''n'' ''saga'' ''1'' [(''x'', JInt 1)] (Some ''key-1'') db' = (Inr (tid, False), db')"
proof -
  obtain tid db' where s: "start_saga demo_env ''n'' ''saga'' ''1'' [] (Some ''key-1'')
       (empty_db\<lparr>db_saga_defs := [demo_definition]\<rparr>) = (Inr (tid, True), db')"
    by (simp add: run demo_definition_def demo_hydrated demo_frozen_node_def)
  from start_happens_once [OF this] s show ?thesis by blast
qed

section \<open>The first decision\<close>

lemma rows_first_requeued:
  "rows_first P t = Some r \<Longrightarrow> (\<And>x. P (f x) = P x) \<Longrightarrow> Q r \<Longrightarrow>
   rows_first P (rows_update Q f t) = Some (f r)"
  by (induction t) (auto split: if_splits)

definition decision_reply :: "string \<Rightarrow> string \<Rightarrow> string \<Rightarrow> response" where
  "decision_reply st tid sid = [(''status'', st), (''idempotency_key'', human_decision_idempotency_key tid sid)]"

lemma decision_already_queued:
  "outbox_row_of (topic_events E) (human_decision_idempotency_key tid sid) db = Some r \<Longrightarrow>
   ob_status r \<noteq> Outbox_FAILED \<Longrightarrow>
   enqueue_human_decision E ns tid sid decision output details db
     = (Inr (decision_reply ''already_queued'' tid sid), db)"
  by (simp add: enqueue_human_decision_def requeue_if_failed_def decision_reply_def monad_simps Let_def)

lemma emit_saga_event_row:
  "emit_saga_event E topic ety payload ns tid sid (Some k) db = (Inr (), db') \<Longrightarrow>
   \<exists>row. db_outbox db' = outbox_put row (db_outbox db)
     \<and> ob_topic row = topic \<and> ob_idempotency_key row = Some k \<and> ob_status row = Outbox_PENDING"
  unfolding emit_saga_event_def publish_def uuid4_hex_def
  by (auto simp: monad_simps Let_def simp del: json_dumps.simps split: if_splits)

text \<open>C18: the first decision on a held step wins: after one was accepted, every further decision
  on the step, the same or the opposite, is answered \<open>already_queued\<close> and changes nothing, until
  the delivery of the first one fails.\<close>

theorem first_decision_wins:
  assumes "enqueue_human_decision E ns tid sid decision output details db = (Inr r, db')"
  shows "enqueue_human_decision E ns' tid sid decision' output' details' db'
       = (Inr (decision_reply ''already_queued'' tid sid), db')"
proof -
  let ?key = "human_decision_idempotency_key tid sid"
  have "\<exists>row. outbox_row_of (topic_events E) ?key db' = Some row \<and> ob_status row \<noteq> Outbox_FAILED"
  proof (cases "outbox_row_of (topic_events E) ?key db")
    case (Some row)
    show ?thesis
    proof (cases "ob_status row = Outbox_FAILED")
      case False
      with Some assms show ?thesis by (simp add: decision_already_queued)
    next
      case True
      let ?f = "\<lambda>r. r\<lparr>ob_status := Outbox_PENDING, ob_updated_at := db_now db\<rparr>"
      have "db' = db\<lparr>db_outbox := rows_update (\<lambda>r. ob_id r = ob_id row) ?f (db_outbox db)\<rparr>"
        using assms Some True
        by (simp add: enqueue_human_decision_def requeue_if_failed_def requeue_row_def set_outbox_status_def
            monad_simps Let_def)
      moreover have "rows_first (\<lambda>r. ob_topic r = topic_events E \<and> ob_idempotency_key r = Some ?key)
          (rows_update (\<lambda>r. ob_id r = ob_id row) ?f (db_outbox db)) = Some (?f row)"
        using Some unfolding outbox_row_of_def by (rule rows_first_requeued) simp_all
      ultimately show ?thesis by (simp add: outbox_row_of_def)
    qed
  next
    case None
    then obtain ety payload db1 where "emit_saga_event E (topic_events E) ety payload ns tid (Some sid) (Some ?key) db1
        = (Inr (), db')" "db_outbox db1 = db_outbox db"
      using assms
      by (auto simp: enqueue_human_decision_def load_step_for_decision_def emit_human_decision_def hook_def monad_simps
          Let_def split: option.splits if_splits prod.splits sum.splits)
    then obtain row where row: "ob_topic row = topic_events E" "ob_idempotency_key row = Some ?key"
      "ob_status row = Outbox_PENDING" "db_outbox db' = outbox_put row (db_outbox db)"
      using emit_saga_event_row by metis
    have "\<not> outbox_has n (topic_events E) ?key (db_outbox db)" for n
      using None by (auto simp: outbox_row_of_def outbox_has_def rows_first_None)
    then have "outbox_row_of (topic_events E) ?key db' = Some row"
      using None row by (simp add: outbox_row_of_def outbox_put_def rows_first_append)
    with row(3) show ?thesis by simp
  qed
  then show ?thesis using decision_already_queued by blast
qed

theorem first_decision_wins_witness:
  "enqueue_human_decision demo_env ''n'' demo_tid demo_span ''REJECT'' JNull JNull
     (snd (enqueue_human_decision demo_env ''n'' demo_tid demo_span ''APPROVE'' JNull JNull
        (demo_db Saga_AWAITING_HUMAN [demo_step demo_span 0 Step_AWAITING_HUMAN])))
   = (Inr (decision_reply ''already_queued'' demo_tid demo_span),
      snd (enqueue_human_decision demo_env ''n'' demo_tid demo_span ''APPROVE'' JNull JNull
        (demo_db Saga_AWAITING_HUMAN [demo_step demo_span 0 Step_AWAITING_HUMAN])))"
proof -
  let ?db = "demo_db Saga_AWAITING_HUMAN [demo_step demo_span 0 Step_AWAITING_HUMAN]"
  obtain r db' where q: "enqueue_human_decision demo_env ''n'' demo_tid demo_span ''APPROVE'' JNull JNull ?db
      = (Inr r, db')" by (simp add: run)
  from first_decision_wins [OF this] q show ?thesis by simp
qed

section \<open>Claims\<close>

text \<open>A worker command emits its result at most once: once the holder of the claim has marked
  it, no token, its own included, passes the check before an emission or the mark again.\<close>

theorem result_emitted_once:
  assumes "mark_claim_result_emitted key token db = (Inr True, db')" "distinct (map pc_key (db_claims db))"
  shows "verify_claim_before_emit key token' db' = (Inr False, db')
       \<and> mark_claim_result_emitted key token' db' = (Inr False, db')"
proof -
  have db': "db_claims db' = rows_update (claim_owned key token) (\<lambda>c. c\<lparr>pc_result_emitted := True\<rparr>) (db_claims db)"
    and "filter (claim_owned key token) (db_claims db) \<noteq> []"
    using assms(1) by (auto simp: mark_claim_result_emitted_def)
  then obtain c where c: "c \<in> set (db_claims db)" "claim_owned key token c"
    by (auto simp: filter_empty_conv)
  have none: "\<not> claim_owned key token' x" if "x \<in> set (db_claims db')" for x
    using that unfolding db'
  proof (rule rows_update_cases)
    fix r assume "x = r\<lparr>pc_result_emitted := True\<rparr>"
    then show ?thesis by (simp add: claim_owned_def)
  next
    assume x: "x \<in> set (db_claims db)" "\<not> claim_owned key token x"
    show ?thesis
    proof
      assume "claim_owned key token' x"
      then have "pc_key x = pc_key c" using c(2) by (simp add: claim_owned_def)
      then have "x = c" using distinct_key_unique [OF assms(2) x(1) c(1)] by blast
      with c(2) x(2) show False by simp
    qed
  qed
  then have f: "filter (claim_owned key token') (db_claims db') = []" by (simp add: filter_empty_conv)
  have "rows_update (claim_owned key token') (\<lambda>c. c\<lparr>pc_result_emitted := True\<rparr>) (db_claims db') = db_claims db'"
    using none by (rule rows_update_cong_none)
  moreover have "claim_still_owned key token' db' = None"
    using none by (simp add: claim_still_owned_def rows_first_None)
  ultimately show ?thesis using f
    by (simp add: verify_claim_before_emit_def mark_claim_result_emitted_def gets_def)
qed

definition demo_claim :: processed_command where
  "demo_claim = \<lparr>pc_key = ''k'', pc_namespace = ''n'', pc_claim_token = ''t'', pc_result_emitted = False,
     pc_created_at = 0\<rparr>"

theorem result_emitted_once_witness:
  "mark_claim_result_emitted ''k'' ''t''
     (snd (mark_claim_result_emitted ''k'' ''t'' (empty_db\<lparr>db_claims := [demo_claim]\<rparr>)))
   = (Inr False, snd (mark_claim_result_emitted ''k'' ''t'' (empty_db\<lparr>db_claims := [demo_claim]\<rparr>)))"
proof -
  have "mark_claim_result_emitted ''k'' ''t'' (empty_db\<lparr>db_claims := [demo_claim]\<rparr>)
      = (Inr True, snd (mark_claim_result_emitted ''k'' ''t'' (empty_db\<lparr>db_claims := [demo_claim]\<rparr>)))"
    by (simp add: mark_claim_result_emitted_def claim_owned_def demo_claim_def empty_db_def)
  from result_emitted_once [OF this] show ?thesis by (simp add: empty_db_def)
qed

section \<open>The consumer and the reapers\<close>

text \<open>C21: a poll claims the oldest pending rows of its topic, at most a batch of them and none that
  another consumer holds; what it leaves is no older than what it takes, and the next poll returns
  none of them again.\<close>

theorem poll_claims_oldest_once:
  assumes "poll_and_claim topic batch locked db = (Inr rows, db')"
    and "poll_and_claim topic' batch' locked' db' = (Inr rows', db'')"
  shows "length rows \<le> batch
       \<and> (\<forall>r\<in>set rows. r \<in> set (db_outbox db) \<and> ob_topic r = topic \<and> ob_status r = Outbox_PENDING \<and> \<not> locked r)
       \<and> (\<forall>r\<in>set rows. \<forall>q\<in>set (db_outbox db). ob_topic q = topic \<longrightarrow> ob_status q = Outbox_PENDING \<longrightarrow>
            \<not> locked q \<longrightarrow> q \<notin> set rows \<longrightarrow> ob_created_at r \<le> ob_created_at q)
       \<and> ob_id ` set rows \<inter> ob_id ` set rows' = {}"
proof -
  let ?P = "\<lambda>r. ob_topic r = topic \<and> ob_status r = Outbox_PENDING \<and> \<not> locked r"
  let ?s = "sort_key ob_created_at (filter ?P (db_outbox db))"
  have rows: "rows = take batch ?s"
    and db': "db_outbox db' = rows_update (\<lambda>r. ob_id r \<in> set (map ob_id rows))
        (\<lambda>r. r\<lparr>ob_status := Outbox_IN_PROGRESS, ob_updated_at := db_now db\<rparr>) (db_outbox db)"
    using assms(1) by (auto simp: poll_and_claim_def claim_candidates_def Let_def)
  have split: "set ?s = set rows \<union> set (drop batch ?s)"
    unfolding rows set_append [symmetric] append_take_drop_id ..
  have older: "ob_created_at r \<le> ob_created_at q" if "r \<in> set rows" "q \<in> set (drop batch ?s)" for r q
  proof -
    have "sorted (map ob_created_at (rows @ drop batch ?s))" by (simp add: rows)
    with that show ?thesis unfolding map_append sorted_append by auto
  qed
  have fresh: "ob_status x = Outbox_IN_PROGRESS" if "x \<in> set (db_outbox db')" "ob_id x \<in> ob_id ` set rows" for x
    using that(1) unfolding db' by (rule rows_update_cases) (use that(2) in auto)
  have pending: "set rows' \<subseteq> {r \<in> set (db_outbox db'). ob_status r = Outbox_PENDING}"
    using assms(2) by (auto simp: poll_and_claim_def claim_candidates_def Let_def dest: in_set_takeD)
  have "ob_id x \<notin> ob_id ` set rows" if "x \<in> set rows'" for x
  proof
    assume x: "ob_id x \<in> ob_id ` set rows"
    have "x \<in> set (db_outbox db')" "ob_status x = Outbox_PENDING" using pending that by blast+
    with fresh [OF this(1) x] show False by simp
  qed
  then have disjoint: "ob_id ` set rows \<inter> ob_id ` set rows' = {}"
  proof (intro equals0I, elim IntE)
    fix i assume here: "i \<in> ob_id ` set rows" and there: "i \<in> ob_id ` set rows'"
    from there obtain x where "x \<in> set rows'" "i = ob_id x" by (rule imageE)
    with here show False using \<open>\<And>x. x \<in> set rows' \<Longrightarrow> ob_id x \<notin> ob_id ` set rows\<close> by simp
  qed
  have sub: "set rows \<subseteq> set (filter ?P (db_outbox db))"
    using set_take_subset [of batch ?s] unfolding rows set_sort .
  have rest: "\<forall>r\<in>set rows. \<forall>q\<in>set (db_outbox db). ?P q \<longrightarrow> q \<notin> set rows \<longrightarrow> ob_created_at r \<le> ob_created_at q"
  proof (intro ballI impI)
    fix r q assume "r \<in> set rows" "q \<in> set (db_outbox db)" "?P q" "q \<notin> set rows"
    moreover from this have "q \<in> set ?s" by simp
    ultimately show "ob_created_at r \<le> ob_created_at q" using split older by blast
  qed
  have "length rows \<le> batch" by (simp add: rows)
  then show ?thesis using sub rest disjoint by auto
qed

definition demo_row :: "string \<Rightarrow> int \<Rightarrow> outbox_event" where
  "demo_row oid t = \<lparr>ob_id = oid, ob_namespace = ''n'', ob_saga_trace_id = demo_tid, ob_step_span_id = [],
     ob_event_type = ''SAGA_STARTED'', ob_topic = ''evt'', ob_idempotency_key = Some oid, ob_payload = JObj [],
     ob_status = Outbox_PENDING, ob_created_at = t, ob_updated_at = t\<rparr>"

theorem poll_claims_oldest_once_witness:
  "map ob_id (claim_candidates ''evt'' (Suc 0) (\<lambda>_. False) [demo_row ''b'' 2, demo_row ''a'' 1]) = [''a'']
   \<and> (\<exists>rows' db''. poll_and_claim ''evt'' 2 (\<lambda>_. False)
        (snd (poll_and_claim ''evt'' (Suc 0) (\<lambda>_. False) (empty_db\<lparr>db_outbox := [demo_row ''b'' 2, demo_row ''a'' 1]\<rparr>)))
        = (Inr rows', db'') \<and> ''a'' \<notin> ob_id ` set rows')"
proof -
  let ?db = "empty_db\<lparr>db_outbox := [demo_row ''b'' 2, demo_row ''a'' 1]\<rparr>"
  have rows: "claim_candidates ''evt'' (Suc 0) (\<lambda>_. False) [demo_row ''b'' 2, demo_row ''a'' 1] = [demo_row ''a'' 1]"
    by (simp add: claim_candidates_def demo_row_def sort_key_def)
  have one: "poll_and_claim ''evt'' (Suc 0) (\<lambda>_. False) ?db
      = (Inr [demo_row ''a'' 1], snd (poll_and_claim ''evt'' (Suc 0) (\<lambda>_. False) ?db))"
    by (simp add: poll_and_claim_def rows empty_db_def Let_def)
  obtain rows' db'' where two: "poll_and_claim ''evt'' 2 (\<lambda>_. False)
      (snd (poll_and_claim ''evt'' (Suc 0) (\<lambda>_. False) ?db)) = (Inr rows', db'')"
    by (simp add: poll_and_claim_def Let_def)
  from poll_claims_oldest_once [OF one two] rows two show ?thesis
    by (auto simp: demo_row_def)
qed

text \<open>C22: the end of a delivery never overwrites a row that is no longer IN_PROGRESS: when the row
  was reaped or requeued while its handler ran, whether it succeeded or failed, the table is left as
  the handler left it.\<close>

theorem delivery_respects_reaper:
  assumes "handler (assemble_consumer_payload row) db = (x, db1)"
    and "\<forall>r\<in>set (db_outbox db1). ob_id r = ob_id row \<longrightarrow> ob_status r \<noteq> Outbox_IN_PROGRESS"
  shows "process_row handler row db = (Inr (), db1)"
proof -
  have "set_outbox_status (ob_id row) st (Some Outbox_IN_PROGRESS) db1 = (Inr 0, db1)" for st
  proof -
    have "filter (\<lambda>r. ob_id r = ob_id row \<and> ob_status r = Outbox_IN_PROGRESS) (db_outbox db1) = []"
      using assms(2) by (auto simp: filter_empty_conv)
    moreover have "rows_update (\<lambda>r. ob_id r = ob_id row \<and> ob_status r = Outbox_IN_PROGRESS)
        (\<lambda>r. r\<lparr>ob_status := st, ob_updated_at := db_now db1\<rparr>) (db_outbox db1) = db_outbox db1"
      using assms(2) by (intro rows_update_cong_none) auto
    ultimately show ?thesis by (simp add: set_outbox_status_def Let_def)
  qed
  then show ?thesis using assms(1)
    by (cases x) (simp_all add: process_row_def try_except_def seq_def bind_def skip_def return_def)
qed

theorem delivery_respects_reaper_witness:
  "process_row (\<lambda>_. return ()) (demo_row ''a'' 1) (empty_db\<lparr>db_outbox := [demo_row ''a'' 1]\<rparr>)
   = (Inr (), empty_db\<lparr>db_outbox := [demo_row ''a'' 1]\<rparr>)"
  by (rule delivery_respects_reaper [where x = "Inr ()"]) (simp_all add: return_def demo_row_def empty_db_def)

text \<open>The paired reap returns a stale command row to PENDING together with its claim, unless
  the result was already emitted: a claim that is gone belonged to the row, and an emitted one
  stays.\<close>

theorem reap_pairs_row_and_claim:
  assumes "reap_paired_once E topic db = (Inr True, db')"
  shows "\<exists>row\<in>set (db_outbox db). ob_topic row = topic \<and> ob_status row = Outbox_IN_PROGRESS
       \<and> outbox_row_stale E (db_now db) row
       \<and> (\<forall>r\<in>set (db_outbox db'). ob_id r = ob_id row \<longrightarrow> ob_status r = Outbox_PENDING)
       \<and> (\<forall>r\<in>set (db_outbox db). ob_id r \<noteq> ob_id row \<longrightarrow> r \<in> set (db_outbox db'))
       \<and> (\<forall>c\<in>set (db_claims db). c \<in> set (db_claims db') \<longleftrightarrow>
            pc_result_emitted c \<or> ob_idempotency_key row = None \<or> ob_idempotency_key row = Some []
            \<or> Some (pc_key c) \<noteq> ob_idempotency_key row)"
proof -
  let ?stale = "filter (\<lambda>r. ob_topic r = topic \<and> ob_status r = Outbox_IN_PROGRESS
      \<and> outbox_row_stale E (db_now db) r) (db_outbox db)"
  obtain row rest where s: "sort_key ob_updated_at ?stale = row # rest"
    using assms by (auto simp: reap_paired_once_def split: list.splits)
  then have "row \<in> set ?stale" by (metis list.set_intros(1) set_sort)
  then have row: "row \<in> set (db_outbox db)" "ob_topic row = topic" "ob_status row = Outbox_IN_PROGRESS"
    "outbox_row_stale E (db_now db) row" by auto
  have db': "db' = db\<lparr>db_claims := (case ob_idempotency_key row of
                 None \<Rightarrow> db_claims db
               | Some k \<Rightarrow> if k = [] then db_claims db
                           else rows_delete (\<lambda>c. pc_key c = k \<and> \<not> pc_result_emitted c) (db_claims db)),
              db_outbox := rows_update (\<lambda>r. ob_id r = ob_id row)
                (\<lambda>r. r\<lparr>ob_status := Outbox_PENDING, ob_updated_at := db_now db\<rparr>) (db_outbox db)\<rparr>"
    using assms s by (simp add: reap_paired_once_def)
  show ?thesis
    by (rule bexI [OF _ row(1)])
      (use row in \<open>auto simp: db' rows_update_def rows_delete_def split: option.splits\<close>)
qed

theorem reap_pairs_row_and_claim_witness:
  "\<exists>db'. reap_paired_once demo_env ''evt'' (empty_db\<lparr>db_now := 1000, db_claims := [demo_claim],
       db_outbox := [(demo_row ''k'' 1)\<lparr>ob_status := Outbox_IN_PROGRESS\<rparr>]\<rparr>) = (Inr True, db')
     \<and> demo_claim \<notin> set (db_claims db')"
proof -
  let ?db = "empty_db\<lparr>db_now := 1000, db_claims := [demo_claim],
       db_outbox := [(demo_row ''k'' 1)\<lparr>ob_status := Outbox_IN_PROGRESS\<rparr>]\<rparr>"
  obtain db' where r: "reap_paired_once demo_env ''evt'' ?db = (Inr True, db')"
    by (simp add: reap_paired_once_def outbox_row_stale_def stale_outbox_cutoff_def demo_row_def demo_env_fields
        empty_db_def sort_key_def)
  from reap_pairs_row_and_claim [OF this] r show ?thesis
    by (auto simp: demo_row_def demo_claim_def empty_db_def)
qed

end
