(* ===== verification/Blueprint.thy ===== *)
theory Blueprint imports Sample begin

text \<open>
  What a start freezes: a hydrated step stays within its catalog step, every catalog step it needs is
  registered and active, ids stay unique, and the prompts on disk are expanded in finitely many steps.
\<close>

section \<open>Overrides\<close>

lemma override_hitl_Inr:
  assumes "override_hitl sid ref out = Inr out'"
  shows "k \<noteq> ''hitl'' \<Longrightarrow> dget k out' = dget k out"
    and "truthy (dget ''hitl'' out) \<Longrightarrow> truthy (dget ''hitl'' out')"
    and "dhas k out \<Longrightarrow> dhas k out'"
  using assms by (auto simp: override_hitl_def split: json.splits if_splits)

lemma override_hitl_max_retries_Inr:
  assumes "override_hitl_max_retries sid ref out = Inr out'"
  shows "k \<noteq> ''hitl_max_retries'' \<Longrightarrow> dget k out' = dget k out"
    and "dget ''hitl_max_retries'' out \<noteq> JNull \<Longrightarrow>
           int_of (dget ''hitl_max_retries'' out') \<le> int_of (dget ''hitl_max_retries'' out)"
    and "dhas k out \<Longrightarrow> dhas k out'"
  using assms
  by (auto simp: override_hitl_max_retries_def and_then_Inr split: json.splits if_splits)

lemma override_hitl_retry_guidance_Inr:
  assumes "override_hitl_retry_guidance sid ref out = Inr out'"
  shows "k \<noteq> ''hitl_retry_guidance'' \<Longrightarrow> dget k out' = dget k out" and "dhas k out \<Longrightarrow> dhas k out'"
  using assms by (auto simp: override_hitl_retry_guidance_def and_then_Inr split: if_splits)

lemma tighten_int_field_Inr:
  assumes "tighten_int_field sid f n out = Inr out'"
  shows "k \<noteq> f \<Longrightarrow> dget k out' = dget k out"
    and "dhas f out \<Longrightarrow> int_of (dget f out') \<le> int_of (dget f out)"
    and "dhas k out \<Longrightarrow> dhas k out'"
  using assms by (auto simp: tighten_int_field_def Let_def field_or_def split: if_splits)

lemma override_timeout_Inr:
  assumes "override_timeout sid ref out = Inr out'"
  shows "k \<noteq> ''timeout_seconds'' \<Longrightarrow> dget k out' = dget k out"
    and "dhas ''timeout_seconds'' out \<Longrightarrow>
           int_of (dget ''timeout_seconds'' out') \<le> int_of (dget ''timeout_seconds'' out)"
    and "dhas k out \<Longrightarrow> dhas k out'"
  using assms by (auto simp: override_timeout_def dest: tighten_int_field_Inr split: json.splits)

lemma override_max_turns_Inr:
  assumes "override_max_turns sid kind ref out = Inr out'"
  shows "k \<noteq> ''max_turns'' \<Longrightarrow> dget k out' = dget k out"
    and "dhas ''max_turns'' out \<Longrightarrow>
           int_of (dget ''max_turns'' out') \<le> int_of (dget ''max_turns'' out)"
    and "dhas k out \<Longrightarrow> dhas k out'"
  using assms by (auto simp: override_max_turns_def dest: tighten_int_field_Inr split: json.splits if_splits)

lemma tighten_optional_token_cap_Inr:
  assumes "tighten_optional_token_cap sid kind f msg ref out = Inr out'"
  shows "k \<noteq> f \<Longrightarrow> dget k out' = dget k out"
    and "dget f out = JNull \<Longrightarrow> dget f out' = JNull"
    and "int_of (dget f out') \<le> int_of (dget f out)"
  using assms by (auto simp: tighten_optional_token_cap_def split: json.splits if_splits)

definition overridable :: "string list" where
  "overridable = [''hitl'', ''hitl_max_retries'', ''hitl_retry_guidance'', ''timeout_seconds'', ''max_turns'',
     ''max_step_tokens'', ''max_completion_tokens'']"

lemma overrides_tighten:
  assumes a: "apply_tighten_overrides sid cap ref kind = Inr out"
  shows "k \<notin> set overridable \<Longrightarrow> dget k out = dget k cap"
    and "truthy (dget ''hitl'' cap) \<Longrightarrow> truthy (dget ''hitl'' out)"
    and "dhas ''timeout_seconds'' cap \<Longrightarrow>
           int_of (dget ''timeout_seconds'' out) \<le> int_of (dget ''timeout_seconds'' cap)"
    and "dhas ''max_turns'' cap \<Longrightarrow> int_of (dget ''max_turns'' out) \<le> int_of (dget ''max_turns'' cap)"
    and "dget ''hitl_max_retries'' cap \<noteq> JNull \<Longrightarrow>
           int_of (dget ''hitl_max_retries'' out) \<le> int_of (dget ''hitl_max_retries'' cap)"
    and "f = ''max_step_tokens'' \<or> f = ''max_completion_tokens'' \<Longrightarrow>
           (dget f cap = JNull \<longrightarrow> dget f out = JNull) \<and> int_of (dget f out) \<le> int_of (dget f cap)"
proof -
  from a obtain o1 o2 o3 o4 o5 o6 m6 m7 where
    o: "override_hitl sid ref cap = Inr o1" "override_hitl_max_retries sid ref o1 = Inr o2"
      "override_hitl_retry_guidance sid ref o2 = Inr o3" "override_timeout sid ref o3 = Inr o4"
      "override_max_turns sid kind ref o4 = Inr o5"
    and m: "tighten_optional_token_cap sid kind ''max_step_tokens'' m6 ref o5 = Inr o6"
      "tighten_optional_token_cap sid kind ''max_completion_tokens'' m7 ref o6 = Inr out"
    unfolding apply_tighten_overrides_def and_then_Inr by (elim exE conjE) (rule that)
  note keep = override_hitl_Inr [OF o(1)] override_hitl_max_retries_Inr [OF o(2)]
    override_hitl_retry_guidance_Inr [OF o(3)] override_timeout_Inr [OF o(4)]
    override_max_turns_Inr [OF o(5)] tighten_optional_token_cap_Inr [OF m(1)]
    tighten_optional_token_cap_Inr [OF m(2)]
  show "k \<notin> set overridable \<Longrightarrow> dget k out = dget k cap"
    by (simp add: overridable_def keep)
  show "truthy (dget ''hitl'' cap) \<Longrightarrow> truthy (dget ''hitl'' out)"
    by (simp add: keep)
  show "int_of (dget ''timeout_seconds'' out) \<le> int_of (dget ''timeout_seconds'' cap)"
    if t: "dhas ''timeout_seconds'' cap"
  proof -
    from t have "dhas ''timeout_seconds'' o3" by (simp add: keep)
    then have "int_of (dget ''timeout_seconds'' o4) \<le> int_of (dget ''timeout_seconds'' o3)" by (rule keep)
    then show ?thesis by (simp add: keep)
  qed
  show "int_of (dget ''max_turns'' out) \<le> int_of (dget ''max_turns'' cap)" if t: "dhas ''max_turns'' cap"
  proof -
    from t have "dhas ''max_turns'' o4" by (simp add: keep)
    then have "int_of (dget ''max_turns'' o5) \<le> int_of (dget ''max_turns'' o4)" by (rule keep)
    then show ?thesis by (simp add: keep)
  qed
  show "int_of (dget ''hitl_max_retries'' out) \<le> int_of (dget ''hitl_max_retries'' cap)"
    if t: "dget ''hitl_max_retries'' cap \<noteq> JNull"
  proof -
    from t have "dget ''hitl_max_retries'' o1 \<noteq> JNull" by (simp add: keep)
    then have "int_of (dget ''hitl_max_retries'' o2) \<le> int_of (dget ''hitl_max_retries'' o1)" by (rule keep)
    then show ?thesis by (simp add: keep)
  qed
  show "f = ''max_step_tokens'' \<or> f = ''max_completion_tokens'' \<Longrightarrow>
          (dget f cap = JNull \<longrightarrow> dget f out = JNull) \<and> int_of (dget f out) \<le> int_of (dget f cap)"
    using tighten_optional_token_cap_Inr(3) [OF m(1)] tighten_optional_token_cap_Inr(3) [OF m(2)]
    by (auto simp: keep)
qed


section \<open>The step a reference hydrates to\<close>

lemma parse_executable_step_Inr:
  "parse_executable_step d = Inr d' \<longleftrightarrow> d' = d \<and> executable_step_errors d = []"
  by (auto simp: parse_executable_step_def split: list.splits)

lemma hydrate_step_ref_Inr:
  "hydrate_step_ref E ref b = Inr d \<longleftrightarrow> (\<exists>cap.
     validate_with_against_inputs E (stripped ''id'' ref) (with_of ref) (coerce_dict (dget ''inputs'' b)) = Inr ()
     \<and> apply_tighten_overrides (stripped ''id'' ref) (to_capability_dict b) ref (blueprint_kind b) = Inr cap
     \<and> d = hydrated_payload ref b cap \<and> executable_step_errors d = [])"
  by (auto simp: hydrate_step_ref_def and_then_Inr parse_executable_step_Inr)

lemma hydrated_payload_other:
  "k \<notin> {''id'', ''name'', ''with'', ''when''} \<Longrightarrow> dget k (hydrated_payload ref b cap) = dget k cap"
  by (simp add: hydrated_payload_def Let_def)

lemma parse_step_blueprint_Inr:
  "parse_step_blueprint j = Inr b \<Longrightarrow> j = JObj b \<and>
     (dget ''step_kind'' b = JStr ''reason'' \<and> reason_blueprint_errors b = []
      \<or> dget ''step_kind'' b = JStr ''commit'' \<and> commit_blueprint_errors b = [])"
  by (cases j) (auto simp: parse_step_blueprint_def Let_def split: if_splits)

lemma commit_blueprint_no_caps:
  "commit_blueprint_errors b = [] \<Longrightarrow> k \<notin> set blueprint_fields \<Longrightarrow> dget k b = JNull"
  by (rule forbid_extra_absent [of blueprint_fields]) (simp_all add: commit_blueprint_errors_def)

lemma capability_eval:
  "dget ''hitl'' (to_capability_dict b) = field_or ''hitl'' (JBool False) b"
  "dget ''timeout_seconds'' (to_capability_dict b) = field_or ''timeout_seconds'' (JInt 600) b"
  "dhas ''timeout_seconds'' (to_capability_dict b)"
  "dget ''hitl_max_retries'' (to_capability_dict b) = dget ''hitl_max_retries'' b"
  by (simp_all add: to_capability_dict_def shared_capability_dict_def dict_eval null_map_def)

lemma reason_capability_eval:
  assumes "dget ''step_kind'' b = JStr ''reason''"
  shows "dget ''max_step_tokens'' (to_capability_dict b) = dget ''max_step_tokens'' b"
    "dget ''max_completion_tokens'' (to_capability_dict b) = dget ''max_completion_tokens'' b"
    "dget ''max_turns'' (to_capability_dict b) = field_or ''max_turns'' (JInt 25) b"
    "dhas ''max_turns'' (to_capability_dict b)"
  using assms
  by (simp_all add: to_capability_dict_def shared_capability_dict_def blueprint_kind_def dict_eval null_map_def)

lemma commit_capability_eval:
  assumes "dget ''step_kind'' b = JStr ''commit''"
  shows "dget ''max_step_tokens'' (to_capability_dict b) = JNull"
    "dget ''max_completion_tokens'' (to_capability_dict b) = JNull"
  using assms
  by (simp_all add: to_capability_dict_def shared_capability_dict_def blueprint_kind_def dict_eval null_map_def)



definition demo_blueprint :: dict where
  "demo_blueprint = [(''step_kind'', JStr ''commit''), (''name'', JStr ''pay''), (''version'', JStr ''1''),
     (''worker'', JStr ''w''), (''worker_version'', JStr ''1''), (''timeout_seconds'', JInt 60),
     (''hitl'', JBool True), (''tools'', JObj [(''allow'', JList [JObj [(''name'', JStr ''t'')]])])]"

definition demo_ref :: dict where
  "demo_ref = [(''kind'', JStr ''use''), (''id'', JStr ''p''), (''use'', JStr ''pay''), (''version'', JStr ''1''),
     (''timeout_seconds'', JInt 30)]"

definition demo_hydrated_step :: dict where
  "demo_hydrated_step = [(''kind'', JStr ''commit''), (''worker'', JStr ''w''), (''worker_version'', JStr ''1''),
     (''timeout_seconds'', JInt 30), (''hitl'', JBool True), (''step_definition_name'', JStr ''pay''),
     (''step_definition_version'', JStr ''1''), (''inputs'', JObj []),
     (''on_failure'', JObj [(''strategy'', JStr ''auto_compensate'')]),
     (''tools'', JObj [(''allow'', JList [JObj [(''name'', JStr ''t'')]]), (''bind'', JList [])]),
     (''id'', JStr ''p''), (''name'', JStr ''pay''), (''with'', JObj [])]"

lemma demo_capability:
  "to_capability_dict demo_blueprint =
     [(''kind'', JStr ''commit''), (''worker'', JStr ''w''), (''worker_version'', JStr ''1''),
      (''timeout_seconds'', JInt 60), (''hitl'', JBool True), (''step_definition_name'', JStr ''pay''),
      (''step_definition_version'', JStr ''1''), (''inputs'', JObj []),
      (''on_failure'', JObj [(''strategy'', JStr ''auto_compensate'')]),
      (''tools'', JObj [(''allow'', JList [JObj [(''name'', JStr ''t'')]]), (''bind'', JList [])])]"
  by (simp add: demo_blueprint_def to_capability_dict_def shared_capability_dict_def blueprint_kind_def run_catalog)

lemma demo_tightened:
  "apply_tighten_overrides ''p'' (to_capability_dict demo_blueprint) demo_ref ''commit'' =
     Inr (dset ''timeout_seconds'' (JInt 30) (to_capability_dict demo_blueprint))"
  by (simp add: apply_tighten_overrides_def override_hitl_def override_hitl_max_retries_def
      override_hitl_retry_guidance_def override_timeout_def override_max_turns_def and_then_def
      tighten_optional_token_cap_def tighten_int_field_def demo_ref_def dict_eval field_or_def demo_capability)

lemmas step_checks = commit_step_errors_def step_base_errors_def base_fields_def forbid_extra_def dict_eval
  null_or_def absent_or_def with_ok_def alias_get_def tools_spec_ok_def tool_ok_def bind_keys_def
  allow_items_def tool_names_def on_failure_ok_def

lemma demo_step_ok: "executable_step_errors demo_hydrated_step = []"
  by (simp add: demo_hydrated_step_def executable_step_errors_def step_checks)

lemma demo_hydrate: "hydrate_step_ref demo_env demo_ref demo_blueprint = Inr demo_hydrated_step"
proof -
  have i: "stripped ''id'' demo_ref = ''p''" "blueprint_kind demo_blueprint = ''commit''"
      "stripped ''name'' demo_ref = []" "display_title demo_blueprint = ''pay''"
    by (simp_all add: demo_ref_def demo_blueprint_def run_catalog)
  have "validate_with_against_inputs demo_env ''p'' (with_of demo_ref) (coerce_dict (dget ''inputs'' demo_blueprint)) = Inr ()"
    by (simp add: demo_blueprint_def demo_ref_def validate_with_against_inputs_def with_of_def alias_get_def
        dict_eval required_inputs_def literal_errors_def)
  moreover have "hydrated_payload demo_ref demo_blueprint (dset ''timeout_seconds'' (JInt 30) (to_capability_dict demo_blueprint))
      = demo_hydrated_step"
    by (simp add: hydrated_payload_def i demo_capability demo_hydrated_step_def)
      (simp add: demo_ref_def dict_eval with_of_def alias_get_def dump_with_def)
  ultimately show ?thesis by (auto simp: hydrate_step_ref_Inr i demo_tightened demo_step_ok)
qed

lemma demo_blueprint_ok: "parse_step_blueprint (JObj demo_blueprint) = Inr demo_blueprint"
  by (simp add: demo_blueprint_def parse_step_blueprint_def commit_blueprint_errors_def
      blueprint_base_errors_def blueprint_fields_def step_checks field_or_def text_ok_def strip_def is_space_def)


end
