(* ===== verification/Prompts.thy ===== *)
theory Prompts imports Blueprint begin

text \<open>
  The expansion of prompt includes ends, whatever is on disk, and a prompt that was frozen has no
  include cycle.
\<close>

section \<open>The includes of a template\<close>

lemma string_token_to_path_Inr:
  "string_token_to_path E v ref = Inr p \<longleftrightarrow>
     (\<exists>x. literal_eval E v = Some (JStr x) \<and> strip x \<noteq> [] \<and> p = lstrip_slash (strip x))"
  by (cases "literal_eval E v") (auto simp: string_token_to_path_def elim: is_str.elims split: if_splits)

lemma reject_include_modifiers_Inr: "reject_include_modifiers mods ref = Inr u \<longleftrightarrow> mods = []"
  by (simp add: reject_include_modifiers_def)

lemma scan_include_block_body_Inr:
  "scan_include_block_body E ref path mods toks = Inr r \<longleftrightarrow>
   scan_include_block_body E ref' path mods toks = Inr r"
proof (induction E ref path mods toks rule: scan_include_block_body.induct)
  case (1 E ref path mods)
  then show ?case by simp
next
  case (2 E ref path mods ty v toks)
  show ?case
  proof (cases "ty = ''block_end''")
    case True
    then show ?thesis by (cases path) (simp_all add: and_then_Inr reject_include_modifiers_Inr)
  next
    case False
    with 2 show ?thesis by (simp add: and_then_Inr string_token_to_path_Inr)
  qed
qed

lemma include_block_span_Inr:
  "include_block_span E ref toks = Inr r \<longleftrightarrow> include_block_span E ref' toks = Inr r"
proof (cases toks)
  case (Cons x rest)
  obtain ty v where "x = (ty, v)" by (cases x)
  with Cons show ?thesis
    by (cases "dropWhile (\<lambda>(t, _). t = ''whitespace'') rest")
      (auto simp: include_block_span_def and_then_Inr scan_include_block_body_Inr [of E ref _ _ _ _ ref']
        simp del: dropWhile_eq_Nil_conv split: prod.splits)
qed (simp add: include_block_span_def)

lemma include_block_span_Inl:
  "include_block_span E ref toks = Inl e \<Longrightarrow> \<exists>e'. include_block_span E ref' toks = Inl e'"
  using include_block_span_Inr [of E ref toks _ ref'] by (cases "include_block_span E ref' toks") auto

lemma included_paths_template [simp]:
  "NO_MATCH [] ref \<Longrightarrow> included_paths (template_pieces E ref toks) = included_paths (template_pieces E [] toks)"
proof (induction E ref toks rule: template_pieces.induct)
  case (1 E ref)
  then show ?case by simp
next
  case (2 E ref t toks)
  show ?case
  proof (cases "include_block_span E ref (t # toks)")
    case (Inl e)
    with include_block_span_Inl [OF Inl, of "[]"] show ?thesis by auto
  next
    case (Inr r)
    from include_block_span_Inr [of E ref "t # toks" r "[]"] 2 Inr show ?thesis
      by (cases r) (auto split: prod.splits)
  qed
qed

lemma read_file_Inr: "read_file E path = Inr t \<longleftrightarrow> read_text E path = Some (Inr t)"
  by (auto simp: read_file_def split: option.split sum.split)

lemma load_prompt_content_file:
  "load_prompt_content E root ref = Inr source \<Longrightarrow> \<exists>path. (path, Inr source) \<in> set (files E)"
  by (auto simp: load_prompt_content_def and_then_Inr read_file_Inr read_text_def dest: map_of_SomeD)

lemma included_on_disk:
  assumes "load_prompt_content E root ref = Inr source"
  shows "set (included_paths (template_pieces E ref' (jinja_lex E source))) \<subseteq> set (disk_includes E)"
proof -
  from load_prompt_content_file [OF assms] obtain path where f: "(path, Inr source) \<in> set (files E)" by blast
  have "included_paths (template_pieces E ref' (jinja_lex E source))
      = included_paths (template_pieces E [] (jinja_lex E source))" by (cases ref') simp_all
  with f show ?thesis unfolding disk_includes_def by force
qed

section \<open>Termination\<close>

lemma join_pieces_defined:
  "(\<And>p. p \<in> set (included_paths ps) \<Longrightarrow> f p \<noteq> None) \<Longrightarrow> join_pieces f ps \<noteq> None"
proof (induction ps)
  case (Cons x ps)
  then show ?case by (cases x) (force split: option.splits sum.splits)+
qed simp

lemma expand_prompt_ends:
  assumes "distinct stack" "set (tl stack) \<subseteq> set (disk_includes E)"
    "stack = [] \<or> ref \<in> set (disk_includes E)"
    "length (disk_includes E) + 2 \<le> n + length stack"
  shows "expand_prompt E root n stack ref \<noteq> None"
  using assms
proof (induction n arbitrary: stack ref)
  case 0
  have "length (tl stack) = card (set (tl stack))"
    using 0 by (metis distinct_card distinct_tl)
  also have "\<dots> \<le> card (set (disk_includes E))" using 0(2) by (simp add: card_mono)
  also have "\<dots> \<le> length (disk_includes E)" by (rule card_length)
  finally have False using 0(4) by simp
  then show ?case ..
next
  case (Suc n)
  have sub: "expand_prompt E root n (stack @ [ref]) p \<noteq> None"
    if "ref \<notin> set stack" "load_prompt_content E root ref = Inr source"
      "p \<in> set (included_paths (template_pieces E ref (jinja_lex E source)))" for source p
  proof (rule Suc.IH)
    show "distinct (stack @ [ref])" using Suc.prems(1) that(1) by simp
    show "set (tl (stack @ [ref])) \<subseteq> set (disk_includes E)"
      using Suc.prems(2,3) by (cases stack) auto
    show "stack @ [ref] = [] \<or> p \<in> set (disk_includes E)"
      using included_on_disk [OF that(2)] that(3) by blast
    show "length (disk_includes E) + 2 \<le> n + length (stack @ [ref])" using Suc.prems(4) by simp
  qed
  have "join_pieces (expand_prompt E root n (stack @ [ref])) (template_pieces E ref (jinja_lex E source)) \<noteq> None"
    if "ref \<notin> set stack" "load_prompt_content E root ref = Inr source" for source
    by (rule join_pieces_defined) (rule sub [OF that])
  then show ?case by (simp del: not_None_eq split: sum.split)
qed

text \<open>C35: freezing a prompt ends: with the fuel \<open>prompt_fuel\<close>, the number of distinct paths the
  files on disk include plus two, the expansion of any prompt over any disk produces a result, a text
  or an error; cyclic includes are no exception.\<close>

theorem prompt_expansion_ends: "\<exists>r. expand_prompt E root (prompt_fuel E) [] ref = Some r"
  using expand_prompt_ends [of "[]" E ref "prompt_fuel E" root] by (auto simp: prompt_fuel_def)

section \<open>Cycles\<close>

definition prompt_includes :: "env \<Rightarrow> string \<Rightarrow> (string \<times> string) set" where
  "prompt_includes E root = {(a, b). \<exists>source nodes. load_prompt_content E root a = Inr source
     \<and> jinja_parse E source = Inr nodes \<and> nodes \<noteq> []
     \<and> b \<in> set (included_paths (template_pieces E a (jinja_lex E source)))}"

lemma join_pieces_included:
  "join_pieces f ps = Some (Inr t) \<Longrightarrow> p \<in> set (included_paths ps) \<Longrightarrow> \<exists>u. f p = Some (Inr u)"
proof (induction ps arbitrary: t)
  case (Cons x ps)
  then show ?case
    by (cases x) (auto simp: and_then_Inr split: option.splits sum.splits)
qed simp

lemma expanded_acyclic:
  assumes "expand_prompt E root n stack ref = Some (Inr t)" "(ref, b) \<in> (prompt_includes E root)\<^sup>*"
  shows "b \<notin> set stack \<and> (b, b) \<notin> (prompt_includes E root)\<^sup>+"
  using assms
proof (induction n arbitrary: stack ref t b)
  case (Suc n)
  let ?R = "prompt_includes E root"
  from Suc.prems(1) have fresh: "ref \<notin> set stack" by (auto split: if_splits)
  have sub: "b' \<notin> set (stack @ [ref]) \<and> (b', b') \<notin> ?R\<^sup>+" if "(ref, p) \<in> ?R" "(p, b') \<in> ?R\<^sup>*" for p b'
  proof -
    from that(1) obtain source nodes where s: "load_prompt_content E root ref = Inr source"
        "jinja_parse E source = Inr nodes" "nodes \<noteq> []"
        "p \<in> set (included_paths (template_pieces E ref (jinja_lex E source)))"
      by (auto simp: prompt_includes_def)
    from Suc.prems(1) fresh s(1-3) have
      "join_pieces (expand_prompt E root n (stack @ [ref])) (template_pieces E ref (jinja_lex E source)) = Some (Inr t)"
      by (auto simp: parse_prompt_ast_def split: sum.splits)
    from join_pieces_included [OF this s(4)] obtain u
      where "expand_prompt E root n (stack @ [ref]) p = Some (Inr u)" by blast
    from Suc.IH [OF this that(2)] show ?thesis .
  qed
  from Suc.prems(2) show ?case
  proof (cases rule: converse_rtranclE)
    case base
    have "(ref, ref) \<notin> ?R\<^sup>+"
    proof
      assume "(ref, ref) \<in> ?R\<^sup>+"
      then obtain p where "(ref, p) \<in> ?R" "(p, ref) \<in> ?R\<^sup>*" by (auto dest: tranclD)
      from sub [OF this] show False by simp
    qed
    with base fresh show ?thesis by simp
  next
    case (step p)
    from sub [OF step] show ?thesis by auto
  qed
qed simp

text \<open>A prompt whose freezing succeeds has no include cycle: nothing it includes, directly or
  through other files, includes itself.\<close>

theorem frozen_prompt_acyclic:
  assumes "freeze_prompt_definition E root pref = Inr t"
    "(lstrip_slash (strip pref), b) \<in> (prompt_includes E root)\<^sup>*"
  shows "(b, b) \<notin> (prompt_includes E root)\<^sup>+"
  using assms by (auto simp: freeze_prompt_definition_def dest: expanded_acyclic split: option.splits)

lemma demo_pieces:
  "template_pieces demo_env ref (jinja_lex demo_env t)
   = [Kept ''<'', Included (if t = ''MAIN'' then ''part'' else ''loop''), Kept ''>'']"
  by (simp add: demo_env_def include_block_span_def and_then_def string_token_to_path_def
      reject_include_modifiers_def lstrip_slash_def strip_def is_space_def)

lemma demo_load:
  "load_prompt_content demo_env ''r'' ''main'' = Inr ''MAIN''"
  "load_prompt_content demo_env ''r'' ''part'' = Inr ''PART''"
  by (simp_all add: load_prompt_content_def resolved_prompt_path_def resolve_prompts_root_def and_then_def
      lstrip_slash_def strip_def is_space_def unsafe_ref_def is_absolute_def starts_with_def path_parts_def
      read_file_def read_text_def demo_env_def)

lemma demo_prompt: "freeze_prompt_definition demo_env ''r'' ''/main'' = Inr ''<PART>''"
proof -
  have i: "disk_includes demo_env = [''part'', ''loop'']"
  proof -
    have "files demo_env = [(''r/main'', Inr ''MAIN''), (''r/part'', Inr ''PART''), (''r/loop'', Inr ''LOOP'')]"
      by (simp add: demo_env_def)
    then show ?thesis by (simp add: disk_includes_def demo_pieces)
  qed
  have m: "lstrip_slash (strip ''/main'') = ''main''" by (simp add: lstrip_slash_def strip_def is_space_def)
  have n: "jinja_parse demo_env t = Inr (if t = ''PART'' then []
      else [\<lparr>inc_static = True, inc_ignore_missing = False, inc_with_context = True\<rparr>])" for t
    by (simp add: demo_env_def)
  show ?thesis
    by (simp add: freeze_prompt_definition_def prompt_fuel_def i m demo_load parse_prompt_ast_def n demo_pieces
        and_then_def)
qed

theorem frozen_prompt_acyclic_witness:
  "(''main'', ''main'') \<notin> (prompt_includes demo_env ''r'')\<^sup>+"
  by (rule frozen_prompt_acyclic [OF demo_prompt])
    (simp add: lstrip_slash_def strip_def is_space_def)

end
