(* ===== verification/Frozen.thy ===== *)
theory Frozen imports Prompts begin

text \<open>
  The blueprint a start freezes, from the authoring form of the saga to the rows of
  \<open>SagaStart\<close>: its catalog steps are registered and active, and the ids of its steps are unique,
  which is what keeps their entries in the context of the saga apart.
\<close>

section \<open>The catalog\<close>

lemma map_checked_Inr:
  "map_checked f xs = Inr ys \<longleftrightarrow> length ys = length xs \<and> list_all2 (\<lambda>x y. f x = Inr y) xs ys"
  by (induction xs arbitrary: ys) (auto simp: and_then_Inr list_all2_Cons1)

lemma map_checked_source: "map_checked f xs = Inr ys \<Longrightarrow> y \<in> set ys \<Longrightarrow> \<exists>x\<in>set xs. f x = Inr y"
  by (induction xs arbitrary: ys) (auto simp: and_then_Inr)

lemma load_refs_complete:
  "load_refs E rows ns refs = Inr (ok, [], []) \<Longrightarrow> ref \<in> set refs \<Longrightarrow>
   \<exists>b. load_step_blueprint E rows ns ref = Inr b"
proof (induction refs arbitrary: ok)
  case (Cons r refs)
  then show ?case
    by (cases "load_step_blueprint E rows ns r") (auto simp: and_then_Inr split: exc.splits)
qed simp

lemma load_step_blueprint_Inr:
  assumes "load_step_blueprint E rows ns (n, v) = Inr b"
  shows "\<exists>r\<in>set rows. stdef_namespace r = ns \<and> stdef_name r = n \<and> stdef_version r = v
           \<and> stdef_is_active r \<and> parse_step_blueprint (stdef_body r) = Inr b"
  using assms
  by (auto simp: load_step_blueprint_def map_error_def dest!: rows_first_Some
      split: option.splits if_splits sum.splits)

lemma load_catalog_Inr:
  "load_catalog_for_authoring E rows ns nodes = Inr loaded \<Longrightarrow>
   load_refs E rows ns (collect_authoring_step_refs nodes) = Inr (loaded, [], [])"
  by (auto simp: load_catalog_for_authoring_def and_then_Inr Let_def split: if_splits)

lemma map_error_Inr: "map_error f r = Inr x \<longleftrightarrow> r = Inr x"
  by (cases r) (simp_all add: map_error_def)

lemma no_errors_Inr: "(case l of [] \<Rightarrow> Inr x | a # b \<Rightarrow> Inl (g a b)) = Inr y \<longleftrightarrow> l = [] \<and> x = y"
  by (cases l) auto

lemma hydrate_Inr:
  "hydrate_authoring_body_to_frozen_steps E rows body ns name version descr = Inr frozen \<longleftrightarrow>
   (\<exists>loaded steps fs.
      authoring_errors E (authoring_data_from_body body ns name version descr) = []
    \<and> load_catalog_for_authoring E rows ns
        (authoring_nodes (authoring_data_from_body body ns name version descr)) = Inr loaded
    \<and> map_checked (hydrate_authoring_node E loaded)
        (authoring_nodes (authoring_data_from_body body ns name version descr)) = Inr steps
    \<and> blueprint_wiring_errors E steps = []
    \<and> map_checked (frozen_node E) steps = Inr fs \<and> frozen = map JObj fs)"
  unfolding hydrate_authoring_body_to_frozen_steps_def parse_authoring_def and_then_Inr map_error_Inr
    hydrate_authoring_blueprint_def no_errors_Inr
  by blast

text \<open>A saga starts only from steps that are in the catalog: if hydration succeeds, every step
  name and version its authoring form uses, in a loop or not, has an active row in the namespace whose
  body is a valid step definition.\<close>

theorem hydration_needs_registered_steps:
  assumes "hydrate_authoring_body_to_frozen_steps E rows body ns name version descr = Inr frozen"
    "(n, v) \<in> set (collect_authoring_step_refs
       (authoring_nodes (authoring_data_from_body body ns name version descr)))"
  shows "\<exists>r\<in>set rows. stdef_namespace r = ns \<and> stdef_name r = n \<and> stdef_version r = v \<and> stdef_is_active r
           \<and> (\<exists>b. parse_step_blueprint (stdef_body r) = Inr b)"
proof -
  from assms(1) obtain loaded where "load_catalog_for_authoring E rows ns
      (authoring_nodes (authoring_data_from_body body ns name version descr)) = Inr loaded"
    by (auto simp: hydrate_Inr)
  from load_refs_complete [OF load_catalog_Inr [OF this] assms(2)]
  show ?thesis by (blast dest: load_step_blueprint_Inr)
qed

text \<open>The catalog with the demonstration step, and a saga of one reference to it.\<close>

definition demo_catalog :: "step_definition list" where
  "demo_catalog = [\<lparr>stdef_namespace = ''n'', stdef_name = ''pay'', stdef_version = ''1'',
     stdef_is_active = True, stdef_body = JObj demo_blueprint\<rparr>]"

definition demo_body :: dict where
  "demo_body = [(''steps'', JList [JObj demo_ref])]"

lemma demo_body_authoring:
  "authoring_data_from_body demo_body ''n'' ''saga'' ''1'' [] =
     [(''kind'', JStr ''saga''), (''name'', JStr ''saga''), (''namespace'', JStr ''n''), (''version'', JStr ''1''),
      (''description'', JStr []), (''steps'', JList [JObj demo_ref])]"
  by (simp add: authoring_data_from_body_def demo_body_def Let_def jor_def dget_def)

lemma demo_body_nodes:
  "authoring_nodes (authoring_data_from_body demo_body ''n'' ''saga'' ''1'' []) = [demo_ref]"
  by (simp add: demo_body_authoring authoring_nodes_def dict_eval inject_use_kind_def demo_ref_def)

lemma demo_ref_ok: "authoring_step_errors (JObj demo_ref) = []"
  by (simp add: authoring_step_errors_def step_ref_errors_def demo_ref_def step_checks text_ok_def
      strip_def is_space_def int_from_def)

lemma demo_ref_fields:
  "dget ''kind'' demo_ref = JStr ''use''" "stripped ''use'' demo_ref = ''pay''" "stripped ''version'' demo_ref = ''1''"
  by (simp_all add: demo_ref_def dict_eval stripped_def strip_def is_space_def)

lemma demo_body_errors:
  "authoring_errors demo_env (authoring_data_from_body demo_body ''n'' ''saga'' ''1'' []) = []"
proof -
  have "inject_use_kind [JObj demo_ref] = [JObj demo_ref]"
    by (simp add: inject_use_kind_def demo_ref_def dhas_def)
  moreover have "blueprint_wiring_errors demo_env [demo_ref] = []"
    by (simp add: blueprint_wiring_errors_def unique_ids_ok_def iter_executable_step_ids_def iter_loop_ids_def
        is_loop_node_def demo_ref_fields spawn_join_wiring_ok_def join_targets_def)
  ultimately show ?thesis
    by (simp add: authoring_errors_def demo_body_authoring dict_eval field_or_def absent_or_def authoring_nodes_def
        demo_ref_ok)
qed

lemma demo_body_refs: "collect_authoring_step_refs [demo_ref] = [(''pay'', ''1'')]"
  by (simp add: collect_authoring_step_refs_def demo_ref_fields)

lemma demo_load_catalog:
  "load_catalog_for_authoring demo_env demo_catalog ''n'' [demo_ref] = Inr [((''pay'', ''1''), demo_blueprint)]"
  by (simp add: load_catalog_for_authoring_def demo_body_refs load_step_blueprint_def demo_catalog_def
      demo_blueprint_ok map_error_def and_then_def)

lemma demo_node_hydrates:
  "hydrate_authoring_node demo_env [((''pay'', ''1''), demo_blueprint)] demo_ref = Inr demo_hydrated_step"
  by (simp add: hydrate_authoring_node_def demo_ref_fields resolve_step_def demo_hydrate)

lemma demo_wiring: "blueprint_wiring_errors demo_env [demo_hydrated_step] = []"
  by (simp add: demo_hydrated_step_def blueprint_wiring_errors_def unique_ids_ok_def iter_executable_step_ids_def
      iter_loop_ids_def is_loop_node_def dict_eval spawn_join_wiring_ok_def join_targets_def)

lemma demo_body_hydrates:
  "\<exists>frozen. hydrate_authoring_body_to_frozen_steps demo_env demo_catalog demo_body ''n'' ''saga'' ''1'' [] = Inr frozen"
proof -
  obtain f where "frozen_node demo_env demo_hydrated_step = Inr f"
    by (simp add: frozen_node_def frozen_worker_step_def embed_resolved_assets_on_step_dict_def is_worker_node_def
        is_loop_node_def embed_worker_assets_def load_compensation_definition_def load_output_schema_def
        blank_ref_def stripped_def and_then_def demo_hydrated_step_def dict_eval)
  then show ?thesis
    by (auto simp: hydrate_Inr demo_body_errors demo_body_nodes demo_load_catalog demo_node_hydrates demo_wiring
        and_then_def)
qed

theorem hydration_needs_registered_steps_witness:
  "\<exists>r\<in>set demo_catalog. stdef_namespace r = ''n'' \<and> stdef_name r = ''pay'' \<and> stdef_version r = ''1''
     \<and> stdef_is_active r \<and> (\<exists>b. parse_step_blueprint (stdef_body r) = Inr b)"
proof -
  obtain frozen where
    "hydrate_authoring_body_to_frozen_steps demo_env demo_catalog demo_body ''n'' ''saga'' ''1'' [] = Inr frozen"
    using demo_body_hydrates by blast
  from hydration_needs_registered_steps [OF this, of "''pay''" "''1''"] show ?thesis
    by (simp add: demo_body_nodes demo_body_refs)
qed

section \<open>Ids\<close>

lemma executable_step_ok:
  assumes "executable_step_errors d = []"
  shows "is_str (dget ''id'' d)"
    "dget ''kind'' d \<in> {JStr ''reason'', JStr ''commit'', JStr ''spawn_sagas'', JStr ''join_sagas''}"
  using assms
  by (auto simp: executable_step_errors_def reason_step_errors_def commit_step_errors_def
      step_base_errors_def native_base_errors_def split: if_splits)

lemma distinct_drop_none: "distinct (map fst d) \<Longrightarrow> dget k (drop_none d) = dget k d"
proof (induction d)
  case (Cons p d)
  obtain k' v where p: "p = (k', v)" by (cases p)
  have "k' \<notin> fst ` set d" using Cons.prems p by simp
  then have "dget k' d = JNull" by (intro dget_absent) (simp add: dhas_def)
  with Cons p show ?case by (auto simp: dict_eval)
qed (simp add: drop_none_Nil)

lemma set_dict_if_other: "k \<noteq> key \<Longrightarrow> dget k (set_dict_if key v out) = dget k out"
  by (simp add: set_dict_if_def split: option.split list.split)

lemma embed_reason_keeps:
  assumes "embed_reason_prompt_and_skills E d out = Inr r"
    "k \<notin> {''prompt_definition'', ''skills_definition''}"
  shows "dget k r = dget k out"
  using assms
  by (auto simp: embed_reason_prompt_and_skills_def and_then_Inr freeze_prompt_onto_step_dict_def Let_def
      split: if_splits)

lemma embed_worker_assets_keeps:
  assumes "embed_worker_assets E d out = Inr r"
    "k \<notin> {''prompt_definition'', ''skills_definition'', ''compensation_definition'', ''policy_definition'',
             ''output_schema_definition''}"
  shows "dget k r = dget k out"
proof -
  from assms(1) obtain comp o2 schema where
    o2: "(if stripped ''policy'' d = [] then Inr (set_dict_if ''compensation_definition'' comp out)
          else and_then (load_policy_artifact E (stripped ''policy'' d))
             (\<lambda>a. Inr (dset ''policy_definition'' (policy_artifact_dict a)
                         (set_dict_if ''compensation_definition'' comp out)))) = Inr o2"
    and r: "(if dget ''kind'' d = JStr ''reason''
             then embed_reason_prompt_and_skills E d (set_dict_if ''output_schema_definition'' schema o2)
             else Inr (set_dict_if ''output_schema_definition'' schema o2)) = Inr r"
    unfolding embed_worker_assets_def and_then_Inr Let_def by blast
  have "dget k o2 = dget k out"
    using o2 assms(2) by (auto simp: and_then_Inr set_dict_if_other split: if_splits)
  with r assms(2) embed_reason_keeps [of E d "set_dict_if ''output_schema_definition'' schema o2" r k]
  show ?thesis by (auto simp: set_dict_if_other split: if_splits)
qed

lemma dump_step_keeps:
  "dget ''id'' (dump_worker_step d) = dget ''id'' d" "dget ''kind'' (dump_worker_step d) = dget ''kind'' d"
  "dget ''id'' (dump_native_step d) = dget ''id'' d" "dget ''kind'' (dump_native_step d) = dget ''kind'' d"
  by (simp_all add: dump_worker_step_def dump_native_step_def dump_base_step_def distinct_drop_none
      dget_append dget_Cons dget_Nil dhas_append dhas_Cons dhas_Nil)

lemma frozen_worker_step_keeps:
  "frozen_worker_step E d = Inr f \<Longrightarrow> k = ''id'' \<or> k = ''kind'' \<Longrightarrow> dget k f = dget k d"
  using embed_worker_assets_keeps [of E d "dump_worker_step d" f k]
  by (auto simp: frozen_worker_step_def embed_resolved_assets_on_step_dict_def dump_step_keeps
      split: if_splits sum.splits)

definition shell_id :: "json \<Rightarrow> string list" where
  "shell_id j = (case j of
     JObj s \<Rightarrow> (if truthy (dget ''id'' s) then [py_str (dget ''id'' s)] else []) | _ \<Rightarrow> [])"

lemma shell_id_frozen:
  assumes "frozen_worker_step E w = Inr b" "executable_step_errors w = []"
  shows "shell_id (JObj b) = filter (\<lambda>i. i \<noteq> []) [node_id w]"
proof -
  from executable_step_ok [OF assms(2)] obtain s where s: "dget ''id'' w = JStr s"
    by (cases "dget ''id'' w") auto
  with executable_step_ok(2) [OF assms(2)] frozen_worker_step_keeps [OF assms(1), of "''id''"] show ?thesis
    by (auto simp: shell_id_def node_id_def py_str_def)
qed

lemma shell_ids_body:
  "list_all2 (\<lambda>w b. frozen_worker_step E w = Inr b) ws bs \<Longrightarrow> list_all (\<lambda>w. executable_step_errors w = []) ws \<Longrightarrow>
   concat (map shell_id (map JObj bs)) = filter (\<lambda>i. i \<noteq> []) (map node_id ws)"
  by (induction rule: list_all2_induct) (auto simp del: map_map simp: shell_id_frozen)

text \<open>The steps the engine will dispatch, of one node.\<close>

definition node_ok :: "dict \<Rightarrow> bool" where
  "node_ok d \<longleftrightarrow> (if is_loop_node d then list_all (\<lambda>w. executable_step_errors w = []) (loop_refs d)
                 else executable_step_errors d = [])"

lemma shell_ids_node:
  assumes "frozen_node E d = Inr f" "node_ok d"
  shows "executable_shell_ids [JObj f] = filter (\<lambda>i. i \<noteq> []) (iter_executable_step_ids [d])"
proof (cases "is_loop_node d")
  case True
  with assms(1) obtain body where b: "map_checked (frozen_worker_step E) (loop_refs d) = Inr body"
    and f: "f = drop_none [(''kind'', JStr ''loop''), (''id'', JStr (stripped ''id'' d)),
          (''name'', dget ''name'' d), (''max_iterations'', dget ''max_iterations'' d),
          (''until'', dump_when (dget ''until'' d)), (''steps'', JList (map JObj body))]"
    by (auto simp: frozen_node_def and_then_Inr)
  have "dget ''kind'' f = JStr ''loop''" "dget ''steps'' f = JList (map JObj body)"
    by (simp_all add: f distinct_drop_none dict_eval)
  then have "executable_shell_ids [JObj f] = concat (map shell_id (map JObj body))"
    by (simp add: executable_shell_ids_def shell_id_def [abs_def])
  with shell_ids_body [of E "loop_refs d" body] b assms(2) True show ?thesis
    by (simp add: map_checked_Inr node_ok_def iter_executable_step_ids_def)
next
  case False
  then have w: "frozen_worker_step E d = Inr f" and e: "executable_step_errors d = []"
    using assms by (auto simp: frozen_node_def node_ok_def)
  have "dget ''kind'' f \<noteq> JStr ''loop''"
    using frozen_worker_step_keeps [OF w, of "''kind''"] executable_step_ok(2) [OF e] by auto
  then have "executable_shell_ids [JObj f] = shell_id (JObj f)"
    by (simp add: executable_shell_ids_def shell_id_def)
  with shell_id_frozen [OF w e] False show ?thesis by (simp add: iter_executable_step_ids_def)
qed

lemma shell_ids_nodes:
  "list_all2 (\<lambda>d f. frozen_node E d = Inr f) ds fs \<Longrightarrow> list_all node_ok ds \<Longrightarrow>
   executable_shell_ids (map JObj fs) = filter (\<lambda>i. i \<noteq> []) (iter_executable_step_ids ds)"
proof (induction rule: list_all2_induct)
  case (Cons d ds f fs)
  have "executable_shell_ids (map JObj (f # fs)) = executable_shell_ids [JObj f] @ executable_shell_ids (map JObj fs)"
    by (simp add: executable_shell_ids_def)
  with Cons shell_ids_node [of E d f] show ?case by (simp add: iter_executable_step_ids_def)
qed (simp add: executable_shell_ids_def iter_executable_step_ids_def)

lemma inject_use_kind_id: "list_all (dhas ''kind'') ds \<Longrightarrow> inject_use_kind (map JObj ds) = map JObj ds"
  by (induction ds) (auto simp: inject_use_kind_def)

lemma hydrated_step_ok:
  "hydrate_step_ref E ref b = Inr d \<Longrightarrow> executable_step_errors d = [] \<and> dhas ''kind'' d"
proof -
  assume "hydrate_step_ref E ref b = Inr d"
  then have e: "executable_step_errors d = []" by (auto simp: hydrate_step_ref_Inr)
  with executable_step_ok(2) [OF e] dget_absent [of "''kind''" d] show ?thesis
    by (cases "dhas ''kind'' d") auto
qed

lemma hydrated_node_ok:
  assumes "hydrate_authoring_node E loaded node = Inr d" "authoring_step_errors (JObj node) = []"
  shows "node_ok d"
proof (cases "dget ''kind'' node = JStr ''use''")
  case True
  with assms(1) have h: "hydrate_step_ref E node (resolve_step loaded node) = Inr d"
    by (simp add: hydrate_authoring_node_def)
  from hydrated_step_ok [OF this] executable_step_ok(2) [of d] show ?thesis
    by (auto simp: node_ok_def is_loop_node_def)
next
  case False
  show ?thesis
  proof (cases "is_loop_node node")
    case True
    with False assms(1) obtain body where
      b: "map_checked (\<lambda>r. hydrate_step_ref E r (resolve_step loaded r)) (loop_refs node) = Inr body"
      and d: "d = [(''kind'', JStr ''loop''), (''id'', JStr (stripped ''id'' node)), (''name'', dget ''name'' node),
             (''max_iterations'', dget ''max_iterations'' node), (''until'', dump_when (dget ''until'' node)),
             (''steps'', JList (map JObj body))]"
      by (auto simp: hydrate_authoring_node_def and_then_Inr)
    have ok: "\<forall>w\<in>set body. executable_step_errors w = [] \<and> dhas ''kind'' w"
      using map_checked_source [OF b] hydrated_step_ok by blast
    then have "loop_refs d = body"
      by (simp add: loop_refs_def d dict_eval inject_use_kind_id list_all_iff comp_def)
    with ok show ?thesis by (simp add: node_ok_def d is_loop_node_def dict_eval list_all_iff)
  next
    case False
    with \<open>dget ''kind'' node \<noteq> JStr ''use''\<close> assms(1) have d: "d = node"
      by (simp add: hydrate_authoring_node_def)
    have "authoring_step_errors (JObj node) = (if dget ''kind'' node = JStr ''spawn_sagas''
        \<or> dget ''kind'' node = JStr ''join_sagas'' then executable_step_errors node else [''steps.kind''])"
      using False \<open>dget ''kind'' node \<noteq> JStr ''use''\<close> by (simp add: authoring_step_errors_def is_loop_node_def)
    with assms(2) False d show ?thesis by (simp add: node_ok_def split: if_splits)
  qed
qed

text \<open>The steps of a frozen blueprint have different ids, loop bodies included, so each has its
  own entry in the context of the saga.\<close>

theorem frozen_ids_unique:
  assumes "hydrate_authoring_body_to_frozen_steps E rows body ns name version descr = Inr frozen"
  shows "distinct (executable_shell_ids frozen)"
proof -
  let ?a = "authoring_data_from_body body ns name version descr"
  from assms obtain loaded steps fs where
    a: "authoring_errors E ?a = []"
    and s: "list_all2 (\<lambda>n d. hydrate_authoring_node E loaded n = Inr d) (authoring_nodes ?a) steps"
    and w: "blueprint_wiring_errors E steps = []"
    and f: "list_all2 (\<lambda>d f. frozen_node E d = Inr f) steps fs" and frozen: "frozen = map JObj fs"
    by (auto simp: hydrate_Inr map_checked_Inr)
  have nodes: "\<forall>n\<in>set (authoring_nodes ?a). authoring_step_errors (JObj n) = []"
  proof
    fix n
    assume "n \<in> set (authoring_nodes ?a)"
    then obtain j where j: "j \<in> set (inject_use_kind (list_of (dget ''steps'' ?a)))" "n = coerce_dict j"
      by (auto simp: authoring_nodes_def)
    with a have e: "authoring_step_errors j = []" by (auto simp: authoring_errors_def)
    then have "j = JObj n" using j(2) by (cases j) (auto simp: authoring_step_errors_def)
    with e show "authoring_step_errors (JObj n) = []" by simp
  qed
  have "list_all node_ok steps"
    unfolding list_all_length
  proof (intro allI impI)
    fix i
    assume i: "i < length steps"
    with s have "hydrate_authoring_node E loaded (authoring_nodes ?a ! i) = Inr (steps ! i)"
      "authoring_nodes ?a ! i \<in> set (authoring_nodes ?a)" by (auto simp: list_all2_conv_all_nth)
    with nodes show "node_ok (steps ! i)" by (blast intro: hydrated_node_ok)
  qed
  from shell_ids_nodes [OF f this] w show ?thesis
    by (simp add: frozen blueprint_wiring_errors_def unique_ids_ok_def)
qed

theorem frozen_ids_unique_witness: "distinct (executable_shell_ids [JObj demo_frozen_node])"
  by (rule frozen_ids_unique [OF demo_hydrated])

end
