(* ===== verification/Catalog.thy ===== *)
theory Catalog imports Frozen begin

text \<open>
  The guarantees of the registry: a deployed version never changes, a dry run predicts the deploy,
  and a deployed saga has everything it depends on.
\<close>

section \<open>Versions are immutable\<close>

lemma rows_first_map:
  "(\<And>r. P (f r) = P r) \<Longrightarrow> rows_first P (map f t) = map_option f (rows_first P t)"
  by (induction t) auto

lemma rows_first_prefix:
  assumes "prefix (map f a) (map f b)" "\<And>r. P (f r) = P r" "rows_first P a = Some r"
  shows "\<exists>r'. rows_first P b = Some r' \<and> f r' = f r"
proof -
  from assms(1) obtain zs where "map f b = map f a @ zs" by (auto simp: prefix_def)
  then have "map_option f (rows_first P b) = rows_first P (map f a @ zs)"
    by (metis rows_first_map assms(2))
  also have "\<dots> = Some (f r)" by (simp add: table_simps rows_first_map assms(2,3))
  finally show ?thesis by auto
qed

definition find_worker :: "string \<Rightarrow> string \<Rightarrow> string \<Rightarrow> db \<Rightarrow> worker_row option" where
  "find_worker ns name version db = rows_first
     (\<lambda>w. wdef_namespace w = ns \<and> wdef_name w = name \<and> wdef_version w = version) (db_worker_defs db)"

text \<open>C36: a deployed worker or step version is immutable: whatever requests follow, registrations and
  activations included, its name and version keep finding a row with the very body that was deployed.\<close>

theorem deployed_versions_immutable:
  assumes "reachable E db db'"
  shows "(\<forall>w. find_worker ns name version db = Some w \<longrightarrow>
            (\<exists>w'. find_worker ns name version db' = Some w' \<and> wdef_body w' = wdef_body w))
       \<and> (\<forall>r. find_step_definition ns name version db = Some r \<longrightarrow>
            (\<exists>r'. find_step_definition ns name version db' = Some r' \<and> stdef_body r' = stdef_body r))"
proof -
  have kept: "catalog_kept db db'" using assms by (rule catalog.reachable_keeps)
  have body: "wdef_body (worker_frozen w) = wdef_body w" "stdef_body (step_definition_frozen r) = stdef_body r" for w r
    by (simp_all add: worker_frozen_def step_definition_frozen_def)
  show ?thesis
  proof (intro conjI allI impI)
    fix w assume w: "find_worker ns name version db = Some w"
    from kept have "prefix (map worker_frozen (db_worker_defs db)) (map worker_frozen (db_worker_defs db'))"
      by (simp add: catalog_kept_def)
    from rows_first_prefix [OF this _ w [unfolded find_worker_def]]
    obtain w' where "find_worker ns name version db' = Some w'" "worker_frozen w' = worker_frozen w"
      by (auto simp: worker_frozen_def find_worker_def)
    then show "\<exists>w'. find_worker ns name version db' = Some w' \<and> wdef_body w' = wdef_body w"
      using body(1) by metis
  next
    fix r assume r: "find_step_definition ns name version db = Some r"
    from kept have "prefix (map step_definition_frozen (db_step_defs db)) (map step_definition_frozen (db_step_defs db'))"
      by (simp add: catalog_kept_def)
    from rows_first_prefix [OF this _ r [unfolded find_step_definition_def]]
    obtain r' where "find_step_definition ns name version db' = Some r'"
        "step_definition_frozen r' = step_definition_frozen r"
      by (auto simp: step_definition_frozen_def find_step_definition_def)
    then show "\<exists>r'. find_step_definition ns name version db' = Some r' \<and> stdef_body r' = stdef_body r"
      using body(2) by metis
  qed
qed

section \<open>A dry run predicts the deploy\<close>

definition reads_only :: "'a M \<Rightarrow> bool" where
  "reads_only m \<longleftrightarrow> (\<forall>db. snd (m db) = db)"

definition is_immutable_error :: "exc \<Rightarrow> bool" where
  "is_immutable_error e \<longleftrightarrow> (\<exists>kind name version. e = immutable_version_error kind name version)"

text \<open>What is expected of the result \<open>r'\<close> of a run where another one gave \<open>r\<close>: the
  same failure, or success, or the failure of an immutable version, without a change.\<close>

definition foretold :: "db \<Rightarrow> (exc + 'a) \<times> db \<Rightarrow> (exc + 'a) \<times> db \<Rightarrow> bool" where
  "foretold db r r' \<longleftrightarrow> snd r = db \<and>
     (case fst r of
        Inl e \<Rightarrow> r' = (Inl e, db)
      | Inr x \<Rightarrow> (\<exists>y. fst r' = Inr y) \<or> (\<exists>e. is_immutable_error e \<and> r' = (Inl e, db)))"

definition predicts :: "'a M \<Rightarrow> 'a M \<Rightarrow> bool" where
  "predicts a b \<longleftrightarrow> (\<forall>db. foretold db (a db) (b db))"

lemma predicts_raise: "predicts (raise e) (raise e)"
  by (simp add: predicts_def foretold_def monad_simps)

lemma predicts_bind_of_sum:
  "(\<And>x. predicts (f x) (g x)) \<Longrightarrow> predicts (bind (of_sum r) f) (bind (of_sum r) g)"
  by (cases r) (simp_all add: predicts_def foretold_def bind_def of_sum_def raise_def return_def)

lemma predicts_bind_gets:
  "(\<And>x. predicts (f x) (g x)) \<Longrightarrow> predicts (bind (gets h) f) (bind (gets h) g)"
  by (simp add: predicts_def bind_def gets_def)

lemma predicts_seq:
  assumes "reads_only m" "predicts a b"
  shows "predicts (seq m a) (seq m b)"
  unfolding predicts_def
proof
  fix db
  from assms(1) have "snd (m db) = db" by (simp add: reads_only_def)
  then obtain r where "m db = (r, db)" by (cases "m db") simp
  with assms(2) show "foretold db (seq m a db) (seq m b db)"
    by (cases r) (simp_all add: seq_def bind_def predicts_def foretold_def)
qed

definition creates :: "unit M \<Rightarrow> bool" where
  "creates m \<longleftrightarrow> (\<forall>db. (\<exists>db'. m db = (Inr (), db')) \<or> (\<exists>e. is_immutable_error e \<and> m db = (Inl e, db)))"

lemma predicts_deploy:
  assumes "creates create"
  shows "predicts (deploy True create kind ns name version label) (deploy False create kind ns name version label)"
  unfolding predicts_def
proof
  fix db
  from assms consider db' where "create db = (Inr (), db')"
    | e where "is_immutable_error e" "create db = (Inl e, db)"
    unfolding creates_def by blast
  then show "foretold db (deploy True create kind ns name version label db)
      (deploy False create kind ns name version label db)"
    by cases (simp_all add: deploy_def in_transaction_def hook_def monad_simps foretold_def)
qed

lemma reads_only_of_sum: "reads_only (bind (gets h) (\<lambda>x. of_sum (f x)))"
  by (simp add: reads_only_def monad_simps split: sum.split)

lemma reads_only_worker: "reads_only (assert_step_worker_registered ns b)"
  by (simp add: reads_only_def assert_step_worker_registered_def monad_simps Let_def split: option.split)

lemma upsert_succeeds: "\<exists>db'. upsert_saga_definition E ns name version body db = (Inr (), db')"
  by (auto simp: upsert_saga_definition_def uuid4_hex_def monad_simps)

lemma creates_definitions:
  "creates (create_worker_definition ns name version body)"
  "creates (create_step_definition ns name version body)"
  "creates (upsert_saga_definition E ns name version body)"
  using upsert_succeeds
  by (auto simp: creates_def is_immutable_error_def create_worker_definition_def create_step_definition_def
      monad_simps)

lemma register_worker_predicts: "predicts (register_worker E d True) (register_worker E d False)"
  unfolding register_worker_def Let_def
  by (auto intro: predicts_deploy creates_definitions predicts_raise split: list.split)

lemma register_step_predicts: "predicts (register_step E d True) (register_step E d False)"
  unfolding register_step_def Let_def
  by (intro predicts_bind_of_sum predicts_seq reads_only_worker predicts_deploy creates_definitions)

lemma register_saga_predicts: "predicts (register_saga E d True) (register_saga E d False)"
  unfolding register_saga_def Let_def assert_saga_workers_registered_def assert_child_saga_definitions_registered_def
  by (intro predicts_bind_of_sum predicts_bind_gets predicts_seq reads_only_of_sum predicts_deploy
      creates_definitions)

text \<open>C37: a dry run predicts the deploy of the same manifest: it changes nothing, it fails exactly as
  the deploy would, and where it accepts the manifest the deploy succeeds or is refused because that
  version of the worker or step exists, and then changes nothing either.\<close>

theorem dry_run_agrees:
  "snd (register_manifest_from_dict E data True db) = db
   \<and> (case fst (register_manifest_from_dict E data True db) of
        Inl e \<Rightarrow> register_manifest_from_dict E data False db = (Inl e, db)
      | Inr m \<Rightarrow> (\<exists>m'. fst (register_manifest_from_dict E data False db) = Inr m')
          \<or> (\<exists>e. is_immutable_error e \<and> register_manifest_from_dict E data False db = (Inl e, db)))"
proof -
  have "predicts (register_manifest_from_dict E data True) (register_manifest_from_dict E data False)"
    unfolding register_manifest_from_dict_def
    by (cases data) (simp_all add: register_worker_predicts register_step_predicts register_saga_predicts predicts_raise)
  then show ?thesis unfolding predicts_def foretold_def by blast
qed

section \<open>Dependencies of a deployed saga\<close>

definition worker_steps :: "dict list \<Rightarrow> dict list" where
  "worker_steps steps = concat (map (\<lambda>d.
     if is_loop_node d then loop_refs d else if is_worker_node d then [d] else []) steps)"

definition step_worker :: "dict \<Rightarrow> identity" where
  "step_worker d = (str_of (dget ''worker'' d), str_of (dget ''worker_version'' d))"

lemma step_workers_Inr:
  assumes "step_workers E i d = Inr ws"
  shows "step_worker d \<in> set ws"
    and "load_compensation_definition E (str_opt (dget ''compensation'' d)) = Inr (Some (e # es)) \<Longrightarrow>
      resolve_worker_from_compensation (e # es) (fst (step_worker d)) (snd (step_worker d)) \<in> set ws"
proof -
  from assms obtain cd where cd: "validate_one_saga_step_at_registration E i d = Inr cd"
    and ws: "(case cd of Some (e # es) \<Rightarrow>
        Inr [step_worker d, resolve_worker_from_compensation (e # es) (fst (step_worker d)) (snd (step_worker d))]
      | _ \<Rightarrow> Inr [step_worker d]) = (Inr ws :: exc + identity list)"
    unfolding step_workers_def Let_def and_then_Inr step_worker_def fst_conv snd_conv by blast
  from ws show "step_worker d \<in> set ws" by (auto split: option.splits list.splits)
  assume "load_compensation_definition E (str_opt (dget ''compensation'' d)) = Inr (Some (e # es))"
  with cd have "cd = Some (e # es)"
    by (auto simp: validate_one_saga_step_at_registration_def validate_step_files_def Let_def and_then_Inr
        split: sum.splits)
  with ws show "resolve_worker_from_compensation (e # es) (fst (step_worker d)) (snd (step_worker d)) \<in> set ws"
    by auto
qed

lemma indexed_workers_Inr:
  "indexed_workers E label n ds = Inr ws \<Longrightarrow> d \<in> set ds \<Longrightarrow>
   \<exists>i vs. step_workers E i d = Inr vs \<and> set vs \<subseteq> set ws"
  by (induction E label n ds arbitrary: ws rule: indexed_workers.induct) (fastforce simp: and_then_Inr)+

lemma collected_workers:
  "collect_saga_registration_workers E i ds = Inr ws \<Longrightarrow> d \<in> set (worker_steps ds) \<Longrightarrow>
   \<exists>i vs. step_workers E i d = Inr vs \<and> set vs \<subseteq> set ws"
proof (induction E i ds arbitrary: ws rule: collect_saga_registration_workers.induct)
  case (2 E i n ns)
  then obtain us vs where n: "node_workers E i n = Inr us"
    and ns: "collect_saga_registration_workers E (Suc i) ns = Inr vs" and ws: "ws = us @ vs"
    by (auto simp: and_then_Inr)
  from 2 have "d \<in> set (worker_steps [n]) \<or> d \<in> set (worker_steps ns)" by (auto simp: worker_steps_def)
  then show ?case
  proof
    assume "d \<in> set (worker_steps ns)"
    from "2.IH" [OF ns this] ws show ?thesis by auto
  next
    assume "d \<in> set (worker_steps [n])"
    with n ws show ?thesis
      by (auto simp: node_workers_def worker_steps_def Let_def and_then_Inr split: if_splits
          dest!: indexed_workers_Inr)
  qed
qed (simp add: worker_steps_def)

lemma require_dependencies_Inr:
  assumes "require_dependencies kind ns active ids = Inr u" "i \<in> set ids"
  shows "active i = Some True"
proof -
  from assms have "active i \<noteq> None" "active i \<noteq> Some False"
    by (auto simp: require_dependencies_def Let_def filter_empty_conv split: if_splits)
  then show ?thesis by (cases "active i") auto
qed

lemma bind_Inr: "bind m k db = (Inr y, db') \<longleftrightarrow> (\<exists>x db1. m db = (Inr x, db1) \<and> k x db1 = (Inr y, db'))"
  by (auto simp: bind_def split: prod.split sum.split)

lemma of_sum_Inr: "of_sum r db = (Inr x, db') \<longleftrightarrow> r = Inr x \<and> db' = db"
  by (cases r) (auto simp: of_sum_def return_def raise_def)

text \<open>C38: a saga is deployed, or passes a dry run, only with everything it needs in the catalog: the
  steps it uses link, the worker of each of them, of a loop body or of a compensation included, is
  registered and active, and so is every saga it spawns.\<close>

theorem deploy_needs_dependencies:
  assumes "register_saga E d dry_run db = (Inr m, db')"
  shows "\<exists>a steps. parse_authoring E d = Inr a
    \<and> link_check E (db_step_defs db) (str_of (field_or ''namespace'' (JStr ''default'') a)) a = Inr steps
    \<and> (\<forall>s\<in>set (worker_steps steps).
         worker_active (str_of (field_or ''namespace'' (JStr ''default'') a)) db (step_worker s) = Some True
       \<and> (\<forall>e es. load_compensation_definition E (str_opt (dget ''compensation'' s)) = Inr (Some (e # es)) \<longrightarrow>
            worker_active (str_of (field_or ''namespace'' (JStr ''default'') a)) db
              (resolve_worker_from_compensation (e # es) (fst (step_worker s)) (snd (step_worker s))) = Some True))
    \<and> (\<forall>c\<in>set (spawned_children steps).
         saga_active (str_of (field_or ''namespace'' (JStr ''default'') a)) db c = Some True)"
proof -
  from assms obtain a steps ws where parsed: "parse_authoring E d = Inr a"
    and link: "link_check E (db_step_defs db) (str_of (field_or ''namespace'' (JStr ''default'') a)) a = Inr steps"
    and ws: "collect_saga_registration_workers E 0 steps = Inr ws"
    and workers: "require_dependencies ''worker'' (str_of (field_or ''namespace'' (JStr ''default'') a))
        (worker_active (str_of (field_or ''namespace'' (JStr ''default'') a)) db) (sort_identities ws) = Inr ()"
    and children: "require_dependencies ''saga'' (str_of (field_or ''namespace'' (JStr ''default'') a))
        (saga_active (str_of (field_or ''namespace'' (JStr ''default'') a)) db)
        (sort_by_label (spawned_children steps)) = Inr ()"
    unfolding register_saga_def Let_def seq_def assert_saga_workers_registered_def
      assert_child_saga_definitions_registered_def
    by (auto simp: bind_Inr of_sum_Inr gets_def)
  have active: "i \<in> set ws \<Longrightarrow>
      worker_active (str_of (field_or ''namespace'' (JStr ''default'') a)) db i = Some True" for i
    by (rule require_dependencies_Inr [OF workers]) (simp add: sort_identities_def)
  have spawned: "c \<in> set (spawned_children steps) \<Longrightarrow>
      saga_active (str_of (field_or ''namespace'' (JStr ''default'') a)) db c = Some True" for c
    by (rule require_dependencies_Inr [OF children]) (simp add: sort_by_label_def)
  have needs: "step_worker s \<in> set ws" "load_compensation_definition E (str_opt (dget ''compensation'' s))
        = Inr (Some (e # es)) \<Longrightarrow>
      resolve_worker_from_compensation (e # es) (fst (step_worker s)) (snd (step_worker s)) \<in> set ws"
    if s: "s \<in> set (worker_steps steps)" for s e es
  proof -
    obtain i vs where "step_workers E i s = Inr vs" "set vs \<subseteq> set ws"
      using collected_workers [OF ws s] by blast
    then show "step_worker s \<in> set ws" "load_compensation_definition E (str_opt (dget ''compensation'' s))
        = Inr (Some (e # es)) \<Longrightarrow>
      resolve_worker_from_compensation (e # es) (fst (step_worker s)) (snd (step_worker s)) \<in> set ws"
      using step_workers_Inr by blast+
  qed
  show ?thesis
    by (rule exI [of _ a], rule exI [of _ steps]) (blast intro: parsed link active spawned needs)
qed

text \<open>The manifest of a saga of one step, on the catalog that has the step and its worker.\<close>

definition demo_manifest :: dict where
  "demo_manifest = authoring_data_from_body demo_body ''n'' ''saga'' ''1'' []"

definition demo_catalog_db :: db where
  "demo_catalog_db = empty_db\<lparr>db_step_defs := demo_catalog,
     db_worker_defs := [\<lparr>wdef_namespace = ''n'', wdef_name = ''w'', wdef_version = ''1'', wdef_is_active = True,
       wdef_body = JObj []\<rparr>]\<rparr>"

lemma demo_manifest_parses: "parse_authoring demo_env demo_manifest = Inr demo_manifest"
  by (simp add: parse_authoring_def demo_manifest_def demo_body_errors)

lemma demo_manifest_namespace: "str_of (field_or ''namespace'' (JStr ''default'') demo_manifest) = ''n''"
  by (simp add: demo_manifest_def demo_body_authoring field_or_def dict_eval)

lemma demo_manifest_links: "link_check demo_env demo_catalog ''n'' demo_manifest = Inr [demo_hydrated_step]"
  unfolding link_check_def demo_manifest_def demo_body_nodes hydrate_authoring_blueprint_def
  by (simp add: demo_load_catalog demo_node_hydrates demo_wiring and_then_def map_error_def)

lemma demo_step_workers: "collect_saga_registration_workers demo_env 0 [demo_hydrated_step] = Inr [(''w'', ''1'')]"
  by (simp add: node_workers_def step_workers_def is_loop_node_def is_worker_node_def demo_hydrated_step_def
      dict_eval validate_one_saga_step_at_registration_def validate_step_files_def load_output_schema_def
      load_compensation_definition_def blank_ref_def and_then_def validate_step_policy_def stripped_def
      validate_when_def)

lemma demo_catalog_db_reads:
  "db_step_defs demo_catalog_db = demo_catalog" "worker_active ''n'' demo_catalog_db (''w'', ''1'') = Some True"
  by (simp_all add: demo_catalog_db_def worker_active_def)

lemma demo_deploy: "\<exists>m. register_saga demo_env demo_manifest True demo_catalog_db = (Inr m, demo_catalog_db)"
proof -
  have "spawned_children [demo_hydrated_step] = []"
    by (simp add: spawned_children_def demo_hydrated_step_def dict_eval)
  then show ?thesis
    unfolding register_saga_def Let_def seq_def assert_saga_workers_registered_def
      assert_child_saga_definitions_registered_def deploy_def
    by (simp add: bind_Inr of_sum_Inr gets_def demo_manifest_parses demo_manifest_namespace demo_catalog_db_reads
        demo_manifest_links demo_step_workers sort_identities_def sort_by_label_def require_dependencies_def
        return_def del: collect_saga_registration_workers.simps)
qed

theorem deploy_needs_dependencies_witness: "worker_active ''n'' demo_catalog_db (''w'', ''1'') = Some True"
proof -
  obtain m where "register_saga demo_env demo_manifest True demo_catalog_db = (Inr m, demo_catalog_db)"
    using demo_deploy by blast
  from deploy_needs_dependencies [OF this] show ?thesis
    by (auto simp: demo_manifest_parses demo_manifest_namespace demo_catalog_db_def demo_manifest_links
        worker_steps_def step_worker_def demo_hydrated_step_def dict_eval is_loop_node_def is_worker_node_def)
qed

theorem deployed_versions_immutable_witness:
  "\<exists>r. find_step_definition ''n'' ''pay'' ''1''
       (perform demo_env 1 (Activate ''step'' ''n'' ''pay'' ''1'' False) demo_catalog_db) = Some r
     \<and> stdef_body r = JObj demo_blueprint"
proof -
  have "reachable demo_env demo_catalog_db
      (perform demo_env 1 (Activate ''step'' ''n'' ''pay'' ''1'' False) demo_catalog_db)"
    by (intro reachable.intros)
  from deployed_versions_immutable [OF this, of "''n''" "''pay''" "''1''"] show ?thesis
    by (simp add: find_step_definition_def demo_catalog_db_def demo_catalog_def)
qed

section \<open>What registration does not check\<close>


end
