(* ===== verification/Deployed.thy ===== *)
theory Deployed imports Catalog begin

text \<open>
  What is stored is what was checked: the body a saga is deployed with is read back, at every later
  start, as the very graph that registration linked.
\<close>

section \<open>Dumping twice\<close>

lemma dropWhile_prefix:
  assumes "dropWhile P t = t"
  shows "dropWhile P (rev (dropWhile P (rev t))) = rev (dropWhile P (rev t))"
proof (cases "rev (dropWhile P (rev t))")
  case (Cons c u)
  have "rev t = takeWhile P (rev t) @ dropWhile P (rev t)" by simp
  then have "t = rev (dropWhile P (rev t)) @ rev (takeWhile P (rev t))" by (metis rev_append rev_rev_ident)
  with Cons have "t = c # (u @ rev (takeWhile P (rev t)))" by simp
  with assms have "\<not> P c" by (metis dropWhile.simps(2) dropWhile_eq_self_iff hd_Cons_tl list.sel(1) list.discI)
  with Cons show ?thesis by simp
next
  case Nil
  show ?thesis unfolding Nil by simp
qed

lemma strip_strip [simp]: "strip (strip s) = strip s"
  unfolding strip_def by (subst dropWhile_prefix) simp_all

lemma stripped_JStr: "dget k d = JStr (stripped k d0) \<Longrightarrow> stripped k d = stripped k d0"
  by (simp add: stripped_def)

lemma dump_parameter_reads [simp]:
  "dget ''from'' (coerce_dict (dump_parameter v)) = dget ''from'' (coerce_dict v)"
  "dget ''value'' (coerce_dict (dump_parameter v)) = dget ''value'' (coerce_dict v)"
  by (simp_all add: dump_parameter_def Let_def dict_eval)

lemma dump_parameter_twice [simp]: "dump_parameter (dump_parameter v) = dump_parameter v"
  unfolding dump_parameter_def [of "dump_parameter v"] Let_def dump_parameter_reads
  by (simp add: dump_parameter_def Let_def)

lemma dump_parameter_ok: "step_parameter_spec_ok v \<Longrightarrow> step_parameter_spec_ok (dump_parameter v)"
  by (cases v) (auto simp: step_parameter_spec_ok_def dump_parameter_def Let_def dict_eval forbid_extra_def)

lemma dump_with_twice [simp]: "dump_with (dump_with j) = dump_with j"
  by (simp add: dump_with_def case_prod_beta)

lemma dump_not_null [simp]: "dump_with j \<noteq> JNull" "dump_when j \<noteq> JNull"
  by (simp_all add: dump_with_def dump_when_def)

lemma dump_with_coerce [simp]: "dump_with (JObj (coerce_dict j)) = dump_with j"
  by (simp add: dump_with_def)

lemma dump_with_ok: "with_ok j \<Longrightarrow> with_ok (dump_with j)"
  by (cases j) (auto simp: with_ok_def dump_with_def list_all_iff intro: dump_parameter_ok)

lemma dump_when_twice [simp]: "dump_when (dump_when j) = dump_when j"
  by (simp add: dump_when_def cel_of_def dict_eval)

lemma dump_when_ok: "cel_spec_ok j \<Longrightarrow> cel_spec_ok (dump_when j)"
  by (cases j) (simp_all add: cel_spec_ok_def dump_when_def cel_of_def forbid_extra_def dict_eval text_ok_def)

lemma forbid_extra_drop_none: "forbid_extra ks d = [] \<Longrightarrow> forbid_extra ks (drop_none d) = []"
  by (auto simp: forbid_extra_def drop_none_def filter_empty_conv)

section \<open>References\<close>

lemma dump_step_ref_read:
  "dget k (dump_step_ref d) = dget k
     [(''kind'', JStr ''use''), (''id'', JStr (stripped ''id'' d)), (''name'', dget ''name'' d),
      (''use'', JStr (stripped ''use'' d)), (''version'', JStr (stripped ''version'' d)),
      (''with'', dump_with (JObj (with_of d))), (''when'', null_map dump_when (dget ''when'' d)),
      (''hitl'', dget ''hitl'' d), (''hitl_max_retries'', dget ''hitl_max_retries'' d),
      (''hitl_retry_guidance'', dget ''hitl_retry_guidance'' d),
      (''timeout_seconds'', dget ''timeout_seconds'' d), (''max_turns'', dget ''max_turns'' d),
      (''max_step_tokens'', dget ''max_step_tokens'' d),
      (''max_completion_tokens'', dget ''max_completion_tokens'' d)]"
  unfolding dump_step_ref_def by (rule drop_none_read) simp

lemma dump_step_ref_with:
  "with_of (dump_step_ref d) = coerce_dict (dump_with (JObj (with_of d)))" "dhas ''with'' (dump_step_ref d)"
proof -
  have "dhas ''with'' (dump_step_ref d)"
    unfolding dump_step_ref_def by (subst drop_none_read(2)) (simp_all add: dict_eval dump_with_def)
  then show "with_of (dump_step_ref d) = coerce_dict (dump_with (JObj (with_of d)))" "dhas ''with'' (dump_step_ref d)"
    by (simp_all add: with_of_def alias_get_def dump_step_ref_read dict_eval)
qed

lemma dump_step_ref_ok:
  assumes "step_ref_errors d = []"
  shows "step_ref_errors (dump_step_ref d) = []"
proof -
  have w: "with_ok (JObj (with_of d))"
  proof -
    have "\<not> dhas ''with'' d \<and> \<not> dhas ''with_spec'' d \<or> with_ok (alias_get ''with'' ''with_spec'' d)"
      using assms by (simp add: step_ref_errors_def)
    then show ?thesis
      by (cases "alias_get ''with'' ''with_spec'' d") (auto simp: with_of_def alias_get_def with_ok_def dget_absent)
  qed
  have "forbid_extra [''kind'', ''id'', ''name'', ''use'', ''version'', ''with'', ''with_spec'', ''when'', ''hitl'',
       ''hitl_max_retries'', ''hitl_retry_guidance'', ''timeout_seconds'', ''max_turns'',
       ''max_step_tokens'', ''max_completion_tokens''] (dump_step_ref d) = []"
    unfolding dump_step_ref_def by (rule forbid_extra_drop_none) (simp add: forbid_extra_def)
  moreover have "with_ok (alias_get ''with'' ''with_spec'' (dump_step_ref d))"
    using dump_with_ok [OF w] by (simp add: alias_get_def dump_step_ref_with dump_step_ref_read dict_eval)
  moreover have "null_or cel_spec_ok (dget ''when'' (dump_step_ref d))"
  proof -
    have "null_or cel_spec_ok (dget ''when'' d)" using assms by (simp add: step_ref_errors_def)
    then show ?thesis by (auto simp: dump_step_ref_read dict_eval null_map_def null_or_def dump_when_ok)
  qed
  ultimately show ?thesis
    using assms by (simp add: step_ref_errors_def dump_step_ref_read dict_eval text_ok_def stripped_def)
qed

lemma overrides_cong:
  assumes "\<forall>k\<in>set overridable. dget k ref' = dget k ref"
  shows "apply_tighten_overrides sid cap ref' kind = apply_tighten_overrides sid cap ref kind"
proof -
  note same = assms [unfolded overridable_def, simplified]
  have "override_hitl sid ref' = override_hitl sid ref"
    "override_hitl_max_retries sid ref' = override_hitl_max_retries sid ref"
    "override_hitl_retry_guidance sid ref' = override_hitl_retry_guidance sid ref"
    "override_timeout sid ref' = override_timeout sid ref"
    "override_max_turns sid kind ref' = override_max_turns sid kind ref"
    using same unfolding override_hitl_def override_hitl_max_retries_def override_hitl_retry_guidance_def
      override_timeout_def override_max_turns_def by (auto simp: fun_eq_iff)
  moreover have "tighten_optional_token_cap sid kind f m ref' = tighten_optional_token_cap sid kind f m ref"
    if "f = ''max_step_tokens'' \<or> f = ''max_completion_tokens''" for f m
    using same that unfolding tighten_optional_token_cap_def by (auto simp: fun_eq_iff)
  ultimately show ?thesis by (simp add: apply_tighten_overrides_def)
qed

lemma validate_with_dumped:
  "validate_with_against_inputs E sid (coerce_dict (dump_with (JObj w))) inputs
   = validate_with_against_inputs E sid w inputs"
proof -
  have keys: "map fst (coerce_dict (dump_with (JObj w))) = map fst w" by (simp add: dump_with_def case_prod_beta)
  then have has: "dhas k (coerce_dict (dump_with (JObj w))) = dhas k w" for k
    by (metis dhas_def list.set_map map_of_eq_None_iff)
  have "literal_errors E sid (coerce_dict (dump_with (JObj w))) inputs = literal_errors E sid w inputs"
    by (induction w) (auto simp: literal_errors_def dump_with_def Let_def)
  then show ?thesis unfolding validate_with_against_inputs_def keys has by (rule arg_cong)
qed

lemma hydrate_dumped_ref: "hydrate_step_ref E (dump_step_ref d) b = hydrate_step_ref E d b"
proof -
  have "apply_tighten_overrides sid cap (dump_step_ref d) kind = apply_tighten_overrides sid cap d kind" for sid cap kind
    by (rule overrides_cong) (simp add: overridable_def dump_step_ref_read dict_eval)
  moreover have "hydrated_payload (dump_step_ref d) b cap = hydrated_payload d b cap" for cap
  proof -
    have "stripped ''name'' (dump_step_ref d) = stripped ''name'' d" "stripped ''id'' (dump_step_ref d) = stripped ''id'' d"
      "dget ''when'' (dump_step_ref d) = null_map dump_when (dget ''when'' d)"
      "dump_with (JObj (with_of (dump_step_ref d))) = dump_with (JObj (with_of d))"
      by (simp_all add: stripped_def dump_step_ref_read dict_eval dump_step_ref_with)
    then show ?thesis by (cases "dget ''when'' d = JNull") (simp_all add: hydrated_payload_def null_map_def)
  qed
  moreover have "stripped ''id'' (dump_step_ref d) = stripped ''id'' d"
    by (simp add: stripped_def dump_step_ref_read dict_eval)
  ultimately show ?thesis
    by (simp add: hydrate_step_ref_def dump_step_ref_with validate_with_dumped)
qed

section \<open>Nodes\<close>

lemma dump_native_not_null [simp]: "dump_spawn_spec j \<noteq> JNull" "dump_join_spec j \<noteq> JNull"
  by (simp_all add: dump_spawn_spec_def dump_join_spec_def Let_def)

lemma dump_spawn_spec_twice [simp]: "dump_spawn_spec (dump_spawn_spec j) = dump_spawn_spec j"
  by (simp add: dump_spawn_spec_def Let_def stripped_def field_or_def dict_eval)

lemma dump_join_spec_twice [simp]: "dump_join_spec (dump_join_spec j) = dump_join_spec j"
  by (simp add: dump_join_spec_def Let_def stripped_def field_or_def dict_eval)

lemma dump_spawn_spec_ok: "spawn_spec_ok j \<Longrightarrow> spawn_spec_ok (dump_spawn_spec j)"
proof (cases j)
  case (JObj d)
  assume ok: "spawn_spec_ok j"
  have w: "with_ok (dump_with (dget ''input'' d))"
    using ok JObj dump_with_ok [of "dget ''input'' d"]
    by (cases "dhas ''input'' d") (auto simp: spawn_spec_ok_def absent_or_def dget_absent dump_with_def with_ok_def)
  have i: "strip (str_of (field_or ''item_var'' (JStr ''item'') d)) \<noteq> []"
    using ok JObj
    by (auto simp: spawn_spec_ok_def absent_or_def text_ok_def field_or_def strip_def is_space_def)
  have "null_or (int_in 1 MAX_CHILDREN_HARD_CAP) (dget ''max_children'' d)"
    using ok JObj by (simp add: spawn_spec_ok_def)
  with ok JObj w i show ?thesis
    by (auto simp: spawn_spec_ok_def dump_spawn_spec_def Let_def dict_eval forbid_extra_def absent_or_def text_ok_def
        jsonpath_text_ok_def stripped_def null_or_def)
qed (simp_all add: spawn_spec_ok_def)

lemma dump_join_spec_ok: "join_spec_ok j \<Longrightarrow> join_spec_ok (dump_join_spec j)"
  by (cases j) (auto simp: join_spec_ok_def dump_join_spec_def Let_def dict_eval forbid_extra_def absent_or_def
      field_or_def text_ok_def stripped_def)

definition is_native_node :: "dict \<Rightarrow> bool" where
  "is_native_node d \<longleftrightarrow> dget ''kind'' d = JStr ''spawn_sagas'' \<or> dget ''kind'' d = JStr ''join_sagas''"

lemma dump_native_read:
  "dget k (dump_native_step d) = dget k
     [(''id'', dget ''id'' d), (''name'', dget ''name'' d),
      (''timeout_seconds'', field_or ''timeout_seconds'' (JInt 600) d),
      (''when'', null_map dump_when (dget ''when'' d)), (''kind'', dget ''kind'' d),
      (if dget ''kind'' d = JStr ''spawn_sagas'' then (''spawn'', dump_spawn_spec (dget ''spawn'' d))
       else (''join'', dump_join_spec (dget ''join'' d)))]"
  unfolding dump_native_step_def by (rule drop_none_read) simp

lemma dump_native_timeout:
  "native_base_errors b d = [] \<Longrightarrow>
   field_or ''timeout_seconds'' (JInt 600) (dump_native_step d) = field_or ''timeout_seconds'' (JInt 600) d
   \<and> is_int (field_or ''timeout_seconds'' (JInt 600) d)"
proof -
  assume "native_base_errors b d = []"
  then have i: "is_int (field_or ''timeout_seconds'' (JInt 600) d)"
    by (auto simp: native_base_errors_def absent_or_def field_or_def)
  then have "field_or ''timeout_seconds'' (JInt 600) d \<noteq> JNull" by auto
  then have "dhas ''timeout_seconds'' (dump_native_step d)"
    unfolding dump_native_step_def by (subst drop_none_read(2)) (simp_all add: dict_eval)
  with i show ?thesis by (simp add: field_or_def [of _ _ "dump_native_step d"] dump_native_read dict_eval)
qed

lemma dump_native_ok:
  assumes "executable_step_errors d = []" "is_native_node d"
  shows "executable_step_errors (dump_native_step d) = []"
    and "dump_native_step (dump_native_step d) = dump_native_step d"
proof -
  define b where "b = (if dget ''kind'' d = JStr ''spawn_sagas'' then ''spawn'' else ''join'')"
  from assms have base: "native_base_errors b d = []"
    by (auto simp: executable_step_errors_def is_native_node_def b_def)
  note t = dump_native_timeout [OF base]
  have w: "null_or cel_spec_ok (dget ''when'' d)" using base by (simp add: native_base_errors_def)
  have "forbid_extra [''kind'', ''id'', ''name'', ''timeout_seconds'', ''when'', b] (dump_native_step d) = []"
    unfolding dump_native_step_def by (rule forbid_extra_drop_none) (simp add: forbid_extra_def b_def)
  moreover have "null_or cel_spec_ok (dget ''when'' (dump_native_step d))"
    using w by (auto simp: dump_native_read dict_eval null_map_def null_or_def dump_when_ok)
  moreover have "absent_or ''timeout_seconds'' is_int (dump_native_step d)"
    using t by (simp add: absent_or_def dump_native_read dict_eval)
  ultimately have base': "native_base_errors b (dump_native_step d) = []"
    using base by (simp add: native_base_errors_def dump_native_read dict_eval)
  from assms show "executable_step_errors (dump_native_step d) = []"
    using base' by (auto simp: executable_step_errors_def is_native_node_def b_def dump_native_read dict_eval
        dump_spawn_spec_ok dump_join_spec_ok)
  have "null_map dump_when (dget ''when'' (dump_native_step d)) = null_map dump_when (dget ''when'' d)"
    by (simp add: dump_native_read dict_eval null_map_def)
  then show "dump_native_step (dump_native_step d) = dump_native_step d"
    unfolding dump_native_step_def [of "dump_native_step d"] using t
    by (simp add: dump_native_read dict_eval) (simp add: dump_native_step_def dict_eval)
qed

section \<open>Wiring\<close>

text \<open>What the checks across the nodes of a blueprint read of a node.\<close>

definition same_wiring :: "dict \<Rightarrow> dict \<Rightarrow> bool" where
  "same_wiring d d' \<longleftrightarrow> dget ''kind'' d' = dget ''kind'' d \<and> node_id d' = node_id d
     \<and> (is_loop_node d \<longrightarrow> map node_id (loop_refs d') = map node_id (loop_refs d))
     \<and> stripped ''items_from'' (spawn_block d') = stripped ''items_from'' (spawn_block d)
     \<and> stripped ''result_from'' (spawn_block d') = stripped ''result_from'' (spawn_block d)
     \<and> stripped ''spawn_step_id'' (coerce_dict (dget ''join'' d'))
         = stripped ''spawn_step_id'' (coerce_dict (dget ''join'' d))"

lemma same_wiring_refl: "same_wiring d d"
  by (simp add: same_wiring_def)

lemma same_wiring_errors:
  assumes "list_all2 same_wiring xs ys"
  shows "blueprint_wiring_errors E ys = blueprint_wiring_errors E xs"
proof -
  have "iter_executable_step_ids ys = iter_executable_step_ids xs \<and> iter_loop_ids ys = iter_loop_ids xs
      \<and> spawn_ids ys = spawn_ids xs \<and> join_targets ys = join_targets xs"
    using assms
    by (induction rule: list_all2_induct)
      (auto simp: iter_executable_step_ids_def iter_loop_ids_def spawn_ids_def join_targets_def same_wiring_def
        is_loop_node_def)
  moreover have "list_all (\<lambda>d. dget ''kind'' d = JStr ''spawn_sagas'' \<longrightarrow>
         jsonpath_parses E (stripped ''items_from'' (spawn_block d))
       \<and> jsonpath_parses E (stripped ''result_from'' (spawn_block d))) ys
     \<longleftrightarrow> list_all (\<lambda>d. dget ''kind'' d = JStr ''spawn_sagas'' \<longrightarrow>
         jsonpath_parses E (stripped ''items_from'' (spawn_block d))
       \<and> jsonpath_parses E (stripped ''result_from'' (spawn_block d))) xs"
    using assms by (induction rule: list_all2_induct) (auto simp: same_wiring_def)
  ultimately show ?thesis
    by (simp add: blueprint_wiring_errors_def unique_ids_ok_def spawn_join_wiring_ok_def)
qed

section \<open>Nodes read back\<close>

lemma inject_dumped: "\<forall>d\<in>set ds. dhas ''kind'' d \<Longrightarrow> inject_use_kind (map JObj ds) = map JObj ds"
  by (simp add: inject_use_kind_def)

lemma dump_step_ref_kind: "dhas ''kind'' (dump_step_ref d)"
  by (simp add: dump_step_ref_def dict_eval)

text \<open>The references of an accepted loop carry their kind.\<close>

lemma loop_refs_ok:
  assumes "loop_authoring_errors d = []" "r \<in> set (loop_refs d)"
  shows "step_ref_errors r = []"
proof -
  from assms have e: "step_ref_errors (if dhas ''kind'' r then r else r @ [(''kind'', JStr ''use'')]) = []"
    by (simp add: loop_authoring_errors_def)
  obtain j where j: "j \<in> set (list_of (dget ''steps'' d))" "r = coerce_dict (case j of
      JObj d \<Rightarrow> if dhas ''use'' d \<and> \<not> dhas ''kind'' d then JObj (d @ [(''kind'', JStr ''use'')]) else j | _ \<Rightarrow> j)"
    using assms(2) by (auto simp: loop_refs_def inject_use_kind_def)
  have "dhas ''kind'' r"
  proof (rule ccontr)
    assume k: "\<not> dhas ''kind'' r"
    with j(2) have "\<not> dhas ''use'' r" by (cases j) (auto simp: dict_eval split: if_splits)
    with e k show False by (simp add: step_ref_errors_def dict_eval text_ok_def)
  qed
  with e show ?thesis by simp
qed

lemma dump_loop_read:
  assumes "is_loop_node d"
  shows "dget k (dump_authoring_node d) = dget k
     [(''kind'', JStr ''loop''), (''id'', JStr (stripped ''id'' d)), (''name'', dget ''name'' d),
      (''max_iterations'', dget ''max_iterations'' d), (''until'', dump_when (dget ''until'' d)),
      (''steps'', JList (map (\<lambda>r. JObj (dump_step_ref r)) (loop_refs d)))]"
proof -
  have "dump_authoring_node d = drop_none
     [(''kind'', JStr ''loop''), (''id'', JStr (stripped ''id'' d)), (''name'', dget ''name'' d),
      (''max_iterations'', dget ''max_iterations'' d), (''until'', dump_when (dget ''until'' d)),
      (''steps'', JList (map (\<lambda>r. JObj (dump_step_ref r)) (loop_refs d)))]"
    using assms by (simp add: dump_authoring_node_def is_loop_node_def)
  then show ?thesis by (simp only:) (rule drop_none_read, simp)
qed

lemma dump_loop_refs: "is_loop_node d \<Longrightarrow> loop_refs (dump_authoring_node d) = map dump_step_ref (loop_refs d)"
  using inject_dumped [of "map dump_step_ref (loop_refs d)"]
  by (simp add: loop_refs_def [of "dump_authoring_node d"] dump_loop_read dict_eval dump_step_ref_kind comp_def)

lemma authoring_step_cases:
  assumes "authoring_step_errors (JObj d) = []"
  obtains (ref) "dget ''kind'' d = JStr ''use''" "step_ref_errors d = []"
  | (loop) "is_loop_node d" "loop_authoring_errors d = []"
  | (native) "is_native_node d" "executable_step_errors d = []"
  using assms by (auto simp: authoring_step_errors_def is_loop_node_def is_native_node_def split: if_splits)

lemma dump_node_kinds:
  "dget ''kind'' d = JStr ''use'' \<Longrightarrow> dump_authoring_node d = dump_step_ref d"
  "is_native_node d \<Longrightarrow> dump_authoring_node d = dump_native_step d"
  by (auto simp: dump_authoring_node_def is_native_node_def is_loop_node_def)

lemma dump_loop_ok:
  assumes "is_loop_node d" "loop_authoring_errors d = []"
  shows "loop_authoring_errors (dump_authoring_node d) = []"
proof -
  let ?n = "dump_authoring_node d"
  have "forbid_extra [''kind'', ''id'', ''name'', ''max_iterations'', ''until'', ''steps''] ?n = []"
    using assms(1) unfolding dump_authoring_node_def is_loop_node_def
    by (simp, intro forbid_extra_drop_none) (simp add: forbid_extra_def)
  moreover have "loop_refs d \<noteq> []"
    using assms(2) by (simp add: loop_authoring_errors_def loop_refs_def inject_use_kind_def)
  moreover have "\<forall>r\<in>set (loop_refs d). step_ref_errors (dump_step_ref r) = []"
    using loop_refs_ok [OF assms(2)] by (blast intro: dump_step_ref_ok)
  moreover have "cel_spec_ok (dget ''until'' d)" using assms(2) by (simp add: loop_authoring_errors_def)
  ultimately show ?thesis
    using assms(2)
    by (simp add: loop_authoring_errors_def [of ?n] dump_loop_refs [OF assms(1)] dump_loop_read [OF assms(1)] dict_eval
        list_all_iff dump_step_ref_kind dump_when_ok)
      (simp add: loop_authoring_errors_def text_ok_def stripped_def)
qed

lemma dump_node_ok:
  assumes "authoring_step_errors (JObj d) = []"
  shows "authoring_step_errors (JObj (dump_authoring_node d)) = []"
  using assms
proof (cases rule: authoring_step_cases)
  case ref
  then show ?thesis
    by (simp add: authoring_step_errors_def dump_node_kinds dump_step_ref_read dict_eval dump_step_ref_ok)
next
  case loop
  then show ?thesis by (simp add: authoring_step_errors_def dump_loop_ok dump_loop_read dict_eval)
next
  case native
  from native(1) show ?thesis
    using dump_native_ok(1) [OF native(2,1)]
    by (auto simp: authoring_step_errors_def dump_node_kinds dump_native_read dict_eval is_native_node_def)
qed

lemma dump_node_wiring:
  assumes "authoring_step_errors (JObj d) = []"
  shows "same_wiring d (dump_authoring_node d)"
  using assms
proof (cases rule: authoring_step_cases)
  case ref
  then have "dget ''spawn'' d = JNull" "dget ''join'' d = JNull"
    by (auto simp: step_ref_errors_def intro: forbid_extra_absent)
  with ref show ?thesis
    by (simp add: same_wiring_def dump_node_kinds dump_step_ref_read dict_eval node_id_def is_loop_node_def
        stripped_def spawn_block_def)
next
  case loop
  then have "dget ''spawn'' d = JNull" "dget ''join'' d = JNull"
    by (auto simp: loop_authoring_errors_def intro: forbid_extra_absent)
  moreover have "\<forall>r\<in>set (loop_refs d). node_id (dump_step_ref r) = node_id r"
    using loop_refs_ok [OF loop(2)]
    by (auto simp: node_id_def dump_step_ref_read dict_eval stripped_def step_ref_errors_def)
  ultimately show ?thesis using loop
    by (simp add: same_wiring_def dump_loop_read dump_loop_refs dict_eval node_id_def stripped_def spawn_block_def)
      (simp add: is_loop_node_def)
next
  case native
  then have "dget ''spawn'' d = JNull \<or> dget ''kind'' d = JStr ''spawn_sagas''"
      "dget ''join'' d = JNull \<or> dget ''kind'' d = JStr ''join_sagas''"
    by (auto simp: executable_step_errors_def native_base_errors_def is_native_node_def intro: forbid_extra_absent)
  with native(1) show ?thesis
    by (auto simp: same_wiring_def dump_node_kinds dump_native_read dict_eval node_id_def is_loop_node_def
        is_native_node_def stripped_def spawn_block_def dump_spawn_spec_def dump_join_spec_def Let_def)
qed

lemma dump_node_refs:
  "\<forall>d\<in>set ns. authoring_step_errors (JObj d) = [] \<Longrightarrow>
   collect_authoring_step_refs (map dump_authoring_node ns) = collect_authoring_step_refs ns"
proof -
  assume ok: "\<forall>d\<in>set ns. authoring_step_errors (JObj d) = []"
  let ?refs = "\<lambda>d. if dget ''kind'' d = JStr ''use'' then [(stripped ''use'' d, stripped ''version'' d)]
     else if is_loop_node d then map (\<lambda>r. (stripped ''use'' r, stripped ''version'' r)) (loop_refs d) else []"
  have "?refs (dump_authoring_node d) = ?refs d" if "d \<in> set ns" for d
    using ok [rule_format, OF that]
  proof (cases rule: authoring_step_cases)
    case ref
    then show ?thesis by (simp add: dump_node_kinds dump_step_ref_read dict_eval stripped_def)
  next
    case loop
    then have "is_loop_node (dump_authoring_node d)" "dget ''kind'' d \<noteq> JStr ''use''"
      by (simp_all add: is_loop_node_def [of "dump_authoring_node d"] dump_loop_read dict_eval)
        (simp add: is_loop_node_def)
    with loop show ?thesis
      by (simp add: dump_loop_refs dump_loop_read dict_eval dump_step_ref_read stripped_def)
  next
    case native
    then show ?thesis
      by (auto simp: dump_node_kinds dump_native_read dict_eval is_native_node_def is_loop_node_def)
  qed
  then have "map ?refs (map dump_authoring_node ns) = map ?refs ns" by simp
  then show ?thesis unfolding collect_authoring_step_refs_def by (simp only:)
qed

text \<open>A node read back hydrates to a step that is wired and frozen as the first one.\<close>

lemma hydrate_dumped_node:
  assumes "authoring_step_errors (JObj d) = []" "hydrate_authoring_node E loaded d = Inr s"
  shows "\<exists>s'. hydrate_authoring_node E loaded (dump_authoring_node d) = Inr s' \<and> same_wiring s s'
           \<and> frozen_node E s' = frozen_node E s"
  using assms(1)
proof (cases rule: authoring_step_cases)
  case ref
  have "resolve_step loaded (dump_step_ref d) = resolve_step loaded d"
    by (simp add: resolve_step_def stripped_def dump_step_ref_read dict_eval)
  with ref assms(2) have "hydrate_authoring_node E loaded (dump_authoring_node d) = Inr s"
    by (simp add: hydrate_authoring_node_def dump_node_kinds dump_step_ref_read dict_eval hydrate_dumped_ref)
  then show ?thesis by (blast intro: same_wiring_refl)
next
  case loop
  have r: "resolve_step loaded (dump_step_ref d) = resolve_step loaded d" for d
    by (simp add: resolve_step_def stripped_def dump_step_ref_read dict_eval)
  have body: "map_checked (\<lambda>r. hydrate_step_ref E r (resolve_step loaded r)) (map dump_step_ref rs)
      = map_checked (\<lambda>r. hydrate_step_ref E r (resolve_step loaded r)) rs" for rs
    by (induction rs) (simp_all add: hydrate_dumped_ref r)
  have "is_loop_node (dump_authoring_node d)" "dget ''kind'' d \<noteq> JStr ''use''"
    using loop by (simp_all add: is_loop_node_def [of "dump_authoring_node d"] dump_loop_read dict_eval)
      (simp add: is_loop_node_def)
  with loop assms(2) have "hydrate_authoring_node E loaded (dump_authoring_node d) = Inr s"
    by (simp add: hydrate_authoring_node_def dump_loop_read dump_loop_refs dict_eval body stripped_def)
  then show ?thesis by (blast intro: same_wiring_refl)
next
  case native
  have k: "dget ''kind'' d \<noteq> JStr ''use''" "\<not> is_loop_node d" "\<not> is_worker_node d"
    "\<not> is_loop_node (dump_native_step d)" "\<not> is_worker_node (dump_native_step d)"
    "dget ''kind'' (dump_native_step d) \<noteq> JStr ''use''"
    using native(1) by (auto simp: is_native_node_def is_loop_node_def is_worker_node_def dump_native_read dict_eval)
  with assms(2) have s: "s = d" by (simp add: hydrate_authoring_node_def)
  have "frozen_node E (dump_native_step d) = frozen_node E d"
    by (simp add: frozen_node_def frozen_worker_step_def embed_resolved_assets_on_step_dict_def k
        dump_native_ok(2) [OF native(2,1)])
  then show ?thesis
    using dump_node_wiring [OF assms(1)] native(1) k s
    by (simp add: dump_node_kinds hydrate_authoring_node_def)
qed

lemma hydrate_dumped_nodes:
  assumes "\<forall>d\<in>set ns. authoring_step_errors (JObj d) = []"
    and "map_checked (hydrate_authoring_node E loaded) ns = Inr steps"
  shows "\<exists>steps'. map_checked (hydrate_authoring_node E loaded) (map dump_authoring_node ns) = Inr steps'
     \<and> list_all2 same_wiring steps steps' \<and> map_checked (frozen_node E) steps' = map_checked (frozen_node E) steps"
  using assms
proof (induction ns arbitrary: steps)
  case (Cons d ns)
  then obtain s ss where s: "hydrate_authoring_node E loaded d = Inr s"
    and ss: "map_checked (hydrate_authoring_node E loaded) ns = Inr ss" and steps: "steps = s # ss"
    by (auto simp: and_then_Inr)
  obtain s' where "hydrate_authoring_node E loaded (dump_authoring_node d) = Inr s'" "same_wiring s s'"
      "frozen_node E s' = frozen_node E s"
    using hydrate_dumped_node [OF _ s] Cons.prems(1) by auto
  moreover obtain ss' where "map_checked (hydrate_authoring_node E loaded) (map dump_authoring_node ns) = Inr ss'"
      "list_all2 same_wiring ss ss'" "map_checked (frozen_node E) ss' = map_checked (frozen_node E) ss"
    using Cons.IH [OF _ ss] Cons.prems(1) by auto
  ultimately show ?case by (simp add: steps and_then_def)
qed simp

section \<open>The stored body\<close>

lemma authoring_errors_nodes:
  assumes "authoring_errors E a = []"
  shows "\<forall>d\<in>set (authoring_nodes a). authoring_step_errors (JObj d) = []"
proof
  fix d assume "d \<in> set (authoring_nodes a)"
  then obtain j where j: "j \<in> set (inject_use_kind (list_of (dget ''steps'' a)))" "d = coerce_dict j"
    by (auto simp: authoring_nodes_def)
  with assms have e: "authoring_step_errors j = []" by (auto simp: authoring_errors_def)
  then have "is_dict j" by (auto simp: authoring_step_errors_def Let_def split: if_splits)
  with e j(2) show "authoring_step_errors (JObj d) = []" by (auto dest: is_dict_D)
qed

lemma dump_node_kind: "authoring_step_errors (JObj d) = [] \<Longrightarrow> dhas ''kind'' (dump_authoring_node d)"
proof (erule authoring_step_cases)
  assume "dget ''kind'' d = JStr ''use''"
  then show ?thesis by (simp add: dump_node_kinds dump_step_ref_kind)
next
  assume "is_loop_node d"
  then have "dget ''kind'' (dump_authoring_node d) \<noteq> JNull" by (simp add: dump_loop_read dict_eval)
  then show ?thesis using dget_absent by metis
next
  assume n: "is_native_node d"
  then have "dget ''kind'' (dump_native_step d) \<noteq> JNull"
    by (auto simp: dump_native_read dict_eval is_native_node_def)
  with n show ?thesis using dget_absent by (metis dump_node_kinds(2))
qed

text \<open>The authoring form a start assembles from a stored body.\<close>

lemma authoring_of_dump:
  assumes "dget ''name'' a = JStr n" "dget ''version'' a = JStr v" "dget ''description'' a = JStr t"
    and "field_or ''namespace'' (JStr ''default'') a = JStr ns"
  shows "authoring_data_from_body (dump_authoring a) ns n v descr =
    [(''kind'', JStr ''saga''), (''name'', JStr n), (''namespace'', JStr ns), (''version'', JStr v),
     (''description'', JStr t), (''steps'', JList (map (\<lambda>d. JObj (dump_authoring_node d)) (authoring_nodes a)))]"
  using assms by (simp add: authoring_data_from_body_def Let_def dump_authoring_def dict_eval)

lemma dumped_authoring_ok:
  assumes ok: "authoring_errors E a = []"
    and a': "a' = [(''kind'', JStr ''saga''), (''name'', JStr n), (''namespace'', JStr ns), (''version'', JStr v),
     (''description'', JStr t), (''steps'', JList (map (\<lambda>d. JObj (dump_authoring_node d)) (authoring_nodes a)))]"
  shows "authoring_nodes a' = map dump_authoring_node (authoring_nodes a)" "authoring_errors E a' = []"
proof -
  note nodes = authoring_errors_nodes [OF ok]
  have inj: "inject_use_kind (map (\<lambda>d. JObj (dump_authoring_node d)) (authoring_nodes a))
      = map (\<lambda>d. JObj (dump_authoring_node d)) (authoring_nodes a)"
    using inject_dumped [of "map dump_authoring_node (authoring_nodes a)"] nodes dump_node_kind
    by (auto simp: comp_def)
  then show n': "authoring_nodes a' = map dump_authoring_node (authoring_nodes a)"
    by (simp add: a' authoring_nodes_def [of a'] authoring_nodes_def [of "_ # _"] dict_eval comp_def)
  have "list_all2 same_wiring (authoring_nodes a) (map dump_authoring_node (authoring_nodes a))"
    using nodes by (auto simp: list_all2_map2 list_all2_same intro: dump_node_wiring)
  from same_wiring_errors [OF this]
  have "blueprint_wiring_errors E (authoring_nodes a') = blueprint_wiring_errors E (authoring_nodes a)"
    by (simp add: n')
  with ok have "blueprint_wiring_errors E (authoring_nodes a') = []" by (simp add: authoring_errors_def)
  moreover have "\<forall>d\<in>set (authoring_nodes a). authoring_step_errors (JObj (dump_authoring_node d)) = []"
    using nodes dump_node_ok by blast
  moreover have "field_or ''kind'' (JStr ''saga'') a' = JStr ''saga''" "dget ''name'' a' = JStr n"
    "absent_or ''namespace'' is_str a'" "dget ''version'' a' = JStr v" "dget ''description'' a' = JStr t"
    "dget ''steps'' a' = JList (map (\<lambda>d. JObj (dump_authoring_node d)) (authoring_nodes a))"
    by (simp_all add: a' dict_eval field_or_def absent_or_def)
  ultimately show "authoring_errors E a' = []" by (simp add: authoring_errors_def inj)
qed

lemma stored_body_hydrates:
  assumes ok: "authoring_errors E a = []"
    and fields: "dget ''name'' a = JStr n" "dget ''version'' a = JStr v" "dget ''description'' a = JStr t"
      "field_or ''namespace'' (JStr ''default'') a = JStr ns"
    and link: "link_check E rows ns a = Inr steps"
  shows "hydrate_authoring_body_to_frozen_steps E rows (dump_authoring a) ns n v descr
    = and_then (map_checked (frozen_node E) steps) (\<lambda>f. Inr (map JObj f))"
proof -
  define a' where "a' = authoring_data_from_body (dump_authoring a) ns n v descr"
  note a'_eq = a'_def [unfolded authoring_of_dump [OF fields]]
  note nodes = authoring_errors_nodes [OF ok]
  from link obtain loaded where load: "load_catalog_for_authoring E rows ns (authoring_nodes a) = Inr loaded"
    and hyd: "map_checked (hydrate_authoring_node E loaded) (authoring_nodes a) = Inr steps"
    and wired: "blueprint_wiring_errors E steps = []"
    unfolding link_check_def and_then_Inr map_error_Inr hydrate_authoring_blueprint_def no_errors_Inr by blast
  obtain steps' where steps': "map_checked (hydrate_authoring_node E loaded)
        (map dump_authoring_node (authoring_nodes a)) = Inr steps'" "list_all2 same_wiring steps steps'"
      "map_checked (frozen_node E) steps' = map_checked (frozen_node E) steps"
    using hydrate_dumped_nodes [OF nodes hyd] by blast
  have "parse_authoring E a' = Inr a'" by (simp add: parse_authoring_def dumped_authoring_ok(2) [OF ok a'_eq])
  moreover have "load_catalog_for_authoring E rows ns (authoring_nodes a') = Inr loaded"
    using load by (simp add: dumped_authoring_ok(1) [OF ok a'_eq] load_catalog_for_authoring_def
        dump_node_refs [OF nodes])
  moreover have "hydrate_authoring_blueprint E loaded a' = Inr steps'"
    by (simp add: hydrate_authoring_blueprint_def dumped_authoring_ok(1) [OF ok a'_eq] steps'(1) and_then_def
        same_wiring_errors [OF steps'(2)] wired)
  ultimately show ?thesis
    unfolding hydrate_authoring_body_to_frozen_steps_def a'_def [symmetric]
    by (simp add: and_then_def map_error_def steps'(3))
qed

lemma upsert_found:
  assumes "upsert_saga_definition E ns n v body db = (Inr (), db')"
  shows "\<exists>r. rows_first (\<lambda>d. sdef_namespace d = ns \<and> sdef_name d = n \<and> sdef_version d = v) (db_saga_defs db') = Some r
      \<and> sdef_body r = body" and "db_step_defs db' = db_step_defs db"
proof -
  have same: "(\<lambda>d. sdef_namespace d = ns \<and> sdef_name d = n \<and> sdef_version d = v) = same_saga ns n v"
    by (simp add: fun_eq_iff same_saga_def)
  have "rows_first (same_saga ns n v) (rows_update (same_saga ns n v) (\<lambda>d. d\<lparr>sdef_body := body\<rparr>) t)
      = map_option (\<lambda>d. d\<lparr>sdef_body := body\<rparr>) (rows_first (same_saga ns n v) t)" for t
    by (rule rows_first_update_same) (simp add: same_saga_def)
  with assms show "\<exists>r. rows_first (\<lambda>d. sdef_namespace d = ns \<and> sdef_name d = n \<and> sdef_version d = v)
      (db_saga_defs db') = Some r \<and> sdef_body r = body" "db_step_defs db' = db_step_defs db"
    by (auto simp: same upsert_saga_definition_def monad_simps uuid4_hex_def table_simps same_saga_def split: if_splits)
qed

lemma deploy_Inr:
  assumes "deploy False create kind ns n v label db = (Inr m, db')"
  shows "\<exists>db1. create db = (Inr (), db1) \<and> db_saga_defs db' = db_saga_defs db1 \<and> db_step_defs db' = db_step_defs db1"
proof -
  obtain r db1 where c: "create db = (r, db1)" by fastforce
  with assms show ?thesis
    by (cases r) (auto simp: deploy_def seq_def bind_def in_transaction_def hook_def modify_def return_def)
qed

text \<open>C39: what is deployed is what was checked: once a saga is registered, its definition is found
  under its name and version, and hydrating the stored body against the catalog, as every start does,
  parses, loads and links again and freezes exactly the steps registration checked; only the embedding
  of their files can still fail.\<close>

theorem deployed_graph_is_started:
  assumes "register_saga E d False db = (Inr m, db')"
  shows "\<exists>a ns n v steps r. parse_authoring E d = Inr a
    \<and> dget ''name'' a = JStr n \<and> dget ''version'' a = JStr v
    \<and> field_or ''namespace'' (JStr ''default'') a = JStr ns
    \<and> link_check E (db_step_defs db) ns a = Inr steps
    \<and> rows_first (\<lambda>d. sdef_namespace d = ns \<and> sdef_name d = n \<and> sdef_version d = v) (db_saga_defs db') = Some r
    \<and> is_dict (sdef_body r)
    \<and> hydrate_authoring_body_to_frozen_steps E (db_step_defs db') (coerce_dict (sdef_body r)) ns n v
         (str_or (dget ''description'' (coerce_dict (sdef_body r))) [])
       = and_then (map_checked (frozen_node E) steps) (\<lambda>f. Inr (map JObj f))"
proof -
  from assms obtain a steps ws db1 where parsed: "parse_authoring E d = Inr a"
    and link: "link_check E (db_step_defs db) (str_of (field_or ''namespace'' (JStr ''default'') a)) a = Inr steps"
    and up: "upsert_saga_definition E (str_of (field_or ''namespace'' (JStr ''default'') a)) (str_of (dget ''name'' a))
        (str_of (dget ''version'' a)) (JObj (dump_authoring a)) db = (Inr (), db1)"
    and db': "db_saga_defs db' = db_saga_defs db1" "db_step_defs db' = db_step_defs db1"
    unfolding register_saga_def Let_def seq_def assert_saga_workers_registered_def
      assert_child_saga_definitions_registered_def
    by (auto simp: bind_Inr of_sum_Inr gets_def dest!: deploy_Inr)
  from parsed have ok: "authoring_errors E a = []" by (auto simp: parse_authoring_def split: list.splits)
  then obtain n v t where f: "dget ''name'' a = JStr n" "dget ''version'' a = JStr v" "dget ''description'' a = JStr t"
    by (auto simp: authoring_errors_def elim!: is_str.elims)
  obtain ns where ns: "field_or ''namespace'' (JStr ''default'') a = JStr ns"
  proof -
    have "is_str (field_or ''namespace'' (JStr ''default'') a)"
      using ok by (auto simp: authoring_errors_def absent_or_def field_or_def)
    then show ?thesis by (auto elim!: is_str.elims intro: that)
  qed
  obtain r where r: "rows_first (\<lambda>d. sdef_namespace d = ns \<and> sdef_name d = n \<and> sdef_version d = v)
      (db_saga_defs db') = Some r" "sdef_body r = JObj (dump_authoring a)"
    using upsert_found(1) [OF up] by (auto simp: f ns db')
  have rows: "db_step_defs db' = db_step_defs db" using upsert_found(2) [OF up] by (simp add: db')
  from link have "link_check E (db_step_defs db) ns a = Inr steps" by (simp add: ns)
  with stored_body_hydrates [OF ok f ns this] parsed f ns r rows show ?thesis by auto
qed

lemma deploy_succeeds:
  "create db = (Inr (), db1) \<Longrightarrow> \<exists>m db'. deploy False create kind ns n v label db = (Inr m, db')"
  by (simp add: deploy_def seq_def bind_def in_transaction_def hook_def modify_def return_def)

lemma demo_deployed: "\<exists>m db'. register_saga demo_env demo_manifest False demo_catalog_db = (Inr m, db')"
proof -
  have "spawned_children [demo_hydrated_step] = []"
    by (simp add: spawned_children_def demo_hydrated_step_def dict_eval)
  moreover obtain m db' where "deploy False (upsert_saga_definition demo_env ''n''
      (str_of (dget ''name'' demo_manifest)) (str_of (dget ''version'' demo_manifest))
      (JObj (dump_authoring demo_manifest))) ''saga'' ''n'' (str_of (dget ''name'' demo_manifest))
      (str_of (dget ''version'' demo_manifest)) (''Saga '' @ quoted (str_of (dget ''name'' demo_manifest)) @ '' v''
        @ str_of (dget ''version'' demo_manifest)) demo_catalog_db = (Inr m, db')"
    using upsert_succeeds deploy_succeeds by meson
  ultimately show ?thesis
    unfolding register_saga_def Let_def seq_def assert_saga_workers_registered_def
      assert_child_saga_definitions_registered_def
    by (simp add: bind_Inr of_sum_Inr gets_def demo_manifest_parses demo_manifest_namespace demo_catalog_db_reads
        demo_manifest_links demo_step_workers sort_identities_def sort_by_label_def require_dependencies_def
        return_def del: collect_saga_registration_workers.simps)
qed

lemma demo_manifest_reads:
  "dget ''name'' demo_manifest = JStr ''saga''" "dget ''version'' demo_manifest = JStr ''1''"
  "field_or ''namespace'' (JStr ''default'') demo_manifest = JStr ''n''"
  by (simp_all add: demo_manifest_def demo_body_authoring dict_eval field_or_def)

theorem deployed_graph_is_started_witness:
  "\<exists>(db'::db) r. rows_first (\<lambda>d. sdef_namespace d = ''n'' \<and> sdef_name d = ''saga'' \<and> sdef_version d = ''1'')
        (db_saga_defs db') = Some r
     \<and> hydrate_authoring_body_to_frozen_steps demo_env (db_step_defs db') (coerce_dict (sdef_body r)) ''n'' ''saga'' ''1''
         (str_or (dget ''description'' (coerce_dict (sdef_body r))) [])
       = and_then (map_checked (frozen_node demo_env) [demo_hydrated_step]) (\<lambda>f. Inr (map JObj f))"
proof -
  obtain m db' where "register_saga demo_env demo_manifest False demo_catalog_db = (Inr m, db')"
    using demo_deployed by blast
  from deployed_graph_is_started [OF this] obtain n v ns steps r where
    "dget ''name'' demo_manifest = JStr n" "dget ''version'' demo_manifest = JStr v"
    "field_or ''namespace'' (JStr ''default'') demo_manifest = JStr ns"
    "link_check demo_env demo_catalog ns demo_manifest = Inr steps"
    "rows_first (\<lambda>d. sdef_namespace d = ns \<and> sdef_name d = n \<and> sdef_version d = v) (db_saga_defs db') = Some r"
    "hydrate_authoring_body_to_frozen_steps demo_env (db_step_defs db') (coerce_dict (sdef_body r)) ns n v
         (str_or (dget ''description'' (coerce_dict (sdef_body r))) [])
       = and_then (map_checked (frozen_node demo_env) steps) (\<lambda>f. Inr (map JObj f))"
    unfolding demo_manifest_parses demo_catalog_db_reads by auto
  note found = this
  then have "n = ''saga''" "v = ''1''" "ns = ''n''" by (simp_all add: demo_manifest_reads)
  moreover from this found have "steps = [demo_hydrated_step]" by (simp add: demo_manifest_links)
  ultimately show ?thesis using found(5,6) by blast
qed

end
