(* ===== verification/Working.thy ===== *)
theory Working imports Sample begin

text \<open>
  What the engine and the workers promise each other across the outbox: a command and a result arrive
  as they were sent, a command is executed at most once, and a claimed command is always answered.
\<close>

section \<open>Messages\<close>

text \<open>A command the engine built: the fields of the other types at their defaults.\<close>

definition command_built :: "command \<Rightarrow> bool" where
  "command_built c \<longleftrightarrow>
     command_errors c = [] \<and> is_list (cmd_tool_specs c) \<and> list_all is_dict (list_of (cmd_tool_specs c))
     \<and> is_list (cmd_resource_specs c) \<and> is_list (cmd_skill_specs c)
     \<and> (cmd_type c \<noteq> DO_STEP \<longrightarrow> cmd_prompt_ref c = JNull \<and> cmd_skill_specs c = JList [])
     \<and> (cmd_type c \<noteq> EXECUTE_COMPENSATION \<longrightarrow>
          cmd_forward_span c = [] \<and> cmd_failure_reason c = JNull \<and> cmd_worker_snapshot c = JNull)
     \<and> null_or is_dict (cmd_worker_snapshot c)"

lemma slim_tool_specs_dicts:
  "is_list (slim_tool_specs ts) \<and> list_all is_dict (list_of (slim_tool_specs ts))"
  by (auto simp: slim_tool_specs_def List.map_filter_def list_all_iff split: json.splits if_splits)

lemma built_commands:
  "commit_command sg s tools = Inr c \<Longrightarrow> command_built c"
  "reason_command sg s tools skills = Inr c \<Longrightarrow> command_built c"
  "compensation_command E sg f span key snapshot = Inr c \<Longrightarrow> null_or is_dict snapshot \<Longrightarrow> command_built c"
  using slim_tool_specs_dicts
  by (auto simp: commit_command_def reason_command_def compensation_command_def make_command_def
      command_built_def null_or_def split: list.splits prod.splits)


text \<open>The new row of an emission.\<close>

lemma emitted_row:
  assumes "emit_saga_event E topic ety payload ns tid sid key db = (Inr u, db')"
    and "db_outbox db' = db_outbox db @ [row]"
  shows "ob_payload row = JObj payload \<and> ob_namespace row = ns \<and> ob_saga_trace_id row = tid
       \<and> ob_step_span_id row = opt_text sid \<and> ob_event_type row = ety \<and> ob_topic row = topic"
  using assms
  by (auto simp: emit_saga_event_def publish_def uuid4_hex_def outbox_put_def monad_simps Let_def
      split: if_splits option.splits)

lemma dump_command_head:
  "map_of (dump_command c) ''namespace'' = Some (JStr (cmd_namespace c))"
  "map_of (dump_command c) ''saga_trace_id'' = Some (JStr (cmd_trace c))"
  "map_of (dump_command c) ''step_span_id'' = Some (JStr (cmd_span c))"
  by (simp_all add: dump_command_def command_dict_def drop_none_def)

lemma dump_command_wire: "coerce_worker_command_dict (dump_command c) = dump_command c"
  by (auto simp: coerce_worker_command_dict_def dump_command_def command_dict_def drop_none_def filter_empty_conv
      intro!: filter_True split: command_type.splits)

lemma coerce_assembled_command:
  assumes "command_errors c = []" "ob_payload row = JObj (dump_command c)" "ob_namespace row = cmd_namespace c"
    "ob_saga_trace_id row = cmd_trace c" "ob_step_span_id row = cmd_span c" "ob_event_type row \<noteq> []"
  shows "coerce_worker_command_dict (assemble_consumer_payload row) = dump_command c"
proof -
  have "cmd_namespace c \<noteq> []" "cmd_trace c \<noteq> []" "cmd_span c \<noteq> []"
    using assms(1) by (auto simp: command_errors_def namespace_ok_def trace_ok_def span_ok_def)
  with assms(2-) show ?thesis
    using dump_command_wire [of c]
    by (simp add: coerce_worker_command_dict_def assemble_consumer_payload_def filter_dset
        dset_same dump_command_head)
qed

lemma command_dict_distinct: "distinct (map fst (command_dict c))"
  by (simp add: command_dict_def split: command_type.splits)

lemmas dump_command_read = drop_none_read [OF command_dict_distinct, folded dump_command_def]

lemma command_type_of_value [simp]: "command_type_of (JStr (command_type_value ty)) = Some ty"
  by (cases ty) (simp_all add: command_type_of_def)

lemma command_of_dump: "command_built c \<Longrightarrow> command_of_dict (cmd_type c) (dump_command c) = c"
  by (cases c; cases "cmd_type c")
    (auto simp: command_of_dict_def dump_command_read field_or_def command_dict_def dict_eval command_built_def
      command_errors_def dest!: is_list_D is_dict_D)

lemma dump_command_fields:
  "forbid_extra (command_common_fields @ command_fields (cmd_type c)) (dump_command c) = []"
  by (cases "cmd_type c")
    (auto simp: forbid_extra_def filter_empty_conv dump_command_def command_dict_def drop_none_def
      command_common_fields_def)

lemma dump_command_typed:
  "command_built c \<Longrightarrow>
     is_str (dget ''saga_trace_id'' (dump_command c)) \<and> is_str (dget ''step_span_id'' (dump_command c))
   \<and> is_str (dget ''worker_name'' (dump_command c)) \<and> is_str (dget ''worker_version'' (dump_command c))
   \<and> is_str (dget ''idempotency_key'' (dump_command c)) \<and> absent_or ''namespace'' is_str (dump_command c)
   \<and> absent_or ''tool_specs'' is_list (dump_command c) \<and> absent_or ''resource_specs'' is_list (dump_command c)
   \<and> absent_or ''skill_specs'' is_list (dump_command c)
   \<and> list_all is_dict (list_of (dget ''tool_specs'' (dump_command c)))
   \<and> null_or is_dict (dget ''worker_snapshot'' (dump_command c))"
  by (cases "cmd_type c")
    (auto simp: dump_command_read absent_or_def command_dict_def dict_eval command_built_def null_or_def
      dest!: is_list_D)

lemma dump_command_accepted:
  assumes "command_built c"
  shows "command_dict_errors (cmd_type c) (dump_command c) = []"
  using dump_command_typed [OF assms] assms
  by (simp add: command_dict_errors_def command_of_dump dump_command_fields) (simp add: command_built_def)

text \<open>C30: a command arrives as it was sent: whatever the engine builds for a forward step or an
  undo, the row it puts into the outbox is assembled, stripped, parsed and validated by the worker into
  the very same command.\<close>

theorem command_reaches_worker:
  assumes "commit_command sg s tools = Inr c \<or> reason_command sg s tools skills = Inr c
      \<or> compensation_command E sg f span key (worker_snapshot ns name ver db0) = Inr c"
    and "emit_command E c db = (Inr u, db')" "db_outbox db' = db_outbox db @ [row]"
  shows "parse_worker_command E (assemble_consumer_payload row) = Inr c"
proof -
  have "null_or is_dict (worker_snapshot ns name ver db0)"
    by (simp add: worker_snapshot_def null_or_def split: option.split)
  then have built: "command_built c" using assms(1) built_commands by blast
  have "coerce_worker_command_dict (assemble_consumer_payload row) = dump_command c"
    using emitted_row [OF assms(2) [unfolded emit_command_def] assms(3)] built
    by (intro coerce_assembled_command) (simp_all add: command_built_def opt_text_def, cases "cmd_type c", simp_all)
  moreover have "dget ''type'' (dump_command c) = JStr (command_type_value (cmd_type c))"
    by (simp add: dump_command_read command_dict_def dict_eval)
  ultimately show ?thesis
    by (simp add: parse_worker_command_def dump_command_accepted [OF built] command_of_dump [OF built])
qed

definition demo_command :: command where
  "demo_command = \<lparr>cmd_type = DO_COMMIT, cmd_namespace = ''n'', cmd_trace = demo_tid, cmd_span = demo_span,
     cmd_worker_name = ''w'', cmd_worker_version = ''1'', cmd_key = ''k'' @ demo_span, cmd_prompt_ref = JNull,
     cmd_arguments = JObj [], cmd_tool_specs = JList [JObj [(''name'', JStr ''t'')]],
     cmd_resource_specs = JList [], cmd_skill_specs = JList [], cmd_forward_span = [],
     cmd_failure_reason = JNull, cmd_worker_snapshot = JNull\<rparr>"

lemma demo_command:
  "commit_command (demo_saga Saga_RUNNING) (demo_step demo_span 0 Step_IN_PROGRESS) [JObj [(''name'', JStr ''t'')]]
     = Inr demo_command"
  by (simp add: commit_command_def demo_command_def demo_saga_def demo_step_def make_command_def command_errors_def
      need_def jor_def slim_tool_specs_def dget_def py_str_def List.map_filter_def namespace_ok_def trace_ok_def
      span_ok_def demo_tid_def demo_span_def is_hex_def list_all_replicate)

definition demo_command_row :: outbox_event where
  "demo_command_row = \<lparr>ob_id = demo_uuid 0, ob_namespace = ''n'', ob_saga_trace_id = demo_tid,
     ob_step_span_id = demo_span, ob_event_type = ''DO_COMMIT'', ob_topic = ''cmd'',
     ob_idempotency_key = Some (''k'' @ demo_span), ob_payload = JObj (dump_command demo_command),
     ob_status = Outbox_PENDING, ob_created_at = 100, ob_updated_at = 100\<rparr>"

lemma demo_command_small: "length (json_dumps False (JObj (dump_command demo_command))) \<le> 262144"
  by (simp add: dump_command_def command_dict_def drop_none_def demo_command_def demo_tid_def demo_span_def
      dumps_str_def json_char_def)

theorem command_reaches_worker_witness:
  "parse_worker_command demo_env (assemble_consumer_payload demo_command_row) = Inr demo_command"
proof (rule command_reaches_worker [OF disjI1 [OF demo_command]])
  show "emit_command demo_env demo_command empty_db = (Inr (), empty_db\<lparr>db_uuids := 1, db_outbox := [demo_command_row]\<rparr>)"
    using demo_command_small
    by (simp add: emit_command_def emit_saga_event_def publish_def uuid4_hex_def outbox_put_def outbox_has_def
        monad_simps demo_env_fields demo_command_row_def empty_db_def opt_text_def Let_def demo_command_def)
  show "db_outbox (empty_db\<lparr>db_uuids := 1, db_outbox := [demo_command_row]\<rparr>) = db_outbox empty_db @ [demo_command_row]"
    by (simp add: empty_db_def)
qed

text \<open>The types a worker reports.\<close>

definition result_types :: "event_type set" where
  "result_types = {STEP_COMPLETED, STEP_FAILED, STEP_COMPENSATED, COMPENSATION_FAILED}"

lemma report_result_emits:
  assumes "ety \<in> result_types" "namespace_ok ns" "trace_ok tid" "span_ok sid"
  shows "report_result E ety ns tid sid output timing usage =
     emit_saga_event E (topic_events E) (event_type_value ety)
       (result_payload ety ns tid sid output timing usage) ns tid (Some sid) None"
  using assms by (auto simp: report_result_def result_types_def result_errors_def need_def)

text \<open>The payload of a result as the engine's consumer assembles and strips it.\<close>

definition result_fields :: "event_type \<Rightarrow> string \<Rightarrow> string \<Rightarrow> string \<Rightarrow> dict \<Rightarrow> json \<Rightarrow> json \<Rightarrow> dict" where
  "result_fields ety ns tid sid output timing usage =
     [(''namespace'', JStr ns), (''saga_trace_id'', JStr tid), (''step_span_id'', JStr sid),
      (''output'', JObj output), (''timing'', timing), (''usage'', usage)]
     @ (if ety = STEP_FAILED \<or> ety = COMPENSATION_FAILED then [(''error_details'', JObj output)] else [])
     @ [(''event_type'', JStr (event_type_value ety)), (''trace_context'', JObj [])]"

lemma result_payload_head:
  "map_of (result_payload ety ns tid sid output timing usage) ''namespace'' = Some (JStr ns)"
  "map_of (result_payload ety ns tid sid output timing usage) ''saga_trace_id'' = Some (JStr tid)"
  "map_of (result_payload ety ns tid sid output timing usage) ''step_span_id'' = Some (JStr sid)"
  by (simp_all add: result_payload_def drop_none_def)

lemma result_payload_has:
  "\<not> dhas ''event_type'' (result_payload ety ns tid sid output timing usage)"
  "\<not> dhas ''trace_context'' (result_payload ety ns tid sid output timing usage)"
  "dhas ''type'' (result_payload ety ns tid sid output timing usage)"
  by (auto simp: result_payload_def drop_none_append dict_eval)

lemma assembled_result:
  assumes "ob_payload row = JObj (result_payload ety ns tid sid output timing usage)" "ob_namespace row = ns"
      "ob_saga_trace_id row = tid" "ob_step_span_id row = sid" "ob_event_type row = event_type_value ety"
    and "ns \<noteq> []" "tid \<noteq> []" "sid \<noteq> []"
  shows "assemble_consumer_payload row = result_payload ety ns tid sid output timing usage
     @ [(''event_type'', JStr (event_type_value ety)), (''trace_context'', JObj [])]"
proof -
  have "event_type_value ety \<noteq> []" by (cases ety) simp_all
  then show ?thesis using assms result_payload_has
    by (simp add: assemble_consumer_payload_def dset_absent dset_same map_of_append result_payload_head dict_eval)
qed

lemma coerce_assembled_result:
  assumes "ob_payload row = JObj (result_payload ety ns tid sid output timing usage)" "ob_namespace row = ns"
      "ob_saga_trace_id row = tid" "ob_step_span_id row = sid" "ob_event_type row = event_type_value ety"
    and "ns \<noteq> []" "tid \<noteq> []" "sid \<noteq> []" "ety \<noteq> SAGA_STARTED"
  shows "coerce_saga_ingest_dict (assemble_consumer_payload row) =
     drop_none (result_fields ety ns tid sid output timing usage)"
proof -
  have "JStr (event_type_value ety) \<noteq> JStr ''SAGA_STARTED''" using assms(9) by (cases ety) simp_all
  moreover have "dget ''event_type'' (filter (\<lambda>(k, _). k \<noteq> ''type'') p @ [(''event_type'', v), t]) = v"
    if "\<not> dhas ''event_type'' p" for p v t
    using that by (cases t) (auto simp: dict_eval dhas_def)
  ultimately show ?thesis using assms(9)
    by (simp add: coerce_saga_ingest_dict_def assembled_result [OF assms(1-8)] dict_eval result_payload_has
        ingest_strip_def Let_def)
       (simp add: result_payload_def result_fields_def filter_drop_none drop_none_append dict_eval)
qed

lemma result_fields_read:
  "dget k (drop_none (result_fields ety ns tid sid output timing usage))
     = dget k (result_fields ety ns tid sid output timing usage)"
  "dhas k (drop_none (result_fields ety ns tid sid output timing usage))
     \<longleftrightarrow> dget k (result_fields ety ns tid sid output timing usage) \<noteq> JNull"
  by (rule drop_none_read, simp add: result_fields_def)+

lemma result_fields_values:
  "dget ''namespace'' (result_fields ety ns tid sid output timing usage) = JStr ns"
  "dget ''saga_trace_id'' (result_fields ety ns tid sid output timing usage) = JStr tid"
  "dget ''step_span_id'' (result_fields ety ns tid sid output timing usage) = JStr sid"
  "dget ''output'' (result_fields ety ns tid sid output timing usage) = JObj output"
  "dget ''timing'' (result_fields ety ns tid sid output timing usage) = timing"
  "dget ''usage'' (result_fields ety ns tid sid output timing usage) = usage"
  "dget ''event_type'' (result_fields ety ns tid sid output timing usage) = JStr (event_type_value ety)"
  "dget ''trace_context'' (result_fields ety ns tid sid output timing usage) = JObj []"
  "dget ''retry_guidance'' (result_fields ety ns tid sid output timing usage) = JNull"
  "dget ''error_details'' (result_fields ety ns tid sid output timing usage)
     = (if ety = STEP_FAILED \<or> ety = COMPENSATION_FAILED then JObj output else JNull)"
  by (simp_all add: result_fields_def dict_eval)

lemmas result_fields_eval = result_fields_read result_fields_values

lemma result_fields_known:
  "ety \<in> result_types \<Longrightarrow>
   filter (\<lambda>(k, _). k \<notin> set (envelope_fields @ event_fields ety))
     (drop_none (result_fields ety ns tid sid output timing usage)) = []"
  by (auto simp: result_types_def filter_empty_conv result_fields_def drop_none_def envelope_fields_def)

lemma event_type_of_value [simp]: "event_type_of (event_type_value ety) = Some ety"
  by (cases ety) (simp_all add: event_type_of_def)

lemma result_arrives:
  assumes "report_result E ety ns tid sid output timing usage db = (Inr u, db')"
    and "db_outbox db' = db_outbox db @ [row]" "dict_or_none timing" "dict_or_none usage"
  shows "validate_ingest (coerce_saga_ingest_dict (assemble_consumer_payload row)) =
     Inr \<lparr>ev_type = ety, ev_namespace = ns, ev_trace = tid, ev_span = Some sid, ev_output = JObj output,
          ev_error_details = (if ety = STEP_FAILED \<or> ety = COMPENSATION_FAILED then JObj output else JNull),
          ev_retry_guidance = JNull\<rparr>"
proof -
  have ety: "ety \<in> result_types"
    using assms(1,2) by (auto simp: report_result_def result_types_def monad_simps split: if_splits)
  have ok: "namespace_ok ns" "trace_ok tid" "span_ok sid"
    using assms(1) ety
    by (auto simp: report_result_def result_types_def result_errors_def need_def monad_simps split: if_splits)
  then have ne: "ns \<noteq> []" "tid \<noteq> []" "sid \<noteq> []"
    by (auto simp: namespace_ok_def trace_ok_def span_ok_def)
  have row: "coerce_saga_ingest_dict (assemble_consumer_payload row) =
      drop_none (result_fields ety ns tid sid output timing usage)"
    using emitted_row [OF assms(1) [unfolded report_result_emits [OF ety ok]] assms(2)] ne ety
    by (intro coerce_assembled_result) (auto simp: opt_text_def result_types_def)
  have "event_errors ety (drop_none (result_fields ety ns tid sid output timing usage)) = []"
    using ok ne assms(3,4) ety result_fields_known [OF ety, of ns tid sid "output" timing usage]
    by (simp add: event_errors_def result_fields_eval span_of_def dict_or_none_def)
  then show ?thesis
    using ne by (simp add: row validate_ingest_def result_fields_eval span_of_def)
qed

text \<open>C31: a result arrives as it was reported: the row the worker puts into the outbox is assembled,
  normalized and validated by the engine into the event of that type, for that step of that saga, with
  that output, which a failure also carries as its error details.\<close>

theorem result_reaches_engine:
  assumes "report_result E ety ns tid sid output timing usage db = (Inr u, db')"
    and "db_outbox db' = db_outbox db @ [row]" "dict_or_none timing" "dict_or_none usage"
  shows "validate_ingest (coerce_saga_ingest_dict (assemble_consumer_payload row)) =
     Inr \<lparr>ev_type = ety, ev_namespace = ns, ev_trace = tid, ev_span = Some sid, ev_output = JObj output,
          ev_error_details = (if ety = STEP_FAILED \<or> ety = COMPENSATION_FAILED then JObj output else JNull),
          ev_retry_guidance = JNull\<rparr>"
  using assms by (rule result_arrives)

theorem result_reaches_engine_witness:
  "\<exists>row. db_outbox (snd (report_result demo_env STEP_FAILED ''n'' demo_tid demo_span [(''error'', JStr ''e'')]
        JNull JNull empty_db)) = [row]
     \<and> parsed_event (assemble_consumer_payload row) =
         Inr \<lparr>ev_type = STEP_FAILED, ev_namespace = ''n'', ev_trace = demo_tid, ev_span = Some demo_span,
              ev_output = JObj [(''error'', JStr ''e'')], ev_error_details = JObj [(''error'', JStr ''e'')],
              ev_retry_guidance = JNull\<rparr>"
proof -
  let ?run = "report_result demo_env STEP_FAILED ''n'' demo_tid demo_span [(''error'', JStr ''e'')] JNull JNull empty_db"
  have "report_result demo_env STEP_FAILED ''n'' demo_tid demo_span [(''error'', JStr ''e'')] JNull JNull
      = emit_saga_event demo_env ''evt'' ''STEP_FAILED'' (result_payload STEP_FAILED ''n'' demo_tid demo_span
          [(''error'', JStr ''e'')] JNull JNull) ''n'' demo_tid (Some demo_span) None"
    by (subst report_result_emits)
      (simp_all add: result_types_def namespace_ok_def trace_ok_def span_ok_def is_hex_def list_all_replicate
        demo_tid_def demo_span_def demo_env_fields)
  then obtain row db' where run: "?run = (Inr (), db')" "db_outbox db' = db_outbox empty_db @ [row]"
    by (simp add: emit_saga_event_def publish_def uuid4_hex_def outbox_put_def outbox_has_def monad_simps
        demo_env_fields empty_db_def Let_def)
  from result_reaches_engine [OF run] run show ?thesis by (simp add: dict_or_none_def empty_db_def)
qed

end
