(* ===== verification/Answers.thy ===== *)
theory Answers imports Working begin

text \<open>
  A claimed command is always answered.  \<open>outcome P m Q F\<close> says that \<open>m\<close>, run on a
  database with \<open>P\<close>, ends in \<open>Q\<close> when it returns and in \<open>F\<close> when it raises;
  with \<open>F\<close> false it always returns.  The rules follow the program.
\<close>

section \<open>Outcomes\<close>

definition outcome :: "(db \<Rightarrow> bool) \<Rightarrow> 'a M \<Rightarrow> ('a \<Rightarrow> db \<Rightarrow> bool) \<Rightarrow> (exc \<Rightarrow> db \<Rightarrow> bool) \<Rightarrow> bool" where
  "outcome P m Q F \<longleftrightarrow> (\<forall>db. P db \<longrightarrow> (case m db of (Inr x, db') \<Rightarrow> Q x db' | (Inl e, db') \<Rightarrow> F e db'))"

abbreviation never :: "exc \<Rightarrow> db \<Rightarrow> bool" where
  "never e db \<equiv> False"

named_theorems outcome_intros \<open>rules that decompose an \<open>outcome\<close> goal along the program\<close>

lemma outcomeI:
  "(\<And>db. P db \<Longrightarrow> case m db of (Inr x, db') \<Rightarrow> Q x db' | (Inl e, db') \<Rightarrow> F e db') \<Longrightarrow> outcome P m Q F"
  by (simp add: outcome_def)

lemma outcome_returns: "outcome P m Q never \<Longrightarrow> P db \<Longrightarrow> \<exists>x db'. m db = (Inr x, db') \<and> Q x db'"
  by (cases "m db"; cases "fst (m db)") (auto simp: outcome_def)

lemma outcome_pre: "outcome P m Q F \<Longrightarrow> (\<And>db. P' db \<Longrightarrow> P db) \<Longrightarrow> outcome P' m Q F"
  by (simp add: outcome_def)

lemma outcome_post:
  "outcome P m Q F \<Longrightarrow> (\<And>x db. Q x db \<Longrightarrow> Q' x db) \<Longrightarrow> outcome P m Q' F"
  by (fastforce simp: outcome_def split: prod.splits sum.splits)

lemma outcome_return: "(\<And>db. P db \<Longrightarrow> Q x db) \<Longrightarrow> outcome P (return x) Q F"
  by (simp add: outcome_def monad_simps)

lemma outcome_raise: "(\<And>db. P db \<Longrightarrow> F e db) \<Longrightarrow> outcome P (raise e) Q F"
  by (simp add: outcome_def monad_simps)

lemma outcome_bind: "outcome P m Q F \<Longrightarrow> (\<And>x. outcome (Q x) (k x) R F) \<Longrightarrow> outcome P (bind m k) R F"
  by (fastforce simp: outcome_def bind_def split: prod.splits sum.splits)

lemma outcome_seq: "outcome P m (\<lambda>_. Q) F \<Longrightarrow> outcome Q k R F \<Longrightarrow> outcome P (seq m k) R F"
  unfolding seq_def by (rule outcome_bind)

lemma outcome_try_except:
  "outcome P m Q F' \<Longrightarrow> (\<And>e. outcome (F' e) (h e) Q F) \<Longrightarrow> outcome P (try_except m h) Q F"
  by (fastforce simp: outcome_def try_except_def split: prod.splits sum.splits)

lemma outcome_in_transaction: "outcome P m Q never \<Longrightarrow> outcome P (in_transaction m) Q never"
  by (fastforce simp: outcome_def in_transaction_def split: prod.splits sum.splits)

lemma outcome_hook: "(\<And>db. P db \<Longrightarrow> Q (db\<lparr>db_hooks := db_hooks db @ [h]\<rparr>)) \<Longrightarrow> outcome P (hook h) (\<lambda>_. Q) F"
  by (simp add: outcome_def hook_def modify_def)

lemma outcome_when: "outcome (\<lambda>_. True) m Q F \<Longrightarrow> outcome (\<lambda>_. b) (when_do b m) Q F"
  by (cases b) (simp_all add: when_do_def, simp add: outcome_def)

section \<open>The claim and the answer\<close>

definition owned :: "string \<Rightarrow> string \<Rightarrow> db \<Rightarrow> bool" where
  "owned key token db \<longleftrightarrow> claim_still_owned key token db \<noteq> None"

definition answered :: "env \<Rightarrow> command \<Rightarrow> event_type \<Rightarrow> db \<Rightarrow> bool" where
  "answered E c ety db \<longleftrightarrow> outbox_has (cmd_namespace c) (topic_events E)
     (default_key (cmd_trace c) (event_type_value ety) (cmd_span c)) (db_outbox db)"

lemma owned_claims [simp]:
  "owned key token (db\<lparr>db_hooks := hs\<rparr>) = owned key token db"
  "answered E c ety (db\<lparr>db_hooks := hs\<rparr>) = answered E c ety db"
  "answered E c ety (db\<lparr>db_claims := cs\<rparr>) = answered E c ety db"
  by (simp_all add: owned_def claim_still_owned_def answered_def)

definition well_addressed :: "command \<Rightarrow> bool" where
  "well_addressed c \<longleftrightarrow> namespace_ok (cmd_namespace c) \<and> trace_ok (cmd_trace c) \<and> span_ok (cmd_span c)"

lemma parsed_well_addressed: "parse_worker_command E raw = Inr c \<Longrightarrow> well_addressed c"
  by (auto simp: parse_worker_command_def command_dict_errors_def command_errors_def well_addressed_def Let_def
      split: option.splits list.splits)

lemma emitted_key:
  assumes "topic \<noteq> topic_commands E"
  shows "\<exists>db'. emit_saga_event E topic ety payload ns tid (Some sid) None db = (Inr (), db')
           \<and> outbox_has ns topic (default_key tid ety sid) (db_outbox db') \<and> db_claims db' = db_claims db"
proof -
  have "outbox_has ns topic k (outbox_put \<lparr>ob_id = i, ob_namespace = ns, ob_saga_trace_id = t,
      ob_step_span_id = s, ob_event_type = y, ob_topic = topic, ob_idempotency_key = Some k, ob_payload = d,
      ob_status = st, ob_created_at = c, ob_updated_at = u\<rparr> rows)" for i t s y k d st c u rows
    by (simp add: outbox_has_def outbox_put_def)
  then show ?thesis using assms
    by (simp add: emit_saga_event_def publish_def uuid4_hex_def monad_simps opt_text_def Let_def)
qed

lemma report_result_answers:
  assumes "topic_events E \<noteq> topic_commands E" "well_addressed c" "ety \<in> result_types"
  shows "outcome P (report_result E ety (cmd_namespace c) (cmd_trace c) (cmd_span c) output timing usage)
           (\<lambda>_. answered E c ety) never"
proof (rule outcomeI)
  fix db
  obtain db' where "emit_saga_event E (topic_events E) (event_type_value ety)
      (result_payload ety (cmd_namespace c) (cmd_trace c) (cmd_span c) output timing usage)
      (cmd_namespace c) (cmd_trace c) (Some (cmd_span c)) None db = (Inr (), db')" "answered E c ety db'"
    using emitted_key [OF assms(1)] unfolding answered_def by blast
  then show "case report_result E ety (cmd_namespace c) (cmd_trace c) (cmd_span c) output timing usage db of
      (Inr x, db') \<Rightarrow> answered E c ety db' | (Inl e, db') \<Rightarrow> False"
    using assms(2,3) by (simp add: report_result_emits well_addressed_def)
qed

text \<open>Each way a worker ends an execution, with the claim it owns, returns and answers.\<close>

lemma finalize_success_answers:
  assumes "topic_events E \<noteq> topic_commands E" "well_addressed c" "ety \<in> result_types"
  shows "outcome (owned (cmd_key c) token) (finalize_success E c token ety output timing usage)
           (\<lambda>_. answered E c ety) never"
proof -
  have "outcome (owned (cmd_key c) token) (mark_claim_result_emitted (cmd_key c) token) (\<lambda>b _. b) never"
    by (auto simp: outcome_def mark_claim_result_emitted_def owned_def claim_still_owned_def rows_first_None
        filter_empty_conv)
  then show ?thesis unfolding finalize_success_def
    by (rule outcome_in_transaction [OF outcome_bind [OF _ outcome_when [OF outcome_seq
          [OF report_result_answers [OF assms] outcome_seq [OF outcome_hook outcome_hook]]]]]) simp_all
qed

lemma finalize_failure_answers:
  assumes "topic_events E \<noteq> topic_commands E" "well_addressed c" "ety \<in> result_types"
  shows "outcome (owned (cmd_key c) token) (finalize_failure E c token ety output code timing usage)
           (\<lambda>_. answered E c ety) never"
proof -
  have verify: "outcome (owned (cmd_key c) token) (verify_claim_before_emit (cmd_key c) token) (\<lambda>b _. b) never"
    by (simp add: outcome_def verify_claim_before_emit_def gets_def owned_def)
  have release: "outcome (answered E c ety) (release_command_claim key t) (\<lambda>_. answered E c ety) never" for key t
    by (simp add: outcome_def release_command_claim_def modify_def)
  show ?thesis unfolding finalize_failure_def
    by (rule outcome_in_transaction [OF outcome_bind [OF verify outcome_when [OF outcome_seq
          [OF report_result_answers [OF assms] outcome_seq [OF outcome_hook outcome_seq
            [OF outcome_hook release]]]]]]) simp_all
qed

section \<open>Preparing and running\<close>

fun answer_types :: "command_type \<Rightarrow> event_type set" where
  "answer_types EXECUTE_COMPENSATION = {STEP_COMPENSATED, COMPENSATION_FAILED, STEP_FAILED}"
| "answer_types _ = {STEP_COMPLETED, STEP_FAILED}"

definition answered_as :: "env \<Rightarrow> command \<Rightarrow> db \<Rightarrow> bool" where
  "answered_as E c db \<longleftrightarrow> (\<exists>ety\<in>answer_types (cmd_type c). answered E c ety db)"

lemma answer_types_result: "ety \<in> answer_types ty \<Longrightarrow> ety \<in> result_types"
  by (cases ty) (auto simp: result_types_def)

lemma answered_asI:
  "outcome P m (\<lambda>_. answered E c ety) F \<Longrightarrow> ety \<in> answer_types (cmd_type c) \<Longrightarrow> outcome P m (\<lambda>_. answered_as E c) F"
  by (erule outcome_post) (auto simp: answered_as_def)

text \<open>The reads of a preparation change nothing, and raise only what its caller handles.\<close>

lemma prepare_reads:
  "outcome (\<lambda>db. db = db0) (prepare_worker_command c)
     (\<lambda>p db. db = db0 \<and> (cmd_type c = DO_STEP \<longrightarrow> opt_text (pr_prompt_template p) \<noteq> []))
     (\<lambda>e db. db = db0 \<and> is_plain_value_error e)"
  by (auto simp: outcome_def prepare_worker_command_def prepare_compensation_command_def
      prepare_forward_command_def load_forward_step_def load_saga_instance_def load_do_step_prompt_def
      and_then_def is_plain_value_error_def monad_simps strip_def opt_text_def Let_def
      split: option.splits if_splits sum.splits prod.splits)

lemma load_config_reads:
  "outcome (\<lambda>db. db = db0) (load_worker_config E name ns version) (\<lambda>_ db. db = db0)
     (\<lambda>e db. db = db0 \<and> (catalog_error_code e \<noteq> None \<or> is_plain_value_error e))"
  by (auto simp: outcome_def load_worker_config_def require_worker_definition_def resolve_provider_secret_def
      catalog_error_code_def is_plain_value_error_def monad_simps Let_def
      split: option.splits if_splits list.splits)

lemma snapshot_reads:
  "outcome (\<lambda>db. db = db0) (of_sum (assert_worker_snapshot_version snap v)) (\<lambda>_ db. db = db0)
     (\<lambda>e db. db = db0 \<and> (catalog_error_code e \<noteq> None \<or> is_plain_value_error e))"
  by (auto simp: outcome_def assert_worker_snapshot_version_def is_plain_value_error_def monad_simps Let_def)

lemma load_failure_answers:
  assumes "topic_events E \<noteq> topic_commands E" "well_addressed c"
  shows "outcome (owned (cmd_key c) token) (finalize_worker_config_load_failure E c token error code)
           (\<lambda>_. answered_as E c) never"
proof -
  have "outcome (owned (cmd_key c) token) (in_transaction (seq (hook h)
      (finalize_failure E c token ety output code JNull JNull))) (\<lambda>_. answered_as E c) never"
    if "ety \<in> answer_types (cmd_type c)" for ety h "output"
    by (intro answered_asI [OF _ that] outcome_in_transaction
        outcome_seq [OF outcome_hook [where Q = "owned (cmd_key c) token"]] finalize_failure_answers assms
        answer_types_result [OF that]) simp
  then show ?thesis
    by (cases "cmd_type c") (simp_all add: finalize_worker_config_load_failure_def Let_def)
qed

text \<open>The command is answered, or an execution is left to run under the claim.\<close>

definition started :: "env \<Rightarrow> command \<Rightarrow> string \<Rightarrow> execution option \<Rightarrow> db \<Rightarrow> bool" where
  "started E c token ex db = (case ex of
     None \<Rightarrow> answered_as E c db
   | Some x \<Rightarrow> owned (cmd_key c) token db \<and> ex_command x = c \<and> ex_token x = token
       \<and> (cmd_type c = DO_STEP \<longrightarrow> opt_text (pr_prompt_template (ex_prepared x)) \<noteq> []))"

lemma answered_then_None:
  "outcome P m (\<lambda>_. answered_as E c) never \<Longrightarrow> outcome P (seq m (return None)) (started E c token) never"
  by (erule outcome_seq) (auto intro: outcome_return simp: started_def)

lemma resolve_and_start_outcome:
  assumes "topic_events E \<noteq> topic_commands E" "well_addressed c"
    and "cmd_type c = DO_STEP \<longrightarrow> opt_text (pr_prompt_template p) \<noteq> []"
  shows "outcome (owned (cmd_key c) token) (resolve_and_start E c p token config) (started E c token) never"
proof (cases "resolve_adapter_error E (fst config)")
  case None
  then show ?thesis using assms(3)
    by (simp add: resolve_and_start_def)
      (intro outcome_seq [OF outcome_hook [where Q = "owned (cmd_key c) token"]] outcome_return,
        simp_all add: started_def)
next
  case (Some e)
  have "STEP_FAILED \<in> answer_types (cmd_type c)" by (cases "cmd_type c") simp_all
  with Some show ?thesis
    by (simp add: resolve_and_start_def finalize_adapter_resolution_failure_def)
      (intro answered_then_None answered_asI [where ety = STEP_FAILED] outcome_in_transaction
        finalize_failure_answers assms; simp add: result_types_def)
qed

lemma load_config_and_start_outcome:
  assumes "topic_events E \<noteq> topic_commands E" "well_addressed c"
    and "cmd_type c = DO_STEP \<longrightarrow> opt_text (pr_prompt_template p) \<noteq> []"
  shows "outcome (owned (cmd_key c) token) (load_config_and_start E c p token) (started E c token) never"
proof (rule outcomeI)
  fix db assume own: "owned (cmd_key c) token db"
  let ?here = "\<lambda>db'. db' = db"
  let ?post = "\<lambda>l db'. case l of None \<Rightarrow> answered_as E c db' | Some config \<Rightarrow> ?here db'"
  have fail: "outcome ?here (seq (finalize_worker_config_load_failure E c token t code) (return None)) ?post never"
    for t code
    by (rule outcome_seq [OF outcome_pre [OF load_failure_answers [OF assms(1,2)]] outcome_return]) (simp_all add: own)
  have "outcome ?here (load_config_and_start E c p token) (started E c token) never"
    unfolding load_config_and_start_def
  proof (rule outcome_bind [where Q = ?post], rule outcome_try_except
      [where F' = "\<lambda>e db'. db' = db \<and> (catalog_error_code e \<noteq> None \<or> is_plain_value_error e)"])
    show "outcome ?here (bind (of_sum (assert_worker_snapshot_version (cmd_worker_snapshot c) (cmd_worker_version c)))
        (\<lambda>_. bind (load_worker_config E (cmd_worker_name c) (cmd_namespace c) (cmd_worker_version c))
           (\<lambda>config. return (Some config)))) ?post
        (\<lambda>e db'. db' = db \<and> (catalog_error_code e \<noteq> None \<or> is_plain_value_error e))"
      by (rule outcome_bind [OF snapshot_reads outcome_bind [OF load_config_reads outcome_return]]) simp
  next
    fix e
    show "outcome (\<lambda>db'. db' = db \<and> (catalog_error_code e \<noteq> None \<or> is_plain_value_error e))
        (case catalog_error_code e of
           Some code \<Rightarrow> seq (finalize_worker_config_load_failure E c token (exc_text E e) code) (return None)
         | None \<Rightarrow> if is_plain_value_error e
             then seq (finalize_worker_config_load_failure E c token (exc_text E e) ''worker_config_load_failed'')
                    (return None)
             else raise e) ?post never"
      by (cases "catalog_error_code e"; cases "is_plain_value_error e")
        (auto intro: outcome_pre [OF fail] outcome_raise)
  next
    fix l
    show "outcome (?post l) (case l of None \<Rightarrow> return None | Some config \<Rightarrow> resolve_and_start E c p token config)
        (started E c token) never"
      by (cases l) (auto intro: outcome_return outcome_pre [OF resolve_and_start_outcome [OF assms]]
          simp: started_def own)
  qed
  then show "case load_config_and_start E c p token db of
      (Inr x, db') \<Rightarrow> started E c token x db' | (Inl e, db') \<Rightarrow> False"
    by (simp add: outcome_def)
qed

lemma execute_claimed_outcome:
  assumes "topic_events E \<noteq> topic_commands E" "well_addressed c"
  shows "outcome (owned (cmd_key c) token) (execute_claimed E c token) (started E c token) never"
proof (rule outcomeI)
  fix db assume own: "owned (cmd_key c) token db"
  let ?here = "\<lambda>db'. db' = db"
  let ?prompted = "\<lambda>p. cmd_type c = DO_STEP \<longrightarrow> opt_text (pr_prompt_template p) \<noteq> []"
  let ?post = "\<lambda>r db'. case r of None \<Rightarrow> answered_as E c db' | Some p \<Rightarrow> db' = db \<and> ?prompted p"
  have fail: "outcome ?here (seq (finalize_worker_config_load_failure E c token t code) (return None)) ?post never"
    for t code
    by (rule outcome_seq [OF outcome_pre [OF load_failure_answers [OF assms]] outcome_return]) (simp_all add: own)
  have "outcome ?here (execute_claimed E c token) (started E c token) never"
    unfolding execute_claimed_def
  proof (rule outcome_bind [where Q = ?post], rule outcome_try_except
      [where F' = "\<lambda>e db'. db' = db \<and> is_plain_value_error e"])
    show "outcome ?here (bind (prepare_worker_command c) (\<lambda>p. return (Some p))) ?post
        (\<lambda>e db'. db' = db \<and> is_plain_value_error e)"
      by (rule outcome_bind [OF prepare_reads outcome_return]) simp
  next
    fix e
    show "outcome (\<lambda>db'. db' = db \<and> is_plain_value_error e)
        (if is_plain_value_error e
         then seq (finalize_worker_config_load_failure E c token (exc_text E e) ''worker_config_load_failed'')
                (return None)
         else raise e) ?post never"
      by (auto intro: outcome_pre [OF fail] outcome_raise)
  next
    fix r
    show "outcome (?post r) (case r of None \<Rightarrow> return None | Some p \<Rightarrow> load_config_and_start E c p token)
        (started E c token) never"
    proof (cases r)
      case (Some p)
      then show ?thesis
        using outcome_pre [OF load_config_and_start_outcome [OF assms, of p token], of "\<lambda>db'. db' = db"]
        by (cases "?prompted p") (auto simp: own outcome_def)
    qed (simp add: outcome_return started_def)
  qed
  then show "case execute_claimed E c token db of
      (Inr x, db') \<Rightarrow> started E c token x db' | (Inl e, db') \<Rightarrow> False"
    by (simp add: outcome_def)
qed

text \<open>A key that no live claim holds is claimed, a stale claim being reaped on the way.\<close>

definition claimable :: "env \<Rightarrow> string \<Rightarrow> db \<Rightarrow> bool" where
  "claimable E key db \<longleftrightarrow> (\<forall>p\<in>set (db_claims db). pc_key p = key \<longrightarrow> claim_is_stale E (db_now db) p)"

lemma claim_attempt_free:
  "find_claim key db = None \<Longrightarrow>
   \<exists>t db'. claim_attempt E key ns db = (Inr t, db') \<and> owned key t db'"
  by (auto simp: claim_attempt_def uuid4_hex_def create_claim_def hook_def monad_simps find_claim_def owned_def
      claim_still_owned_def claim_owned_def rows_first_append rows_first_None split: option.splits)

lemma claim_attempt_taken:
  "find_claim key db = Some p \<Longrightarrow>
   claim_attempt E key ns db = (Inl IntegrityError, db\<lparr>db_uuids := Suc (db_uuids db)\<rparr>)"
  by (simp add: claim_attempt_def uuid4_hex_def create_claim_def monad_simps find_claim_def)

lemma claim_outcome:
  "outcome (claimable E key) (claim_idempotency_key E key ns) (\<lambda>t db. case t of None \<Rightarrow> False | Some t \<Rightarrow> owned key t db)
     never"
proof (rule outcomeI)
  fix db assume able: "claimable E key db"
  show "case claim_idempotency_key E key ns db of
      (Inr t, db') \<Rightarrow> (case t of None \<Rightarrow> False | Some t \<Rightarrow> owned key t db') | (Inl e, db') \<Rightarrow> False"
  proof (cases "find_claim key db")
    case None
    obtain t db1 where "claim_attempt E key ns db = (Inr t, db1)" "owned key t db1"
      using claim_attempt_free [OF None] by blast
    then show ?thesis by (simp add: claim_idempotency_key_def try_except_def bind_def return_def)
  next
    case (Some p)
    let ?stale = "\<lambda>c. pc_key c = key \<and> claim_is_stale E (db_now db) c"
    let ?db = "db\<lparr>db_uuids := Suc (db_uuids db), db_claims := rows_delete ?stale (db_claims db)\<rparr>"
    have "filter ?stale (db_claims db) \<noteq> []"
      using Some able by (auto simp: find_claim_def claimable_def filter_empty_conv dest!: rows_first_Some)
    then have reap: "reap_stale_claim_by_key E key (db\<lparr>db_uuids := Suc (db_uuids db)\<rparr>) = (Inr True, ?db)"
      by (simp add: reap_stale_claim_by_key_def Let_def)
    have "find_claim key ?db = None"
      using able by (auto simp: find_claim_def rows_first_None rows_delete_def claimable_def)
    then obtain t db1 where "claim_attempt E key ns ?db = (Inr t, db1)" "owned key t db1"
      using claim_attempt_free by blast
    then show ?thesis
      by (simp add: claim_idempotency_key_def try_except_def bind_def claim_attempt_taken [OF Some]
          is_integrity_error_def reap return_def)
  qed
qed

lemma dispatch_outcome:
  assumes "topic_events E \<noteq> topic_commands E" "well_addressed (ex_command x)"
    and "cmd_type (ex_command x) = DO_STEP \<longrightarrow> opt_text (pr_prompt_template (ex_prepared x)) \<noteq> []"
  shows "outcome (owned (cmd_key (ex_command x)) (ex_token x)) (dispatch_worker_command_execution E x r)
           (\<lambda>_. answered_as E (ex_command x)) never"
proof -
  let ?c = "ex_command x" and ?t = "ex_token x"
  have ends: "outcome (owned (cmd_key ?c) ?t) (finalize_success E ?c ?t ety output timing usage)
        (\<lambda>_. answered_as E ?c) never"
      "outcome (owned (cmd_key ?c) ?t) (finalize_failure E ?c ?t ety output code timing usage)
        (\<lambda>_. answered_as E ?c) never"
    if "ety \<in> answer_types (cmd_type ?c)" for ety "output" code timing usage
    by (rule answered_asI [OF finalize_success_answers [OF assms(1,2) answer_types_result [OF that]] that]
          answered_asI [OF finalize_failure_answers [OF assms(1,2) answer_types_result [OF that]] that])+
  have forward: "outcome (owned (cmd_key ?c) ?t) (run_forward_command E ?c ?t code r) (\<lambda>_. answered_as E ?c) never"
    if "STEP_COMPLETED \<in> answer_types (cmd_type ?c)" "STEP_FAILED \<in> answer_types (cmd_type ?c)" for code
    unfolding run_forward_command_def Let_def using that by (cases "run_outcome r") (simp_all add: ends)
  have undo: "outcome (owned (cmd_key ?c) ?t) (run_compensation_command E ?c ?t r) (\<lambda>_. answered_as E ?c) never"
    if "cmd_type ?c = EXECUTE_COMPENSATION"
    unfolding run_compensation_command_def Let_def using that by (cases "run_outcome r") (simp_all add: ends)
  show ?thesis unfolding dispatch_worker_command_execution_def
    using assms(3) by (cases "cmd_type ?c") (auto intro: forward undo)
qed


text \<open>The commit of the sample, and an adapter that fails.\<close>

definition demo_run :: adapter_run where
  "demo_run = \<lparr>run_outcome = Adapter_exception ''E: x'' ''x'', run_timing = JNull, run_usage = JNull\<rparr>"

lemma demo_command_parsed: "parse_worker_command demo_env (dump_command demo_command) = Inr demo_command"
proof -
  have "command_built demo_command" by (rule built_commands(1) [OF demo_command])
  moreover have "dget ''type'' (dump_command demo_command) = JStr (command_type_value (cmd_type demo_command))"
    by (simp add: dump_command_read command_dict_def dict_eval)
  ultimately show ?thesis
    by (simp add: parse_worker_command_def dump_command_wire dump_command_accepted command_of_dump)
qed


section \<open>At most once\<close>

lemma not_owned:
  "\<not> owned key token db \<Longrightarrow> verify_claim_before_emit key token db = (Inr False, db)"
  "\<not> owned key token db \<Longrightarrow> mark_claim_result_emitted key token db = (Inr False, db)"
  by (simp_all add: owned_def claim_still_owned_def verify_claim_before_emit_def gets_def
      mark_claim_result_emitted_def rows_first_None filter_empty_conv rows_update_cong_none)

text \<open>C32: a worker that lost its claim, because it was reaped, released by an operator or its result
  already emitted, changes nothing, whatever its adapter did: no result, no claim, no hook.\<close>

theorem superseded_worker_changes_nothing:
  assumes "\<not> owned (cmd_key (ex_command x)) (ex_token x) db"
  shows "snd (dispatch_worker_command_execution E x r db) = db"
proof -
  let ?c = "ex_command x" and ?t = "ex_token x"
  have idle: "finalize_success E ?c ?t ety output timing usage db = (Inr (), db)"
      "finalize_failure E ?c ?t ety output code timing usage db = (Inr (), db)" for ety "output" code timing usage
    by (simp_all add: finalize_success_def finalize_failure_def in_transaction_def bind_def not_owned [OF assms]
        when_do_def skip_def return_def)
  then show ?thesis
    by (cases "cmd_type ?c"; cases "run_outcome r")
      (simp_all add: dispatch_worker_command_execution_def run_forward_command_def run_compensation_command_def
        raise_def Let_def)
qed

definition demo_prepared :: prepared where
  "demo_prepared = \<lparr>pr_tool_specs = [], pr_resource_specs = [], pr_skill_specs = [], pr_skills_definition = [],
     pr_output_schema = JNull, pr_prompt_template = None, pr_step_output = JNull, pr_context_snapshot = JNull,
     pr_saga_vars = JNull, pr_max_turns = 1, pr_max_step_tokens = None, pr_max_completion_tokens = None,
     pr_facts_extractors = [], pr_agent_adapter = ''react'', pr_tool_bind_keys = []\<rparr>"

theorem superseded_worker_changes_nothing_witness:
  "snd (dispatch_worker_command_execution demo_env \<lparr>ex_command = demo_command, ex_prepared = demo_prepared,
       ex_worker = JNull, ex_api_key = [], ex_token = ''t''\<rparr> demo_run (demo_db Saga_RUNNING []))
   = demo_db Saga_RUNNING []"
  by (rule superseded_worker_changes_nothing) (simp add: owned_def claim_still_owned_def demo_db_def empty_db_def)

text \<open>A command is executed at most once at a time, and never again once its result is out: while
  a claim of its key is live, or for good when the claim is marked emitted, every redelivery returns at
  once and leaves the database as it is, but for the uuid drawn as a token.\<close>

theorem redelivered_command_ignored:
  assumes "parse_worker_command E raw = Inr c" "distinct (map pc_key (db_claims db))"
    and "p \<in> set (db_claims db)" "pc_key p = cmd_key c" "\<not> claim_is_stale E (db_now db) p"
  shows "handle_worker_command E A raw db = (Inr (), db\<lparr>db_uuids := Suc (db_uuids db)\<rparr>)"
proof -
  let ?stale = "\<lambda>q. pc_key q = cmd_key c \<and> claim_is_stale E (db_now db) q"
  have none: "\<forall>q\<in>set (db_claims db). \<not> ?stale q"
    using distinct_key_unique [OF assms(2) _ assms(3)] assms(4,5) by metis
  have "find_claim (cmd_key c) db = Some p"
    using rows_first_key [OF assms(2,3)] assms(4) by (simp add: find_claim_def)
  moreover have "reap_stale_claim_by_key E (cmd_key c) (db\<lparr>db_uuids := n\<rparr>) = (Inr False, db\<lparr>db_uuids := n\<rparr>)" for n
    using none by (simp add: reap_stale_claim_by_key_def filter_empty_conv rows_delete_def filter_id_conv)
  ultimately show ?thesis
    by (simp add: handle_worker_command_def prepare_worker_command_execution_def assms(1) bind_def
        claim_idempotency_key_def try_except_def claim_attempt_taken is_integrity_error_def skip_def return_def)
qed

definition demo_claimed :: db where
  "demo_claimed = (demo_db Saga_RUNNING [])\<lparr>db_claims := [\<lparr>pc_key = cmd_key demo_command, pc_namespace = ''n'',
     pc_claim_token = ''t'', pc_result_emitted = True, pc_created_at = 0\<rparr>]\<rparr>"

theorem redelivered_command_ignored_witness:
  "handle_worker_command demo_env (\<lambda>_. demo_run) (dump_command demo_command) demo_claimed
   = (Inr (), demo_claimed\<lparr>db_uuids := 1\<rparr>)"
proof -
  have "handle_worker_command demo_env (\<lambda>_. demo_run) (dump_command demo_command) demo_claimed
      = (Inr (), demo_claimed\<lparr>db_uuids := Suc (db_uuids demo_claimed)\<rparr>)"
    by (rule redelivered_command_ignored [OF demo_command_parsed, where p = "hd (db_claims demo_claimed)"])
      (simp_all add: demo_claimed_def claim_is_stale_def)
  then show ?thesis by (simp add: demo_claimed_def demo_db_def empty_db_def)
qed

lemma reported_failure_row:
  assumes "finalize_failure E c token ety output code timing usage db = (Inr u, db1)" "owned (cmd_key c) token db"
  shows "\<exists>db0. report_result E ety (cmd_namespace c) (cmd_trace c) (cmd_span c) output timing usage db = (Inr (), db0)
           \<and> db_outbox db1 = db_outbox db0"
  using assms
  by (cases "report_result E ety (cmd_namespace c) (cmd_trace c) (cmd_span c) output timing usage db";
      cases "fst (report_result E ety (cmd_namespace c) (cmd_trace c) (cmd_span c) output timing usage db)")
    (auto simp: finalize_failure_def verify_claim_before_emit_def owned_def release_command_claim_def hook_def
      monad_simps)

text \<open>C33: a compensation whose adapter cannot be resolved is reported as the failure of a step, and
  the engine drops it: the undo row is COMPENSATING, so the event is logged as
  \<open>terminal_step_state\<close>, no COMPENSATION_FAILED is ever raised, and the saga stays where it is.\<close>

theorem unresolved_adapter_stalls_undo:
  assumes "resolve_adapter_error E (fst config) = Some e" "owned (cmd_key c) token db"
    and "resolve_and_start E c p token config db = (Inr None, db1)" "db_outbox db1 = db_outbox db @ [row]"
    and "step_of_saga (cmd_trace c) (cmd_span c) db2 = Some s" "step_status s = Step_COMPENSATING"
      "find_saga (cmd_trace c) db2 = Some g"
  shows "\<exists>ev hs. validate_ingest (coerce_saga_ingest_dict (assemble_consumer_payload row)) = Inr ev
           \<and> handle_event E K ev db2 = (Inr (), db2\<lparr>db_hooks := db_hooks db2 @ hs\<rparr>)"
proof -
  have run: "finalize_failure E c token STEP_FAILED
      [(''error'', JStr e), (''code'', JStr ''adapter_resolution_failed'')] ''adapter_resolution_failed'' JNull JNull db
      = (Inr (), db1)"
    using assms(1,3)
    by (auto simp: resolve_and_start_def finalize_adapter_resolution_failure_def monad_simps
        split: prod.splits sum.splits)
  obtain db0 where "report_result E STEP_FAILED (cmd_namespace c) (cmd_trace c) (cmd_span c)
      [(''error'', JStr e), (''code'', JStr ''adapter_resolution_failed'')] JNull JNull db = (Inr (), db0)"
      "db_outbox db0 = db_outbox db @ [row]"
    using reported_failure_row [OF run assms(2)] assms(4) by auto
  from result_arrives [OF this]
  have "\<exists>ev. validate_ingest (coerce_saga_ingest_dict (assemble_consumer_payload row)) = Inr ev
      \<and> ev_type ev = STEP_FAILED \<and> ev_trace ev = cmd_trace c \<and> ev_span ev = Some (cmd_span c)"
    by (simp add: dict_or_none_def)
  then obtain ev where ev: "ev_type ev = STEP_FAILED" "ev_trace ev = cmd_trace c" "ev_span ev = Some (cmd_span c)"
      "validate_ingest (coerce_saga_ingest_dict (assemble_consumer_payload row)) = Inr ev"
    by blast
  have "\<exists>hs. handle_event E K ev db2 = (Inr (), db2\<lparr>db_hooks := db_hooks db2 @ hs\<rparr>)"
    using assms(5-) ev(1-3)
    by (auto simp: handle_event_def handle_step_failed_def notify_skipped_ingest_def hook_def the_saga_def
        opt_text_def monad_simps Let_def)
  with ev(4) show ?thesis by blast
qed

definition demo_undo :: command where
  "demo_undo = demo_command\<lparr>cmd_type := EXECUTE_COMPENSATION, cmd_forward_span := demo_span\<rparr>"

definition demo_owner :: db where
  "demo_owner = empty_db\<lparr>db_claims := [\<lparr>pc_key = cmd_key demo_undo, pc_namespace = ''n'', pc_claim_token = ''t'',
     pc_result_emitted = False, pc_created_at = 100\<rparr>]\<rparr>"

theorem unresolved_adapter_stalls_undo_witness:
  "\<exists>row ev hs. db_outbox (snd (resolve_and_start demo_env demo_undo demo_prepared ''t''
         (JObj [(''adapter'', JStr ''adk'')], []) demo_owner)) = [row]
     \<and> parsed_event (assemble_consumer_payload row) = Inr ev
     \<and> handle_event demo_env (calls demo_env 2) ev
         (demo_db Saga_COMPENSATING [demo_step demo_span 0 Step_COMPENSATING])
       = (Inr (), demo_db Saga_COMPENSATING [demo_step demo_span 0 Step_COMPENSATING]\<lparr>db_hooks := hs\<rparr>)"
proof -
  let ?config = "(JObj [(''adapter'', JStr ''adk'')], [])"
  let ?db2 = "demo_db Saga_COMPENSATING [demo_step demo_span 0 Step_COMPENSATING]"
  have e: "resolve_adapter_error demo_env (fst ?config) = Some ''Adapter 'adk' is not implemented. Use adapter='langchain'.''"
    by (simp add: resolve_adapter_error_def field_or_def dict_eval run)
  have own: "owned (cmd_key demo_undo) ''t'' demo_owner"
    by (simp add: owned_def claim_still_owned_def claim_owned_def demo_owner_def)
  have report: "report_result demo_env STEP_FAILED (cmd_namespace demo_undo) (cmd_trace demo_undo)
      (cmd_span demo_undo) out JNull JNull = emit_saga_event demo_env ''evt'' ''STEP_FAILED''
        (result_payload STEP_FAILED (cmd_namespace demo_undo) (cmd_trace demo_undo) (cmd_span demo_undo) out JNull JNull)
        (cmd_namespace demo_undo) (cmd_trace demo_undo) (Some (cmd_span demo_undo)) None" for out
    by (subst report_result_emits)
      (simp_all add: result_types_def namespace_ok_def trace_ok_def span_ok_def is_hex_def list_all_replicate
        demo_undo_def demo_command_def demo_tid_def demo_span_def demo_env_fields)
  obtain row db1 where "resolve_and_start demo_env demo_undo demo_prepared ''t'' ?config demo_owner = (Inr None, db1)"
      "db_outbox db1 = db_outbox demo_owner @ [row]"
    using own [unfolded owned_def]
    by (simp add: resolve_and_start_def e [simplified] finalize_adapter_resolution_failure_def finalize_failure_def
        verify_claim_before_emit_def report emit_saga_event_def publish_def uuid4_hex_def outbox_put_def
        outbox_has_def hook_def release_command_claim_def monad_simps demo_env_fields demo_owner_def empty_db_def Let_def)
  from unresolved_adapter_stalls_undo [OF e own this, of ?db2] this show ?thesis
    by (auto simp: demo_undo_def demo_command_def demo_db_def step_of_saga_def find_saga_def demo_step_def
        demo_saga_def empty_db_def demo_owner_def)
qed

end
