(* ===== verification/Chat.thy ===== *)
theory Chat imports Worker Complex_Main begin

text \<open>
  The world of an agent: the chat messages and responses of \<^verbatim>\<open>common/llm/protocol.py\<close>,
  Python exceptions as values, what lies outside the repository (the model, the MCP servers, Jinja,
  pydantic), and the state of a run: the calls made so far, the tokens used
  (\<^verbatim>\<open>common/execution_usage.py\<close>), the transcript and the tool results.  The answer of
  the world to a call may depend on every call made before it, so no assumption is made about the
  behaviour of a model or a server.  Wall-clock timing and tracing spans are left out.
\<close>

section \<open>Exceptions\<close>

text \<open>An exception that is not an \<open>ExecutionStepError\<close>: the name of its type, its text,
  and the classes the code tests for (connection and timeout errors, MCP errors, a missing process,
  the transient errors of the OpenAI client, an HTTP status).\<close>

record exn =
  exn_type :: string
  exn_text :: string
  exn_transport :: bool
  exn_mcp :: bool
  exn_process :: bool
  exn_openai :: bool
  exn_status :: "int option"

text \<open>An \<open>ExecutionStepError\<close> with its details, tool and text; another exception with its cause
  and context; an exception group with its members.\<close>

datatype py_exc =
    Step_error dict "string option" string
  | Raised exn "py_exc list"
  | Raised_group string string "py_exc list"

definition plain_exn :: "string \<Rightarrow> string \<Rightarrow> py_exc" where
  "plain_exn type text = Raised \<lparr>exn_type = type, exn_text = text, exn_transport = False, exn_mcp = False,
     exn_process = False, exn_openai = False, exn_status = None\<rparr> []"

fun exc_str :: "py_exc \<Rightarrow> string" where
  "exc_str (Step_error _ _ message) = message"
| "exc_str (Raised e _) = exn_text e"
| "exc_str (Raised_group _ text _) = text"

fun format_exception_chain :: "py_exc \<Rightarrow> string" where
  "format_exception_chain (Step_error _ _ message) = ''ExecutionStepError: '' @ message"
| "format_exception_chain (Raised e _) = exn_type e @ '': '' @ exn_text e"
| "format_exception_chain (Raised_group _ _ es) = join_str ''; '' (map format_exception_chain es)"

fun unwrap_execution_step_error :: "py_exc \<Rightarrow> py_exc option" and first_step_error :: "py_exc list \<Rightarrow> py_exc option" where
  "unwrap_execution_step_error (Step_error d t m) = Some (Step_error d t m)"
| "unwrap_execution_step_error (Raised _ _) = None"
| "unwrap_execution_step_error (Raised_group _ _ es) = first_step_error es"
| "first_step_error [] = None"
| "first_step_error (e # es) =
     (case unwrap_execution_step_error e of Some f \<Rightarrow> Some f | None \<Rightarrow> first_step_error es)"

text \<open>\<open>ExecutionStepError(message, error_details=build_step_error_details(...))\<close>.\<close>

definition build_step_error_details :: "string \<Rightarrow> string \<Rightarrow> dict \<Rightarrow> dict" where
  "build_step_error_details code message extra =
     dupdate [(''code'', JStr code), (''message'', JStr message)] extra"

definition step_error :: "string \<Rightarrow> string \<Rightarrow> string option \<Rightarrow> dict \<Rightarrow> py_exc" where
  "step_error code message tool extra = Step_error (build_step_error_details code message extra) tool message"

section \<open>Messages\<close>

datatype role = Role_system | Role_human | Role_assistant | Role_tool

fun role_value :: "role \<Rightarrow> string" where
  "role_value Role_system = ''system''"
| "role_value Role_human = ''human''"
| "role_value Role_assistant = ''assistant''"
| "role_value Role_tool = ''tool''"

record tool_call =
  tc_name :: string
  tc_args :: dict
  tc_id :: string

text \<open>No tool calls are an empty list; the code tests the truth value of the field only.\<close>

record chat_message =
  cm_role :: role
  cm_content :: string
  cm_tool_call_id :: "string option"
  cm_name :: "string option"
  cm_tool_calls :: "tool_call list"

definition chat :: "role \<Rightarrow> string \<Rightarrow> chat_message" where
  "chat r content = \<lparr>cm_role = r, cm_content = content, cm_tool_call_id = None, cm_name = None, cm_tool_calls = []\<rparr>"

record token_usage =
  tu_prompt :: int
  tu_completion :: int
  tu_total :: int
  tu_model :: "string option"
  tu_details :: "(string \<times> int) list"

record chat_response =
  cr_content :: "string option"
  cr_tool_calls :: "tool_call list"
  cr_usage :: "token_usage option"

section \<open>What an agent meets outside\<close>

record mcp_tool =
  mt_name :: string
  mt_input_schema :: json

text \<open>A field of the pydantic model of a tool's arguments: its name, its JSON type, is it required.\<close>

record args_field =
  af_name :: string
  af_type :: string
  af_required :: bool

text \<open>A part of a tool's result or of a resource; \<open>None\<close>: the attribute is missing or \<open>None\<close>.\<close>

record part =
  part_type :: "string option"
  part_mime :: "string option"
  part_text :: "string option"
  part_blob :: "string option"

datatype endpoint =
    Http_endpoint json "(string \<times> string) list option"
  | Stdio_endpoint string json json "(string \<times> string) list"

text \<open>The calls of the plugin registry during a run, with what they report.\<close>

datatype tool_hook =
    Source_attempted string string "string option"
  | Tool_discovered string string
  | Tools_loaded "string list" "string list"
  | Tools_load_failed "string list"
  | Call_requested string dict
  | Input_validated string bool
  | Execution_done string bool string
  | Output_validated string bool
  | Resources_allowed "string list"
  | Resource_requested string
  | Resource_done string bool string
  | Allowlist_passed "string list" nat
  | Reason_step_done nat dict bool

text \<open>The calls of a run, in order: to the model, to the MCP servers (sessions are numbered in the
  order they were opened), and to the plugin registry.\<close>

datatype act =
    Asked "chat_message list"
  | Asked_native "chat_message list" bool
  | Opened endpoint
  | Listed_tools nat "string option"
  | Listed_resources nat "string option"
  | Read_resource nat string
  | Called nat string dict
  | Noted tool_hook

text \<open>A double read from a text.\<close>

datatype py_float = Number rat | Not_a_number | Infinite

record world =
  model_reply :: "act list \<Rightarrow> chat_message list \<Rightarrow> py_exc + chat_response"
  has_native :: bool
  native_reply :: "act list \<Rightarrow> chat_message list \<Rightarrow> json \<Rightarrow> bool \<Rightarrow> py_exc + (dict option \<times> token_usage option)"
  open_session :: "act list \<Rightarrow> endpoint \<Rightarrow> py_exc + unit"
  tools_page :: "act list \<Rightarrow> nat \<Rightarrow> string option \<Rightarrow> py_exc + (mcp_tool list \<times> string option)"
  resources_page :: "act list \<Rightarrow> nat \<Rightarrow> string option \<Rightarrow> py_exc + (string list \<times> string option)"
  resource_reply :: "act list \<Rightarrow> nat \<Rightarrow> string \<Rightarrow> py_exc + part list"
  tool_reply :: "act list \<Rightarrow> nat \<Rightarrow> string \<Rightarrow> dict \<Rightarrow> py_exc + (part list \<times> bool)"
  convert_error :: "string \<Rightarrow> args_field list \<Rightarrow> py_exc option"  \<comment> \<open>\<open>create_model\<close> of a tool's arguments\<close>
  parse_input :: "args_field list \<Rightarrow> dict \<Rightarrow> py_exc + dict"      \<comment> \<open>how \<open>StructuredTool.ainvoke\<close> reads its input\<close>
  schema_model_error :: "json \<Rightarrow> py_exc option"     \<comment> \<open>\<open>create_pydantic_model_from_schema\<close>\<close>
  build_llm_error :: "json \<Rightarrow> py_exc option"
  bad_call_text :: "string \<Rightarrow> string list \<Rightarrow> string"  \<comment> \<open>\<open>TypeError\<close> of calling a function with these keywords\<close>
  netloc_error :: "string \<Rightarrow> string option"          \<comment> \<open>\<open>urlsplit\<close> on a netloc with brackets\<close>
  jinja_render :: "string \<Rightarrow> dict \<Rightarrow> (bool \<times> string) + string"  \<comment> \<open>the error (is it a security error?) or the text\<close>
  float_text :: "string \<Rightarrow> string"                  \<comment> \<open>\<open>repr(float(s))\<close> of a decimal numeral\<close>
  float_of_text :: "string \<Rightarrow> py_float option"      \<comment> \<open>\<open>float(s)\<close>; \<open>None\<close>: \<open>ValueError\<close>\<close>
  uuid4_text :: "nat \<Rightarrow> string"
  default_env :: "(string \<times> string) list"          \<comment> \<open>\<open>get_default_environment\<close>\<close>
  schema_retry_enabled :: bool
  schema_retry_max_attempts :: nat
  llm_retry_enabled :: bool
  llm_retry_max_attempts :: nat
  list_max_pages :: nat
  list_max_items :: nat

section \<open>Token usage\<close>

text \<open>\<open>WorkerUsageAccumulator\<close>.\<close>

record usage =
  us_prompt :: int
  us_completion :: int
  us_total :: int
  us_calls :: int
  us_model :: "string option"
  us_details :: "(string \<times> int) list"
  us_memory :: "(string \<times> int) list"

definition no_usage :: usage where
  "no_usage = \<lparr>us_prompt = 0, us_completion = 0, us_total = 0, us_calls = 0, us_model = None,
     us_details = [], us_memory = []\<rparr>"

definition clamp_nonneg :: "int \<Rightarrow> int" where
  "clamp_nonneg n = max 0 n"

definition iget :: "string \<Rightarrow> (string \<times> int) list \<Rightarrow> int" where
  "iget k d = (case map_of d k of None \<Rightarrow> 0 | Some n \<Rightarrow> n)"

fun iset :: "string \<Rightarrow> int \<Rightarrow> (string \<times> int) list \<Rightarrow> (string \<times> int) list" where
  "iset k n [] = [(k, n)]"
| "iset k n ((k', n') # d) = (if k' = k then (k, n) # d else (k', n') # iset k n d)"

definition detail_key_aliases :: "(string \<times> string) list" where
  "detail_key_aliases =
     [(''cache_read'', ''cache_read_tokens''), (''cache_read_input_tokens'', ''cache_read_tokens''),
      (''cache_write'', ''cache_write_tokens''), (''cache_creation'', ''cache_write_tokens''),
      (''cache_creation_input_tokens'', ''cache_write_tokens''), (''cache_creation_tokens'', ''cache_write_tokens''),
      (''reasoning'', ''reasoning_tokens''), (''reasoning_tokens'', ''reasoning_tokens'')]"

definition is_alnum :: "char \<Rightarrow> bool" where
  "is_alnum c = (let n = (of_char c :: nat) in 48 \<le> n \<and> n \<le> 57 \<or> 65 \<le> n \<and> n \<le> 90 \<or> 97 \<le> n \<and> n \<le> 122)"

definition ends_with :: "string \<Rightarrow> string \<Rightarrow> bool" where
  "ends_with q s \<longleftrightarrow> starts_with (rev q) (rev s)"

definition normalize_detail_key :: "string \<Rightarrow> string option" where
  "normalize_detail_key key =
     (if key = [] then None
      else case map_of detail_key_aliases key of
        Some k \<Rightarrow> Some k
      | None \<Rightarrow>
          if ends_with ''_tokens'' key then Some key
          else let letters = filter (\<lambda>c. c \<noteq> CHR ''_'') key in
               if letters \<noteq> [] \<and> list_all is_alnum letters then Some key else None)"

definition add_detail :: "string \<times> int \<Rightarrow> (string \<times> int) list \<Rightarrow> (string \<times> int) list" where
  "add_detail kv out = (case normalize_detail_key (fst kv) of
     None \<Rightarrow> out
   | Some k \<Rightarrow> if clamp_nonneg (snd kv) > 0 then iset k (iget k out + snd kv) out else out)"

definition normalize_usage_details :: "(string \<times> int) list \<Rightarrow> (string \<times> int) list" where
  "normalize_usage_details raw = filter (\<lambda>(_, v). v > 0) (fold add_detail raw [])"

definition usage_is_reportable :: "token_usage \<Rightarrow> bool" where
  "usage_is_reportable u \<longleftrightarrow> tu_prompt u > 0 \<or> tu_completion u > 0 \<or> tu_total u > 0 \<or> tu_details u \<noteq> []
     \<or> strip (opt_text (tu_model u)) \<noteq> []"

definition add_usage :: "token_usage option \<Rightarrow> usage \<Rightarrow> usage" where
  "add_usage reported a = (case reported of
     None \<Rightarrow> a
   | Some u \<Rightarrow>
       if \<not> usage_is_reportable u then a
       else \<lparr>us_prompt = us_prompt a + clamp_nonneg (tu_prompt u),
              us_completion = us_completion a + clamp_nonneg (tu_completion u),
              us_total = us_total a + clamp_nonneg (tu_total u),
              us_calls = us_calls a + 1,
              us_model = (if strip (opt_text (tu_model u)) = [] then us_model a
                          else Some (strip (opt_text (tu_model u)))),
              us_details = fold (\<lambda>(k, v) d. iset k (iget k d + v) d) (normalize_usage_details (tu_details u)) (us_details a),
              us_memory = us_memory a\<rparr>)"

definition memory_counters :: "string list" where
  "memory_counters = [''compressions'', ''groups_evicted'', ''estimated_tokens_saved'', ''max_tier'']"

definition normalize_usage_memory :: "(string \<times> int) list \<Rightarrow> (string \<times> int) list" where
  "normalize_usage_memory raw = List.map_filter
     (\<lambda>k. if clamp_nonneg (iget k raw) > 0 then Some (k, iget k raw) else None) memory_counters"

definition add_memory_stats :: "(string \<times> int) list \<Rightarrow> usage \<Rightarrow> usage" where
  "add_memory_stats incoming a = a\<lparr>us_memory := fold
     (\<lambda>(k, v) m. iset k (if k = ''max_tier'' then max (iget k m) v else iget k m + v) m)
     (normalize_usage_memory incoming) (us_memory a)\<rparr>"

definition int_dict :: "(string \<times> int) list \<Rightarrow> dict" where
  "int_dict d = map (\<lambda>(k, v). (k, JInt v)) d"

definition usage_dict :: "usage \<Rightarrow> dict" where
  "usage_dict a =
     int_dict (filter (\<lambda>(_, n). n > 0)
       [(''prompt_tokens'', us_prompt a), (''completion_tokens'', us_completion a),
        (''total_tokens'', us_total a), (''llm_calls'', us_calls a)])
     @ (if opt_text (us_model a) = [] then [] else [(''model_id'', jopt_str (us_model a))])
     @ (case filter (\<lambda>(_, v). v > 0) (us_details a) of [] \<Rightarrow> [] | d \<Rightarrow> [(''details'', JObj (int_dict d))])
     @ (case normalize_usage_memory (us_memory a) of [] \<Rightarrow> [] | d \<Rightarrow> [(''memory'', JObj (int_dict d))])"

text \<open>\<open>to_wire() or None\<close>.\<close>

definition usage_wire :: "usage \<Rightarrow> json" where
  "usage_wire a = (case usage_dict a of [] \<Rightarrow> JNull | d \<Rightarrow> JObj [(''worker'', JObj d)])"

section \<open>The run of an agent\<close>

record run =
  acts :: "act list"
  used :: usage
  transcript :: "chat_message list"
  tool_results :: "(string \<times> string) list"
  ratio :: rat
  fresh_ids :: nat
  loaded_names :: "string list"
  used_names :: "string list"
  source_failures :: "json list"
  source_sessions :: "(json \<times> nat) list"
  resource_coverage :: "(json \<times> bool) list"

type_synonym 'a A = "(run, py_exc, 'a) effect"

definition act :: "act \<Rightarrow> unit A" where
  "act a = modify (\<lambda>r. r\<lparr>acts := acts r @ [a]\<rparr>)"

text \<open>A call on the world: it is recorded, and answered in the light of the calls before it.\<close>

definition call :: "act \<Rightarrow> (act list \<Rightarrow> py_exc + 'a) \<Rightarrow> 'a A" where
  "call a answer = bind (gets acts) (\<lambda>before. seq (act a) (of_sum (answer before)))"

definition tell :: "tool_hook \<Rightarrow> unit A" where
  "tell h = act (Noted h)"

definition enforce_step_token_budget :: "int option \<Rightarrow> unit A" where
  "enforce_step_token_budget budget =
     bind (gets used) (\<lambda>u.
     case budget of
       None \<Rightarrow> skip
     | Some limit \<Rightarrow>
         if limit = 0 \<or> us_total u \<le> limit then skip
         else raise (Step_error
           (build_step_error_details ''STEP_TOKEN_LIMIT_EXCEEDED''
             (''Step consumed '' @ show_int (us_total u) @ '' tokens, exceeding budget of '' @ show_int limit @ ''.'')
             [(''tokens_used'', JInt (us_total u)), (''max_step_tokens'', JInt limit),
              (''prompt_tokens'', JInt (us_prompt u)), (''completion_tokens'', JInt (us_completion u))])
           None
           (''Step token budget of '' @ show_int limit @ '' exceeded (consumed '' @ show_int (us_total u) @ '').'')))"

definition effective_max_tokens :: "env \<Rightarrow> string \<Rightarrow> int option \<Rightarrow> int option" where
  "effective_max_tokens E variable step_value = (case step_value of
     Some n \<Rightarrow> if n > 0 then Some n else None
   | None \<Rightarrow>
       (let raw = (case environ E variable of None \<Rightarrow> ''0'' | Some s \<Rightarrow> if s = [] then ''0'' else s) in
        case int_of_text E raw of None \<Rightarrow> None | Some n \<Rightarrow> if n > 0 then Some n else None))"

definition effective_max_step_tokens :: "env \<Rightarrow> int option \<Rightarrow> int option" where
  "effective_max_step_tokens E v = effective_max_tokens E ''WARDEN_MAX_STEP_TOKENS'' v"

definition effective_max_completion_tokens :: "env \<Rightarrow> int option \<Rightarrow> int option" where
  "effective_max_completion_tokens E v = effective_max_tokens E ''WARDEN_MAX_COMPLETION_TOKENS'' v"

section \<open>Asking the model\<close>

text \<open>\<^verbatim>\<open>workers/llm/retry_policy.py\<close> and \<^verbatim>\<open>common/retry.py\<close>; the
  sleep between two attempts is left out.\<close>

fun is_transient_llm_error :: "py_exc \<Rightarrow> bool" where
  "is_transient_llm_error (Raised e _) \<longleftrightarrow> exn_transport e \<or> exn_openai e
     \<or> (case exn_status e of None \<Rightarrow> False | Some s \<Rightarrow> s \<in> {429, 502, 503, 504})"
| "is_transient_llm_error _ \<longleftrightarrow> False"

fun retry_async :: "nat \<Rightarrow> (py_exc \<Rightarrow> bool) \<Rightarrow> 'a A \<Rightarrow> 'a A" where
  "retry_async 0 retryable operation = raise (plain_exn ''ValueError'' ''max_attempts must be >= 1'')"
| "retry_async (Suc n) retryable operation =
     try_except operation (\<lambda>e. if \<not> retryable e \<or> n = 0 then raise e else retry_async n retryable operation)"

text \<open>\<open>llm.ainvoke(messages)\<close>, with the retries of \<open>wrap_llm_with_retry\<close>.\<close>

definition ainvoke :: "world \<Rightarrow> chat_message list \<Rightarrow> chat_response A" where
  "ainvoke W messages =
     (let once = call (Asked messages) (\<lambda>before. model_reply W before messages) in
      if \<not> llm_retry_enabled W \<or> llm_retry_max_attempts W \<le> 1 then once
      else retry_async (llm_retry_max_attempts W) is_transient_llm_error once)"

end
