(* ===== verification/Failures.thy ===== *)
theory Failures imports Chat begin

text \<open>
  What counts as the failure of a tool (\<^verbatim>\<open>common/tool_failure.py\<close>): the exceptions of
  the infrastructure, the texts that report a failure, those of them the model can recover from, and
  the hints added to them.  The registry's hooks of the same names delegate to these functions.
\<close>

section \<open>Exceptions\<close>

fun iter_exception_leaves :: "py_exc \<Rightarrow> py_exc list" where
  "iter_exception_leaves (Raised_group _ _ es) = concat (map iter_exception_leaves es)"
| "iter_exception_leaves (Raised e es) = Raised e es # concat (map iter_exception_leaves es)"
| "iter_exception_leaves (Step_error d t m) = [Step_error d t m]"

definition mentions :: "string list \<Rightarrow> string \<Rightarrow> bool" where
  "mentions markers text \<longleftrightarrow> list_ex (\<lambda>m. contains_str m text) markers"

definition infra_message_markers :: "string list" where
  "infra_message_markers = [''no such container'', ''failed to create docker client'', ''connection refused'']"

fun leaf_exception_is_infrastructure :: "py_exc \<Rightarrow> bool" where
  "leaf_exception_is_infrastructure (Step_error _ _ _) = True"
| "leaf_exception_is_infrastructure (Raised e _) =
     (exn_mcp e \<or> exn_transport e \<or> exn_process e \<or> exn_type e = ''ClosedResourceError''
      \<or> mentions infra_message_markers (lower (exn_text e)))"
| "leaf_exception_is_infrastructure (Raised_group _ text _) = mentions infra_message_markers (lower text)"

definition tool_invoke_exception_is_infrastructure :: "py_exc \<Rightarrow> bool" where
  "tool_invoke_exception_is_infrastructure e = list_ex leaf_exception_is_infrastructure (iter_exception_leaves e)"

definition format_tool_invoke_exception :: "py_exc \<Rightarrow> string" where
  "format_tool_invoke_exception e = ''Error: '' @ format_exception_chain e"

section \<open>Texts\<close>

definition rstrip :: "string \<Rightarrow> string" where
  "rstrip s = rev (dropWhile is_space (rev s))"

definition tool_output_indicates_failure :: "string \<Rightarrow> bool" where
  "tool_output_indicates_failure output =
     (let lowered = lower (strip output) in
      output \<noteq> [] \<and>
      (starts_with ''mcp error'' lowered \<or> starts_with ''error:'' lowered
       \<or> contains_str ''input validation error'' lowered \<or> contains_str ''invalid arguments for tool'' lowered))"

definition recoverable_failure_markers :: "string list" where
  "recoverable_failure_markers =
     [''old_text not found'', ''old_text matched'', ''must match exactly once'', ''old_text must not be empty'',
      ''file exists ('', ''no such file or directory'', ''no such file'', ''is a directory'', ''not a directory'',
      ''patch does not apply'', ''hunk failed'', ''corrupt patch'', ''malformed patch'']"

definition is_pydantic_tool_validation_failure :: "string \<Rightarrow> bool" where
  "is_pydantic_tool_validation_failure lowered \<longleftrightarrow>
     \<not> contains_str ''input validation error'' lowered \<and> contains_str ''validation error'' lowered"

definition is_os_tool_mistake_failure :: "string \<Rightarrow> bool" where
  "is_os_tool_mistake_failure lowered = mentions
     [''isadirectoryerror'', ''notadirectoryerror'', ''filenotfounderror'', ''is a directory'', ''not a directory''] lowered"

definition tool_output_is_recoverable :: "string \<Rightarrow> bool" where
  "tool_output_is_recoverable output =
     (let lowered = lower (strip output) in
      tool_output_indicates_failure output \<and>
      (is_pydantic_tool_validation_failure lowered \<or> is_os_tool_mistake_failure lowered
       \<or> mentions recoverable_failure_markers lowered))"

text \<open>\<open>json.loads\<close>, and the test \<open>x in {"dry_run", "apply"}\<close>, which hashes its
  argument: a list or an object raises.\<close>

definition unhashable :: "json \<Rightarrow> py_exc option" where
  "unhashable j = (case j of
     JList _ \<Rightarrow> Some (plain_exn ''TypeError'' (''unhashable type: '' @ repr_str ''list''))
   | JObj _ \<Rightarrow> Some (plain_exn ''TypeError'' (''unhashable type: '' @ repr_str ''dict''))
   | _ \<Rightarrow> None)"

definition looks_like_apply_patch_reject :: "env \<Rightarrow> string \<Rightarrow> py_exc + bool" where
  "looks_like_apply_patch_reject E output =
     (if \<not> starts_with ''{'' (strip output) then Inr False
      else case json_load E (strip output) of
        Inr (JObj d) \<Rightarrow>
          if dget ''ok'' d \<noteq> JBool False then Inr False
          else (case unhashable (dget ''phase'' d) of
                  Some e \<Rightarrow> Inl e
                | None \<Rightarrow> Inr (dget ''phase'' d = JStr ''dry_run'' \<or> dget ''phase'' d = JStr ''apply''))
      | _ \<Rightarrow> Inr False)"

section \<open>Hints\<close>

text \<open>The dash of the hints, which is not ASCII, is the character 151.\<close>

definition em_dash :: string where
  "em_dash = [CHR 0x97]"

definition hint_old_text :: string where
  "hint_old_text = ''[Hint: Use ranged read_file_sandbox on the target lines and copy the exact code ''
     @ ''(including comments and indentation) into old_text '' @ em_dash @ '' strip any N| line prefixes '' @ em_dash
     @ '' before retrying search_replace_sandbox.]''"

definition hint_file_exists :: string where
  "hint_file_exists = ''[Hint: That path already exists '' @ em_dash @ '' use search_replace_sandbox ''
     @ ''(or set overwrite=true on write) instead of creating a new file.]''"

definition hint_missing_path :: string where
  "hint_missing_path = ''[Hint: Check the path with path_exists_sandbox / glob_sandbox, then retry with ''
     @ ''the corrected absolute path.]''"

definition hint_is_directory :: string where
  "hint_is_directory = ''[Hint: Path is a directory, not a file. Use list_dir_sandbox to inspect contents.]''"

definition hint_not_directory :: string where
  "hint_not_directory =
     ''[Hint: Path component is a file, not a directory. Check parent paths with list_dir_sandbox.]''"

definition hint_validation :: string where
  "hint_validation =
     ''[Hint: Invalid tool parameters. Inspect the tool schema and fix arguments before retrying.]''"

definition hint_apply_patch :: string where
  "hint_apply_patch = ''[Hint: The unified diff did not apply. Fall back to search_replace_sandbox with a ''
     @ ''small exact hunk, or regenerate the patch from a fresh ranged read.]''"

definition hint_generic :: string where
  "hint_generic = ''[Hint: Fix the tool arguments from this error and retry; prefer a ranged re-read ''
     @ ''before editing.]''"

definition patch_apply_hint_markers :: "string \<Rightarrow> bool" where
  "patch_apply_hint_markers lowered =
     mentions [''patch does not apply'', ''hunk failed'', ''corrupt patch'', ''malformed patch''] lowered"

definition recoverable_hint_for_lowered :: "string \<Rightarrow> string" where
  "recoverable_hint_for_lowered lowered =
     (if mentions [''old_text'', ''must match exactly once''] lowered then hint_old_text
      else if contains_str ''file exists ('' lowered then hint_file_exists
      else if contains_str ''no such file'' lowered then hint_missing_path
      else if mentions [''isadirectoryerror'', ''is a directory''] lowered then hint_is_directory
      else if mentions [''notadirectoryerror'', ''not a directory''] lowered then hint_not_directory
      else if is_pydantic_tool_validation_failure lowered then hint_validation
      else if patch_apply_hint_markers lowered then hint_apply_patch
      else hint_generic)"

definition recovery_hint_for_tool_output :: "env \<Rightarrow> string \<Rightarrow> py_exc + string option" where
  "recovery_hint_for_tool_output E output =
     and_then (looks_like_apply_patch_reject E output) (\<lambda>reject. Inr
       (if reject then Some hint_apply_patch
        else if \<not> tool_output_is_recoverable output then None
        else Some (recoverable_hint_for_lowered (lower (strip output)))))"

definition annotate_recoverable_tool_output :: "env \<Rightarrow> string \<Rightarrow> py_exc + string" where
  "annotate_recoverable_tool_output E output =
     and_then (recovery_hint_for_tool_output E output) (\<lambda>hint. Inr (case hint of
       None \<Rightarrow> output | Some h \<Rightarrow> rstrip output @ [CHR 0x0A] @ h))"

definition plain_text_tool_result_looks_like_error :: "string \<Rightarrow> bool" where
  "plain_text_tool_result_looks_like_error raw =
     (let stripped = strip raw; lowered = lower stripped in
      raw \<noteq> [] \<and> stripped \<noteq> [] \<and> \<not> starts_with ''{'' stripped \<and> \<not> starts_with ''['' stripped \<and>
      (starts_with ''failed to '' lowered \<or> starts_with ''could not '' lowered
       \<or> tool_output_indicates_failure stripped))"

end
