(* ===== verification/Admission.thy ===== *)
theory Admission imports Failures begin

text \<open>
  The admission of JSON a model wrote: the coercion of a value to its declared schema
  (\<^verbatim>\<open>common/utils.py\<close>), the overlay of bound arguments
  (\<^verbatim>\<open>common/tool_arg_bind.py\<close>), strict validation, and the governed execution of a
  tool (\<^verbatim>\<open>common/governance.py\<close>).
\<close>

section \<open>Scalars\<close>

definition is_digit :: "char \<Rightarrow> bool" where
  "is_digit c = (let n = (of_char c :: nat) in 48 \<le> n \<and> n \<le> 57)"

text \<open>\<open>s.isdigit()\<close>, for one-byte text; \<open>int(s)\<close> of such a text.\<close>

definition isdigit :: "string \<Rightarrow> bool" where
  "isdigit s \<longleftrightarrow> s \<noteq> [] \<and> list_all is_digit s"

definition digits_value :: "string \<Rightarrow> int" where
  "digits_value s = foldl (\<lambda>n c. 10 * n + (int (of_char c) - 48)) 0 s"

definition signed_digits :: "string \<Rightarrow> int option" where
  "signed_digits s = (case s of
     CHR ''-'' # ds \<Rightarrow> if isdigit ds then Some (- digits_value ds) else None
   | _ \<Rightarrow> if isdigit s then Some (digits_value s) else None)"

definition coerce_boolean_string :: "string \<Rightarrow> json" where
  "coerce_boolean_string s =
     (if lower s = ''true'' \<or> lower s = ''1'' then JBool True
      else if lower s = ''false'' \<or> lower s = ''0'' then JBool False else JStr s)"

definition coerce_integer_string :: "string \<Rightarrow> json" where
  "coerce_integer_string s = (case signed_digits s of Some n \<Rightarrow> JInt n | None \<Rightarrow> JStr s)"

text \<open>One point, and digits once it and one sign are taken out; \<open>float\<close> then decides whether the
  sign is in its place.\<close>

fun remove_first :: "char \<Rightarrow> string \<Rightarrow> string" where
  "remove_first c [] = []"
| "remove_first c (d # ds) = (if d = c then ds else d # remove_first c ds)"

definition float_shape :: "string \<Rightarrow> bool" where
  "float_shape s \<longleftrightarrow> count_list s CHR ''.'' = 1 \<and> isdigit (remove_first CHR ''-'' (remove_first CHR ''.'' s))"

definition float_reads :: "string \<Rightarrow> bool" where
  "float_reads s \<longleftrightarrow> CHR ''-'' \<notin> set s \<or> starts_with ''-'' s"

definition coerce_number_string :: "world \<Rightarrow> string \<Rightarrow> json" where
  "coerce_number_string W s =
     (if float_shape s \<and> float_reads s \<or> signed_digits s \<noteq> None then JFloat (float_text W s) else JStr s)"

definition coerce_scalar_string :: "world \<Rightarrow> string \<Rightarrow> string \<Rightarrow> json" where
  "coerce_scalar_string W s json_type =
     (if json_type = ''boolean'' then coerce_boolean_string (strip s)
      else if json_type = ''integer'' then coerce_integer_string (strip s)
      else if json_type = ''number'' then coerce_number_string W (strip s) else JStr s)"

definition parse_json_container_string :: "env \<Rightarrow> string \<Rightarrow> string \<Rightarrow> json" where
  "parse_json_container_string E s json_type = (case json_load E s of
     Inr parsed \<Rightarrow>
       if json_type = ''array'' \<and> is_list parsed \<or> json_type = ''object'' \<and> is_dict parsed then parsed else JStr s
   | Inl _ \<Rightarrow> JStr s)"

section \<open>Declared types\<close>

definition split_nullable_json_type :: "json \<Rightarrow> json \<times> bool" where
  "split_nullable_json_type t = (case t of
     JList ts \<Rightarrow>
       (let non_null = filter (\<lambda>x. x \<noteq> JStr ''null'') ts; nullable = JStr ''null'' \<in> set ts in
        case non_null of [x] \<Rightarrow> (x, nullable) | _ \<Rightarrow> (JStr ''string'', nullable))
   | _ \<Rightarrow> (t, False))"

text \<open>The type of a branch of a union: \<open>None\<close> if it cannot be read, otherwise its name (none for the
  null type) and whether it admits null.\<close>

definition union_branch_type_token :: "dict \<Rightarrow> (string option \<times> bool) option" where
  "union_branch_type_token branch =
     (if dget ''type'' branch = JNull then None
      else case split_nullable_json_type (dget ''type'' branch) of (name, branch_null) \<Rightarrow>
        (case name of
           JStr n \<Rightarrow> if n = ''null'' then Some (None, True) else Some (Some n, branch_null)
         | _ \<Rightarrow> None))"

fun union_tokens :: "json list \<Rightarrow> (string list \<times> bool) option" where
  "union_tokens [] = Some ([], False)"
| "union_tokens (b # bs) = (case b of
     JObj d \<Rightarrow>
       (case union_branch_type_token d of
          None \<Rightarrow> None
        | Some (name, null) \<Rightarrow>
            (case union_tokens bs of
               None \<Rightarrow> None
             | Some (names, nullable) \<Rightarrow>
                 Some ((case name of None \<Rightarrow> names | Some n \<Rightarrow> n # names), null \<or> nullable)))
   | _ \<Rightarrow> None)"

definition peel_simple_nullable_union :: "dict \<Rightarrow> (string \<times> bool) option" where
  "peel_simple_nullable_union field =
     (let peel = (\<lambda>branches. case union_tokens branches of
                    Some ([n], nullable) \<Rightarrow> Some (n, nullable) | _ \<Rightarrow> None) in
      case list_of (dget ''anyOf'' field) of
        b # bs \<Rightarrow> peel (b # bs)
      | [] \<Rightarrow> (case list_of (dget ''oneOf'' field) of b # bs \<Rightarrow> peel (b # bs) | [] \<Rightarrow> None))"

definition resolve_bindable_json_type :: "dict \<Rightarrow> string \<times> bool" where
  "resolve_bindable_json_type field =
     (if dhas ''type'' field
      then (case split_nullable_json_type (dget ''type'' field) of
              (JStr t, nullable) \<Rightarrow> (t, nullable) | (_, nullable) \<Rightarrow> (''string'', nullable))
      else case peel_simple_nullable_union field of Some p \<Rightarrow> p | None \<Rightarrow> (''string'', False))"

text \<open>A set of type names, as a list.\<close>

definition schema_type_names :: "dict \<Rightarrow> string list" where
  "schema_type_names field =
     (if dhas ''type'' field
      then (case dget ''type'' field of
              JStr t \<Rightarrow> [t]
            | JList ts \<Rightarrow>
                (case List.map_filter (\<lambda>x. case x of JStr t \<Rightarrow> Some t | _ \<Rightarrow> None) ts of
                   [] \<Rightarrow> [''string''] | names \<Rightarrow> names)
            | _ \<Rightarrow> [''string''])
      else case peel_simple_nullable_union field of
             Some (t, nullable) \<Rightarrow> t # (if nullable then [''null''] else [])
           | None \<Rightarrow> [''string''])"

definition schema_allows_null :: "string list \<Rightarrow> bool" where
  "schema_allows_null names \<longleftrightarrow> ''null'' \<in> set names"

definition primary_json_type :: "string list \<Rightarrow> string" where
  "primary_json_type names =
     (case filter (\<lambda>t. t \<in> set names) [''boolean'', ''integer'', ''number'', ''array'', ''object'', ''string''] of
        t # _ \<Rightarrow> t | [] \<Rightarrow> ''string'')"

definition null_string :: "json \<Rightarrow> bool" where
  "null_string v = (case v of JStr s \<Rightarrow> lower (strip s) = ''null'' \<or> lower (strip s) = ''none'' | _ \<Rightarrow> False)"

section \<open>Coercion\<close>

definition coerce_string_for_primary_type :: "env \<Rightarrow> world \<Rightarrow> string \<Rightarrow> string \<Rightarrow> nat \<Rightarrow> nat \<Rightarrow> json" where
  "coerce_string_for_primary_type E W s primary depth max_depth =
     (if primary \<in> {''integer'', ''number'', ''boolean''} then coerce_scalar_string W s primary
      else if primary \<in> {''array'', ''object''}
      then (if depth \<ge> max_depth then JStr s else parse_json_container_string E s primary)
      else JStr s)"

definition coerce_dict_to_string :: "dict \<Rightarrow> json" where
  "coerce_dict_to_string d =
     (let path = strip (str_or (dget ''path'' d) []); symbol = strip (str_or (dget ''symbol'' d) []) in
      if path = [] then JObj d
      else if symbol = [] then JStr path else JStr (path @ ''::'' @ symbol))"

definition coerce_list_to_string :: "json list \<Rightarrow> json" where
  "coerce_list_to_string xs =
     (let parts = filter (\<lambda>s. s \<noteq> []) (map (\<lambda>x. strip (str_or x [])) xs) in
      if \<not> list_all is_str xs \<or> parts = [] then JList xs else JStr (join_str ''; '' parts))"

function coerce_value_for_schema :: "env \<Rightarrow> world \<Rightarrow> nat \<Rightarrow> nat \<Rightarrow> dict \<Rightarrow> json \<Rightarrow> json" where
  "coerce_value_for_schema E W max_depth depth field value =
     (let names = schema_type_names field; primary = primary_json_type names;
          read = (case value of JStr s \<Rightarrow> coerce_string_for_primary_type E W s primary depth max_depth | _ \<Rightarrow> value) in
      if schema_allows_null names \<and> null_string value then JNull
      else if primary = ''string'' then
        (case value of JObj d \<Rightarrow> coerce_dict_to_string d | JList xs \<Rightarrow> coerce_list_to_string xs | _ \<Rightarrow> value)
      else if primary = ''array'' \<and> is_list read then
        (if depth \<ge> max_depth then read
         else JList (map (coerce_value_for_schema E W max_depth (Suc depth) (coerce_dict (dget ''items'' field)))
                       (list_of read)))
      else if primary = ''object'' \<and> is_dict read then
        (if depth \<ge> max_depth then read
         else JObj (fold (\<lambda>(name, schema) d.
                       if dhas name d
                       then dset name (coerce_value_for_schema E W max_depth (Suc depth) (coerce_dict schema) (dget name d)) d
                       else d)
                (coerce_dict (dget ''properties'' field)) (coerce_dict read)))
      else read)"
  by pat_completeness auto

termination
  by (relation "measure (\<lambda>(E, W, max_depth, depth, field, value). max_depth - depth)") auto

declare coerce_value_for_schema.simps [simp del]

text \<open>Keys whose value is null where the schema of the field does not admit it are dropped.\<close>

function omit_disallowed_nulls :: "nat \<Rightarrow> nat \<Rightarrow> dict \<Rightarrow> dict \<Rightarrow> dict" where
  "omit_disallowed_nulls max_depth depth schema data =
     fold (\<lambda>(name, field) d.
         let names = schema_type_names (coerce_dict field) in
         if \<not> dhas name d then d
         else if dget name d = JNull then (if schema_allows_null names then d else ddel name d)
         else if is_dict (dget name d) \<and> depth < max_depth \<and> primary_json_type names = ''object''
         then dset name (JObj (omit_disallowed_nulls max_depth (Suc depth) (coerce_dict field) (coerce_dict (dget name d)))) d
         else d)
       (coerce_dict (dget ''properties'' schema)) data"
  by pat_completeness auto

termination
  by (relation "measure (\<lambda>(max_depth, depth, schema, data). max_depth - depth)") auto

declare omit_disallowed_nulls.simps [simp del]

definition default_coercion_depth :: nat where
  "default_coercion_depth = 2"

definition coerce_llm_json_from_schema :: "env \<Rightarrow> world \<Rightarrow> dict \<Rightarrow> dict \<Rightarrow> dict" where
  "coerce_llm_json_from_schema E W args input_schema =
     (let properties = (if dhas ''properties'' input_schema then dget ''properties'' input_schema else JObj []) in
      if \<not> is_dict properties then args
      else omit_disallowed_nulls default_coercion_depth 0 input_schema
             (fold (\<lambda>(name, field) d.
                if dhas name d
                then dset name (coerce_value_for_schema E W default_coercion_depth 0 (coerce_dict field) (dget name d)) d
                else d) (coerce_dict properties) args))"

section \<open>Bound arguments\<close>

definition overlay_bound_tool_arguments :: "dict \<Rightarrow> dict \<Rightarrow> dict \<Rightarrow> dict" where
  "overlay_bound_tool_arguments args bound input_schema =
     fold (\<lambda>(k, v) out. if dhas k (coerce_dict (dget ''properties'' input_schema)) then dset k v out else out) bound args"

definition bound_arguments_from_step :: "dict \<Rightarrow> string list \<Rightarrow> dict" where
  "bound_arguments_from_step args keys =
     fold (\<lambda>k out. if dhas k args then dset k (dget k args) out else out) keys []"

section \<open>Validation\<close>

definition validation_error :: "string \<Rightarrow> py_exc" where
  "validation_error message = plain_exn ''ValidationError'' message"

definition validate_against_schema :: "env \<Rightarrow> json \<Rightarrow> json \<Rightarrow> py_exc + unit" where
  "validate_against_schema E data schema = (case jsonschema E schema data of
     None \<Rightarrow> Inr () | Some message \<Rightarrow> Inl (validation_error message))"

definition admit_and_validate :: "env \<Rightarrow> world \<Rightarrow> dict \<Rightarrow> dict \<Rightarrow> py_exc + dict" where
  "admit_and_validate E W data schema =
     (let admitted = coerce_llm_json_from_schema E W data schema in
      and_then (validate_against_schema E (JObj admitted) (JObj schema)) (\<lambda>_. Inr admitted))"

section \<open>Governed execution\<close>

text \<open>The output of a tool is validated as JSON, or as its text under the key \<open>text\<close>.\<close>

definition validate_execution_output :: "env \<Rightarrow> string \<Rightarrow> json \<Rightarrow> py_exc + unit" where
  "validate_execution_output E raw_output schema = (case json_load E raw_output of
     Inr parsed \<Rightarrow> validate_against_schema E parsed schema
   | Inl _ \<Rightarrow> validate_against_schema E (JObj [(''text'', JStr raw_output)]) schema)"

definition validate_tool_input :: "env \<Rightarrow> string \<Rightarrow> dict \<Rightarrow> json \<Rightarrow> unit A" where
  "validate_tool_input E tool_name args strict_schema =
     (if \<not> truthy strict_schema then skip
      else case validate_against_schema E (JObj args) strict_schema of
        Inr _ \<Rightarrow> tell (Input_validated tool_name True)
      | Inl e \<Rightarrow> seq (tell (Input_validated tool_name False)) (raise e))"

definition run_tool_executor :: "string \<Rightarrow> string A \<Rightarrow> string A" where
  "run_tool_executor tool_name executor =
     try_except (bind executor (\<lambda>output. seq (tell (Execution_done tool_name True output)) (return output)))
       (\<lambda>e. seq (tell (Execution_done tool_name False (exc_str e))) (raise e))"

definition validate_tool_output :: "env \<Rightarrow> string \<Rightarrow> string \<Rightarrow> json \<Rightarrow> unit A" where
  "validate_tool_output E raw_output tool_name schema =
     (if \<not> truthy schema \<or> strip raw_output = [] then skip
      else case validate_execution_output E raw_output schema of
        Inr _ \<Rightarrow> tell (Output_validated tool_name True)
      | Inl e \<Rightarrow> seq (tell (Output_validated tool_name False)) (raise e))"

definition execute_with_governance :: "env \<Rightarrow> string \<Rightarrow> dict \<Rightarrow> dict \<Rightarrow> string A \<Rightarrow> string A" where
  "execute_with_governance E tool_name args step_spec executor =
     seq (tell (Call_requested tool_name args))
     (seq (validate_tool_input E tool_name args (dget ''strict_schema'' step_spec))
     (bind (run_tool_executor tool_name executor) (\<lambda>raw_output.
      seq (validate_tool_output E raw_output tool_name (dget ''output_schema'' step_spec)) (return raw_output))))"

end
