(* ===== verification/Resources.thy ===== *)
theory Resources imports Admission "HOL-Library.AList" begin

text \<open>
  The resources a step may read (\<^verbatim>\<open>workers/resource_runtime.py\<close>): the templates of
  its allowlist, the match of a URI against them, and the binding of a template's placeholders to the
  variables of the saga.  \<open>urlsplit\<close>, \<open>urlunsplit\<close> and \<open>unquote\<close> are those of the
  Python library on one-byte text: a percent escape stands for its byte.
\<close>

section \<open>URIs\<close>

definition hex_value :: "char \<Rightarrow> nat option" where
  "hex_value c = (let n = (of_char c :: nat) in
     if 48 \<le> n \<and> n \<le> 57 then Some (n - 48)
     else if 65 \<le> n \<and> n \<le> 70 then Some (n - 55)
     else if 97 \<le> n \<and> n \<le> 102 then Some (n - 87) else None)"

fun unquote :: "string \<Rightarrow> string" where
  "unquote (a # b # c # s) =
     (if a = CHR ''%'' then (case (hex_value b, hex_value c) of
          (Some x, Some y) \<Rightarrow> char_of (16 * x + y) # unquote s
        | _ \<Rightarrow> a # unquote (b # c # s))
      else a # unquote (b # c # s))"
| "unquote s = s"

record split_url =
  url_scheme :: string
  url_netloc :: string
  url_path :: string
  url_query :: string

definition is_alpha :: "char \<Rightarrow> bool" where
  "is_alpha c = (let n = (of_char c :: nat) in 65 \<le> n \<and> n \<le> 90 \<or> 97 \<le> n \<and> n \<le> 122)"

definition scheme_of :: "string \<Rightarrow> (string \<times> string) option" where
  "scheme_of url =
     (let s = takeWhile (\<lambda>c. c \<noteq> CHR '':'') url in
      if s \<noteq> [] \<and> s \<noteq> url \<and> is_alpha (hd s) \<and> list_all (\<lambda>c. is_alnum c \<or> c \<in> set ''+-.'') s
      then Some (lower s, drop (length s + 1) url) else None)"

text \<open>Leading control characters and spaces go, tabs and line ends go everywhere.  A netloc with a
  bracket may be refused; \<open>bracket_error\<close> says so.\<close>

definition urlsplit :: "(string \<Rightarrow> string option) \<Rightarrow> string \<Rightarrow> py_exc + split_url" where
  "urlsplit bracket_error url =
     (let clean = filter (\<lambda>c. c \<notin> {CHR 0x09, CHR 0x0A, CHR 0x0D}) (dropWhile (\<lambda>c. (of_char c :: nat) \<le> 32) url);
          scheme_rest = (case scheme_of clean of Some p \<Rightarrow> p | None \<Rightarrow> ([], clean));
          rest = snd scheme_rest;
          netloc = (if starts_with ''//'' rest then takeWhile (\<lambda>c. c \<notin> set ''/?#'') (drop 2 rest) else []);
          path_query = (if starts_with ''//'' rest then drop (2 + length netloc) rest else rest);
          unfragmented = takeWhile (\<lambda>c. c \<noteq> CHR ''#'') path_query;
          path = takeWhile (\<lambda>c. c \<noteq> CHR ''?'') unfragmented
      in case (if CHR ''['' \<in> set netloc \<or> CHR '']'' \<in> set netloc then bracket_error netloc else None) of
           Some e \<Rightarrow> Inl (plain_exn ''ValueError'' e)
         | None \<Rightarrow> Inr \<lparr>url_scheme = fst scheme_rest, url_netloc = netloc, url_path = path,
                        url_query = drop (length path + 1) unfragmented\<rparr>)"

definition uses_netloc :: "string list" where
  "uses_netloc = [[], ''ftp'', ''http'', ''gopher'', ''nntp'', ''telnet'', ''imap'', ''wais'', ''file'', ''mms'',
     ''https'', ''shttp'', ''snews'', ''prospero'', ''rtsp'', ''rtsps'', ''rtspu'', ''rsync'', ''svn'', ''svn+ssh'',
     ''sftp'', ''nfs'', ''git'', ''git+ssh'', ''ws'', ''wss'', ''itms-services'']"

text \<open>\<open>urlunsplit\<close> of a path that starts with a slash and is not followed by another.\<close>

definition urlunsplit :: "split_url \<Rightarrow> string \<Rightarrow> string" where
  "urlunsplit u path =
     (if url_scheme u = [] then [] else url_scheme u @ '':'')
     @ (if url_netloc u \<noteq> [] \<or> url_scheme u \<noteq> [] \<and> url_scheme u \<in> set uses_netloc then ''//'' @ url_netloc u else [])
     @ path @ (if url_query u = [] then [] else ''?'' @ url_query u)"

section \<open>Templates\<close>

text \<open>A template is a list of literal characters and placeholders, as the pattern
  \<^verbatim>\<open>\{([a-zA-Z_][a-zA-Z0-9_]*)\}\<close> splits it.\<close>

datatype uri_piece = Lit char | Var string

definition is_ident_char :: "char \<Rightarrow> bool" where
  "is_ident_char c \<longleftrightarrow> is_alnum c \<or> c = CHR ''_''"

definition param_at :: "string \<Rightarrow> (string \<times> string) option" where
  "param_at s =
     (let name = takeWhile is_ident_char s; rest = dropWhile is_ident_char s in
      if name \<noteq> [] \<and> \<not> is_digit (hd name) \<and> starts_with ''}'' rest then Some (name, drop 1 rest) else None)"

lemma param_at_shorter: "param_at s = Some (n, rest) \<Longrightarrow> length rest < length s"
proof -
  assume "param_at s = Some (n, rest)"
  then have "takeWhile is_ident_char s \<noteq> []" and rest: "rest = drop 1 (dropWhile is_ident_char s)"
    by (auto simp: param_at_def Let_def split: if_splits)
  moreover have "length (takeWhile is_ident_char s) + length (dropWhile is_ident_char s) = length s"
    by (metis length_append takeWhile_dropWhile_id)
  ultimately show ?thesis by (cases "takeWhile is_ident_char s") auto
qed

function uri_pieces :: "string \<Rightarrow> uri_piece list" where
  "uri_pieces [] = []"
| "uri_pieces (c # s) =
     (case (if c = CHR ''{'' then param_at s else None) of
        Some (name, rest) \<Rightarrow> Var name # uri_pieces rest
      | None \<Rightarrow> Lit c # uri_pieces s)"
  by pat_completeness auto

termination
  by (relation "measure length") (auto dest!: param_at_shorter split: if_splits)

fun placeholders :: "uri_piece list \<Rightarrow> string list" where
  "placeholders [] = []"
| "placeholders (Lit c # ps) = placeholders ps"
| "placeholders (Var n # ps) = n # placeholders ps"

text \<open>The greedy match of a whole text, a placeholder by the longest run without a slash that lets the
  rest match; the result is the text of every placeholder.\<close>

fun captures :: "uri_piece list \<Rightarrow> string \<Rightarrow> string list option" where
  "captures [] s = (if s = [] then Some [] else None)"
| "captures (Lit c # ps) s = (case s of [] \<Rightarrow> None | d # ds \<Rightarrow> if d = c then captures ps ds else None)"
| "captures (Var n # ps) s =
     (case rows_first (\<lambda>k. captures ps (drop k s) \<noteq> None)
             (rev [1..<Suc (length (takeWhile (\<lambda>c. c \<noteq> CHR ''/'') s))]) of
        None \<Rightarrow> None
      | Some k \<Rightarrow> map_option (\<lambda>groups. take k s # groups) (captures ps (drop k s)))"

definition uri_matches :: "string \<Rightarrow> string \<Rightarrow> bool" where
  "uri_matches template uri \<longleftrightarrow> captures (uri_pieces template) uri \<noteq> None"

section \<open>The allowlist\<close>

type_synonym allowlist = "string list"

definition uri_error :: "string \<Rightarrow> dict \<Rightarrow> string \<Rightarrow> py_exc" where
  "uri_error code extra message = Step_error ((''code'', JStr code) # extra) None message"

fun compile_specs :: "nat \<Rightarrow> json list \<Rightarrow> py_exc + allowlist" where
  "compile_specs i [] = Inr []"
| "compile_specs i (spec # specs) =
     (let uri = strip (str_or (dget ''uri'' (coerce_dict spec)) []) in
      if uri = []
      then Inl (uri_error ''RESOURCE_SPEC_INVALID'' [(''index'', JInt (int i))]
                  (''resource_specs['' @ show_nat i @ ''] requires a non-empty uri''))
      else and_then (compile_specs (Suc i) specs) (\<lambda>us. Inr (uri # us)))"

definition compile_resource_allowlist :: "json list \<Rightarrow> py_exc + allowlist option" where
  "compile_resource_allowlist specs =
     (if specs = [] then Inr None else and_then (compile_specs 0 specs) (\<lambda>us. Inr (Some us)))"

definition match_template :: "allowlist \<Rightarrow> string \<Rightarrow> py_exc + string option" where
  "match_template allow uri = (case filter (\<lambda>t. uri_matches t uri) allow of
     [] \<Rightarrow> Inr None
   | [t] \<Rightarrow> Inr (Some t)
   | ts \<Rightarrow> Inl (uri_error ''RESOURCE_URI_AMBIGUOUS''
             [(''resource_uri'', JStr uri), (''matched_templates'', JList (map JStr ts))]
             (''Resource URI '' @ repr_str uri @ '' matches multiple allowlist templates: ''
              @ repr_json (JList (map JStr ts)))))"

definition assert_allowed :: "allowlist \<Rightarrow> string \<Rightarrow> py_exc + string" where
  "assert_allowed allow uri = and_then (match_template allow uri) (\<lambda>m. case m of
     Some t \<Rightarrow> Inr t
   | None \<Rightarrow> Inl (uri_error ''RESOURCE_NOT_ALLOWED''
        [(''resource_uri'', JStr uri), (''allowed_templates'', JList (map JStr allow))]
        (''Resource URI '' @ repr_str uri @ '' is not in the step allowlist.'')))"

section \<open>Binding\<close>

definition contains_traversal_tokens :: "string \<Rightarrow> bool" where
  "contains_traversal_tokens uri =
     (let lowered = lower uri; decoded = unquote lowered in
      contains_str ''..'' lowered
      \<or> (contains_str ''%2e'' lowered \<or> contains_str ''%2f'' lowered \<or> contains_str ''%5c'' lowered)
        \<and> (contains_str ''..'' decoded \<or> contains_str ''/../'' (''/'' @ decoded @ ''/'')
           \<or> contains_str ([CHR 0x5C] @ ''..'' @ [CHR 0x5C]) ([CHR 0x5C] @ decoded @ [CHR 0x5C])))"

definition is_control :: "char \<Rightarrow> bool" where
  "is_control c = (let n = (of_char c :: nat) in n \<le> 31 \<or> n = 127)"

text \<open>The segments of a path; an empty one (of a doubled slash) and a dot are skipped.\<close>

definition normalized_uri_path :: "(string \<Rightarrow> string option) \<Rightarrow> string \<Rightarrow> py_exc + string" where
  "normalized_uri_path bracket_error uri =
     and_then (urlsplit bracket_error uri) (\<lambda>u.
     let path = unquote (url_path u); segments = path_parts path in
     if list_ex is_control path
     then Inl (uri_error ''RESOURCE_URI_CONTROL_CHARS'' [(''resource_uri'', JStr uri)]
                 ''Resource URI path contains control characters.'')
     else if ''..'' \<in> set segments
     then Inl (uri_error ''RESOURCE_URI_TRAVERSAL'' [(''resource_uri'', JStr uri)]
                 ''Resource URI path traversal detected.'')
     else Inr (urlunsplit u (''/'' @ join_str ''/'' segments)))"

fun validate_bound_variables :: "string \<Rightarrow> dict \<Rightarrow> string \<Rightarrow> (string \<times> string) list \<Rightarrow> py_exc + unit" where
  "validate_bound_variables template vars uri [] = Inr ()"
| "validate_bound_variables template vars uri ((name, bound) # bs) =
     (let about = [(''resource_uri'', JStr uri), (''template_uri'', JStr template), (''variable'', JStr name)];
          expected = py_str (dget name vars) in
      if \<not> dhas name vars
      then Inl (uri_error ''RESOURCE_URI_VAR_MISSING'' about
                  (''Resource URI variable '' @ repr_str name @ '' missing from saga vars.''))
      else if bound \<noteq> expected
      then Inl (uri_error ''RESOURCE_URI_VAR_MISMATCH''
                  (about @ [(''expected'', JStr expected), (''actual'', JStr bound)])
                  (''Resource URI variable '' @ repr_str name @ '' mismatch.''))
      else validate_bound_variables template vars uri bs)"

text \<open>\<open>dict(zip(names, groups))\<close>: a repeated name keeps its place and its last text.\<close>

definition bindings_of :: "string list \<Rightarrow> string list \<Rightarrow> (string \<times> string) list" where
  "bindings_of names groups = fold (\<lambda>(n, g) d. AList.update n g d) (zip names groups) []"

definition validate_and_bind_resource_uri ::
  "(string \<Rightarrow> string option) \<Rightarrow> string \<Rightarrow> string \<Rightarrow> dict \<Rightarrow> py_exc + (string \<times> string) list" where
  "validate_and_bind_resource_uri bracket_error template uri vars =
     (let about = [(''resource_uri'', JStr uri), (''template_uri'', JStr template)] in
      if placeholders (uri_pieces template) = [] then Inr []
      else if contains_traversal_tokens uri
      then Inl (uri_error ''RESOURCE_URI_TRAVERSAL'' about ''Resource URI traversal/smuggling token detected.'')
      else and_then (normalized_uri_path bracket_error uri) (\<lambda>runtime.
           and_then (normalized_uri_path bracket_error template) (\<lambda>normal.
           case captures (uri_pieces normal) runtime of
             None \<Rightarrow> Inl (uri_error ''RESOURCE_URI_TEMPLATE_BINDING_FAILED'' about
                       ''Resource URI does not satisfy allowlist template variables.'')
           | Some groups \<Rightarrow>
               (let bindings = bindings_of (placeholders (uri_pieces normal)) groups in
                and_then (validate_bound_variables template vars uri bindings) (\<lambda>_. Inr bindings)))))"

section \<open>Contents\<close>

definition normalize_single_resource_content :: "part \<Rightarrow> string \<times> string option \<times> nat" where
  "normalize_single_resource_content p =
     (if part_type p = Some ''text'' \<or> part_text p \<noteq> None
      then (opt_text (part_text p), Some (if opt_text (part_mime p) = [] then ''text/plain'' else opt_text (part_mime p)), 0)
      else if part_type p = Some ''blob'' \<or> part_blob p \<noteq> None
      then (let mime = (if opt_text (part_mime p) = [] then ''application/octet-stream'' else opt_text (part_mime p));
                size = length (opt_text (part_blob p))
            in (''[Blob: '' @ mime @ '', '' @ show_nat size @ '' bytes]'', Some mime, size))
      else (''['' @ (if opt_text (part_type p) = [] then ''unknown'' else opt_text (part_type p)) @ '']'', None, 0))"

definition normalize_resource_content :: "part list \<Rightarrow> string" where
  "normalize_resource_content contents =
     join_str [CHR 0x0A] (map (fst \<circ> normalize_single_resource_content) contents)"

end
