(* ===== verification/Tools.thy ===== *)
theory Tools imports Resources begin

text \<open>
  The tools of an agent (\<^verbatim>\<open>workers/tools.py\<close>, \<^verbatim>\<open>workers/tool_names.py\<close>):
  the names shown to the model, the connection to the MCP servers, the tools an allowlist admits, the
  two virtual tools that read a resource and load a skill, and the call of each.  Retries, timeouts
  and the subprocess plumbing of a session are the world's.
\<close>

section \<open>Names\<close>

definition tool_char :: "char \<Rightarrow> bool" where
  "tool_char c \<longleftrightarrow> is_alnum c \<or> c = CHR ''_'' \<or> c = CHR ''-''"

fun squeeze :: "string \<Rightarrow> string" where
  "squeeze (c # d # s) = (if c = CHR ''_'' \<and> d = CHR ''_'' then squeeze (d # s) else c # squeeze (d # s))"
| "squeeze s = s"

definition strip_underscores :: "string \<Rightarrow> string" where
  "strip_underscores s = (let drop_them = dropWhile (\<lambda>c. c = CHR ''_'') in rev (drop_them (rev (drop_them s))))"

definition max_tool_name_len :: nat where
  "max_tool_name_len = 64"

definition sanitize_mcp_tool_name :: "string \<Rightarrow> string" where
  "sanitize_mcp_tool_name name =
     (let cleaned = strip_underscores (squeeze (map (\<lambda>c. if tool_char c then c else CHR ''_'') name)) in
      take max_tool_name_len (if cleaned = [] then ''tool'' else cleaned))"

definition suffixed_name :: "string \<Rightarrow> nat \<Rightarrow> string" where
  "suffixed_name base i =
     (let suffix = ''_'' @ show_nat i in take (max_tool_name_len - length suffix) base @ suffix)"

text \<open>The unbounded search of the source ends within as many attempts as names are used
  (\<open>allotted_name_new\<close> of the theory Naming).\<close>

definition allocate_unique_sanitized_name :: "string \<Rightarrow> string list \<Rightarrow> string" where
  "allocate_unique_sanitized_name name names =
     (let base = sanitize_mcp_tool_name name in
      if base \<notin> set names then base
      else case rows_first (\<lambda>c. c \<notin> set names) (map (suffixed_name base) [2..<length names + 3]) of
        Some c \<Rightarrow> c | None \<Rightarrow> base)"

definition allowlist_matches :: "string \<Rightarrow> string \<Rightarrow> bool" where
  "allowlist_matches allow name \<longleftrightarrow> allow = name \<or> allow = sanitize_mcp_tool_name name"

definition matching_allowlist_entry :: "string \<Rightarrow> string list \<Rightarrow> string option" where
  "matching_allowlist_entry name allow = rows_first (\<lambda>a. allowlist_matches a name) allow"

definition allowlist_entry_satisfied :: "string \<Rightarrow> string list \<Rightarrow> bool" where
  "allowlist_entry_satisfied allow loaded \<longleftrightarrow>
     allow \<in> set loaded \<or> list_ex (\<lambda>name. allowlist_matches allow name) loaded"

section \<open>Tools\<close>

text \<open>A tool shown to the model: an MCP tool of a session with the spec of the step and the fields the
  model sees, the reader of resources, or the loader of skills.\<close>

datatype tool_kind =
    Mcp_kind nat mcp_tool dict "args_field list"
  | Read_kind allowlist dict
  | Load_kind "string list" dict

record agent_tool =
  tl_name :: string
  tl_kind :: tool_kind

definition get_warden_tool_input_schema :: "agent_tool \<Rightarrow> dict option" where
  "get_warden_tool_input_schema t = (case tl_kind t of
     Mcp_kind _ m _ _ \<Rightarrow> Some (coerce_dict (mt_input_schema m)) | _ \<Rightarrow> None)"

definition get_warden_tool_mcp_name :: "agent_tool \<Rightarrow> string option" where
  "get_warden_tool_mcp_name t = (case tl_kind t of
     Mcp_kind _ m _ _ \<Rightarrow> if mt_name m = [] then None else Some (mt_name m) | _ \<Rightarrow> None)"

definition mcp_name_or :: "string \<Rightarrow> agent_tool \<Rightarrow> string" where
  "mcp_name_or other t = (case get_warden_tool_mcp_name t of Some n \<Rightarrow> n | None \<Rightarrow> other)"

definition tool_matches_allow_name :: "agent_tool \<Rightarrow> string \<Rightarrow> bool" where
  "tool_matches_allow_name t allow \<longleftrightarrow> allow = tl_name t \<or> allowlist_matches allow (mcp_name_or (tl_name t) t)"

definition load_skill_tool_name :: string where
  "load_skill_tool_name = ''load_skill''"

definition read_resource_tool_name :: string where
  "read_resource_tool_name = ''read_resource''"

section \<open>Calling a tool\<close>

text \<open>Calling \<open>f(name)\<close> with keyword arguments, and a method a value does not have.\<close>

definition keyword_argument :: "world \<Rightarrow> string \<Rightarrow> string \<Rightarrow> dict \<Rightarrow> py_exc + json" where
  "keyword_argument W function parameter kwargs =
     (if map fst kwargs = [parameter] then Inr (dget parameter kwargs)
      else Inl (plain_exn ''TypeError'' (bad_call_text W function (map fst kwargs))))"

fun type_name :: "json \<Rightarrow> string" where
  "type_name JNull = ''NoneType''"
| "type_name (JBool _) = ''bool''"
| "type_name (JInt _) = ''int''"
| "type_name (JFloat _) = ''float''"
| "type_name (JStr _) = ''str''"
| "type_name (JList _) = ''list''"
| "type_name (JObj _) = ''dict''"

definition strip_of :: "json \<Rightarrow> py_exc + string" where
  "strip_of j = (case j of
     JStr s \<Rightarrow> Inr (strip s)
   | _ \<Rightarrow> Inl (plain_exn ''AttributeError'' (repr_str (type_name j) @ '' object has no attribute '' @ repr_str ''strip'')))"

definition part_line :: "part \<Rightarrow> string option" where
  "part_line p =
     (if part_type p = Some ''text'' then Some (opt_text (part_text p))
      else if part_type p = Some ''image'' then Some (''[Image: '' @ opt_text (part_mime p) @ '']'')
      else None)"

definition tool_result_text :: "part list \<Rightarrow> bool \<Rightarrow> string" where
  "tool_result_text parts is_error =
     (let text = join_str [CHR 0x0A] (List.map_filter part_line parts) in
      if \<not> is_error then text
      else if strip text \<noteq> [] then ''Error: '' @ text else ''Error: tool returned isError with no text content'')"

definition raw_executor :: "world \<Rightarrow> nat \<Rightarrow> string \<Rightarrow> dict \<Rightarrow> string A" where
  "raw_executor W session name args =
     bind (call (Called session name args) (\<lambda>before. tool_reply W before session name args)) (\<lambda>(parts, is_error).
     return (tool_result_text parts is_error))"

definition execute_tool :: "env \<Rightarrow> world \<Rightarrow> nat \<Rightarrow> mcp_tool \<Rightarrow> dict \<Rightarrow> dict \<Rightarrow> string A" where
  "execute_tool E W session m step_spec kwargs =
     (let args = drop_none kwargs in
      execute_with_governance E (mt_name m) args step_spec (raw_executor W session (mt_name m) args))"

fun read_from_sessions :: "world \<Rightarrow> string \<Rightarrow> (json \<times> nat) list \<Rightarrow> json list \<Rightarrow> string option \<Rightarrow> string A" where
  "read_from_sessions W uri [] failures last_error =
     (let message = (case last_error of None \<Rightarrow> ''resource not found on any MCP source''
                     | Some e \<Rightarrow> if e = [] then ''resource not found on any MCP source'' else e) in
      seq (tell (Resource_done uri False message))
          (raise (uri_error ''RESOURCE_READ_FAILED''
             [(''resource_uri'', JStr uri), (''error'', JStr message), (''source_failures'', JList failures)]
             (''MCP resource read failed for '' @ repr_str uri @ '': '' @ message))))"
| "read_from_sessions W uri ((name, session) # rest) failures last_error =
     try_except
       (bind (call (Read_resource session uri) (\<lambda>before. resource_reply W before session uri)) (\<lambda>contents.
        seq (tell (Resource_done uri True (str_or name [])))
            (return (normalize_resource_content contents))))
       (\<lambda>e. let error = format_exception_chain e in
             read_from_sessions W uri rest
               (failures @ [JObj [(''name'', name), (''error'', JStr error)]]) (Some error))"

definition read_resource_from_sessions :: "world \<Rightarrow> string \<Rightarrow> string A" where
  "read_resource_from_sessions W uri =
     seq (tell (Resource_requested uri))
     (bind (gets source_sessions) (\<lambda>sessions. read_from_sessions W uri sessions [] None))"

definition execute_read_resource :: "world \<Rightarrow> allowlist \<Rightarrow> dict \<Rightarrow> dict \<Rightarrow> string A" where
  "execute_read_resource W allow vars kwargs =
     bind (of_sum (and_then (keyword_argument W ''_execute_read_resource'' ''uri'' kwargs) strip_of)) (\<lambda>uri.
     bind (of_sum (assert_allowed allow uri)) (\<lambda>template.
     seq (case validate_and_bind_resource_uri (netloc_error W) template uri vars of
            Inr _ \<Rightarrow> skip
          | Inl e \<Rightarrow> seq (when_do (unwrap_execution_step_error e \<noteq> None) (tell (Resource_done uri False (exc_str e))))
                          (raise e))
         (read_resource_from_sessions W uri)))"

definition skill_error :: "string \<Rightarrow> string \<Rightarrow> string \<Rightarrow> dict \<Rightarrow> py_exc" where
  "skill_error code message skill extra = step_error code message None ((''skill'', JStr skill) # extra)"

definition sorted_names :: "string list \<Rightarrow> json" where
  "sorted_names names = JList (map JStr (sort (remdups names)))"

definition execute_load_skill :: "world \<Rightarrow> string list \<Rightarrow> dict \<Rightarrow> dict \<Rightarrow> py_exc + string" where
  "execute_load_skill W allowed bodies kwargs =
     and_then (keyword_argument W ''_execute_load_skill'' ''name'' kwargs) (\<lambda>name.
     and_then (strip_of (if truthy name then name else JStr [])) (\<lambda>skill.
     if skill \<notin> set allowed
     then Inl (skill_error ''SKILL_NOT_ALLOWED''
            (''Skill '' @ repr_str skill @ '' is not on this step's skills.allow list'') skill
            [(''allowed_skills'', sorted_names allowed)])
     else case dget skill bodies of
       JStr body \<Rightarrow> Inr body
     | _ \<Rightarrow> Inl (skill_error ''SKILL_NOT_FOUND''
            (''Skill '' @ repr_str skill @ '' missing from start-frozen skills_definition'') skill [])))"

text \<open>The coroutine behind a tool, called with keywords.\<close>

definition run_tool :: "env \<Rightarrow> world \<Rightarrow> agent_tool \<Rightarrow> dict \<Rightarrow> string A" where
  "run_tool E W t kwargs = (case tl_kind t of
     Mcp_kind session m spec _ \<Rightarrow> execute_tool E W session m spec kwargs
   | Read_kind allow vars \<Rightarrow> execute_read_resource W allow vars kwargs
   | Load_kind ids bodies \<Rightarrow> of_sum (execute_load_skill W ids bodies kwargs))"

text \<open>\<open>StructuredTool.ainvoke\<close>: the input is read through the model of the tool's arguments.\<close>

definition string_field :: "string \<Rightarrow> args_field" where
  "string_field name = \<lparr>af_name = name, af_type = ''string'', af_required = True\<rparr>"

definition tool_fields :: "agent_tool \<Rightarrow> args_field list" where
  "tool_fields t = (case tl_kind t of
     Mcp_kind _ _ _ shown \<Rightarrow> shown
   | Read_kind _ _ \<Rightarrow> [string_field ''uri'']
   | Load_kind _ _ \<Rightarrow> [string_field ''name''])"

definition ainvoke_tool :: "env \<Rightarrow> world \<Rightarrow> agent_tool \<Rightarrow> dict \<Rightarrow> string A" where
  "ainvoke_tool E W t input = bind (of_sum (parse_input W (tool_fields t) input)) (run_tool E W t)"

end
