(* ===== verification/Loading.thy ===== *)
theory Loading imports Tools begin

text \<open>
  The loading of an agent's tools (\<^verbatim>\<open>build_tools_for_worker\<close> of
  \<^verbatim>\<open>workers/tools.py\<close>): the connection to each tool source, the pages of its tools,
  the conversion of those the allowlist admits, and the checks that what the step needs was loaded.
  The lists the source passes down and appends to are fields of the run, since what was appended
  stays when an exception leaves a source.
\<close>

section \<open>Connecting\<close>

fun env_names_from_docker_args :: "json list \<Rightarrow> string list" where
  "env_names_from_docker_args (flag # value # rest) =
     (if flag = JStr ''-e''
      then (case value of JStr v \<Rightarrow> if CHR ''='' \<in> set v then [] else [v] | _ \<Rightarrow> []) @ env_names_from_docker_args rest
      else env_names_from_docker_args (value # rest))"
| "env_names_from_docker_args _ = []"

definition inherit_names :: "dict \<Rightarrow> string list" where
  "inherit_names source =
     env_names_from_docker_args (list_of (dget ''args'' source))
     @ List.map_filter (\<lambda>x. case x of JStr n \<Rightarrow> Some n | _ \<Rightarrow> None) (list_of (dget ''env_inherit'' source))"

fun first_occurrences :: "string list \<Rightarrow> string list \<Rightarrow> string list" where
  "first_occurrences seen [] = []"
| "first_occurrences seen (n # ns) =
     (if n \<in> set seen then first_occurrences seen ns else n # first_occurrences (n # seen) ns)"

definition stdio_env_inherit_names :: "dict \<Rightarrow> string list" where
  "stdio_env_inherit_names source = first_occurrences [] (inherit_names source)"

definition resolve_stdio_subprocess_env :: "env \<Rightarrow> world \<Rightarrow> dict \<Rightarrow> (string \<times> string) list" where
  "resolve_stdio_subprocess_env E W source =
     (let inherited = fold (\<lambda>n d. case environ E n of Some v \<Rightarrow> AList.update n v d | None \<Rightarrow> d)
                        (inherit_names source) (default_env W)
      in fold (\<lambda>(k, v) d. if v = JNull then d else AList.update k (py_str v) d)
           (coerce_dict (dget ''env'' source)) inherited)"

definition missing_stdio_env_vars :: "env \<Rightarrow> world \<Rightarrow> dict \<Rightarrow> string list" where
  "missing_stdio_env_vars E W source =
     filter (\<lambda>n. strip (opt_text (map_of (resolve_stdio_subprocess_env E W source) n)) = [])
       (stdio_env_inherit_names source)"

text \<open>A placeholder of a header, after its dollar and brace: \<open>ENV:\<close> in any case, a name, a brace.\<close>

definition header_placeholder :: "string \<Rightarrow> (string \<times> string) option" where
  "header_placeholder s =
     (let body = (if lower (take 4 s) = ''env:'' then drop 4 s else s);
          name = takeWhile is_ident_char body; rest = dropWhile is_ident_char body in
      if name \<noteq> [] \<and> starts_with ''}'' rest then Some (name, drop 1 rest) else None)"

lemma header_placeholder_shorter: "header_placeholder s = Some (n, rest) \<Longrightarrow> length rest \<le> length s"
proof -
  assume "header_placeholder s = Some (n, rest)"
  then obtain k where "rest = drop 1 (dropWhile is_ident_char (drop k s))"
    unfolding header_placeholder_def Let_def
    by (auto split: if_splits intro: that [of 4] that [of 0])
  moreover have "length (dropWhile is_ident_char (drop k s)) \<le> length (drop k s)"
    by (rule length_dropWhile_le)
  ultimately show ?thesis by simp
qed

function interpolate_http_header_value :: "env \<Rightarrow> string \<Rightarrow> string" where
  "interpolate_http_header_value E (a # b # s) =
     (case (if a = CHR ''$'' \<and> b = CHR ''{'' then header_placeholder s else None) of
        Some (name, rest) \<Rightarrow> opt_text (environ E name) @ interpolate_http_header_value E rest
      | None \<Rightarrow> a # interpolate_http_header_value E (b # s))"
| "interpolate_http_header_value E [a] = [a]"
| "interpolate_http_header_value E [] = []"
  by pat_completeness auto

termination
  by (relation "measure (\<lambda>(E, s). length s)") (auto dest!: header_placeholder_shorter split: if_splits)

definition resolve_http_headers :: "env \<Rightarrow> dict \<Rightarrow> (string \<times> string) list option" where
  "resolve_http_headers E source =
     (case List.map_filter (\<lambda>(k, v). if v = JNull then None else Some (k, interpolate_http_header_value E (py_str v)))
             (coerce_dict (dget ''headers'' source)) of
        [] \<Rightarrow> None | headers \<Rightarrow> Some headers)"

text \<open>The session opened last has the number of sessions opened before it.\<close>

definition open_endpoint :: "world \<Rightarrow> endpoint \<Rightarrow> nat option A" where
  "open_endpoint W e =
     bind (gets (\<lambda>r. length (filter (\<lambda>a. case a of Opened _ \<Rightarrow> True | _ \<Rightarrow> False) (acts r)))) (\<lambda>session.
     seq (call (Opened e) (\<lambda>before. open_session W before e)) (return (Some session)))"

definition connect_stdio_source :: "env \<Rightarrow> world \<Rightarrow> dict \<Rightarrow> nat option A" where
  "connect_stdio_source E W source = (case dget ''command'' source of
     JStr command \<Rightarrow>
       (let missing = missing_stdio_env_vars E W source; joined = join_str '', '' missing in
        if missing \<noteq> []
        then raise (plain_exn ''RuntimeError''
          (''Required worker environment variable(s) not set or empty: '' @ joined @ ''. ''
           @ ''Set '' @ joined @ '' in .env and restart the worker container.''))
        else open_endpoint W (Stdio_endpoint command
               (if dhas ''args'' source then dget ''args'' source else JList []) (dget ''cwd'' source)
               (resolve_stdio_subprocess_env E W source)))
   | _ \<Rightarrow> raise (plain_exn ''ValueError'' ''stdio MCP source requires a string 'command' ''))"

definition connect_to_source :: "env \<Rightarrow> world \<Rightarrow> dict \<Rightarrow> nat option A" where
  "connect_to_source E W source =
     (let transport = lower (str_of (field_or ''transport'' (JStr ''streamable_http'') source)) in
      if transport = ''streamable_http''
      then (if \<not> truthy (dget ''url'' source) then return None
            else open_endpoint W (Http_endpoint (dget ''url'' source) (resolve_http_headers E source)))
      else if transport = ''stdio'' then connect_stdio_source E W source
      else return None)"

section \<open>Listing\<close>

fun list_mcp_paginated :: "(string option \<Rightarrow> ('a list \<times> string option) A) \<Rightarrow> nat \<Rightarrow> nat \<Rightarrow> 'a list \<Rightarrow> string option
    \<Rightarrow> 'a list A" where
  "list_mcp_paginated fetch 0 max_items items cursor = return items"
| "list_mcp_paginated fetch (Suc pages) max_items items cursor =
     bind (fetch cursor) (\<lambda>(page, next_cursor).
     if length (items @ page) \<ge> max_items then return (take max_items (items @ page))
     else if opt_text next_cursor = [] then return (items @ page)
     else list_mcp_paginated fetch pages max_items (items @ page) next_cursor)"

definition list_tools_paginated :: "world \<Rightarrow> nat \<Rightarrow> mcp_tool list A" where
  "list_tools_paginated W session = list_mcp_paginated
     (\<lambda>cursor. call (Listed_tools session cursor) (\<lambda>before. tools_page W before session cursor))
     (list_max_pages W) (list_max_items W) [] None"

definition list_resources_paginated :: "world \<Rightarrow> nat \<Rightarrow> string list A" where
  "list_resources_paginated W session = list_mcp_paginated
     (\<lambda>cursor. call (Listed_resources session cursor) (\<lambda>before. resources_page W before session cursor))
     (list_max_pages W) (list_max_items W) [] None"

definition discover_resources_for_source :: "world \<Rightarrow> nat \<Rightarrow> string list A" where
  "discover_resources_for_source W session = try_except (list_resources_paginated W session) (\<lambda>e. return [])"

definition source_has_required_resources :: "string list \<Rightarrow> allowlist \<Rightarrow> bool" where
  "source_has_required_resources discovered templates \<longleftrightarrow>
     templates = [] \<or> discovered = [] \<or> list_ex (\<lambda>t. list_ex (uri_matches t) discovered) templates"

section \<open>Loading the tools of a source\<close>

text \<open>The input schema of a tool is a JSON Schema: its \<open>required\<close> is a list.\<close>

definition bindable_fields :: "dict \<Rightarrow> string list \<Rightarrow> args_field list" where
  "bindable_fields input_schema omit = List.map_filter
     (\<lambda>(name, field). if name \<in> set omit then None else
        (case resolve_bindable_json_type (coerce_dict field) of (token, nullable) \<Rightarrow>
           Some \<lparr>af_name = name, af_type = token,
                 af_required = (JStr name \<in> set (list_of (dget ''required'' input_schema)) \<and> \<not> nullable)\<rparr>))
     (coerce_dict (dget ''properties'' input_schema))"

definition convert_mcp_to_langchain ::
  "world \<Rightarrow> mcp_tool \<Rightarrow> nat \<Rightarrow> dict \<Rightarrow> string \<Rightarrow> string list \<Rightarrow> py_exc + agent_tool" where
  "convert_mcp_to_langchain W m session step_spec wire_name omit =
     (let shown = bindable_fields (coerce_dict (mt_input_schema m)) omit in
      case convert_error W (sanitize_mcp_tool_name (mt_name m) @ ''Schema'') shown of
        Some e \<Rightarrow> Inl e
      | None \<Rightarrow> Inr \<lparr>tl_name = wire_name, tl_kind = Mcp_kind session m step_spec shown\<rparr>)"

definition spec_for_tool :: "dict \<Rightarrow> string \<Rightarrow> string \<Rightarrow> dict" where
  "spec_for_tool spec_by_name allow_entry name =
     coerce_dict (jor (dget allow_entry spec_by_name)
       (jor (dget name spec_by_name) (dget (sanitize_mcp_tool_name name) spec_by_name)))"

fun load_tools :: "world \<Rightarrow> nat \<Rightarrow> string \<Rightarrow> dict \<Rightarrow> string list \<Rightarrow> mcp_tool list \<Rightarrow> agent_tool list A" where
  "load_tools W session source_name spec_by_name omit [] = return []"
| "load_tools W session source_name spec_by_name omit (m # ms) =
     bind (gets loaded_names) (\<lambda>loaded.
     case matching_allowlist_entry (mt_name m) (map fst spec_by_name) of
       None \<Rightarrow> load_tools W session source_name spec_by_name omit ms
     | Some entry \<Rightarrow>
         if mt_name m \<in> set loaded then load_tools W session source_name spec_by_name omit ms
         else seq (tell (Tool_discovered (mt_name m) source_name))
           (bind (gets used_names) (\<lambda>used.
            let wire_name = allocate_unique_sanitized_name (mt_name m) used in
            seq (modify (\<lambda>r. r\<lparr>used_names := used @ [wire_name]\<rparr>))
            (bind (of_sum (convert_mcp_to_langchain W m session (spec_for_tool spec_by_name entry (mt_name m))
                             wire_name omit)) (\<lambda>t.
             seq (modify (\<lambda>r. r\<lparr>loaded_names := loaded_names r @ [mt_name m]\<rparr>))
             (bind (load_tools W session source_name spec_by_name omit ms) (\<lambda>ts. return (t # ts))))))))"

definition load_tools_from_session :: "world \<Rightarrow> nat \<Rightarrow> string \<Rightarrow> dict \<Rightarrow> string list \<Rightarrow> agent_tool list A" where
  "load_tools_from_session W session source_name spec_by_name omit =
     bind (list_tools_paginated W session) (load_tools W session source_name spec_by_name omit)"

definition record_source_failure :: "dict \<Rightarrow> string \<Rightarrow> string \<Rightarrow> unit A" where
  "record_source_failure source outcome error =
     seq (tell (Source_attempted (str_or (dget ''name'' source) []) outcome (Some error)))
         (modify (\<lambda>r. r\<lparr>source_failures := source_failures r @
            [JObj [(''name'', dget ''name'' source), (''url'', dget ''url'' source), (''error'', JStr error)]]\<rparr>))"

definition use_session :: "world \<Rightarrow> dict \<Rightarrow> nat \<Rightarrow> dict \<Rightarrow> allowlist option \<Rightarrow> string list \<Rightarrow> agent_tool list A" where
  "use_session W source session spec_by_name allow omit =
     (let name = str_or (dget ''name'' source) [] in
      seq (tell (Source_attempted name ''connected'' None))
      (seq (modify (\<lambda>r. r\<lparr>source_sessions := source_sessions r @ [(dget ''name'' source, session)]\<rparr>))
      (seq (case allow of
              None \<Rightarrow> skip
            | Some templates \<Rightarrow>
                bind (discover_resources_for_source W session) (\<lambda>discovered.
                modify (\<lambda>r. r\<lparr>resource_coverage := AList.update (dget ''name'' source)
                          (source_has_required_resources discovered templates) (resource_coverage r)\<rparr>)))
           (load_tools_from_session W session name spec_by_name omit))))"

definition process_mcp_source :: "env \<Rightarrow> world \<Rightarrow> dict \<Rightarrow> dict \<Rightarrow> allowlist option \<Rightarrow> string list \<Rightarrow> agent_tool list A" where
  "process_mcp_source E W source spec_by_name allow omit =
     try_except
       (bind (connect_to_source E W source) (\<lambda>session. case session of
          None \<Rightarrow> seq (record_source_failure source ''skipped'' ''connect_skipped_or_unsupported'') (return [])
        | Some s \<Rightarrow> use_session W source s spec_by_name allow omit))
       (\<lambda>e. seq (record_source_failure source ''failed'' (format_exception_chain e)) (return []))"

fun process_mcp_sources :: "env \<Rightarrow> world \<Rightarrow> json list \<Rightarrow> dict \<Rightarrow> allowlist option \<Rightarrow> string list \<Rightarrow> agent_tool list A" where
  "process_mcp_sources E W [] spec_by_name allow omit = return []"
| "process_mcp_sources E W (source # sources) spec_by_name allow omit =
     bind (process_mcp_source E W (coerce_dict source) spec_by_name allow omit) (\<lambda>ts.
     bind (process_mcp_sources E W sources spec_by_name allow omit) (\<lambda>rest. return (ts @ rest)))"

section \<open>All tools of a step\<close>

definition reserved_name :: "string \<Rightarrow> string \<Rightarrow> py_exc" where
  "reserved_name tool message =
     Step_error [(''code'', JStr ''reserved_tool_name''), (''tool'', JStr tool)] None message"

fun spec_by_name_rejecting_load_skill :: "json list \<Rightarrow> dict \<Rightarrow> py_exc + dict" where
  "spec_by_name_rejecting_load_skill [] acc = Inr acc"
| "spec_by_name_rejecting_load_skill (spec # specs) acc = (case dget ''name'' (coerce_dict spec) of
     JStr name \<Rightarrow>
       if name = load_skill_tool_name
       then Inl (reserved_name load_skill_tool_name
              (''MCP tool name 'load_skill' is reserved for skill loading; '' @ ''rename the tool in tool_specs.''))
       else spec_by_name_rejecting_load_skill specs (dset name spec acc)
   | _ \<Rightarrow> spec_by_name_rejecting_load_skill specs acc)"

definition skills_bodies_from_context :: "json list \<Rightarrow> dict" where
  "skills_bodies_from_context definitions = fold (\<lambda>e out. case e of
     JObj d \<Rightarrow>
       (let name = strip (str_or (dget ''name'' d) []) in
        if name \<noteq> [] \<and> is_str (dget ''body'' d) then dset name (dget ''body'' d) out else out)
   | _ \<Rightarrow> out) definitions []"

definition load_skill_tools :: "string list \<Rightarrow> dict \<Rightarrow> agent_tool list" where
  "load_skill_tools ids bodies =
     (if ids = [] then [] else [\<lparr>tl_name = load_skill_tool_name, tl_kind = Load_kind ids bodies\<rparr>])"

definition mcp_unavailable_message :: "string list \<Rightarrow> json list \<Rightarrow> string" where
  "mcp_unavailable_message missing failures =
     (case failures of
        f # _ \<Rightarrow>
          (let detail = dget ''error'' (coerce_dict f); name = dget ''name'' (coerce_dict f) in
           if \<not> truthy detail
           then ''Required MCP tool(s) could not be loaded (server unreachable or tool not listed): '' @ join_str '', '' missing
           else (if truthy name then ''MCP source '' @ repr_json name @ '' failed: '' else ''MCP source failed: '') @ py_str detail)
      | [] \<Rightarrow> ''Required MCP tool(s) could not be loaded (server unreachable or tool not listed): '' @ join_str '', '' missing)"

definition handle_no_sources :: "allowlist option \<Rightarrow> string list \<Rightarrow> unit A" where
  "handle_no_sources allow allowed_tools = (case allow of
     Some templates \<Rightarrow> raise (uri_error ''MCP_SOURCES_REQUIRED'' [(''resource_uris'', JList (map JStr templates))]
        ''MCP sources are required to read resources but worker has no tool_sources.'')
   | None \<Rightarrow> tell (Tools_loaded [] allowed_tools))"

definition coverage_dict :: "(json \<times> bool) list \<Rightarrow> dict" where
  "coverage_dict c = map (\<lambda>(n, b). (str_or n ''null'', JBool b)) c"

definition require_resources :: "allowlist option \<Rightarrow> unit A" where
  "require_resources allow = (case allow of
     None \<Rightarrow> skip
   | Some templates \<Rightarrow>
       bind (gets (\<lambda>r. (source_sessions r, resource_coverage r, source_failures r))) (\<lambda>(sessions, coverage, failures).
       if sessions \<noteq> [] \<and> \<not> list_ex snd coverage
       then raise (uri_error ''RESOURCE_REQUIRED_SOURCE_UNAVAILABLE''
          [(''resource_uris'', JList (map JStr templates)), (''source_failures'', JList failures),
           (''source_resource_coverage'', JObj (coverage_dict coverage))]
          ''No connected MCP source can satisfy required resource allowlist.'')
       else skip))"

definition require_tools :: "string list \<Rightarrow> unit A" where
  "require_tools allowed_tools =
     bind (gets (\<lambda>r. (loaded_names r, source_failures r))) (\<lambda>(loaded, failures).
     let missing = filter (\<lambda>n. \<not> allowlist_entry_satisfied n loaded) allowed_tools;
         message = mcp_unavailable_message missing failures in
     seq (tell (Tools_loaded (sort loaded) missing))
     (if missing = [] then skip
      else seq (tell (Tools_load_failed missing))
        (raise (Step_error
           [(''code'', JStr ''MCP_UNAVAILABLE''), (''message'', JStr message),
            (''missing_tools'', JList (map JStr missing)), (''source_failures'', JList failures)] None message))))"

definition read_resource_tools :: "allowlist option \<Rightarrow> dict \<Rightarrow> agent_tool list A" where
  "read_resource_tools allow vars = (case allow of
     None \<Rightarrow> return []
   | Some templates \<Rightarrow>
       seq (tell (Resources_allowed templates))
       (bind (gets (\<lambda>r. (source_sessions r, source_failures r))) (\<lambda>(sessions, failures).
        if sessions = []
        then raise (uri_error ''MCP_SOURCES_REQUIRED''
           [(''resource_uris'', JList (map JStr templates)), (''source_failures'', JList failures)]
           ''MCP resource reads require at least one connected MCP source.'')
        else return [\<lparr>tl_name = read_resource_tool_name, tl_kind = Read_kind templates vars\<rparr>])))"

definition build_tools_for_worker ::
  "env \<Rightarrow> world \<Rightarrow> dict \<Rightarrow> json list \<Rightarrow> json list \<Rightarrow> json list \<Rightarrow> json list \<Rightarrow> dict \<Rightarrow> string list \<Rightarrow> agent_tool list A" where
  "build_tools_for_worker E W body tool_specs resource_specs skill_specs definitions vars omit =
     bind (of_sum (compile_resource_allowlist resource_specs)) (\<lambda>allow.
     bind (of_sum (spec_by_name_rejecting_load_skill tool_specs [])) (\<lambda>spec_by_name.
     let ids = skill_ids_from_specs skill_specs; bodies = skills_bodies_from_context definitions;
         sources = map dump_mcp_server (list_of (dget ''tool_sources'' body)) in
     seq (modify (\<lambda>r. r\<lparr>loaded_names := [], used_names := (if ids = [] then [] else [load_skill_tool_name]),
            source_failures := [], source_sessions := [], resource_coverage := []\<rparr>))
     (if sources = []
      then seq (handle_no_sources allow (map fst spec_by_name)) (return (load_skill_tools ids bodies))
      else bind (process_mcp_sources E W sources spec_by_name allow omit) (\<lambda>mcp_tools.
           bind (gets loaded_names) (\<lambda>loaded.
           if load_skill_tool_name \<in> set loaded
           then raise (reserved_name load_skill_tool_name
                  ''MCP tool name 'load_skill' is reserved for skill loading; rename the MCP tool.'')
           else seq (require_resources allow)
             (seq (require_tools (map fst spec_by_name))
             (bind (read_resource_tools allow vars) (\<lambda>readers.
              return (mcp_tools @ readers @ load_skill_tools ids bodies)))))))))"

end
