(* ===== verification/React.thy ===== *)
theory React imports Loading Memory begin

text \<open>
  The ReAct loop (\<^verbatim>\<open>workers/adapters/react_loop.py\<close>): the turns of a model, the batch of
  tool calls of a turn, and the virtual tool \<open>_submit\<close> that ends the loop.  The transcript and the
  tool results are fields of the run, as the source changes both lists in place; what the loop knows
  of the step is the record \<open>react_config\<close>.
\<close>

record react_config =
  rc_tools :: "agent_tool list"
  rc_allowed :: "string list"
  rc_bound :: dict
  rc_max_turns :: nat
  rc_max_step_tokens :: "int option"

definition submit_tool_name :: string where
  "submit_tool_name = ''_submit''"

definition submit_text_retries_from_env :: "env \<Rightarrow> nat" where
  "submit_text_retries_from_env E =
     (case environ E ''WARDEN_REACT_SUBMIT_TEXT_RETRIES'' of
        None \<Rightarrow> 1
      | Some raw \<Rightarrow> (case int_of_text E raw of Some n \<Rightarrow> nat n | None \<Rightarrow> 1))"

definition submit_text_exit_nudge :: string where
  "submit_text_exit_nudge = ''[SYSTEM]: Your previous message was plain text without a tool call. ''
     @ ''This step requires calling the `_submit` tool now with the full result object. ''
     @ ''Do not summarize or explain in chat '' @ em_dash @ '' invoke `_submit` immediately.''"

definition submit_must_be_alone_message :: string where
  "submit_must_be_alone_message = ''Error: `_submit` must be the only tool call in its turn. ''
     @ ''Other tools in this batch were executed; review their results, then call ''
     @ ''`_submit` alone with the final payload.''"

section \<open>The calls of a turn\<close>

definition ensure_tool_call_id :: "world \<Rightarrow> tool_call \<Rightarrow> tool_call A" where
  "ensure_tool_call_id W tc =
     (if tc_id tc \<noteq> [] then return tc
      else bind (gets fresh_ids) (\<lambda>n.
           seq (modify (\<lambda>r. r\<lparr>fresh_ids := Suc n\<rparr>)) (return (tc\<lparr>tc_id := uuid4_text W n\<rparr>))))"

definition submit_payload_from_call :: "tool_call \<Rightarrow> dict" where
  "submit_payload_from_call tc =
     (if dhas ''result'' (tc_args tc) then coerce_dict (dget ''result'' (tc_args tc)) else tc_args tc)"

definition check_allowlist_tool_name :: "string list \<Rightarrow> string \<Rightarrow> unit A" where
  "check_allowlist_tool_name names name =
     (let allowed = submit_tool_name # names;
          text = ''Tool '' @ repr_str name @ '' not in allowlist. Allowed: ''
            @ join_str '', '' (sort (remdups allowed)) @ ''.'' in
      if name = [] \<or> name \<in> set allowed then skip
      else raise (step_error ''TOOL_NOT_ALLOWED'' text (Some name)
             [(''tool'', JStr name), (''disallowed_tools'', JList [JStr name]),
              (''allowed_tools'', sorted_names allowed)]))"

definition tool_not_found :: "string \<Rightarrow> py_exc" where
  "tool_not_found name =
     step_error ''TOOL_NOT_FOUND'' (''Error: Tool '' @ name @ '' not found.'') (Some name) [(''tool'', JStr name)]"

definition selected_tool :: "react_config \<Rightarrow> string \<Rightarrow> agent_tool option" where
  "selected_tool c name = rows_first (\<lambda>t. tl_name t = name) (rc_tools c)"

definition resolve_mcp_tool_args :: "env \<Rightarrow> world \<Rightarrow> dict \<Rightarrow> agent_tool \<Rightarrow> dict \<Rightarrow> dict" where
  "resolve_mcp_tool_args E W bound t args =
     (case get_warden_tool_input_schema t of
        Some schema \<Rightarrow>
          (let resolved = overlay_bound_tool_arguments args bound schema in
           if schema = [] then resolved else coerce_llm_json_from_schema E W resolved schema)
      | None \<Rightarrow> overlay_bound_tool_arguments args bound [])"

definition tool_invoke_exception_result :: "string \<Rightarrow> py_exc \<Rightarrow> string A" where
  "tool_invoke_exception_result name e =
     (case unwrap_execution_step_error e of
        Some nested \<Rightarrow> raise nested
      | None \<Rightarrow>
          if tool_invoke_exception_is_infrastructure e
          then raise (step_error ''TOOL_INVOKE_FAILED'' (format_exception_chain e) (Some name) [(''tool'', JStr name)])
          else return (format_tool_invoke_exception e))"

definition invoke_mcp_tool :: "env \<Rightarrow> world \<Rightarrow> react_config \<Rightarrow> tool_call \<Rightarrow> string A" where
  "invoke_mcp_tool E W c tc = (case selected_tool c (tc_name tc) of
     None \<Rightarrow> raise (tool_not_found (tc_name tc))
   | Some t \<Rightarrow>
       try_except (run_tool E W t (resolve_mcp_tool_args E W (rc_bound c) t (tc_args tc)))
         (tool_invoke_exception_result (tc_name tc)))"

definition handle_tool_output_content :: "string \<Rightarrow> string \<Rightarrow> unit A" where
  "handle_tool_output_content name content =
     (if \<not> tool_output_indicates_failure content \<or> tool_output_is_recoverable content then skip
      else raise (step_error ''TOOL_OUTPUT_ERROR'' (take 1000 content) (if name = [] then None else Some name)
             [(''tool'', if name = [] then JNull else JStr name), (''error'', JStr (take 2000 content))]))"

definition mcp_fact_tool_name :: "react_config \<Rightarrow> string \<Rightarrow> string" where
  "mcp_fact_tool_name c name = (case selected_tool c name of None \<Rightarrow> name | Some t \<Rightarrow> mcp_name_or name t)"

definition tool_message :: "tool_call \<Rightarrow> string \<Rightarrow> chat_message" where
  "tool_message tc content = \<lparr>cm_role = Role_tool, cm_content = content, cm_tool_call_id = Some (tc_id tc),
     cm_name = Some (tc_name tc), cm_tool_calls = []\<rparr>"

definition append_message :: "chat_message \<Rightarrow> unit A" where
  "append_message m = modify (\<lambda>r. r\<lparr>transcript := transcript r @ [m]\<rparr>)"

definition append_result :: "string \<Rightarrow> string \<Rightarrow> unit A" where
  "append_result name result = modify (\<lambda>r. r\<lparr>tool_results := tool_results r @ [(name, result)]\<rparr>)"

definition record_submit_must_be_alone :: "tool_call \<Rightarrow> unit A" where
  "record_submit_must_be_alone tc =
     seq (append_result submit_tool_name submit_must_be_alone_message)
         (append_message (tool_message tc submit_must_be_alone_message))"

definition run_one_mcp_tool_call :: "env \<Rightarrow> world \<Rightarrow> react_config \<Rightarrow> tool_call \<Rightarrow> unit A" where
  "run_one_mcp_tool_call E W c tc =
     bind (invoke_mcp_tool E W c tc) (\<lambda>content.
     seq (handle_tool_output_content (tc_name tc) content)
     (bind (of_sum (annotate_recoverable_tool_output E content)) (\<lambda>recorded.
      seq (append_result (mcp_fact_tool_name c (tc_name tc)) recorded)
          (append_message (tool_message tc recorded)))))"

definition execute_tool_batch :: "env \<Rightarrow> world \<Rightarrow> react_config \<Rightarrow> tool_call list \<Rightarrow> unit A" where
  "execute_tool_batch E W c tcs = for_each tcs (\<lambda>tc.
     if tc_name tc = submit_tool_name then record_submit_must_be_alone tc
     else run_one_mcp_tool_call E W c tc)"

definition process_tool_calls :: "env \<Rightarrow> world \<Rightarrow> react_config \<Rightarrow> chat_response \<Rightarrow> dict option A" where
  "process_tool_calls E W c response =
     bind (map_m (ensure_tool_call_id W) (cr_tool_calls response)) (\<lambda>tcs.
     seq (append_message \<lparr>cm_role = Role_assistant, cm_content = opt_text (cr_content response),
            cm_tool_call_id = None, cm_name = None, cm_tool_calls = tcs\<rparr>)
     (seq (for_each tcs (\<lambda>tc. check_allowlist_tool_name (rc_allowed c) (tc_name tc)))
     (case tcs of
        [tc] \<Rightarrow>
          if tc_name tc = submit_tool_name then return (Some (submit_payload_from_call tc))
          else seq (execute_tool_batch E W c [tc]) (return None)
      | _ \<Rightarrow> seq (execute_tool_batch E W c tcs) (return None))))"

section \<open>The end without a result\<close>

definition collect_last_tool_errors :: "(string \<times> string) list \<Rightarrow> json list" where
  "collect_last_tool_errors results =
     (let errors = map (\<lambda>(tool, raw). JObj [(''tool'', JStr tool), (''preview'', JStr (take 500 raw))])
                     (filter (\<lambda>(tool, raw). tool_output_indicates_failure raw) results)
      in drop (length errors - 5) errors)"

definition no_submit :: "string \<Rightarrow> nat \<Rightarrow> nat \<Rightarrow> (string \<times> string) list \<Rightarrow> string option \<Rightarrow> py_exc" where
  "no_submit reason turns_used turns results content =
     (let stripped = strip (opt_text content); errors = collect_last_tool_errors results in
      step_error ''no_submit_call''
        ''Agent did not call _submit with a result. Step output must be submitted via _submit.'' None
        ([(''reason'', JStr reason), (''turns_used'', JInt (int turns_used)), (''max_turns'', JInt (int turns)),
          (''error'', JStr ''no_submit_call'')]
         @ (if reason = ''model_text_exit'' \<and> stripped \<noteq> []
            then [(''last_assistant_content'', JStr (take 500 stripped))] else [])
         @ (if errors = [] then [] else [(''last_tool_errors'', JList errors)])))"

definition raise_no_submit :: "string \<Rightarrow> nat \<Rightarrow> react_config \<Rightarrow> string option \<Rightarrow> 'a A" where
  "raise_no_submit reason turns_used c content =
     bind (gets tool_results) (\<lambda>results. raise (no_submit reason turns_used (rc_max_turns c) results content))"

section \<open>A turn\<close>

datatype turn_result = Submitted dict | Turn_continue bool

definition compress_transcript :: "env \<Rightarrow> world \<Rightarrow> react_config \<Rightarrow> unit A" where
  "compress_transcript E W c =
     when_do (memory_compression_enabled_from_env E)
       (bind (gets (\<lambda>r. compress_if_needed (transcript r) (int (rc_max_turns c)) (context_limit_from_env E) (ratio r)
                        (context_headroom_from_env E W))) (\<lambda>compressed.
        bind (of_sum compressed) (\<lambda>(messages, stats).
        modify (\<lambda>r. r\<lparr>transcript := messages, used := add_memory_stats (to_usage_memory stats) (used r)\<rparr>))))"

definition calibrate_estimator :: "env \<Rightarrow> token_usage option \<Rightarrow> unit A" where
  "calibrate_estimator E reported = (case reported of
     None \<Rightarrow> skip
   | Some u \<Rightarrow>
       when_do (memory_compression_enabled_from_env E \<and> tu_prompt u > 0)
         (modify (\<lambda>r. r\<lparr>ratio := calibrate (length (serialize_for_estimate (transcript r))) (tu_prompt u) (ratio r)\<rparr>)))"

definition ask_model :: "env \<Rightarrow> world \<Rightarrow> react_config \<Rightarrow> chat_response A" where
  "ask_model E W c =
     seq (compress_transcript E W c)
     (bind (gets transcript) (\<lambda>messages.
      bind (ainvoke W messages) (\<lambda>response.
      seq (calibrate_estimator E (cr_usage response))
      (seq (modify (\<lambda>r. r\<lparr>used := add_usage (cr_usage response) (used r)\<rparr>))
      (seq (enforce_step_token_budget (rc_max_step_tokens c)) (return response))))))"

definition react_loop_turn :: "env \<Rightarrow> world \<Rightarrow> react_config \<Rightarrow> nat \<Rightarrow> bool \<Rightarrow> turn_result A" where
  "react_loop_turn E W c turns_used allow_text_recovery =
     bind (ask_model E W c) (\<lambda>response.
     if cr_tool_calls response \<noteq> []
     then bind (process_tool_calls E W c response) (\<lambda>payload.
          return (case payload of Some p \<Rightarrow> Submitted p | None \<Rightarrow> Turn_continue False))
     else if allow_text_recovery
     then seq (append_message (chat Role_assistant (opt_text (cr_content response))))
         (seq (append_message (chat Role_human submit_text_exit_nudge)) (return (Turn_continue True)))
     else raise_no_submit ''model_text_exit'' turns_used c (cr_content response))"

section \<open>The loop\<close>

text \<open>\<open>left\<close> is what remains of \<open>effective_max_turns\<close>: a recovery on the last turn grants one
  more.  A turn recovers only while recoveries are left.\<close>

function react_turns :: "env \<Rightarrow> world \<Rightarrow> react_config \<Rightarrow> nat \<Rightarrow> nat \<Rightarrow> nat \<Rightarrow> dict A" where
  "react_turns E W c 0 recoveries turns_used = raise_no_submit ''max_turns_exceeded'' turns_used c None"
| "react_turns E W c (Suc left) recoveries turns_used =
     bind (react_loop_turn E W c (Suc turns_used) (recoveries > 0)) (\<lambda>r. case r of
       Submitted payload \<Rightarrow> return payload
     | Turn_continue recovered \<Rightarrow>
         (case recoveries of
            Suc fewer \<Rightarrow>
              if recovered then react_turns E W c (max 1 left) fewer (Suc turns_used)
              else react_turns E W c left recoveries (Suc turns_used)
          | 0 \<Rightarrow> react_turns E W c left 0 (Suc turns_used)))"
  by pat_completeness auto

termination
  by (relation "measure (\<lambda>(E, W, c, left, recoveries, turns_used). left + recoveries)") auto

definition run_react_loop :: "env \<Rightarrow> world \<Rightarrow> react_config \<Rightarrow> chat_message list \<Rightarrow> dict A" where
  "run_react_loop E W c initial_messages =
     seq (modify (\<lambda>r. r\<lparr>transcript := initial_messages, tool_results := [], ratio := default_ratio\<rparr>))
         (react_turns E W c (rc_max_turns c) (submit_text_retries_from_env E) 0)"

end
