(* ===== verification/Facts.thy ===== *)
theory Facts imports React begin

text \<open>
  The facts a step extracts from the results of its tools (\<^verbatim>\<open>common/step_facts.py\<close>): the
  last result of each tool, read as a JSON object, and the values of its JSONPaths.
\<close>

definition facts_error ::
  "string \<Rightarrow> string \<Rightarrow> json \<Rightarrow> json \<Rightarrow> dict \<Rightarrow> py_exc" where
  "facts_error code message tool field extra =
     Step_error (build_step_error_details code message ([(''tool'', tool), (''field'', field)] @ extra))
       (case tool of JStr t \<Rightarrow> Some t | _ \<Rightarrow> None) message"

definition extraction_failed :: "string \<Rightarrow> json \<Rightarrow> json \<Rightarrow> dict \<Rightarrow> py_exc" where
  "extraction_failed message tool field extra = facts_error ''FACT_EXTRACTION_FAILED'' message tool field extra"

text \<open>Entries are appended as the tools are called: the later result of a name replaces the earlier.\<close>

definition tool_results_index :: "(string \<times> string) list \<Rightarrow> (string \<times> string) list" where
  "tool_results_index results = fold
     (\<lambda>(tool, result) d. if strip tool = [] then d else AList.update (strip tool) result d) results []"

text \<open>The position in the text of a \<open>JSONDecodeError\<close>, which ends with \<^verbatim>\<open>(char N)\<close>.\<close>

definition error_pos :: "string \<Rightarrow> int" where
  "error_pos text = digits_value (rev (takeWhile is_digit (drop 1 (rev text))))"

definition tool_result_record_limit :: nat where
  "tool_result_record_limit = 8000"

definition json_parse_failure_is_likely_truncation :: "string \<Rightarrow> string \<Rightarrow> bool" where
  "json_parse_failure_is_likely_truncation raw error \<longleftrightarrow>
     length raw \<ge> tool_result_record_limit
     \<and> (contains_str ''Unterminated'' error \<or> error_pos error \<ge> int tool_result_record_limit - 64)"

definition truncated_tool_result :: "string \<Rightarrow> string \<Rightarrow> py_exc" where
  "truncated_tool_result tool raw =
     facts_error ''TOOL_RESULT_TRUNCATED''
       (''tool '' @ repr_str tool @ '' result was truncated at the worker record limit (''
        @ show_nat tool_result_record_limit @ '' chars), ''
        @ ''so JSON parsing failed. Facts extraction needs valid tool JSON '' @ em_dash @ '' narrow tool query ''
        @ ''parameters (e.g. smaller page size) or reduce payload size.'')
       (JStr tool) JNull
       ([(''tool_result_preview'', JStr (take 500 raw)), (''truncation_limit'', JInt (int tool_result_record_limit))])"

definition parse_tool_result_object :: "env \<Rightarrow> string \<Rightarrow> string \<Rightarrow> py_exc + dict" where
  "parse_tool_result_object E tool raw = (case json_load E raw of
     Inr (JObj d) \<Rightarrow> Inr d
   | Inr _ \<Rightarrow> Inl (extraction_failed (''tool '' @ repr_str tool @ '' result must be a JSON object'') (JStr tool) JNull [])
   | Inl error \<Rightarrow>
       if json_parse_failure_is_likely_truncation raw error then Inl (truncated_tool_result tool raw)
       else if plain_text_tool_result_looks_like_error raw
       then Inl (extraction_failed (''tool '' @ repr_str tool @ '' returned an error (not JSON): '' @ take 500 raw)
              (JStr tool) JNull [(''tool_result_preview'', JStr (take 500 raw))])
       else Inl (extraction_failed (''tool '' @ repr_str tool @ '' result is not valid JSON: '' @ error) (JStr tool) JNull []))"

text \<open>An exception of the search itself is not one of the extraction; its text is the library's.\<close>

definition jsonpath_values :: "env \<Rightarrow> dict \<Rightarrow> string \<Rightarrow> py_exc + json list" where
  "jsonpath_values E document path = (case jsonpath_error E path of
     Some m \<Rightarrow> Inl (extraction_failed (''invalid JSONPath '' @ repr_str path @ '': '' @ m) JNull JNull [])
   | None \<Rightarrow> (case jsonpath E path (JObj document) of
        None \<Rightarrow> Inl (plain_exn ''Exception'' []) | Some values \<Rightarrow> Inr values))"

definition coerce_field_value :: "json list \<Rightarrow> string \<Rightarrow> string \<Rightarrow> py_exc + json" where
  "coerce_field_value values tool field = (case values of
     [] \<Rightarrow> Inl (extraction_failed
        (''JSONPath for facts.fields['' @ repr_str field @ ''] matched no values in tool '' @ repr_str tool @ '' result'')
        (JStr tool) (JStr field) [])
   | [v] \<Rightarrow> Inr v
   | vs \<Rightarrow> Inr (JList vs))"

fun fact_bucket :: "env \<Rightarrow> string \<Rightarrow> dict \<Rightarrow> dict \<Rightarrow> py_exc + dict" where
  "fact_bucket E tool document [] = Inr []"
| "fact_bucket E tool document ((field, path) # rest) =
     and_then (jsonpath_values E document (str_of path)) (\<lambda>values.
     and_then (coerce_field_value values tool field) (\<lambda>v.
     and_then (fact_bucket E tool document rest) (\<lambda>bucket. Inr ((field, v) # bucket))))"

fun facts_from :: "env \<Rightarrow> (string \<times> string) list \<Rightarrow> dict list \<Rightarrow> dict \<Rightarrow> py_exc + dict" where
  "facts_from E indexed [] facts = Inr facts"
| "facts_from E indexed (spec # specs) facts =
     (let tool = strip (str_of (dget ''tool'' spec)) in
      case map_of indexed tool of
        None \<Rightarrow> facts_from E indexed specs facts
      | Some raw \<Rightarrow>
          and_then (parse_tool_result_object E tool raw) (\<lambda>document.
          and_then (fact_bucket E tool document (coerce_dict (dget ''fields'' spec))) (\<lambda>bucket.
          facts_from E indexed specs (dset (strip (str_of (dget ''into'' spec))) (JObj bucket) facts))))"

definition extract_step_facts :: "env \<Rightarrow> (string \<times> string) list \<Rightarrow> json list \<Rightarrow> py_exc + dict" where
  "extract_step_facts E results specs =
     (if specs = [] then Inr []
      else if \<not> list_all facts_extractor_ok specs
      then Inl (extraction_failed (''invalid facts extractor specs: '' @ pydantic_text E [''facts'']) JNull JNull [])
      else facts_from E (tool_results_index results) (map coerce_dict specs) [])"

end
