(* ===== verification/Structured.thy ===== *)
theory Structured imports React begin

text \<open>
  The completion of a simple reason step (\<^verbatim>\<open>workers/llm/structured.py\<close>): native structured
  output, then a JSON answer in the text, validated against the schema and asked again with the
  validation error while attempts are left.
\<close>

section \<open>JSON in the text of an answer\<close>

text \<open>\<open>parse_json_object_from_assistant_text\<close> (\<^verbatim>\<open>workers/adapters/state_utils.py\<close>):
  the text, out of its markdown fence, or what lies between its first and last brace.\<close>

definition unfenced :: "string \<Rightarrow> string" where
  "unfenced s =
     (if starts_with ''```'' s \<and> ends_with ''```'' s \<and> length s \<ge> 6
      then (let body = take (length s - 6) (drop 3 s) in
            strip (if lower (take 4 body) = ''json'' then drop 4 body else body))
      else s)"

definition braced :: "string \<Rightarrow> string" where
  "braced s = rev (dropWhile (\<lambda>c. c \<noteq> CHR ''}'') (rev (dropWhile (\<lambda>c. c \<noteq> CHR ''{'') s)))"

fun first_object :: "env \<Rightarrow> string list \<Rightarrow> dict option" where
  "first_object E [] = None"
| "first_object E (c # cs) = (case json_load E c of Inr (JObj d) \<Rightarrow> Some d | _ \<Rightarrow> first_object E cs)"

definition parse_json_object_from_assistant_text :: "env \<Rightarrow> string \<Rightarrow> dict option" where
  "parse_json_object_from_assistant_text E raw =
     (let text = unfenced (strip raw) in first_object E (filter (\<lambda>c. c \<noteq> []) [text, braced text]))"

section \<open>Failures\<close>

definition structured_output_failed :: "string option \<Rightarrow> string option \<Rightarrow> py_exc" where
  "structured_output_failed last_error preview =
     (let error = opt_text last_error;
          message = (if error = [] then ''Model did not return valid structured JSON for this step.'' else error) in
      step_error ''structured_output_failed'' message None
        ((''error'', JStr (if error = [] then ''structured_output_failed'' else error))
         # (if opt_text preview = [] then [] else [(''response_preview'', JStr (take 500 (opt_text preview)))])))"

definition empty_structured_result :: py_exc where
  "empty_structured_result =
     step_error ''empty_structured_result'' ''Structured step output must be a non-empty JSON object.'' None
       [(''error'', JStr ''empty_structured_result'')]"

definition schema_validation_failed :: "string \<Rightarrow> py_exc" where
  "schema_validation_failed message =
     step_error ''OUTPUT_SCHEMA_VALIDATION_FAILED'' message None
       [(''error'', JStr message), (''validation'', JStr ''output_schema'')]"

definition schema_attempts :: "world \<Rightarrow> nat" where
  "schema_attempts W = (if schema_retry_enabled W then schema_retry_max_attempts W else 1)"

definition unicode_dumps :: "json \<Rightarrow> string" where
  "unicode_dumps j = spaced_dumps json_char j"

section \<open>An attempt\<close>

fun is_type_error :: "py_exc \<Rightarrow> bool" where
  "is_type_error (Raised e _) = (exn_type e = ''TypeError'')"
| "is_type_error _ = False"

definition ainvoke_native_structured ::
  "world \<Rightarrow> chat_message list \<Rightarrow> dict \<Rightarrow> bool \<Rightarrow> (dict option \<times> token_usage option) A" where
  "ainvoke_native_structured W messages schema include_raw =
     call (Asked_native messages include_raw) (\<lambda>before. native_reply W before messages (JObj schema) include_raw)"

text \<open>The payload, the error text and the usage.\<close>

definition try_native_structured_output ::
  "world \<Rightarrow> chat_message list \<Rightarrow> dict \<Rightarrow> (dict option \<times> string option \<times> token_usage option) A" where
  "try_native_structured_output W messages schema =
     (if \<not> has_native W then return (None, Some ''provider does not expose native structured output'', None)
      else try_except
        (bind (try_except (ainvoke_native_structured W messages schema True)
                 (\<lambda>e. if is_type_error e then ainvoke_native_structured W messages schema False else raise e))
           (\<lambda>(payload, reported). return
              (payload, (if payload = None then Some ''native structured output returned unexpected type'' else None), reported)))
        (\<lambda>e. return (None, Some (''native structured output failed: '' @ exc_str e), None)))"

definition json_mode_system_appendix :: string where
  "json_mode_system_appendix = [CHR 0x0A, CHR 0x0A]
     @ ''Respond with a single JSON object matching the required output schema. ''
     @ ''Do not include markdown fences or prose outside the JSON object.''"

fun append_to_system :: "string \<Rightarrow> chat_message list \<Rightarrow> chat_message list option" where
  "append_to_system text [] = None"
| "append_to_system text (m # ms) =
     (if cm_role m = Role_system then Some (chat Role_system (cm_content m @ text) # ms)
      else map_option (\<lambda>rest. m # rest) (append_to_system text ms))"

definition append_json_mode_instruction :: "chat_message list \<Rightarrow> dict \<Rightarrow> chat_message list" where
  "append_json_mode_instruction messages schema =
     (let appendix = json_mode_system_appendix @ [CHR 0x0A] @ ''Required schema: '' @ unicode_dumps (JObj schema) in
      case append_to_system appendix messages of
        Some ms \<Rightarrow> ms
      | None \<Rightarrow> chat Role_system (strip appendix) # messages)"

definition try_json_mode_output ::
  "env \<Rightarrow> world \<Rightarrow> chat_message list \<Rightarrow> dict
     \<Rightarrow> (dict option \<times> string option \<times> string option \<times> token_usage option) A" where
  "try_json_mode_output E W messages schema =
     try_except
       (bind (ainvoke W (append_json_mode_instruction messages schema)) (\<lambda>response.
        let content = opt_text (cr_content response) in
        return (case parse_json_object_from_assistant_text E content of
          None \<Rightarrow> (None, Some ''model response was not parseable JSON'', (if content = [] then None else Some content),
                   cr_usage response)
        | Some payload \<Rightarrow> (Some payload, None, None, cr_usage response))))
       (\<lambda>e. return (None, Some (''json-mode invoke failed: '' @ exc_str e), None, None))"

definition structured_completion_attempt ::
  "env \<Rightarrow> world \<Rightarrow> chat_message list \<Rightarrow> dict \<Rightarrow> int option \<Rightarrow> dict A" where
  "structured_completion_attempt E W messages schema budget =
     bind (bind (try_native_structured_output W messages schema) (\<lambda>(payload, error, reported).
           case payload of
             Some p \<Rightarrow> return (Some p, error, None, reported)
           | None \<Rightarrow> try_json_mode_output E W messages schema)) (\<lambda>(payload, error, preview, reported).
     seq (modify (\<lambda>r. r\<lparr>used := add_usage reported (used r)\<rparr>))
     (seq (enforce_step_token_budget budget)
     (case payload of
        None \<Rightarrow> raise (structured_output_failed error preview)
      | Some p \<Rightarrow> if p = [] then raise empty_structured_result else return p)))"

section \<open>Attempts\<close>

definition schema_validation_feedback :: "chat_message list \<Rightarrow> dict \<Rightarrow> string \<Rightarrow> dict \<Rightarrow> chat_message list" where
  "schema_validation_feedback messages bad_payload error schema =
     messages @ [chat Role_assistant (unicode_dumps (JObj bad_payload)),
       chat Role_human (''Your previous JSON failed output_schema validation. ''
         @ ''Fix it and respond with a single JSON object only.'' @ [CHR 0x0A]
         @ ''Validation error: '' @ error @ [CHR 0x0A] @ ''Required schema: '' @ unicode_dumps (JObj schema))]"

fun structured_attempts :: "env \<Rightarrow> world \<Rightarrow> dict \<Rightarrow> int option \<Rightarrow> nat \<Rightarrow> chat_message list \<Rightarrow> dict A" where
  "structured_attempts E W schema budget 0 messages = raise (schema_validation_failed ''schema soft-retry loop exhausted'')"
| "structured_attempts E W schema budget (Suc n) messages =
     bind (structured_completion_attempt E W messages schema budget) (\<lambda>payload.
     case admit_and_validate E W payload schema of
       Inr admitted \<Rightarrow> return admitted
     | Inl e \<Rightarrow>
         if n = 0 then raise (schema_validation_failed (exc_str e))
         else structured_attempts E W schema budget n (schema_validation_feedback messages payload (exc_str e) schema))"

definition invoke_structured_output :: "env \<Rightarrow> world \<Rightarrow> chat_message list \<Rightarrow> dict \<Rightarrow> int option \<Rightarrow> dict A" where
  "invoke_structured_output E W messages schema budget =
     structured_attempts E W schema budget (schema_attempts W) messages"

end
