(* ===== verification/Adapter.thy ===== *)
theory Adapter imports Facts Structured begin

text \<open>
  The agent adapter (\<^verbatim>\<open>workers/adapters/langchain.py\<close>): a reason step with its tools and
  the retries of a result that fails its schema, a simple step, a commit and an undo by one tool call,
  and what the worker makes of the outcome (\<open>adapter_of\<close>).  The injection context of the worker always
  has a scope, the skills of the step and the saga's variables.
\<close>

section \<open>Skills\<close>

definition skill_tool_names_from_doc :: "dict \<Rightarrow> string list" where
  "skill_tool_names_from_doc doc =
     filter (\<lambda>t. strip t \<noteq> []) (map py_str (list_of (dget ''allowed_tools'' doc)))"

definition put_spec :: "bool \<Rightarrow> json \<Rightarrow> dict \<Rightarrow> dict" where
  "put_spec prefer_incoming spec by_key = (case dget ''name'' (coerce_dict spec) of
     JStr name \<Rightarrow>
       if strip name = [] then by_key
       else (let key = sanitize_mcp_tool_name name in
             if \<not> dhas key by_key then dset key spec by_key
             else if prefer_incoming
             then dset key (JObj (dset ''name'' (JStr name)
                    (dupdate (coerce_dict (dget key by_key)) (drop_none (coerce_dict spec))))) by_key
             else by_key)
   | _ \<Rightarrow> by_key)"

definition union_tool_specs_with_skill_tools :: "json list \<Rightarrow> string list \<Rightarrow> json list" where
  "union_tool_specs_with_skill_tools extras skill_tool_names =
     map snd (fold (put_spec True) (filter is_dict extras)
       (fold (put_spec False)
         (map (\<lambda>t. JObj [(''name'', JStr (strip t))]) (filter (\<lambda>t. strip t \<noteq> []) skill_tool_names)) []))"

definition skill_missing :: "string \<Rightarrow> py_exc" where
  "skill_missing skill = Step_error
     (build_step_error_details ''SKILL_NOT_FOUND''
        (''Skill '' @ repr_str skill @ '' missing from start-frozen skills_definition'') [(''skill'', JStr skill)])
     None (''Skill '' @ repr_str skill @ '' is not in skills_definition for this step'')"

text \<open>The tools of the skills, and the index shown in the prompt.\<close>

fun resolve_skills :: "dict \<Rightarrow> json list \<Rightarrow> py_exc + (string list \<times> json list)" where
  "resolve_skills by_name [] = Inr ([], [])"
| "resolve_skills by_name (spec # specs) =
     (let skill = strip (py_str (jor (dget ''name'' (coerce_dict spec)) (JStr []))) in
      if \<not> is_dict spec \<or> skill = [] then resolve_skills by_name specs
      else if \<not> dhas skill by_name then Inl (skill_missing skill)
      else let doc = coerce_dict (dget skill by_name);
               entry = JObj [(''name'', JStr (py_str (jor (dget ''name'' doc) (JStr skill)))),
                             (''description'', JStr (py_str (jor (dget ''description'' doc) (JStr []))))] in
           and_then (resolve_skills by_name specs) (\<lambda>(names, index).
           Inr (skill_tool_names_from_doc doc @ names, entry # index)))"

definition resolve_skills_for_step :: "json list \<Rightarrow> json list \<Rightarrow> json list \<Rightarrow> py_exc + (json list \<times> json list)" where
  "resolve_skills_for_step skill_specs extras definitions =
     and_then (resolve_skills (skills_definition_by_name definitions) skill_specs) (\<lambda>(names, index).
     Inr (union_tool_specs_with_skill_tools extras names, index))"

section \<open>The prompt\<close>

definition coerce_rendered_string :: "world \<Rightarrow> string \<Rightarrow> json" where
  "coerce_rendered_string W rendered =
     (let s = strip rendered in
      if s = ''True'' then JBool True else if s = ''False'' then JBool False else if s = ''None'' then JNull
      else case signed_digits s of
        Some n \<Rightarrow> JInt n
      | None \<Rightarrow> if float_shape s \<and> float_reads s then JFloat (float_text W s) else JStr rendered)"

definition resolve_step_prompt :: "world \<Rightarrow> string \<Rightarrow> dict \<Rightarrow> py_exc + json" where
  "resolve_step_prompt W template ctx =
     (let quoted = [CHR 0x27] @ template @ [CHR 0x27] in
      if \<not> contains_str ''{{'' template \<and> \<not> contains_str ''{%'' template then Inr (JStr template)
      else case jinja_render W template ctx of
        Inr rendered \<Rightarrow> Inr (coerce_rendered_string W rendered)
      | Inl (unsafe, e) \<Rightarrow>
          Inl (plain_exn ''ValueError''
            ((if unsafe then ''Jinja render blocked unsafe construct in '' else ''Jinja render failed for '')
             @ quoted @ '': '' @ e)))"

definition human_message_content :: "json \<Rightarrow> string" where
  "human_message_content j = (case j of JStr s \<Rightarrow> s | _ \<Rightarrow> dumps j)"

section \<open>The result of a step\<close>

definition validate_payload_against :: "env \<Rightarrow> world \<Rightarrow> json \<Rightarrow> dict \<Rightarrow> py_exc + dict" where
  "validate_payload_against E W schema payload =
     (if \<not> truthy schema then Inr payload
      else map_error (\<lambda>e. schema_validation_failed (exc_str e)) (admit_and_validate E W payload (coerce_dict schema)))"

definition validate_submit_payload :: "env \<Rightarrow> world \<Rightarrow> json \<Rightarrow> dict \<Rightarrow> py_exc + dict" where
  "validate_submit_payload E W schema payload =
     (if payload = []
      then Inl (Step_error [(''error'', JStr ''empty_submit_result'')] None
             (''Agent called _submit with empty result. ''
              @ ''Step output must include the required structure (e.g. summary, events).''))
      else validate_payload_against E W schema payload)"

definition validate_structured_payload :: "env \<Rightarrow> world \<Rightarrow> json \<Rightarrow> dict \<Rightarrow> py_exc + dict" where
  "validate_structured_payload E W schema payload =
     (if payload = [] then Inl empty_structured_result else validate_payload_against E W schema payload)"

fun is_output_schema_validation_error :: "py_exc \<Rightarrow> bool" where
  "is_output_schema_validation_error (Step_error details _ _) \<longleftrightarrow>
     dget ''code'' details = JStr ''OUTPUT_SCHEMA_VALIDATION_FAILED'' \<or> dget ''validation'' details = JStr ''output_schema''"
| "is_output_schema_validation_error _ \<longleftrightarrow> False"

definition reason_step_output_envelope :: "env \<Rightarrow> dict \<Rightarrow> (string \<times> string) list \<Rightarrow> json list \<Rightarrow> py_exc + dict" where
  "reason_step_output_envelope E validated results specs =
     (let envelope = coerce_dict (wrap_step_output_data (JObj validated)) in
      and_then (extract_step_facts E results specs) (\<lambda>facts.
      Inr (if facts = [] then envelope else dset ''facts'' (JObj facts) envelope)))"

text \<open>The hooks see the payload as it was submitted when it failed, as it was admitted otherwise.  An
  exception that is not an \<open>ExecutionStepError\<close> leaves before the last hook.\<close>

definition finalize_reason_step ::
  "env \<Rightarrow> string list \<Rightarrow> (dict \<Rightarrow> py_exc + dict) \<Rightarrow> dict \<Rightarrow> json list \<Rightarrow> dict A" where
  "finalize_reason_step E allowed validate payload specs =
     bind (gets (\<lambda>r. (length (transcript r), tool_results r))) (\<lambda>(count, results).
     seq (tell (Allowlist_passed allowed count))
     (case and_then (validate payload) (\<lambda>validated.
             and_then (reason_step_output_envelope E validated results specs) (\<lambda>out. Inr (validated, out))) of
        Inr (validated, out) \<Rightarrow> seq (tell (Reason_step_done count validated False)) (return out)
      | Inl e \<Rightarrow>
          seq (when_do (unwrap_execution_step_error e \<noteq> None) (tell (Reason_step_done count payload True)))
              (raise e)))"

section \<open>A reason step\<close>

definition default_max_turns :: nat where
  "default_max_turns = 25"

fun last_submit_tool_call_id :: "chat_message list \<Rightarrow> string" where
  "last_submit_tool_call_id [] = []"
| "last_submit_tool_call_id (m # ms) =
     (if cm_role m = Role_assistant
      then (case rows_first (\<lambda>tc. tc_name tc = submit_tool_name) (cm_tool_calls m) of
              Some tc \<Rightarrow> tc_id tc | None \<Rightarrow> last_submit_tool_call_id ms)
      else last_submit_tool_call_id ms)"

definition count_assistant_turns :: "chat_message list \<Rightarrow> nat" where
  "count_assistant_turns ms = length (filter (\<lambda>m. cm_role m = Role_assistant) ms)"

definition append_submit_schema_feedback :: "chat_message list \<Rightarrow> string \<Rightarrow> json \<Rightarrow> chat_message list" where
  "append_submit_schema_feedback ms message schema =
     ms @ [\<lparr>cm_role = Role_tool,
        cm_content = unicode_dumps (JObj [(''ok'', JBool False), (''error'', JStr ''output_schema_validation_failed''),
          (''message'', JStr message), (''schema'', schema)]),
        cm_tool_call_id = Some (last_submit_tool_call_id (rev ms)), cm_name = Some submit_tool_name, cm_tool_calls = []\<rparr>]"

definition invoke_failed :: "string \<Rightarrow> py_exc \<Rightarrow> 'a A" where
  "invoke_failed phase e = (case e of
     Step_error d t m \<Rightarrow> raise (Step_error d t m)
   | _ \<Rightarrow> raise (Step_error [(''error'', JStr (exc_str e)), (''phase'', JStr phase)] None (exc_str e)))"

text \<open>Every attempt is a loop of its own, with its own tool results; the first has the whole budget of
  turns, the next what the assistant messages of the transcript leave of it, at least one.\<close>

fun react_attempts :: "env \<Rightarrow> world \<Rightarrow> react_config \<Rightarrow> json \<Rightarrow> nat \<Rightarrow> chat_message list \<Rightarrow> nat \<Rightarrow> dict A" where
  "react_attempts E W c schema budget messages 0 =
     raise (Step_error [(''code'', JStr ''react_schema_retry_empty'')] None ''ReAct schema soft-retry produced no result'')"
| "react_attempts E W c schema budget messages (Suc n) =
     bind (try_except (run_react_loop E W c messages) (invoke_failed ''agent_invoke'')) (\<lambda>payload.
     case validate_submit_payload E W schema payload of
       Inr _ \<Rightarrow> return payload
     | Inl e \<Rightarrow>
         if \<not> is_output_schema_validation_error e \<or> n = 0 then return payload
         else bind (gets transcript) (\<lambda>ms.
           react_attempts E W (c\<lparr>rc_max_turns := max 1 (budget - count_assistant_turns ms)\<rparr>) schema budget
             (append_submit_schema_feedback ms (exc_str e) schema) n))"

text \<open>What leaves the exit stack of the MCP sessions when an exception leaves its body, and what
  closing it raises otherwise.\<close>

record sessions_exit =
  exit_with :: "act list \<Rightarrow> py_exc \<Rightarrow> py_exc"
  exit_error :: "act list \<Rightarrow> py_exc option"

definition with_exit_stack :: "sessions_exit \<Rightarrow> 'a A \<Rightarrow> 'a A" where
  "with_exit_stack X body =
     bind (try_except body (\<lambda>e. bind (gets acts) (\<lambda>before. raise (exit_with X before e)))) (\<lambda>result.
     bind (gets acts) (\<lambda>before. case exit_error X before of Some e \<Rightarrow> raise e | None \<Rightarrow> return result))"

definition submit_tool_error :: "world \<Rightarrow> json \<Rightarrow> py_exc option" where
  "submit_tool_error W schema =
     (if truthy schema \<and> truthy (dget ''properties'' (coerce_dict schema)) then schema_model_error W schema else None)"

definition raise_if :: "py_exc option \<Rightarrow> unit A" where
  "raise_if e = (case e of None \<Rightarrow> skip | Some e' \<Rightarrow> raise e')"

definition spec_names :: "json list \<Rightarrow> string list" where
  "spec_names specs = List.map_filter (\<lambda>s. case dget ''name'' (coerce_dict s) of JStr n \<Rightarrow> Some n | _ \<Rightarrow> None) specs"

definition reject_reserved_specs :: "json list \<Rightarrow> unit A" where
  "reject_reserved_specs specs = for_each [submit_tool_name, load_skill_tool_name] (\<lambda>reserved.
     when_do (reserved \<in> set (spec_names specs))
       (raise (reserved_name reserved
          (''MCP tool name '' @ [CHR 0x27] @ reserved @ [CHR 0x27] @ '' is reserved; rename the tool in tool_specs.''))))"

definition react_body ::
  "env \<Rightarrow> world \<Rightarrow> dict \<Rightarrow> dict \<Rightarrow> prepared \<Rightarrow> json list \<Rightarrow> json list \<Rightarrow> dict A" where
  "react_body E W body args p specs skills_index =
     (let keys = map py_str (pr_tool_bind_keys p); schema = pr_output_schema p; budget = nat (pr_max_turns p) in
      bind (build_tools_for_worker E W body specs (pr_resource_specs p) (pr_skill_specs p) (pr_skills_definition p)
              (coerce_dict (pr_saga_vars p)) keys) (\<lambda>tools.
      let allowed = map tl_name tools;
          ctx = dset ''allowed_tools'' (JList (map JStr (allowed @ [submit_tool_name]))) args;
          ctx' = (if skills_index = [] then ctx else dset ''allowed_skills'' (JList skills_index) ctx) in
      seq (when_do (submit_tool_name \<in> set allowed)
             (raise (reserved_name submit_tool_name
               ''MCP tool name '_submit' is reserved for step completion; rename the tool in tool_specs.'')))
      (bind (of_sum (resolve_step_prompt W (opt_text (pr_prompt_template p)) ctx')) (\<lambda>final_input.
       seq (raise_if (submit_tool_error W schema))
       (seq (raise_if (build_llm_error W (JObj body)))
       (bind (react_attempts E W
                \<lparr>rc_tools = tools, rc_allowed = allowed, rc_bound = bound_arguments_from_step args keys,
                 rc_max_turns = budget, rc_max_step_tokens = effective_max_step_tokens E (pr_max_step_tokens p)\<rparr>
                schema budget
                [chat Role_system (str_of (dget ''system_prompt'' body)),
                 chat Role_human (human_message_content final_input)]
                (schema_attempts W)) (\<lambda>payload.
        finalize_reason_step E allowed (validate_submit_payload E W schema) payload (pr_facts_extractors p))))))))"

definition run_react_step :: "env \<Rightarrow> world \<Rightarrow> sessions_exit \<Rightarrow> dict \<Rightarrow> dict \<Rightarrow> prepared \<Rightarrow> dict A" where
  "run_react_step E W X body args p =
     bind (if pr_skill_specs p = [] then return (pr_tool_specs p, [])
           else of_sum (resolve_skills_for_step (pr_skill_specs p) (pr_tool_specs p) (pr_skills_definition p))) (\<lambda>(specs, index).
     seq (reject_reserved_specs specs) (with_exit_stack X (react_body E W body args p specs index)))"

section \<open>A simple step\<close>

definition fallback_simple_output_schema :: dict where
  "fallback_simple_output_schema =
     [(''type'', JStr ''object''),
      (''properties'', JObj [(''summary'', JObj [(''type'', JStr ''string''),
         (''description'', JStr ''The unstructured text output of the step.'')])]),
      (''required'', JList [JStr ''summary'']), (''additionalProperties'', JBool False)]"

definition resolve_effective_schema :: "json \<Rightarrow> dict" where
  "resolve_effective_schema schema = (if truthy schema then coerce_dict schema else fallback_simple_output_schema)"

definition unsupported_by_simple :: "string \<Rightarrow> string \<Rightarrow> py_exc" where
  "unsupported_by_simple code message = step_error code message None []"

definition run_simple_step :: "env \<Rightarrow> world \<Rightarrow> dict \<Rightarrow> dict \<Rightarrow> prepared \<Rightarrow> dict A" where
  "run_simple_step E W body args p =
     seq (when_do (pr_tool_bind_keys p \<noteq> [])
            (raise (unsupported_by_simple ''agent_adapter_invalid'' ''simple agent-adapter does not support tools.bind'')))
     (seq (when_do (pr_skill_specs p \<noteq> [])
            (raise (unsupported_by_simple ''SKILL_INVALID'' ''simple agent-adapter does not support skills.allow'')))
     (bind (of_sum (resolve_step_prompt W (opt_text (pr_prompt_template p)) args)) (\<lambda>final_input.
      seq (when_do (pr_tool_specs p \<noteq> [] \<or> pr_resource_specs p \<noteq> [])
             (raise (Step_error [(''code'', JStr ''simple_adapter_tool_conflict'')] None
                ''simple agent-adapter cannot run with MCP tools or resources'')))
      (seq (raise_if (build_llm_error W (JObj body)))
      (let messages = [chat Role_system (str_of (dget ''system_prompt'' body)),
                       chat Role_human (human_message_content final_input)] in
       bind (try_except
               (invoke_structured_output E W messages (resolve_effective_schema (pr_output_schema p))
                  (effective_max_step_tokens E (pr_max_step_tokens p)))
               (invoke_failed ''structured_invoke'')) (\<lambda>validated.
       seq (modify (\<lambda>r. r\<lparr>transcript := messages @ [chat Role_assistant (unicode_dumps (JObj validated))],
              tool_results := []\<rparr>))
           (finalize_reason_step E [] (validate_structured_payload E W (pr_output_schema p)) validated [])))))))"

definition run_step :: "env \<Rightarrow> world \<Rightarrow> sessions_exit \<Rightarrow> dict \<Rightarrow> dict \<Rightarrow> prepared \<Rightarrow> dict A" where
  "run_step E W X body args p =
     (if pr_agent_adapter p = ''simple'' then run_simple_step E W body args p
      else run_react_step E W X body args p)"

section \<open>A commit and an undo\<close>

definition commit_error_details :: "command \<Rightarrow> string \<Rightarrow> string \<Rightarrow> dict" where
  "commit_error_details c error tool =
     [(''error'', JStr error), (''tool'', JStr tool), (''idempotency_key'', JStr (cmd_key c)),
      (''saga_trace_id'', JStr (cmd_trace c)), (''step_span_id'', JStr (cmd_span c))]"

definition commit_arguments :: "command \<Rightarrow> dict \<Rightarrow> dict" where
  "commit_arguments c args =
     (if cmd_trace c \<noteq> [] \<and> cmd_span c \<noteq> []
      then fence_tool_arguments (drop_none args) (Some (forward_tool_idempotency_key (cmd_trace c) (cmd_span c)))
      else drop_none args)"

definition commit_body ::
  "env \<Rightarrow> world \<Rightarrow> command \<Rightarrow> dict \<Rightarrow> dict \<Rightarrow> prepared \<Rightarrow> string \<Rightarrow> (string \<times> string) A" where
  "commit_body E W c body args p allow =
     bind (build_tools_for_worker E W body (pr_tool_specs p) (pr_resource_specs p) [] (pr_skills_definition p)
             (coerce_dict (pr_saga_vars p)) []) (\<lambda>tools.
     case filter (\<lambda>t. tool_matches_allow_name t allow) tools of
       [t] \<Rightarrow>
         (let name = mcp_name_or (tl_name t) t in
          bind (try_except (ainvoke_tool E W t (commit_arguments c args))
                  (\<lambda>e. raise (Step_error (commit_error_details c (exc_str e) name) (Some name) (exc_str e)))) (\<lambda>text.
          return (name, text)))
     | ts \<Rightarrow> raise (Step_error
         [(''code'', JStr ''commit_tool_load''), (''loaded'', JInt (int (length ts))), (''allow'', JList [JStr allow])]
         None ''Commit step could not load exactly one MCP tool''))"

definition run_commit :: "env \<Rightarrow> world \<Rightarrow> sessions_exit \<Rightarrow> command \<Rightarrow> dict \<Rightarrow> dict \<Rightarrow> prepared \<Rightarrow> json \<Rightarrow> dict A" where
  "run_commit E W X c body args p schema = (case pr_tool_specs p of
     [spec] \<Rightarrow>
       bind (with_exit_stack X (commit_body E W c body args p (strip (str_or (dget ''name'' (coerce_dict spec)) []))))
         (\<lambda>(name, text).
       case json_load E text of
         Inr (JObj d) \<Rightarrow>
           (case (if truthy schema then validate_against_schema E (JObj d) schema else Inr ()) of
              Inr _ \<Rightarrow> return (coerce_dict (wrap_step_output_data (JObj d)))
            | Inl e \<Rightarrow> raise (Step_error [(''error'', JStr (exc_str e)), (''validation'', JStr ''output_schema'')] None (exc_str e)))
       | _ \<Rightarrow> raise (Step_error [(''code'', JStr ''commit_output_not_object''), (''tool'', JStr name)] None
                 ''Commit tool must return a JSON object for output.data''))
   | specs \<Rightarrow> raise (Step_error [(''code'', JStr ''commit_tool_count''), (''got'', JInt (int (length specs)))] None
                (''run_commit requires exactly one tool; got '' @ show_nat (length specs))))"

definition run_compensation :: "env \<Rightarrow> world \<Rightarrow> sessions_exit \<Rightarrow> command \<Rightarrow> dict \<Rightarrow> dict \<Rightarrow> prepared \<Rightarrow> dict A" where
  "run_compensation E W X c body original_input p = (case pr_tool_specs p of
     [spec] \<Rightarrow>
       (let tool = strip (str_or (dget ''name'' (coerce_dict spec)) []);
            shown = (if tool = [] then ''?'' else tool) in
        bind (run_commit E W X c body (fence_tool_arguments original_input (Some (cmd_key c))) p
                (dget ''output_schema'' (coerce_dict spec))) (\<lambda>output.
        let inner = (case business_data_from_step_output (JObj output) of Some d \<Rightarrow> d | None \<Rightarrow> []) in
        return [(''rollback_status'', JStr ''completed''), (''data'', JObj inner),
                (''tool_results'', JList [JObj [(''tool'', JStr shown), (''result'', JStr (dumps (JObj inner)))]])]))
   | specs \<Rightarrow> raise (Step_error [(''code'', JStr ''compensation_tool_count''), (''got'', JInt (int (length specs)))] None
                (''run_compensation requires exactly one tool; got '' @ show_nat (length specs))))"

section \<open>What the worker makes of it\<close>

definition new_run :: run where
  "new_run = \<lparr>acts = [], used = no_usage, transcript = [], tool_results = [], ratio = default_ratio, fresh_ids = 0,
     loaded_names = [], used_names = [], source_failures = [], source_sessions = [], resource_coverage = []\<rparr>"

definition run_adapter :: "env \<Rightarrow> world \<Rightarrow> sessions_exit \<Rightarrow> execution \<Rightarrow> dict A" where
  "run_adapter E W X x =
     (let c = ex_command x; p = ex_prepared x; body = coerce_dict (ex_worker x); args = coerce_dict (cmd_arguments c) in
      case cmd_type c of
        DO_STEP \<Rightarrow> run_step E W X body args p
      | DO_COMMIT \<Rightarrow> run_commit E W X c body args p (pr_output_schema p)
      | EXECUTE_COMPENSATION \<Rightarrow> run_compensation E W X c body args p)"

text \<open>\<open>_map_execution_exception_to_output\<close> looks for an \<open>ExecutionStepError\<close> in a group; the undo
  reports the text of the exception itself.\<close>

definition outcome_of :: "command_type \<Rightarrow> py_exc + dict \<Rightarrow> adapter_outcome" where
  "outcome_of ty result = (case result of
     Inr output \<Rightarrow> Adapter_output output
   | Inl e \<Rightarrow>
       if ty = EXECUTE_COMPENSATION then Adapter_exception (format_exception_chain e) (exc_str e)
       else (case unwrap_execution_step_error e of
               Some (Step_error details tool message) \<Rightarrow> Adapter_step_error details tool message
             | _ \<Rightarrow> Adapter_exception (format_exception_chain e) (exc_str e)))"

definition adapter_of :: "env \<Rightarrow> world \<Rightarrow> sessions_exit \<Rightarrow> execution \<Rightarrow> adapter_run" where
  "adapter_of E W X x =
     (case run_adapter E W X x new_run of (result, r) \<Rightarrow>
        \<lparr>run_outcome = outcome_of (cmd_type (ex_command x)) result, run_timing = JNull, run_usage = usage_wire (used r)\<rparr>)"

end
