(* ===== verification/Agency.thy ===== *)
theory Agency imports Adapter begin

text \<open>
  What the run of an agent does to its state, once for every relation that may be asked about it: a
  locale over the relations that hold between a run before and after every operation of the runtime,
  and its interpretations on the model: the calls that are made, and the tokens used.
\<close>

section \<open>Results\<close>

text \<open>Every value an operation returns satisfies \<open>Q\<close>.\<close>

definition yields :: "'a A \<Rightarrow> ('a \<Rightarrow> bool) \<Rightarrow> bool" where
  "yields m Q \<longleftrightarrow> (\<forall>r x r'. m r = (Inr x, r') \<longrightarrow> Q x)"

lemma yieldsD: "yields m Q \<Longrightarrow> m r = (Inr x, r') \<Longrightarrow> Q x"
  unfolding yields_def by blast

lemma yields_return: "Q x \<Longrightarrow> yields (return x) Q"
  by (simp add: yields_def return_def)

lemma yields_raise: "yields (raise e) Q"
  by (simp add: yields_def raise_def)

lemma yields_of_sum: "(\<And>x. m = Inr x \<Longrightarrow> Q x) \<Longrightarrow> yields (of_sum m) Q"
  by (cases m) (simp_all add: yields_def of_sum_def return_def raise_def)

lemma yields_bind: "yields m P \<Longrightarrow> (\<And>x. P x \<Longrightarrow> yields (k x) Q) \<Longrightarrow> yields (bind m k) Q"
  unfolding yields_def bind_def by (fastforce split: prod.splits sum.splits)

lemma yields_any: "yields m (\<lambda>_. True)"
  by (simp add: yields_def)

lemma yields_seq: "yields k Q \<Longrightarrow> yields (seq m k) Q"
  unfolding seq_def by (rule yields_bind [OF yields_any])

lemma yields_try: "yields m Q \<Longrightarrow> (\<And>e. yields (h e) Q) \<Longrightarrow> yields (try_except m h) Q"
  unfolding yields_def try_except_def by (fastforce split: prod.splits sum.splits)

lemma yields_weaken: "yields m P \<Longrightarrow> (\<And>x. P x \<Longrightarrow> Q x) \<Longrightarrow> yields m Q"
  by (simp add: yields_def)

lemmas yields_intros = yields_return yields_raise yields_of_sum yields_seq yields_try

section \<open>The tools that are built\<close>

definition admitted_tool :: "string list \<Rightarrow> allowlist option \<Rightarrow> dict \<Rightarrow> agent_tool \<Rightarrow> bool" where
  "admitted_tool names allow vars t = (case tl_kind t of
     Mcp_kind _ m _ _ \<Rightarrow> (\<exists>entry\<in>set names. allowlist_matches entry (mt_name m))
   | Read_kind a v \<Rightarrow> allow = Some a \<and> v = vars
   | Load_kind _ _ \<Rightarrow> True)"

lemma matching_entry: "matching_allowlist_entry name names = Some e \<Longrightarrow> \<exists>entry\<in>set names. allowlist_matches entry name"
  unfolding matching_allowlist_entry_def by (auto dest: rows_first_Some)

lemma load_tools_admitted:
  "yields (load_tools W s name specs omit ms) (list_all (admitted_tool (map fst specs) allow vars))"
proof (induction ms)
  case Nil
  then show ?case by (simp add: yields_return)
next
  case (Cons m ms)
  have "admitted_tool (map fst specs) allow vars t"
    if "convert_mcp_to_langchain W m s spec wire omit = Inr t" "matching_allowlist_entry (mt_name m) (map fst specs) = Some e"
    for spec wire t e
    using that matching_entry by (fastforce simp: convert_mcp_to_langchain_def Let_def admitted_tool_def split: option.splits)
  then have converted: "yields (of_sum (convert_mcp_to_langchain W m s spec wire omit)) (admitted_tool (map fst specs) allow vars)"
    if "matching_allowlist_entry (mt_name m) (map fst specs) = Some e" for spec wire e
    using that by (auto intro: yields_of_sum)
  have rest: "yields (bind (load_tools W s name specs omit ms) (\<lambda>ts. return (t # ts)))
      (list_all (admitted_tool (map fst specs) allow vars))" if "admitted_tool (map fst specs) allow vars t" for t
    using that by (auto intro!: yields_bind [OF Cons] yields_return)
  have found: "yields (seq (tell h) (bind (gets used_names) (\<lambda>used.
        let wire = allocate_unique_sanitized_name (mt_name m) used in
        seq (modify (\<lambda>r. r\<lparr>used_names := used @ [wire]\<rparr>))
        (bind (of_sum (convert_mcp_to_langchain W m s (spec_for_tool specs e (mt_name m)) wire omit)) (\<lambda>t.
         seq (modify (\<lambda>r. r\<lparr>loaded_names := loaded_names r @ [mt_name m]\<rparr>))
         (bind (load_tools W s name specs omit ms) (\<lambda>ts. return (t # ts))))))))
      (list_all (admitted_tool (map fst specs) allow vars))"
    if "matching_allowlist_entry (mt_name m) (map fst specs) = Some e" for h e
    unfolding Let_def
    by (rule yields_seq, rule yields_bind [OF yields_any], rule yields_seq, rule yields_bind [OF converted [OF that]],
        rule yields_seq, rule rest)
  show ?case
    unfolding load_tools.simps
    by (rule yields_bind [OF yields_any]) (auto split: option.split intro!: Cons found)
qed

lemma sources_admitted:
  "yields (process_mcp_sources E W sources specs a omit) (list_all (admitted_tool (map fst specs) allow vars))"
proof (induction sources)
  case Nil
  then show ?case by (simp add: yields_return)
next
  case (Cons source sources)
  have "yields (use_session W source s specs a omit) (list_all (admitted_tool (map fst specs) allow vars))" for source s
    unfolding use_session_def Let_def load_tools_from_session_def
    by (intro yields_seq yields_bind [OF yields_any] load_tools_admitted)
  then have "yields (process_mcp_source E W source specs a omit) (list_all (admitted_tool (map fst specs) allow vars))" for source
    unfolding process_mcp_source_def
    by (auto intro!: yields_try yields_seq yields_return yields_bind [OF yields_any] split: option.split)
  then show ?case
    by (auto intro!: yields_bind [OF _ yields_bind [OF Cons]] yields_return)
qed

lemma spec_by_name_names:
  "spec_by_name_rejecting_load_skill specs acc = Inr d \<Longrightarrow> fst ` set d \<subseteq> fst ` set acc \<union> set (spec_names specs)"
proof (induction specs acc rule: spec_by_name_rejecting_load_skill.induct)
  case (1 acc)
  then show ?case by simp
next
  case (2 spec specs acc)
  then show ?case
    by (cases "dget ''name'' (coerce_dict spec)") (auto simp: spec_names_def keys_dset List.map_filter_def split: if_splits)
qed

lemma admitted_mono: "admitted_tool names allow vars t \<Longrightarrow> set names \<subseteq> set names' \<Longrightarrow> admitted_tool names' allow vars t"
  by (auto simp: admitted_tool_def split: tool_kind.splits)

lemma built_tools_admitted:
  "yields (build_tools_for_worker E W body specs resources skills definitions vars omit)
     (\<lambda>ts. \<exists>allow. compile_resource_allowlist resources = Inr allow \<and> list_all (admitted_tool (spec_names specs) allow vars) ts)"
proof -
  have readers: "yields (read_resource_tools allow vars) (list_all (admitted_tool names allow vars))" for allow names
  proof (cases allow)
    case None
    then show ?thesis by (simp add: read_resource_tools_def yields_return)
  next
    case (Some templates)
    have built: "yields (case x of (sessions, failures) \<Rightarrow> if sessions = [] then raise (e failures)
        else return [\<lparr>tl_name = n, tl_kind = Read_kind templates vars\<rparr>])
        (list_all (admitted_tool names (Some templates) vars))" for x :: "(json \<times> nat) list \<times> json list" and e n
      by (cases x) (simp add: yields_raise yields_return admitted_tool_def)
    show ?thesis
      unfolding read_resource_tools_def Some option.case
      by (rule yields_seq, rule yields_bind [OF yields_any], rule built)
  qed
  have skills: "list_all (admitted_tool names allow vars) (load_skill_tools ids bodies)" for names allow ids bodies
    by (simp add: load_skill_tools_def admitted_tool_def)
  have widened: "list_all (admitted_tool (spec_names specs) allow vars) ts"
    if "spec_by_name_rejecting_load_skill specs [] = Inr d" "list_all (admitted_tool (map fst d) allow vars) ts" for d allow ts
  proof -
    have names: "set (map fst d) \<subseteq> set (spec_names specs)"
      using spec_by_name_names [OF that(1)] by auto
    show ?thesis
      unfolding list_all_iff
    proof
      fix t
      assume "t \<in> set ts"
      with that(2) have "admitted_tool (map fst d) allow vars t" by (simp add: list_all_iff)
      then show "admitted_tool (spec_names specs) allow vars t" by (rule admitted_mono [OF _ names])
    qed
  qed
  have collected: "yields (bind (process_mcp_sources E W sources d allow omit) (\<lambda>mcp_tools.
      bind (gets loaded_names) (\<lambda>loaded.
      if load_skill_tool_name \<in> set loaded then raise e
      else seq (require_resources allow) (seq (require_tools names)
        (bind (read_resource_tools allow vars) (\<lambda>readers. return (mcp_tools @ readers @ load_skill_tools ids bodies)))))))
      (list_all (admitted_tool (spec_names specs) allow vars))"
    if d: "spec_by_name_rejecting_load_skill specs [] = Inr d" for d allow sources e names ids bodies
  proof (rule yields_bind [OF sources_admitted [where allow = allow and vars = vars]], rule yields_bind [OF yields_any])
    fix mcp_tools loaded
    assume mcp: "list_all (admitted_tool (map fst d) allow vars) mcp_tools"
    have "yields (bind (read_resource_tools allow vars) (\<lambda>readers. return (mcp_tools @ readers @ load_skill_tools ids bodies)))
        (list_all (admitted_tool (spec_names specs) allow vars))"
      by (rule yields_bind [OF readers [where names = "spec_names specs"]], rule yields_return)
        (simp add: widened [OF d mcp] skills)
    then show "yields (if load_skill_tool_name \<in> set loaded then raise e
        else seq (require_resources allow) (seq (require_tools names)
          (bind (read_resource_tools allow vars) (\<lambda>readers. return (mcp_tools @ readers @ load_skill_tools ids bodies)))))
        (list_all (admitted_tool (spec_names specs) allow vars))"
      by (simp add: yields_raise yields_seq)
  qed
  have whole: "yields (seq m (if sources = [] then seq (handle_no_sources allow names) (return (load_skill_tools ids bodies))
      else bind (process_mcp_sources E W sources d allow omit) (\<lambda>mcp_tools.
      bind (gets loaded_names) (\<lambda>loaded.
      if load_skill_tool_name \<in> set loaded then raise e
      else seq (require_resources allow) (seq (require_tools names)
        (bind (read_resource_tools allow vars) (\<lambda>readers. return (mcp_tools @ readers @ load_skill_tools ids bodies))))))))
      (list_all (admitted_tool (spec_names specs) allow vars))"
    if "spec_by_name_rejecting_load_skill specs [] = Inr d" for m d allow sources e names ids bodies
    using collected [OF that] by (simp add: yields_seq yields_return skills)
  show ?thesis
    unfolding build_tools_for_worker_def Let_def
    by (rule yields_bind [OF yields_of_sum], assumption, rule yields_bind [OF yields_of_sum], assumption,
        rule yields_weaken [OF whole], assumption, blast)
qed

definition resolved_specs :: "prepared \<Rightarrow> py_exc + (json list \<times> json list)" where
  "resolved_specs p = (if pr_skill_specs p = [] then Inr (pr_tool_specs p, [])
     else resolve_skills_for_step (pr_skill_specs p) (pr_tool_specs p) (pr_skills_definition p))"

text \<open>The entries of the allowlist a command runs under.\<close>

definition allow_entries :: "command_type \<Rightarrow> prepared \<Rightarrow> string list" where
  "allow_entries ty p = (if ty = DO_STEP
     then (case resolved_specs p of Inr (specs, _) \<Rightarrow> spec_names specs | Inl _ \<Rightarrow> [])
     else spec_names (pr_tool_specs p))"

definition tool_admitted :: "command_type \<Rightarrow> prepared \<Rightarrow> string \<Rightarrow> bool" where
  "tool_admitted ty p name \<longleftrightarrow> (\<exists>entry\<in>set (allow_entries ty p). allowlist_matches entry name)"

definition resource_admitted :: "world \<Rightarrow> prepared \<Rightarrow> string \<Rightarrow> bool" where
  "resource_admitted W p uri \<longleftrightarrow> (\<exists>allow template b.
     compile_resource_allowlist (pr_resource_specs p) = Inr (Some allow) \<and> assert_allowed allow uri = Inr template
     \<and> validate_and_bind_resource_uri (netloc_error W) template uri (coerce_dict (pr_saga_vars p)) = Inr b)"

section \<open>The frame of a run\<close>

definition local_change :: "run \<Rightarrow> run \<Rightarrow> bool" where
  "local_change r r' \<longleftrightarrow> acts r' = acts r \<and> us_total (used r') = us_total (used r)"

text \<open>An operation may call what \<open>may\<close> admits; everything else it does is local to the run.\<close>

locale run_frame =
  fixes keeps :: "run \<Rightarrow> run \<Rightarrow> bool" and may :: "act \<Rightarrow> bool"
  assumes keeps_trans: "keeps r r' \<Longrightarrow> keeps r' r'' \<Longrightarrow> keeps r r''"
    and keeps_local: "local_change r r' \<Longrightarrow> keeps r r'"
    and keeps_act: "may a \<Longrightarrow> keeps r (r\<lparr>acts := acts r @ [a]\<rparr>)"
    and may_note: "may (Noted h)"
begin

definition keeping :: "'a A \<Rightarrow> bool" where
  "keeping m \<longleftrightarrow> (\<forall>r. keeps r (snd (m r)))"

lemma keepingI: "(\<And>r. keeps r (snd (m r))) \<Longrightarrow> keeping m"
  by (simp add: keeping_def)

lemma keepingD: "keeping m \<Longrightarrow> m r = (x, r') \<Longrightarrow> keeps r r'"
  by (metis keeping_def snd_conv)

lemma keeping_same: "keeps r r"
  by (rule keeps_local) (simp add: local_change_def)

lemma keeping_return [intro, simp]: "keeping (return x)"
  by (rule keepingI) (simp add: return_def keeping_same)

lemma keeping_raise [intro, simp]: "keeping (raise e)"
  by (rule keepingI) (simp add: raise_def keeping_same)

lemma keeping_gets [intro, simp]: "keeping (gets f)"
  by (rule keepingI) (simp add: gets_def keeping_same)

lemma keeping_of_sum [intro, simp]: "keeping (of_sum x)"
  by (cases x) (simp_all add: of_sum_def)

lemma keeping_bind [intro]: "keeping m \<Longrightarrow> (\<And>x. keeping (k x)) \<Longrightarrow> keeping (bind m k)"
  unfolding keeping_def bind_def by (auto split: prod.split sum.split) (metis keeps_trans snd_conv)+

lemma keeping_bind_value:
  "keeping m \<Longrightarrow> (\<And>r x r'. m r = (Inr x, r') \<Longrightarrow> keeping (k x)) \<Longrightarrow> keeping (bind m k)"
  unfolding keeping_def bind_def by (auto split: prod.split sum.split) (metis keeps_trans snd_conv)+

lemma keeping_seq [intro]: "keeping m \<Longrightarrow> keeping k \<Longrightarrow> keeping (seq m k)"
  unfolding seq_def by (rule keeping_bind)

lemma keeping_try [intro]: "keeping m \<Longrightarrow> (\<And>e. keeping (h e)) \<Longrightarrow> keeping (try_except m h)"
  unfolding keeping_def try_except_def by (auto split: prod.split sum.split) (metis keeps_trans snd_conv)+

lemma keeping_skip [intro, simp]: "keeping skip"
  by (simp add: skip_def)

lemma keeping_when [intro]: "keeping m \<Longrightarrow> keeping (when_do b m)"
  by (simp add: when_do_def)

lemma keeping_modify: "(\<And>r. local_change r (f r)) \<Longrightarrow> keeping (modify f)"
  by (rule keepingI) (simp add: modify_def keeps_local)

lemma keeping_act: "may a \<Longrightarrow> keeping (act a)"
  by (rule keepingI) (simp add: act_def modify_def keeps_act)

lemma keeping_tell [intro, simp]: "keeping (tell h)"
  unfolding tell_def by (rule keeping_act) (rule may_note)

lemma keeping_call [intro]: "may a \<Longrightarrow> keeping (call a answer)"
  unfolding call_def by (intro keeping_bind keeping_seq keeping_act keeping_gets keeping_of_sum)

lemma keeping_for_each: "(\<And>x. x \<in> set xs \<Longrightarrow> keeping (f x)) \<Longrightarrow> keeping (for_each xs f)"
  by (induction xs) auto

lemma keeping_map_m: "(\<And>x. x \<in> set xs \<Longrightarrow> keeping (f x)) \<Longrightarrow> keeping (map_m f xs)"
  by (induction xs) auto

lemma keeping_raise_if [intro, simp]: "keeping (raise_if e)"
  by (simp add: raise_if_def split: option.split)

section \<open>Asking the model\<close>

lemma keeping_retry [intro]: "keeping m \<Longrightarrow> keeping (retry_async n retryable m)"
  by (induction n) auto

lemma keeping_ainvoke: "may (Asked ms) \<Longrightarrow> keeping (ainvoke W ms)"
  unfolding ainvoke_def Let_def by (auto intro: keeping_call keeping_retry)

lemma add_usage_total: "us_total u \<le> us_total (add_usage t u)"
  by (simp add: add_usage_def clamp_nonneg_def split: option.split)

lemma add_memory_total [simp]: "us_total (add_memory_stats s u) = us_total u"
  by (simp add: add_memory_stats_def)

lemma keeping_budget [intro, simp]: "keeping (enforce_step_token_budget b)"
  unfolding enforce_step_token_budget_def by (auto split: option.split)

lemma keeping_compress [intro, simp]: "keeping (compress_transcript E W c)"
  unfolding compress_transcript_def
  by (intro keeping_when keeping_bind keeping_gets keeping_of_sum)
    (auto intro!: keeping_modify simp: local_change_def)

lemma keeping_calibrate [intro, simp]: "keeping (calibrate_estimator E u)"
  unfolding calibrate_estimator_def
  by (auto split: option.split intro!: keeping_when keeping_modify simp: local_change_def)

section \<open>Calling the tools\<close>

lemma keeping_governed [intro]: "keeping m \<Longrightarrow> keeping (execute_with_governance E n args spec m)"
  unfolding execute_with_governance_def validate_tool_input_def run_tool_executor_def validate_tool_output_def
  by (auto intro!: keeping_seq keeping_bind keeping_try split: sum.split)

lemma keeping_execute_tool: "(\<And>args. may (Called s (mt_name m) args)) \<Longrightarrow> keeping (execute_tool E W s m spec kwargs)"
  unfolding execute_tool_def Let_def raw_executor_def
  by (auto intro!: keeping_governed keeping_bind keeping_call)

lemma keeping_read_sessions: "(\<And>s. may (Read_resource s uri)) \<Longrightarrow> keeping (read_from_sessions W uri ss fs e)"
  by (induction W uri ss fs e rule: read_from_sessions.induct)
    (auto simp: Let_def intro!: keeping_seq keeping_try keeping_bind keeping_call)

lemma keeping_read_resource:
  assumes "\<And>s uri template b. assert_allowed allow uri = Inr template
    \<Longrightarrow> validate_and_bind_resource_uri (netloc_error W) template uri vars = Inr b \<Longrightarrow> may (Read_resource s uri)"
  shows "keeping (execute_read_resource W allow vars kwargs)"
proof -
  have "keeping (seq (case validate_and_bind_resource_uri (netloc_error W) template uri vars of
             Inr _ \<Rightarrow> skip
           | Inl e \<Rightarrow> seq (when_do (unwrap_execution_step_error e \<noteq> None) (tell (Resource_done uri False (exc_str e)))) (raise e))
         (read_resource_from_sessions W uri))" if "assert_allowed allow uri = Inr template" for uri template
  proof (cases "validate_and_bind_resource_uri (netloc_error W) template uri vars")
    case (Inl e)
    then show ?thesis
      by (simp add: seq_def bind_assoc) (auto intro!: keeping_bind keeping_when)
  next
    case (Inr b)
    with assms that have "may (Read_resource s uri)" for s by blast
    with Inr show ?thesis
      by (auto simp: read_resource_from_sessions_def intro!: keeping_seq keeping_bind keeping_read_sessions)
  qed
  note body = this
  show ?thesis
    unfolding execute_read_resource_def
  proof (rule keeping_bind [OF keeping_of_sum], rule keeping_bind_value [OF keeping_of_sum])
    fix uri r template r'
    assume "of_sum (assert_allowed allow uri) r = (Inr template, r')"
    then have "assert_allowed allow uri = Inr template"
      by (auto simp: of_sum_def return_def raise_def split: sum.splits)
    then show "keeping (seq (case validate_and_bind_resource_uri (netloc_error W) template uri vars of
             Inl e \<Rightarrow> seq (when_do (unwrap_execution_step_error e \<noteq> None) (tell (Resource_done uri False (exc_str e)))) (raise e)
           | Inr _ \<Rightarrow> skip)
         (read_resource_from_sessions W uri))"
      by (rule body)
  qed
qed

text \<open>What a tool may do when it is called.\<close>

fun tool_may :: "world \<Rightarrow> tool_kind \<Rightarrow> bool" where
  "tool_may W (Mcp_kind s m _ _) \<longleftrightarrow> (\<forall>args. may (Called s (mt_name m) args))"
| "tool_may W (Read_kind allow vars) \<longleftrightarrow> (\<forall>s uri template b. assert_allowed allow uri = Inr template
     \<longrightarrow> validate_and_bind_resource_uri (netloc_error W) template uri vars = Inr b \<longrightarrow> may (Read_resource s uri))"
| "tool_may W (Load_kind _ _) \<longleftrightarrow> True"

lemma keeping_run_tool: "tool_may W (tl_kind t) \<Longrightarrow> keeping (run_tool E W t kwargs)"
  unfolding run_tool_def
  by (cases "tl_kind t") (auto intro: keeping_execute_tool keeping_read_resource)

section \<open>The loop\<close>

lemma keeping_ensure_id [intro, simp]: "keeping (ensure_tool_call_id W tc)"
  unfolding ensure_tool_call_id_def
  by (auto intro!: keeping_bind keeping_seq keeping_modify simp: local_change_def)

lemma keeping_append_message [intro, simp]: "keeping (append_message m)"
  unfolding append_message_def by (rule keeping_modify) (simp add: local_change_def)

lemma keeping_append_result [intro, simp]: "keeping (append_result n x)"
  unfolding append_result_def by (rule keeping_modify) (simp add: local_change_def)

lemma keeping_check_allowlist [intro, simp]: "keeping (check_allowlist_tool_name ns n)"
  unfolding check_allowlist_tool_name_def Let_def by auto

lemma keeping_no_submit [intro, simp]: "keeping (raise_no_submit reason t c x)"
  unfolding raise_no_submit_def by auto

lemma keeping_invoke_tool:
  "(\<And>t. t \<in> set (rc_tools c) \<Longrightarrow> tool_may W (tl_kind t)) \<Longrightarrow> keeping (invoke_mcp_tool E W c tc)"
  unfolding invoke_mcp_tool_def selected_tool_def tool_invoke_exception_result_def
  by (auto split: option.split intro!: keeping_try keeping_run_tool dest: rows_first_Some)

lemma keeping_one_call:
  "(\<And>t. t \<in> set (rc_tools c) \<Longrightarrow> tool_may W (tl_kind t)) \<Longrightarrow> keeping (run_one_mcp_tool_call E W c tc)"
  unfolding run_one_mcp_tool_call_def handle_tool_output_content_def
  by (auto intro!: keeping_bind keeping_seq keeping_invoke_tool)

lemma keeping_batch:
  "(\<And>t. t \<in> set (rc_tools c) \<Longrightarrow> tool_may W (tl_kind t)) \<Longrightarrow> keeping (execute_tool_batch E W c tcs)"
  unfolding execute_tool_batch_def record_submit_must_be_alone_def
  by (rule keeping_for_each) (auto intro!: keeping_seq keeping_one_call)

lemma keeping_process:
  "(\<And>t. t \<in> set (rc_tools c) \<Longrightarrow> tool_may W (tl_kind t)) \<Longrightarrow> keeping (process_tool_calls E W c response)"
  unfolding process_tool_calls_def
  by (intro keeping_bind keeping_map_m keeping_seq keeping_for_each)
    (auto split: list.split intro!: keeping_seq keeping_batch)

section \<open>The adapter\<close>

lemma keeping_open: "may (Opened e) \<Longrightarrow> keeping (open_endpoint W e)"
  unfolding open_endpoint_def by (auto intro!: keeping_bind keeping_seq keeping_call)

lemma keeping_connect: "(\<And>e. may (Opened e)) \<Longrightarrow> keeping (connect_to_source E W source)"
  unfolding connect_to_source_def connect_stdio_source_def Let_def
  by (auto split: json.split intro!: keeping_open)

lemma keeping_pages: "(\<And>c. keeping (fetch c)) \<Longrightarrow> keeping (list_mcp_paginated fetch n k items c)"
  by (induction fetch n k items c rule: list_mcp_paginated.induct) (auto intro!: keeping_bind)

lemma keeping_load: "keeping (load_tools W s name specs omit ms)"
proof (induction ms)
  case Nil
  then show ?case by simp
next
  case (Cons m ms)
  have "keeping (modify (\<lambda>r. r\<lparr>used_names := x\<rparr>))"
    "keeping (modify (\<lambda>r. r\<lparr>loaded_names := loaded_names r @ [n]\<rparr>))" for x n
    by (simp_all add: keeping_modify local_change_def)
  with Cons show ?case
    by (auto split: option.split simp: Let_def intro!: keeping_bind keeping_seq)
qed

lemma keeping_use_session:
  assumes "\<And>s c. may (Listed_tools s c)" "\<And>s c. may (Listed_resources s c)"
  shows "keeping (use_session W source s specs allow omit)"
proof -
  have "keeping (modify (\<lambda>r. r\<lparr>source_sessions := source_sessions r @ [x]\<rparr>))"
    "keeping (modify (\<lambda>r. r\<lparr>resource_coverage := AList.update n b (resource_coverage r)\<rparr>))" for x n b
    by (simp_all add: keeping_modify local_change_def)
  with assms show ?thesis
    unfolding use_session_def Let_def load_tools_from_session_def list_tools_paginated_def
      discover_resources_for_source_def list_resources_paginated_def
    by (auto split: option.split intro!: keeping_seq keeping_bind keeping_try keeping_pages keeping_call keeping_load)
qed

lemma keeping_sources:
  assumes "\<And>e. may (Opened e)" "\<And>s c. may (Listed_tools s c)" "\<And>s c. may (Listed_resources s c)"
  shows "keeping (process_mcp_sources E W sources specs allow omit)"
proof (induction sources)
  case Nil
  then show ?case by simp
next
  case (Cons source sources)
  have "keeping (record_source_failure source outcome error)" for source outcome error
    unfolding record_source_failure_def by (auto intro!: keeping_seq keeping_modify simp: local_change_def)
  with Cons assms show ?case
    by (auto simp: process_mcp_source_def split: option.split
        intro!: keeping_bind keeping_try keeping_seq keeping_connect keeping_use_session)
qed

lemma keeping_build:
  assumes "\<And>e. may (Opened e)" "\<And>s c. may (Listed_tools s c)" "\<And>s c. may (Listed_resources s c)"
  shows "keeping (build_tools_for_worker E W body tool_specs resource_specs skill_specs definitions vars omit)"
proof -
  have "keeping (modify (\<lambda>r. r\<lparr>loaded_names := [], used_names := x, source_failures := [], source_sessions := [],
      resource_coverage := []\<rparr>))" for x
    by (simp add: keeping_modify local_change_def)
  with assms show ?thesis
    unfolding build_tools_for_worker_def Let_def handle_no_sources_def require_resources_def require_tools_def
      read_resource_tools_def
    by (auto split: option.split intro!: keeping_bind keeping_seq keeping_sources)
qed

lemma keeping_finalize: "keeping (finalize_reason_step E allowed validate payload specs)"
  unfolding finalize_reason_step_def by (auto split: sum.split intro!: keeping_bind keeping_seq keeping_when)

lemma keeping_exit_stack [intro]: "keeping m \<Longrightarrow> keeping (with_exit_stack X m)"
  unfolding with_exit_stack_def by (auto split: option.split intro!: keeping_bind keeping_try)

section \<open>A command\<close>

definition may_run :: "world \<Rightarrow> command_type \<Rightarrow> prepared \<Rightarrow> bool" where
  "may_run W ty p \<longleftrightarrow> (\<forall>ms. may (Asked ms)) \<and> (\<forall>ms b. may (Asked_native ms b)) \<and> (\<forall>e. may (Opened e))
     \<and> (\<forall>s c. may (Listed_tools s c)) \<and> (\<forall>s c. may (Listed_resources s c))
     \<and> (\<forall>s name args. tool_admitted ty p name \<longrightarrow> may (Called s name args))
     \<and> (\<forall>s uri. resource_admitted W p uri \<longrightarrow> may (Read_resource s uri))"

lemma keeping_bind_yields:
  "keeping m \<Longrightarrow> yields m Q \<Longrightarrow> (\<And>x. Q x \<Longrightarrow> keeping (k x)) \<Longrightarrow> keeping (bind m k)"
  by (rule keeping_bind_value) (auto dest: yieldsD)

lemma tool_may_built:
  assumes "may_run W ty p" "compile_resource_allowlist (pr_resource_specs p) = Inr allow"
    "admitted_tool names allow (coerce_dict (pr_saga_vars p)) t" "set names \<subseteq> set (allow_entries ty p)"
  shows "tool_may W (tl_kind t)"
proof -
  have "tool_admitted ty p name" if "entry \<in> set names" "allowlist_matches entry name" for entry name
    using that assms(4) by (auto simp: tool_admitted_def)
  with assms show ?thesis
    by (cases "tl_kind t") (auto simp: may_run_def admitted_tool_def resource_admitted_def)
qed

lemma keeping_built:
  assumes may: "may_run W ty p" and names: "set (spec_names specs) \<subseteq> set (allow_entries ty p)"
    and k: "\<And>ts. (\<And>t. t \<in> set ts \<Longrightarrow> tool_may W (tl_kind t)) \<Longrightarrow> keeping (k ts)"
  shows "keeping (bind (build_tools_for_worker E W body specs (pr_resource_specs p) skills definitions
    (coerce_dict (pr_saga_vars p)) omit) k)"
proof (rule keeping_bind_yields [OF keeping_build built_tools_admitted])
  fix ts :: "agent_tool list"
  assume "\<exists>allow. compile_resource_allowlist (pr_resource_specs p) = Inr allow
    \<and> list_all (admitted_tool (spec_names specs) allow (coerce_dict (pr_saga_vars p))) ts"
  then show "keeping (k ts)"
    using tool_may_built [OF may _ _ names] by (intro k) (auto simp: list_all_iff)
qed (use may in \<open>auto simp: may_run_def\<close>)

lemma keeping_raise_when [intro, simp]: "keeping (when_do b (raise e))"
  by (rule keeping_when) simp

lemma keeping_commit: "may_run W ty p \<Longrightarrow> ty \<noteq> DO_STEP \<Longrightarrow> keeping (run_commit E W X c body args p schema)"
proof -
  assume may: "may_run W ty p" and ty: "ty \<noteq> DO_STEP"
  have "keeping (commit_body E W c body args p allow)" for allow
    unfolding commit_body_def
  proof (rule keeping_built [OF may])
    show "set (spec_names (pr_tool_specs p)) \<subseteq> set (allow_entries ty p)"
      using ty by (simp add: allow_entries_def)
  next
    fix ts :: "agent_tool list"
    assume "\<And>t. t \<in> set ts \<Longrightarrow> tool_may W (tl_kind t)"
    then have "keeping (ainvoke_tool E W t input)" if "filter f ts = [t]" for f t input
      using that unfolding ainvoke_tool_def
      by (metis filter_is_subset keeping_bind keeping_of_sum keeping_run_tool list.set_intros(1) subsetD)
    then show "keeping (case filter (\<lambda>t. tool_matches_allow_name t allow) ts of
       [t] \<Rightarrow>
         (let name = mcp_name_or (tl_name t) t in
          bind (try_except (ainvoke_tool E W t (commit_arguments c args))
                  (\<lambda>e. raise (Step_error (commit_error_details c (exc_str e) name) (Some name) (exc_str e)))) (\<lambda>text.
          return (name, text)))
     | ts \<Rightarrow> raise (Step_error
         [(''code'', JStr ''commit_tool_load''), (''loaded'', JInt (int (length ts))), (''allow'', JList [JStr allow])]
         None ''Commit step could not load exactly one MCP tool''))"
      by (auto simp: Let_def split: list.split intro!: keeping_bind keeping_try)
  qed
  then show ?thesis
    unfolding run_commit_def
    by (auto split: list.split json.split sum.split intro!: keeping_bind keeping_exit_stack)
qed

end

text \<open>What asks the model also spends tokens.\<close>

locale spending_frame = run_frame +
  assumes keeps_spending: "acts r' = acts r \<Longrightarrow> us_total (used r) \<le> us_total (used r') \<Longrightarrow> keeps r r'"
begin

lemma keeping_add_usage [intro, simp]: "keeping (modify (\<lambda>r. r\<lparr>used := add_usage u (used r)\<rparr>))"
  by (rule keepingI) (simp add: modify_def keeps_spending add_usage_total)

lemma keeping_ask_model: "(\<And>ms. may (Asked ms)) \<Longrightarrow> keeping (ask_model E W c)"
  unfolding ask_model_def by (auto intro!: keeping_bind keeping_seq keeping_ainvoke)

lemma keeping_turn:
  "(\<And>ms. may (Asked ms)) \<Longrightarrow> (\<And>t. t \<in> set (rc_tools c) \<Longrightarrow> tool_may W (tl_kind t))
    \<Longrightarrow> keeping (react_loop_turn E W c n b)"
  unfolding react_loop_turn_def
  by (auto intro!: keeping_bind keeping_seq keeping_ask_model keeping_process)

lemma keeping_turns:
  "(\<And>ms. may (Asked ms)) \<Longrightarrow> (\<And>t. t \<in> set (rc_tools c) \<Longrightarrow> tool_may W (tl_kind t))
    \<Longrightarrow> keeping (react_turns E W c left recoveries n)"
  by (induction E W c left recoveries n rule: react_turns.induct)
    (auto split: turn_result.split nat.split intro!: keeping_bind keeping_turn)

lemma keeping_loop:
  "(\<And>ms. may (Asked ms)) \<Longrightarrow> (\<And>t. t \<in> set (rc_tools c) \<Longrightarrow> tool_may W (tl_kind t))
    \<Longrightarrow> keeping (run_react_loop E W c ms)"
  unfolding run_react_loop_def
  by (auto intro!: keeping_seq keeping_turns keeping_modify simp: local_change_def)

lemma keeping_attempts:
  "(\<And>ms. may (Asked ms)) \<Longrightarrow> (\<And>t. t \<in> set (rc_tools c) \<Longrightarrow> tool_may W (tl_kind t))
    \<Longrightarrow> keeping (react_attempts E W c schema budget ms n)"
proof (induction n arbitrary: c ms)
  case 0
  then show ?case by simp
next
  case (Suc n)
  have again: "keeping (react_attempts E W (c\<lparr>rc_max_turns := k\<rparr>) schema budget ms' n)" for k ms'
    by (rule Suc.IH) (use Suc.prems in auto)
  have "keeping (invoke_failed phase e)" for phase e
    by (simp add: invoke_failed_def split: py_exc.split)
  with Suc.prems again show ?case
    by (auto split: sum.split intro!: keeping_bind keeping_try keeping_loop)
qed

lemma keeping_structured:
  assumes "\<And>ms. may (Asked ms)" "\<And>ms b. may (Asked_native ms b)"
  shows "keeping (structured_attempts E W schema budget n ms)"
proof (induction n arbitrary: ms)
  case 0
  then show ?case by simp
next
  case (Suc n)
  have "keeping (structured_completion_attempt E W ms schema budget)"
    unfolding structured_completion_attempt_def try_native_structured_output_def try_json_mode_output_def
      ainvoke_native_structured_def Let_def
    by (auto split: option.split intro!: keeping_bind keeping_seq keeping_try keeping_ainvoke keeping_call assms)
  with Suc show ?case by (auto split: sum.split intro!: keeping_bind)
qed

lemma keeping_react_body:
  assumes may: "may_run W DO_STEP p" and specs: "resolved_specs p = Inr (specs, index)"
  shows "keeping (react_body E W body args p specs index)"
  unfolding react_body_def Let_def
proof (rule keeping_built [OF may])
  show "set (spec_names specs) \<subseteq> set (allow_entries DO_STEP p)"
    by (simp add: allow_entries_def specs)
next
  fix ts :: "agent_tool list"
  assume "\<And>t. t \<in> set ts \<Longrightarrow> tool_may W (tl_kind t)"
  moreover have "may (Asked ms)" for ms using may by (simp add: may_run_def)
  ultimately have attempts: "keeping (react_attempts E W
      \<lparr>rc_tools = ts, rc_allowed = a, rc_bound = b, rc_max_turns = n, rc_max_step_tokens = l\<rparr> schema budget ms k)"
    for a b n l schema budget ms k
    by (intro keeping_attempts) auto
  show "keeping (seq (when_do (submit_tool_name \<in> set (map tl_name ts)) (raise (reserved_name submit_tool_name
               ''MCP tool name '_submit' is reserved for step completion; rename the tool in tool_specs.'')))
      (bind (of_sum (resolve_step_prompt W (opt_text (pr_prompt_template p))
          (if index = [] then dset ''allowed_tools'' (JList (map JStr (map tl_name ts @ [submit_tool_name]))) args
           else dset ''allowed_skills'' (JList index)
             (dset ''allowed_tools'' (JList (map JStr (map tl_name ts @ [submit_tool_name]))) args)))) (\<lambda>final_input.
       seq (raise_if (submit_tool_error W (pr_output_schema p)))
       (seq (raise_if (build_llm_error W (JObj body)))
       (bind (react_attempts E W
                \<lparr>rc_tools = ts, rc_allowed = map tl_name ts,
                 rc_bound = bound_arguments_from_step args (map py_str (pr_tool_bind_keys p)),
                 rc_max_turns = nat (pr_max_turns p), rc_max_step_tokens = effective_max_step_tokens E (pr_max_step_tokens p)\<rparr>
                (pr_output_schema p) (nat (pr_max_turns p))
                [chat Role_system (str_of (dget ''system_prompt'' body)),
                 chat Role_human (human_message_content final_input)]
                (schema_attempts W)) (\<lambda>payload.
        finalize_reason_step E (map tl_name ts) (validate_submit_payload E W (pr_output_schema p)) payload
          (pr_facts_extractors p)))))))"
    by (intro keeping_seq keeping_bind keeping_raise_when keeping_of_sum keeping_raise_if attempts keeping_finalize)
qed

lemma keeping_react_step: "may_run W DO_STEP p \<Longrightarrow> keeping (run_react_step E W X body args p)"
proof -
  assume may: "may_run W DO_STEP p"
  have reject: "keeping (reject_reserved_specs specs)" for specs
    unfolding reject_reserved_specs_def by (rule keeping_for_each) auto
  have resolved: "(if pr_skill_specs p = [] then return (pr_tool_specs p, [])
      else of_sum (resolve_skills_for_step (pr_skill_specs p) (pr_tool_specs p) (pr_skills_definition p)))
    = of_sum (resolved_specs p)"
    by (simp add: resolved_specs_def of_sum_def)
  show ?thesis
  proof (cases "resolved_specs p")
    case (Inl e)
    then show ?thesis by (simp add: run_react_step_def resolved of_sum_def)
  next
    case (Inr r)
    obtain specs index where r: "r = (specs, index)" by (cases r)
    then show ?thesis
      using keeping_react_body [OF may, of specs index E body args] Inr
      by (auto simp: run_react_step_def resolved of_sum_def intro!: keeping_seq reject)
  qed
qed

lemma keeping_simple_step: "may_run W DO_STEP p \<Longrightarrow> keeping (run_simple_step E W body args p)"
proof -
  assume may: "may_run W DO_STEP p"
  have "keeping (invoke_failed phase e)" for phase and e :: py_exc
    by (simp add: invoke_failed_def split: py_exc.split)
  moreover have "keeping (modify (\<lambda>r. r\<lparr>transcript := f r, tool_results := []\<rparr>))" for f
    by (simp add: keeping_modify local_change_def)
  ultimately show ?thesis
    unfolding run_simple_step_def invoke_structured_output_def Let_def
    by (intro keeping_seq keeping_bind keeping_raise_when keeping_of_sum keeping_raise_if keeping_try keeping_finalize
        keeping_structured) (use may in \<open>auto simp: may_run_def\<close>)
qed

lemma keeping_adapter: "may_run W (cmd_type (ex_command x)) (ex_prepared x) \<Longrightarrow> keeping (run_adapter E W X x)"
  unfolding run_adapter_def run_step_def run_compensation_def Let_def
  by (cases "cmd_type (ex_command x)")
    (auto split: list.split intro!: keeping_react_step keeping_simple_step keeping_commit keeping_bind)

end

section \<open>What the frame says of the model\<close>

text \<open>Every call of a run is permitted by what was frozen with its step.\<close>

fun permitted :: "world \<Rightarrow> command_type \<Rightarrow> prepared \<Rightarrow> act \<Rightarrow> bool" where
  "permitted W ty p (Called _ name _) \<longleftrightarrow> tool_admitted ty p name"
| "permitted W ty p (Read_resource _ uri) \<longleftrightarrow> resource_admitted W p uri"
| "permitted W ty p _ \<longleftrightarrow> True"

definition grown :: "(act \<Rightarrow> bool) \<Rightarrow> run \<Rightarrow> run \<Rightarrow> bool" where
  "grown P r r' \<longleftrightarrow> (\<exists>new. acts r' = acts r @ new \<and> list_all P new)"

lemma grown_trans: "grown P r r' \<Longrightarrow> grown P r' r'' \<Longrightarrow> grown P r r''"
  unfolding grown_def by (metis append.assoc list_all_append)

lemma grown_local: "acts r' = acts r \<Longrightarrow> grown P r r'"
  by (simp add: grown_def)

lemma grown_act: "P a \<Longrightarrow> grown P r (r\<lparr>acts := acts r @ [a]\<rparr>)"
  by (simp add: grown_def)

interpretation admitted: spending_frame "grown (permitted W ty p)" "permitted W ty p" for W ty p
  by unfold_locales (auto intro: grown_trans grown_local grown_act simp: local_change_def)

lemma permitted_may_run: "admitted.may_run W ty p W ty p"
  by (simp add: admitted.may_run_def)

text \<open>The calls of a run only grow, and so do the tokens used.\<close>

interpretation growing: spending_frame "\<lambda>r r'. grown (\<lambda>_. True) r r' \<and> us_total (used r) \<le> us_total (used r')" "\<lambda>_. True"
  by unfold_locales (auto intro: grown_trans grown_local grown_act simp: local_change_def)

text \<open>The calls of one sort.\<close>

definition count_calls :: "(act \<Rightarrow> bool) \<Rightarrow> run \<Rightarrow> nat" where
  "count_calls P r = length (filter P (acts r))"

fun is_model_call :: "act \<Rightarrow> bool" where
  "is_model_call (Asked _) \<longleftrightarrow> True"
| "is_model_call (Asked_native _ _) \<longleftrightarrow> True"
| "is_model_call _ \<longleftrightarrow> False"

fun is_tool_call :: "act \<Rightarrow> bool" where
  "is_tool_call (Called _ _ _) \<longleftrightarrow> True"
| "is_tool_call _ \<longleftrightarrow> False"

interpretation unasked: spending_frame "\<lambda>r r'. count_calls is_model_call r' = count_calls is_model_call r" "\<lambda>a. \<not> is_model_call a"
  by unfold_locales (auto simp: local_change_def count_calls_def)

interpretation uncalled: run_frame "\<lambda>r r'. filter is_tool_call (acts r') = filter is_tool_call (acts r)" "\<lambda>a. \<not> is_tool_call a"
  by unfold_locales (auto simp: local_change_def)

text \<open>Without a question to the model no tokens are spent.\<close>

interpretation unspent: run_frame "\<lambda>r r'. us_total (used r') = us_total (used r)" "\<lambda>_. True"
  by unfold_locales (auto simp: local_change_def)

end
