(* ===== verification/Agents.thy ===== *)
theory Agents imports Agency begin

text \<open>
  The agent as a whole: what the run of a command may call, how often it may ask the model, how it
  ends, and what the answer it gives satisfies.  The properties rest on the interpretations of the
  frame of a run (theory Agency) and on the lemmas about its loop.
\<close>

section \<open>The allowlist\<close>

lemma in_spec_names: "n \<in> set (spec_names specs) \<longleftrightarrow> (\<exists>s\<in>set specs. dget ''name'' (coerce_dict s) = JStr n)"
  unfolding spec_names_def by (induction specs) (auto simp: List.map_filter_simps split: json.split)

text \<open>The entries a step's specs name, and those a skill's document names.\<close>

definition skill_entries :: "prepared \<Rightarrow> json \<Rightarrow> string list" where
  "skill_entries p spec =
     (let skill = strip (py_str (jor (dget ''name'' (coerce_dict spec)) (JStr []))) in
      map strip (skill_tool_names_from_doc
        (coerce_dict (dget skill (skills_definition_by_name (pr_skills_definition p))))))"

definition step_allowlist :: "command_type \<Rightarrow> prepared \<Rightarrow> string list" where
  "step_allowlist ty p =
     spec_names (pr_tool_specs p) @ (if ty = DO_STEP then concat (map (skill_entries p) (pr_skill_specs p)) else [])"

lemma values_dset: "set (map snd (dset k v d)) \<subseteq> insert v (set (map snd d))"
  by (induction d rule: dset.induct) auto

lemma put_spec_names:
  "set (spec_names (map snd (put_spec b spec d))) \<subseteq> set (spec_names [spec]) \<union> set (spec_names (map snd d))"
proof (cases "dget ''name'' (coerce_dict spec)")
  case (JStr name)
  have put: "set (spec_names (map snd (dset key v d))) \<subseteq> {n. dget ''name'' (coerce_dict v) = JStr n} \<union> set (spec_names (map snd d))"
    for key v
  proof
    fix n
    assume "n \<in> set (spec_names (map snd (dset key v d)))"
    then obtain s where "s \<in> set (map snd (dset key v d))" "dget ''name'' (coerce_dict s) = JStr n"
      unfolding in_spec_names by blast
    with values_dset [of key v d] show "n \<in> {n. dget ''name'' (coerce_dict v) = JStr n} \<union> set (spec_names (map snd d))"
      unfolding Un_iff mem_Collect_eq in_spec_names by blast
  qed
  have "dget ''name'' (coerce_dict (JObj (dset ''name'' (JStr name) e))) = JStr name" for e
    by simp
  with JStr show ?thesis
    unfolding put_spec_def Let_def by (auto simp: in_spec_names split: if_splits dest!: subsetD [OF put])
qed (auto simp: put_spec_def)

lemma union_names:
  "set (spec_names (union_tool_specs_with_skill_tools extras names))
     \<subseteq> set (spec_names extras) \<union> strip ` set names"
proof -
  have folded: "set (spec_names (map snd (fold (put_spec b) specs d))) \<subseteq> set (spec_names specs) \<union> set (spec_names (map snd d))"
    for b specs d
  proof (induction specs arbitrary: d)
    case (Cons s ss)
    have "set (spec_names (map snd (put_spec b s d))) \<subseteq> set (spec_names [s]) \<union> set (spec_names (map snd d))"
      by (rule put_spec_names)
    with Cons [of "put_spec b s d"] show ?case by (fastforce simp: in_spec_names)
  qed simp
  have "set (spec_names (filter is_dict extras)) \<subseteq> set (spec_names extras)"
    by (auto simp: in_spec_names)
  moreover have "set (spec_names (map (\<lambda>t. JObj [(''name'', JStr (strip t))]) (filter (\<lambda>t. strip t \<noteq> []) names))) \<subseteq> strip ` set names"
    by (auto simp: in_spec_names dget_def)
  ultimately show ?thesis
    unfolding union_tool_specs_with_skill_tools_def
    using folded [of True "filter is_dict extras"] folded [of False _ "[]"] by (fastforce simp: spec_names_def)
qed

lemma resolved_skill_names:
  "resolve_skills by_name specs = Inr (names, index)
     \<Longrightarrow> set names \<subseteq> (\<Union>spec\<in>set specs. set (skill_tool_names_from_doc (coerce_dict
           (dget (strip (py_str (jor (dget ''name'' (coerce_dict spec)) (JStr [])))) by_name))))"
proof (induction by_name specs arbitrary: names index rule: resolve_skills.induct)
  case (2 by_name spec specs)
  let ?skill = "strip (py_str (jor (dget ''name'' (coerce_dict spec)) (JStr [])))"
  show ?case
  proof (cases "\<not> is_dict spec \<or> ?skill = []")
    case True
    with 2 have "resolve_skills by_name specs = Inr (names, index)" by (auto simp: Let_def)
    with 2 True show ?thesis by fastforce
  next
    case False
    with 2(3) obtain rest tail where "resolve_skills by_name specs = Inr (rest, tail)"
      "names = skill_tool_names_from_doc (coerce_dict (dget ?skill by_name)) @ rest" "dhas ?skill by_name"
      by (auto simp: Let_def and_then_Inr split: if_splits)
    with 2(2) [OF refl False] show ?thesis by fastforce
  qed
qed simp

lemma allow_entries_step: "set (allow_entries ty p) \<subseteq> set (step_allowlist ty p)"
proof (cases "ty = DO_STEP \<and> pr_skill_specs p \<noteq> []")
  case False
  then show ?thesis by (auto simp: allow_entries_def step_allowlist_def resolved_specs_def)
next
  case True
  show ?thesis
  proof (cases "resolve_skills (skills_definition_by_name (pr_skills_definition p)) (pr_skill_specs p)")
    case (Inl e)
    with True show ?thesis by (auto simp: allow_entries_def resolved_specs_def resolve_skills_for_step_def and_then_def)
  next
    case (Inr r)
    obtain names index where r: "r = (names, index)" by (cases r)
    have "strip ` set names \<subseteq> set (concat (map (skill_entries p) (pr_skill_specs p)))"
      using resolved_skill_names [OF Inr [unfolded r]] by (fastforce simp: skill_entries_def Let_def)
    with True Inr r union_names [of "pr_tool_specs p" names] show ?thesis
      by (auto simp: allow_entries_def resolved_specs_def resolve_skills_for_step_def step_allowlist_def and_then_def)
  qed
qed

section \<open>What is called\<close>

text \<open>What a call may be, in the words of the manifest: a tool that an entry of the step's tool specs
  or of the documents of its skills names, or a resource whose URI one of the step's templates, and
  only one, matches, with its placeholders bound to the saga's variables.\<close>

definition resource_template :: "json \<Rightarrow> string" where
  "resource_template spec = strip (str_or (dget ''uri'' (coerce_dict spec)) [])"

definition bound_to :: "world \<Rightarrow> dict \<Rightarrow> string \<Rightarrow> string \<Rightarrow> bool" where
  "bound_to W vars template uri \<longleftrightarrow> placeholders (uri_pieces template) = []
     \<or> \<not> contains_traversal_tokens uri
       \<and> (\<exists>runtime normal groups. normalized_uri_path (netloc_error W) uri = Inr runtime
             \<and> normalized_uri_path (netloc_error W) template = Inr normal
             \<and> captures (uri_pieces normal) runtime = Some groups
             \<and> (\<forall>(name, text)\<in>set (bindings_of (placeholders (uri_pieces normal)) groups).
                   dhas name vars \<and> text = py_str (dget name vars)))"

definition admissible :: "world \<Rightarrow> command_type \<Rightarrow> prepared \<Rightarrow> act \<Rightarrow> bool" where
  "admissible W ty p a \<longleftrightarrow> (case a of
     Called _ name _ \<Rightarrow> (\<exists>entry\<in>set (step_allowlist ty p). entry = name \<or> entry = sanitize_mcp_tool_name name)
   | Read_resource _ uri \<Rightarrow>
       (\<exists>spec\<in>set (pr_resource_specs p). uri_matches (resource_template spec) uri
          \<and> bound_to W (coerce_dict (pr_saga_vars p)) (resource_template spec) uri)
   | _ \<Rightarrow> True)"

lemma compiled_templates: "compile_specs i specs = Inr us \<Longrightarrow> us = map resource_template specs"
  by (induction i specs arbitrary: us rule: compile_specs.induct)
    (auto simp: Let_def resource_template_def and_then_Inr split: if_splits)

lemma bound_variables: "validate_bound_variables template vars uri bs = Inr () \<longleftrightarrow>
    (\<forall>(name, text)\<in>set bs. dhas name vars \<and> text = py_str (dget name vars))"
  by (induction template vars uri bs rule: validate_bound_variables.induct) (auto simp: Let_def)

lemma bound_resource:
  "validate_and_bind_resource_uri (netloc_error W) template uri vars = Inr b \<Longrightarrow> bound_to W vars template uri"
  unfolding validate_and_bind_resource_uri_def bound_to_def Let_def
  by (auto simp: and_then_Inr bound_variables split: if_splits option.splits)

lemma assert_allowed_matches: "assert_allowed allow uri = Inr t \<Longrightarrow> t \<in> set allow \<and> uri_matches t uri"
proof -
  assume "assert_allowed allow uri = Inr t"
  then have "filter (\<lambda>t. uri_matches t uri) allow = [t]"
    by (auto simp: assert_allowed_def match_template_def and_then_Inr split: list.splits option.splits)
  then have "t \<in> set (filter (\<lambda>t. uri_matches t uri) allow)" by simp
  then show ?thesis by simp
qed

lemma permitted_admissible: "permitted W ty p a \<Longrightarrow> admissible W ty p a"
proof (cases a)
  case (Read_resource s uri)
  assume "permitted W ty p a"
  with Read_resource obtain allow template b where a: "compile_resource_allowlist (pr_resource_specs p) = Inr (Some allow)"
    "assert_allowed allow uri = Inr template"
    "validate_and_bind_resource_uri (netloc_error W) template uri (coerce_dict (pr_saga_vars p)) = Inr b"
    by (auto simp: resource_admitted_def)
  then have "allow = map resource_template (pr_resource_specs p)"
    by (auto simp: compile_resource_allowlist_def and_then_Inr split: if_splits dest: compiled_templates)
  with a assert_allowed_matches [OF a(2)] bound_resource [OF a(3)] Read_resource show ?thesis
    by (auto simp: admissible_def)
qed (use allow_entries_step in \<open>fastforce simp: admissible_def tool_admitted_def allowlist_matches_def\<close>)+


text \<open>A template may repeat a placeholder, and only its last occurrence is compared with the variable.\<close>

theorem repeated_placeholder_checked_once:
  "validate_and_bind_resource_uri (\<lambda>_. None) ''file:///d/{u}/{u}'' ''file:///d/bob/alice'' [(''u'', JStr ''alice'')]
     = Inr [(''u'', ''alice'')]"
  by code_simp

end
