(* ===== verification/Effort.thy ===== *)
theory Effort imports Agents begin

text \<open>
  How much a run asks of the model: a bound on the model calls of every command, what the token budget
  of a step stops, and what the retries of a result that fails its schema add to the budget of turns.
\<close>

section \<open>Counting model calls\<close>

definition asks :: "nat \<Rightarrow> 'a A \<Rightarrow> bool" where
  "asks n m \<longleftrightarrow> (\<forall>r. count_calls is_model_call (snd (m r)) \<le> count_calls is_model_call r + n)"

lemma asksD: "asks n m \<Longrightarrow> m r = (x, r') \<Longrightarrow> count_calls is_model_call r' \<le> count_calls is_model_call r + n"
  by (metis asks_def snd_conv)

lemma asks_quiet: "unasked.keeping m \<Longrightarrow> asks n m"
  by (simp add: asks_def unasked.keeping_def)

lemma asks_weaken: "asks a m \<Longrightarrow> a \<le> n \<Longrightarrow> asks n m"
  by (meson add_le_mono asks_def order_refl order_trans)

lemma asks_bind_value:
  assumes m: "asks a m" and k: "\<And>r x r'. m r = (Inr x, r') \<Longrightarrow> asks b (k x)" and n: "a + b \<le> n"
  shows "asks n (bind m k)"
  unfolding asks_def
proof
  fix r
  obtain x r' where r': "m r = (x, r')" by fastforce
  note first = asksD [OF m r']
  show "count_calls is_model_call (snd (bind m k r)) \<le> count_calls is_model_call r + n"
  proof (cases x)
    case (Inl e)
    with r' first n show ?thesis by (simp add: bind_def)
  next
    case (Inr y)
    have "count_calls is_model_call (snd (k y r')) \<le> count_calls is_model_call r' + b"
      using k [of r y r'] r' Inr by (simp add: asks_def)
    with r' Inr first n show ?thesis by (simp add: bind_def)
  qed
qed

lemma asks_bind: "asks a m \<Longrightarrow> (\<And>x. asks b (k x)) \<Longrightarrow> a + b \<le> n \<Longrightarrow> asks n (bind m k)"
  by (rule asks_bind_value)

lemma asks_seq: "asks a m \<Longrightarrow> asks b k \<Longrightarrow> a + b \<le> n \<Longrightarrow> asks n (seq m k)"
  unfolding seq_def by (rule asks_bind)

lemma asks_after: "unasked.keeping m \<Longrightarrow> (\<And>x. asks n (k x)) \<Longrightarrow> asks n (bind m k)"
  by (rule asks_bind [OF asks_quiet [where n = 0], where b = n]) simp_all

lemma asks_after_seq: "unasked.keeping m \<Longrightarrow> asks n k \<Longrightarrow> asks n (seq m k)"
  unfolding seq_def by (rule asks_after)

lemma asks_before: "asks n m \<Longrightarrow> (\<And>x. unasked.keeping (k x)) \<Longrightarrow> asks n (bind m k)"
  by (rule asks_bind [where a = n and b = 0]) (auto intro: asks_quiet)

lemma asks_try:
  assumes m: "asks a m" and h: "\<And>e. asks b (h e)" and n: "a + b \<le> n"
  shows "asks n (try_except m h)"
  unfolding asks_def
proof
  fix r
  obtain x r' where r': "m r = (x, r')" by fastforce
  note first = asksD [OF m r']
  show "count_calls is_model_call (snd (try_except m h r)) \<le> count_calls is_model_call r + n"
  proof (cases x)
    case (Inl e)
    have "count_calls is_model_call (snd (h e r')) \<le> count_calls is_model_call r' + b"
      using h [of e] by (simp add: asks_def)
    with r' Inl first n show ?thesis by (simp add: try_except_def)
  next
    case (Inr y)
    with r' first n show ?thesis by (simp add: try_except_def)
  qed
qed

lemma asks_call: "asks 1 (call a answer)"
  by (auto simp: asks_def call_def act_def count_calls_def monad_simps split: sum.split prod.split)

lemma asks_return: "asks n (return x)" "asks n (raise e)"
  by (simp_all add: asks_def return_def raise_def)

lemma asks_retry: "asks a m \<Longrightarrow> asks (n * a) (retry_async n retryable m)"
proof (induction n)
  case 0
  then show ?case by (simp add: asks_return)
next
  case (Suc n)
  show ?case
    by (simp only: retry_async.simps, rule asks_try [OF Suc.prems, of "n * a"])
      (simp_all add: asks_return Suc)
qed

definition llm_attempts :: "world \<Rightarrow> nat" where
  "llm_attempts W = (if \<not> llm_retry_enabled W \<or> llm_retry_max_attempts W \<le> 1 then 1 else llm_retry_max_attempts W)"

lemma asks_ainvoke: "asks (llm_attempts W) (ainvoke W ms)"
  using asks_retry [OF asks_call, of "llm_retry_max_attempts W" is_transient_llm_error "Asked ms" "\<lambda>before. model_reply W before ms"]
    asks_call [of "Asked ms" "\<lambda>before. model_reply W before ms"]
  by (simp add: ainvoke_def Let_def llm_attempts_def)

section \<open>The loop\<close>

lemma asks_ask_model: "asks (llm_attempts W) (ask_model E W c)"
  unfolding ask_model_def
  by (rule asks_seq [OF asks_quiet [of _ 0]], simp, rule asks_bind [OF asks_quiet [of _ 0]], simp,
      rule asks_bind [OF asks_ainvoke], rule asks_quiet [of _ 0])
    (auto intro!: unasked.keeping_seq)

lemma quiet_tools: "unasked.tool_may W k"
  by (cases k) simp_all

lemma asks_turn: "asks (llm_attempts W) (react_loop_turn E W c n allow)"
  unfolding react_loop_turn_def
  by (rule asks_bind [OF asks_ask_model], rule asks_quiet [of _ 0])
    (auto intro!: unasked.keeping_bind unasked.keeping_seq unasked.keeping_process quiet_tools)

lemma asks_turns: "asks ((left + recoveries) * llm_attempts W) (react_turns E W c left recoveries n)"
proof (induction E W c left recoveries n rule: react_turns.induct)
  case (1 E W c recoveries n)
  then show ?case by (auto intro: asks_quiet)
next
  case (2 E W c left recoveries n)
  have rest: "asks ((left + recoveries) * llm_attempts W) (case r of
       Submitted payload \<Rightarrow> return payload
     | Turn_continue recovered \<Rightarrow>
         (case recoveries of
            Suc fewer \<Rightarrow>
              if recovered then react_turns E W c (max 1 left) fewer (Suc n)
              else react_turns E W c left recoveries (Suc n)
          | 0 \<Rightarrow> react_turns E W c left 0 (Suc n)))" for r
  proof (cases r)
    case (Submitted payload)
    then show ?thesis by (simp add: asks_return)
  next
    case (Turn_continue recovered)
    show ?thesis
    proof (cases recoveries)
      case 0
      with 2 Turn_continue show ?thesis by simp
    next
      case (Suc fewer)
      have "(max 1 left + fewer) * llm_attempts W \<le> (left + Suc fewer) * llm_attempts W"
        by (rule mult_le_mono1) simp
      with 2 Turn_continue Suc show ?thesis by (auto intro: asks_weaken)
    qed
  qed
  show ?case
    by (simp only: react_turns.simps, rule asks_bind [OF asks_turn rest]) simp
qed

lemma asks_loop: "asks ((rc_max_turns c + submit_text_retries_from_env E) * llm_attempts W) (run_react_loop E W c ms)"
  unfolding run_react_loop_def
  by (rule asks_seq [OF asks_quiet [of _ 0] asks_turns])
    (auto intro!: unasked.keeping_modify simp: local_change_def)

lemma asks_attempts:
  assumes "rc_max_turns c \<le> max 1 budget"
  shows "asks (n * ((max 1 budget + submit_text_retries_from_env E) * llm_attempts W))
    (react_attempts E W c schema budget ms n)"
  using assms
proof (induction n arbitrary: c ms)
  case 0
  then show ?case by (simp add: asks_return)
next
  case (Suc n)
  let ?once = "(max 1 budget + submit_text_retries_from_env E) * llm_attempts W"
  have "(rc_max_turns c + submit_text_retries_from_env E) * llm_attempts W \<le> ?once"
    by (rule mult_le_mono1) (use Suc.prems in simp)
  then have loop: "asks ?once (run_react_loop E W c ms)"
    by (rule asks_weaken [OF asks_loop])
  have failed: "asks 0 (invoke_failed phase e :: dict A)" for phase e
    by (simp add: invoke_failed_def asks_return split: py_exc.split)
  have again: "asks (n * ?once) (react_attempts E W (c\<lparr>rc_max_turns := max 1 (budget - k)\<rparr>) schema budget ms' n)" for k ms'
    by (rule Suc.IH) simp
  have rest: "asks (n * ?once) (case validate_submit_payload E W schema payload of
       Inr _ \<Rightarrow> return payload
     | Inl e \<Rightarrow>
         if \<not> is_output_schema_validation_error e \<or> n = 0 then return payload
         else bind (gets transcript) (\<lambda>ms.
           react_attempts E W (c\<lparr>rc_max_turns := max 1 (budget - count_assistant_turns ms)\<rparr>) schema budget
             (append_submit_schema_feedback ms (exc_str e) schema) n))" for payload
  proof -
    have "asks (n * ?once) (bind (gets transcript) (\<lambda>ms.
        react_attempts E W (c\<lparr>rc_max_turns := max 1 (budget - count_assistant_turns ms)\<rparr>) schema budget (f ms) n))" for f
      by (rule asks_bind [OF asks_quiet [of _ 0] again]) simp_all
    then show ?thesis by (simp add: asks_return split: sum.split)
  qed
  show ?case
    unfolding react_attempts.simps
    by (rule asks_bind [OF asks_try [OF loop failed] rest]) auto
qed

section \<open>A command\<close>

lemma asks_structured: "asks (n * (2 + llm_attempts W)) (structured_attempts E W schema budget n ms)"
proof (induction n arbitrary: ms)
  case 0
  then show ?case by (simp add: asks_return)
next
  case (Suc n)
  have native: "asks 2 (try_native_structured_output W ms schema)"
  proof (cases "has_native W")
    case True
    have once: "asks 1 (ainvoke_native_structured W ms schema b)" for b
      unfolding ainvoke_native_structured_def by (rule asks_call)
    have "asks 2 (try_except (ainvoke_native_structured W ms schema True)
        (\<lambda>e. if is_type_error e then ainvoke_native_structured W ms schema False else raise e))"
      using once [of False] by (intro asks_try [OF once, of 1]) (auto simp: asks_return)
    with True show ?thesis
      unfolding try_native_structured_output_def
      by (auto intro!: asks_try [of 2 _ 0] asks_bind [of 2 _ 0] simp: asks_return split: prod.split)
  qed (simp add: try_native_structured_output_def asks_return)
  have json: "asks (llm_attempts W) (try_json_mode_output E W ms schema)"
    unfolding try_json_mode_output_def Let_def
    by (rule asks_try [of "llm_attempts W" _ 0]) (auto intro!: asks_bind [OF asks_ainvoke, of 0] simp: asks_return)
  have attempt: "asks (2 + llm_attempts W) (structured_completion_attempt E W ms schema budget)"
    unfolding structured_completion_attempt_def
  proof (rule asks_bind [of "2 + llm_attempts W" _ 0])
    show "asks (2 + llm_attempts W) (bind (try_native_structured_output W ms schema) (\<lambda>(payload, error, reported).
        case payload of Some p \<Rightarrow> return (Some p, error, None, reported) | None \<Rightarrow> try_json_mode_output E W ms schema))"
      by (rule asks_bind [OF native, of "llm_attempts W"]) (auto simp: asks_return json split: option.split)
  qed (auto intro!: asks_quiet unasked.keeping_seq split: option.split)
  have rest: "asks (n * (2 + llm_attempts W)) (case admit_and_validate E W payload schema of
       Inr admitted \<Rightarrow> return admitted
     | Inl e \<Rightarrow>
         if n = 0 then raise (schema_validation_failed (exc_str e))
         else structured_attempts E W schema budget n (schema_validation_feedback ms payload (exc_str e) schema))" for payload
    by (simp only: asks_return Suc if_split sum.split simp_thms)
  show ?case
    unfolding structured_attempts.simps by (rule asks_bind [OF attempt rest]) simp
qed

lemma asks_finalize: "asks n (finalize_reason_step E allowed validate payload specs)"
  by (rule asks_quiet) (rule unasked.keeping_finalize)

lemma asks_exit_stack: "asks n m \<Longrightarrow> asks n (with_exit_stack X m)"
  unfolding with_exit_stack_def
  by (rule asks_bind [where a = n and b = 0], rule asks_try [where a = n and b = 0])
    (auto simp: asks_return split: option.split intro!: asks_quiet unasked.keeping_bind)

lemma quiet_build: "unasked.keeping (build_tools_for_worker E W body specs resources skills definitions vars omit)"
  by (rule unasked.keeping_build) simp_all

definition react_bound :: "env \<Rightarrow> world \<Rightarrow> prepared \<Rightarrow> nat" where
  "react_bound E W p =
     schema_attempts W * ((max 1 (nat (pr_max_turns p)) + submit_text_retries_from_env E) * llm_attempts W)"

lemma asks_react_body: "asks (react_bound E W p) (react_body E W body args p specs index)"
  unfolding react_body_def Let_def react_bound_def
  by (rule asks_after [OF quiet_build], rule asks_after_seq, simp, rule asks_after, simp, rule asks_after_seq, simp,
      rule asks_after_seq, simp, rule asks_before [OF asks_attempts [where budget = "nat (pr_max_turns p)"]])
    (simp_all add: unasked.keeping_finalize)

lemma asks_react_step: "asks (react_bound E W p) (run_react_step E W X body args p)"
proof -
  have reject: "unasked.keeping (reject_reserved_specs specs)" for specs
    unfolding reject_reserved_specs_def by (rule unasked.keeping_for_each) auto
  have after: "asks (react_bound E W p) (seq (reject_reserved_specs specs) (with_exit_stack X (react_body E W body args p specs index)))"
    for specs index
    by (rule asks_after_seq [OF reject asks_exit_stack [OF asks_react_body]])
  show ?thesis
    unfolding run_react_step_def
    by (rule asks_after) (auto simp: after split: prod.split)
qed

definition simple_bound :: "world \<Rightarrow> nat" where
  "simple_bound W = schema_attempts W * (2 + llm_attempts W)"

lemma asks_simple_step: "asks (simple_bound W) (run_simple_step E W body args p)"
proof -
  have failed: "asks 0 (invoke_failed phase e :: dict A)" for phase e
    by (simp add: invoke_failed_def asks_return split: py_exc.split)
  have written: "unasked.keeping (modify (\<lambda>r. r\<lparr>transcript := f r, tool_results := []\<rparr>))" for f
    by (simp add: unasked.keeping_modify local_change_def)
  show ?thesis
    unfolding run_simple_step_def invoke_structured_output_def Let_def simple_bound_def
    by (rule asks_after_seq, simp, rule asks_after_seq, simp, rule asks_after, simp, rule asks_after_seq, simp,
        rule asks_after_seq, simp, rule asks_before [OF asks_try [OF asks_structured failed]])
      (auto intro!: unasked.keeping_seq written unasked.keeping_finalize)
qed

lemma asks_commit: "asks 0 (run_commit E W X c body args p schema)"
proof -
  have quiet: "unasked.keeping (ainvoke_tool E W t input)" for t input
    unfolding ainvoke_tool_def by (intro unasked.keeping_bind unasked.keeping_run_tool quiet_tools) simp
  have "asks 0 (commit_body E W c body args p allow)" for allow
    unfolding commit_body_def Let_def
    by (rule asks_after [OF quiet_build])
      (auto split: list.split intro!: asks_quiet unasked.keeping_bind unasked.keeping_try quiet)
  then show ?thesis
    unfolding run_commit_def
    by (auto split: list.split json.split sum.split simp: asks_return
        intro!: asks_bind [where a = 0 and b = 0] asks_exit_stack)
qed

definition model_call_bound :: "env \<Rightarrow> world \<Rightarrow> execution \<Rightarrow> nat" where
  "model_call_bound E W x = (case cmd_type (ex_command x) of
     DO_STEP \<Rightarrow> if pr_agent_adapter (ex_prepared x) = ''simple'' then simple_bound W else react_bound E W (ex_prepared x)
   | _ \<Rightarrow> 0)"

text \<open>C12: a command asks the model a bounded number of times, whatever the model, the servers and the
  tools answer: a reason step at most \<open>schema attempts \<times> (max_turns + text retries) \<times> transport
  attempts\<close>, a simple step at most \<open>schema attempts \<times> (2 + transport attempts)\<close>, and a commit
  or an undo never.\<close>

theorem adapter_model_calls_bounded:
  "count_calls is_model_call (snd (run_adapter E W X x new_run)) \<le> model_call_bound E W x"
proof -
  have "asks (model_call_bound E W x) (run_adapter E W X x)"
    unfolding run_adapter_def model_call_bound_def run_step_def run_compensation_def Let_def
    by (cases "cmd_type (ex_command x)")
      (auto simp: asks_react_step asks_simple_step asks_commit asks_return split: list.split
        intro!: asks_bind [where a = 0 and b = 0])
  then show ?thesis
    by (simp add: asks_def) (metis count_calls_def filter.simps(1) list.size(3) new_run_def plus_nat.add_0 run.simps(1))
qed

end
