(* ===== verification/Demo.thy ===== *)
theory Demo imports Agents Sample begin

text \<open>
  A concrete world for the agent runtime, on which the witnesses run the adapter: a model that searches
  once and then submits, a tool that answers, and the steps and commits of one command.
  \<open>run_agent\<close> unfolds the operations once they are applied to a run, \<open>agent_data\<close> the
  functions on values.
\<close>

definition demo_search :: tool_call where
  "demo_search = \<lparr>tc_name = ''search'', tc_args = [(''q'', JStr ''x'')], tc_id = ''c1''\<rparr>"

definition demo_submit :: tool_call where
  "demo_submit = \<lparr>tc_name = ''_submit'', tc_args = [(''result'', JObj [(''summary'', JStr ''s'')])], tc_id = ''c2''\<rparr>"

definition demo_tool :: mcp_tool where
  "demo_tool = \<lparr>mt_name = ''search'', mt_input_schema = JObj [(''properties'', JObj [(''q'', JObj [(''type'', JStr ''string'')])])]\<rparr>"

definition demo_world :: world where
  "demo_world = \<lparr>model_reply = (\<lambda>before ms. Inr \<lparr>cr_content = None,
       cr_tool_calls = [if filter is_tool_call before = [] then demo_search else demo_submit],
       cr_usage = Some \<lparr>tu_prompt = 10, tu_completion = 5, tu_total = 15, tu_model = None, tu_details = []\<rparr>\<rparr>),
     has_native = True,
     native_reply = (\<lambda>before ms schema raw. Inr (Some [(''summary'', JStr ''s'')],
       Some \<lparr>tu_prompt = 10, tu_completion = 5, tu_total = 15, tu_model = None, tu_details = []\<rparr>)),
     open_session = (\<lambda>before e. Inr ()), tools_page = (\<lambda>before s c. Inr ([demo_tool], None)),
     resources_page = (\<lambda>before s c. Inr ([], None)), resource_reply = (\<lambda>before s u. Inr []),
     tool_reply = (\<lambda>before s n a. Inr ([\<lparr>part_type = Some ''text'', part_mime = None, part_text = Some ''found'', part_blob = None\<rparr>], False)),
     convert_error = (\<lambda>n fs. None), parse_input = (\<lambda>fs input. Inr input), schema_model_error = (\<lambda>s. None),
     build_llm_error = (\<lambda>w. None), bad_call_text = (\<lambda>f ks. f), netloc_error = (\<lambda>n. None),
     jinja_render = (\<lambda>t d. Inr t), float_text = (\<lambda>s. s), float_of_text = (\<lambda>s. None), uuid4_text = (\<lambda>n. ''id''),
     default_env = [], schema_retry_enabled = True, schema_retry_max_attempts = 2,
     llm_retry_enabled = False, llm_retry_max_attempts = 1, list_max_pages = 1, list_max_items = 10\<rparr>"

definition agent_env :: env where
  "agent_env = demo_env\<lparr>environ := (\<lambda>v. if v = ''WARDEN_REACT_MEMORY_COMPRESSION'' then Some ''0'' else None),
     json_load := (\<lambda>t. Inr (JObj [(''summary'', JStr ''found'')])),
     jsonschema := (\<lambda>sch v. if dhas ''summary'' (coerce_dict v) then None else Some ''summary is required'')\<rparr>"

definition demo_exit :: sessions_exit where
  "demo_exit = \<lparr>exit_with = (\<lambda>before e. e), exit_error = (\<lambda>before. None)\<rparr>"

definition demo_worker :: dict where
  "demo_worker = [(''system_prompt'', JStr ''be good''),
     (''tool_sources'', JList [JObj [(''name'', JStr ''src''), (''transport'', JStr ''streamable_http''),
        (''url'', JStr ''http://h'')]])]"

definition demo_execution :: "command_type \<Rightarrow> string \<Rightarrow> execution" where
  "demo_execution ty adapter = \<lparr>ex_command = \<lparr>cmd_type = ty, cmd_namespace = ''ns'', cmd_trace = ''t'', cmd_span = ''s'',
       cmd_worker_name = ''w'', cmd_worker_version = ''1'', cmd_key = ''k'', cmd_prompt_ref = JNull,
       cmd_arguments = JObj [(''q'', JStr ''x'')], cmd_tool_specs = JList [], cmd_resource_specs = JNull,
       cmd_skill_specs = JNull, cmd_forward_span = [], cmd_failure_reason = JNull, cmd_worker_snapshot = JNull\<rparr>,
     ex_prepared = \<lparr>pr_tool_specs = (if adapter = ''simple'' then [] else [JObj [(''name'', JStr ''search'')]]), pr_resource_specs = [], pr_skill_specs = [],
       pr_skills_definition = [], pr_output_schema = JObj [(''type'', JStr ''object'')], pr_prompt_template = Some ''go'',
       pr_step_output = JNull, pr_context_snapshot = JNull, pr_saga_vars = JNull, pr_max_turns = 3,
       pr_max_step_tokens = Some 100, pr_max_completion_tokens = None, pr_facts_extractors = [],
       pr_agent_adapter = adapter, pr_tool_bind_keys = []\<rparr>,
     ex_worker = JObj demo_worker,
     ex_api_key = ''key'', ex_token = ''tok''\<rparr>"

lemma agent_env_fields:
  "environ agent_env v = (if v = ''WARDEN_REACT_MEMORY_COMPRESSION'' then Some ''0'' else None)"
  "json_load agent_env t = Inr (JObj [(''summary'', JStr ''found'')])"
  "jsonschema agent_env sch v' = (if dhas ''summary'' (coerce_dict v') then None else Some ''summary is required'')"
  "int_of_text agent_env t = None" "jsonpath agent_env q d = jsonpath demo_env q d"
  "check_schema agent_env sch = None" "pydantic_text agent_env = concat"
  by (simp_all add: agent_env_def demo_env_def)

lemma demo_world_fields:
  "model_reply demo_world b ms = Inr \<lparr>cr_content = None,
       cr_tool_calls = [if filter is_tool_call b = [] then demo_search else demo_submit],
       cr_usage = Some \<lparr>tu_prompt = 10, tu_completion = 5, tu_total = 15, tu_model = None, tu_details = []\<rparr>\<rparr>"
  "has_native demo_world" 
  "native_reply demo_world b ms sch raw = Inr (Some [(''summary'', JStr ''s'')],
       Some \<lparr>tu_prompt = 10, tu_completion = 5, tu_total = 15, tu_model = None, tu_details = []\<rparr>)"
  "open_session demo_world b e = Inr ()" "tools_page demo_world b s c = Inr ([demo_tool], None)"
  "resources_page demo_world b s c = Inr ([], None)" "resource_reply demo_world b s u = Inr []"
  "tool_reply demo_world b s n a = Inr ([\<lparr>part_type = Some ''text'', part_mime = None, part_text = Some ''found'', part_blob = None\<rparr>], False)"
  "convert_error demo_world n fs = None" "parse_input demo_world fs input = Inr input" "schema_model_error demo_world sch = None"
  "build_llm_error demo_world w = None" "bad_call_text demo_world f ks = f" "netloc_error demo_world n = None"
  "jinja_render demo_world t d = Inr t" "float_text demo_world n = n" "float_of_text demo_world n = None" "uuid4_text demo_world k = ''id''"
  "default_env demo_world = []" "schema_retry_enabled demo_world" "schema_retry_max_attempts demo_world = Suc (Suc 0)"
  "\<not> llm_retry_enabled demo_world" "llm_retry_max_attempts demo_world = 1" "list_max_pages demo_world = 1" "list_max_items demo_world = 10"
  by (simp_all add: demo_world_def)

section \<open>Evaluation\<close>

lemmas run_agent =
  act_def [THEN fun_cong] call_def [THEN fun_cong] tell_def [THEN fun_cong]
  enforce_step_token_budget_def [THEN fun_cong] ainvoke_def [THEN fun_cong]
  validate_tool_input_def [THEN fun_cong] run_tool_executor_def [THEN fun_cong]
  validate_tool_output_def [THEN fun_cong] execute_with_governance_def [THEN fun_cong]
  raw_executor_def [THEN fun_cong] execute_tool_def [THEN fun_cong]
  read_resource_from_sessions_def [THEN fun_cong] execute_read_resource_def [THEN fun_cong]
  run_tool_def [THEN fun_cong] ainvoke_tool_def [THEN fun_cong] open_endpoint_def [THEN fun_cong]
  connect_stdio_source_def [THEN fun_cong] connect_to_source_def [THEN fun_cong]
  list_tools_paginated_def [THEN fun_cong] list_resources_paginated_def [THEN fun_cong]
  discover_resources_for_source_def [THEN fun_cong] load_tools_from_session_def [THEN fun_cong]
  record_source_failure_def [THEN fun_cong] use_session_def [THEN fun_cong]
  process_mcp_source_def [THEN fun_cong] handle_no_sources_def [THEN fun_cong]
  require_resources_def [THEN fun_cong] require_tools_def [THEN fun_cong]
  read_resource_tools_def [THEN fun_cong] build_tools_for_worker_def [THEN fun_cong]
  ensure_tool_call_id_def [THEN fun_cong] check_allowlist_tool_name_def [THEN fun_cong]
  tool_invoke_exception_result_def [THEN fun_cong] invoke_mcp_tool_def [THEN fun_cong]
  handle_tool_output_content_def [THEN fun_cong] append_message_def [THEN fun_cong]
  append_result_def [THEN fun_cong] record_submit_must_be_alone_def [THEN fun_cong]
  run_one_mcp_tool_call_def [THEN fun_cong] execute_tool_batch_def [THEN fun_cong]
  process_tool_calls_def [THEN fun_cong] raise_no_submit_def [THEN fun_cong]
  compress_transcript_def [THEN fun_cong] calibrate_estimator_def [THEN fun_cong]
  ask_model_def [THEN fun_cong] react_loop_turn_def [THEN fun_cong]
  run_react_loop_def [THEN fun_cong] ainvoke_native_structured_def [THEN fun_cong]
  try_native_structured_output_def [THEN fun_cong] try_json_mode_output_def [THEN fun_cong]
  structured_completion_attempt_def [THEN fun_cong] invoke_structured_output_def [THEN fun_cong]
  finalize_reason_step_def [THEN fun_cong] invoke_failed_def [THEN fun_cong]
  with_exit_stack_def [THEN fun_cong] raise_if_def [THEN fun_cong]
  reject_reserved_specs_def [THEN fun_cong] react_body_def [THEN fun_cong]
  run_react_step_def [THEN fun_cong] run_simple_step_def [THEN fun_cong]
  run_step_def [THEN fun_cong] commit_body_def [THEN fun_cong] run_commit_def [THEN fun_cong]
  run_compensation_def [THEN fun_cong] run_adapter_def [THEN fun_cong]
  retry_async.simps [THEN fun_cong] read_from_sessions.simps [THEN fun_cong]
  list_mcp_paginated.simps [THEN fun_cong] load_tools.simps [THEN fun_cong]
  process_mcp_sources.simps [THEN fun_cong] react_turns.simps [THEN fun_cong]
  structured_attempts.simps [THEN fun_cong] react_attempts.simps [THEN fun_cong] monad_simps
  for_each.simps [THEN fun_cong] map_m.simps [THEN fun_cong]

lemmas agent_data =
  plain_exn_def build_step_error_details_def step_error_def chat_def clamp_nonneg_def iget_def
  detail_key_aliases_def is_alnum_def ends_with_def normalize_detail_key_def add_detail_def
  normalize_usage_details_def usage_is_reportable_def add_usage_def memory_counters_def
  normalize_usage_memory_def add_memory_stats_def int_dict_def usage_dict_def usage_wire_def
  effective_max_tokens_def effective_max_step_tokens_def effective_max_completion_tokens_def
  mentions_def infra_message_markers_def tool_invoke_exception_is_infrastructure_def
  format_tool_invoke_exception_def rstrip_def tool_output_indicates_failure_def
  recoverable_failure_markers_def is_pydantic_tool_validation_failure_def
  is_os_tool_mistake_failure_def tool_output_is_recoverable_def unhashable_def
  looks_like_apply_patch_reject_def patch_apply_hint_markers_def recoverable_hint_for_lowered_def
  recovery_hint_for_tool_output_def annotate_recoverable_tool_output_def
  plain_text_tool_result_looks_like_error_def is_digit_def isdigit_def digits_value_def
  signed_digits_def coerce_boolean_string_def coerce_integer_string_def float_shape_def
  float_reads_def coerce_number_string_def coerce_scalar_string_def parse_json_container_string_def
  split_nullable_json_type_def union_branch_type_token_def peel_simple_nullable_union_def
  resolve_bindable_json_type_def schema_type_names_def schema_allows_null_def primary_json_type_def
  null_string_def coerce_string_for_primary_type_def coerce_dict_to_string_def
  coerce_list_to_string_def coerce_llm_json_from_schema_def overlay_bound_tool_arguments_def
  bound_arguments_from_step_def validation_error_def validate_against_schema_def
  admit_and_validate_def validate_execution_output_def phi_split_def estimate_chars_def
  calibrate_def ascii_char_def text_dumps_def dumps_def tool_call_as_dict_def calls_text_def
  message_chars_def message_char_footprint_def estimate_messages_def message_lines_def
  serialize_for_estimate_def context_limit_from_env_def memory_compression_enabled_from_env_def
  usable_headroom_def context_headroom_from_env_def effective_context_limit_def group_messages_def
  is_digest_def partition_messages_def compute_budgets_def is_over_budget_def is_over_def
  is_word_char_def word_prefix_def tool_status_from_message_def one_line_def thought_bullet_def
  tool_bullet_def digest_bullets_for_group_def tier2_digest_def empty_stats_def to_usage_memory_def
  context_overflow_def reassemble_def compress_if_needed_def hex_value_def is_alpha_def
  scheme_of_def urlsplit_def uses_netloc_def urlunsplit_def is_ident_char_def param_at_def
  uri_matches_def uri_error_def compile_resource_allowlist_def match_template_def assert_allowed_def
  contains_traversal_tokens_def is_control_def normalized_uri_path_def bindings_of_def
  validate_and_bind_resource_uri_def normalize_single_resource_content_def
  normalize_resource_content_def tool_char_def strip_underscores_def sanitize_mcp_tool_name_def
  suffixed_name_def allocate_unique_sanitized_name_def allowlist_matches_def
  matching_allowlist_entry_def allowlist_entry_satisfied_def get_warden_tool_input_schema_def
  get_warden_tool_mcp_name_def mcp_name_or_def tool_matches_allow_name_def keyword_argument_def
  strip_of_def part_line_def tool_result_text_def skill_error_def sorted_names_def
  execute_load_skill_def string_field_def tool_fields_def inherit_names_def
  stdio_env_inherit_names_def resolve_stdio_subprocess_env_def missing_stdio_env_vars_def
  header_placeholder_def resolve_http_headers_def source_has_required_resources_def
  bindable_fields_def convert_mcp_to_langchain_def spec_for_tool_def reserved_name_def
  skills_bodies_from_context_def load_skill_tools_def mcp_unavailable_message_def coverage_dict_def
  submit_text_retries_from_env_def submit_payload_from_call_def tool_not_found_def selected_tool_def
  resolve_mcp_tool_args_def mcp_fact_tool_name_def tool_message_def collect_last_tool_errors_def
  no_submit_def facts_error_def extraction_failed_def tool_results_index_def error_pos_def
  json_parse_failure_is_likely_truncation_def truncated_tool_result_def parse_tool_result_object_def
  jsonpath_values_def coerce_field_value_def extract_step_facts_def unfenced_def braced_def
  parse_json_object_from_assistant_text_def structured_output_failed_def
  schema_validation_failed_def schema_attempts_def unicode_dumps_def
  append_json_mode_instruction_def schema_validation_feedback_def skill_tool_names_from_doc_def
  put_spec_def union_tool_specs_with_skill_tools_def skill_missing_def resolve_skills_for_step_def
  coerce_rendered_string_def resolve_step_prompt_def human_message_content_def
  validate_payload_against_def validate_submit_payload_def validate_structured_payload_def
  reason_step_output_envelope_def count_assistant_turns_def append_submit_schema_feedback_def
  submit_tool_error_def spec_names_def resolve_effective_schema_def unsupported_by_simple_def
  commit_error_details_def commit_arguments_def outcome_of_def adapter_of_def

lemmas agent_loops = retry_async.simps read_from_sessions.simps list_mcp_paginated.simps load_tools.simps
  process_mcp_sources.simps react_turns.simps structured_attempts.simps react_attempts.simps
  for_each.simps map_m.simps

lemmas agent_simps =
  run_agent agent_data run_data demo_execution_def demo_world_fields agent_env_fields demo_exit_def
  new_run_def no_usage_def Let_def omit_disallowed_nulls.simps and_then_def map_error_def
  submit_tool_name_def load_skill_tool_name_def demo_search_def demo_submit_def demo_tool_def field_or_def
  dump_mcp_server_def dump_with_def numeral_3_eq_3 max_tool_name_len_def

section \<open>Runs that return\<close>

lemma run_bind_Inr: "bind m k r = (Inr y, r') \<longleftrightarrow> (\<exists>x r1. m r = (Inr x, r1) \<and> k x r1 = (Inr y, r'))"
  by (auto simp: bind_def split: prod.splits sum.splits)

lemma run_step_Inr:
  "return x r = (Inr y, r') \<longleftrightarrow> y = x \<and> r' = r" "raise e r = (Inr y, r') \<longleftrightarrow> False"
  "gets f r = (Inr y, r') \<longleftrightarrow> y = f r \<and> r' = r" "modify g r = (Inr u, r') \<longleftrightarrow> r' = g r"
  "(if c then raise e else m) r = (Inr y, r') \<longleftrightarrow> \<not> c \<and> m r = (Inr y, r')"
  by (auto simp: monad_simps)

lemma build_run:
  assumes "compile_resource_allowlist resources = Inr allow" "spec_by_name_rejecting_load_skill specs [] = Inr by_name"
    and "list_of (dget ''tool_sources'' body) \<noteq> []"
    and "process_mcp_sources E W (map dump_mcp_server (list_of (dget ''tool_sources'' body))) by_name allow omit
      (r\<lparr>loaded_names := [], used_names := [], source_failures := [], source_sessions := [], resource_coverage := []\<rparr>)
     = (Inr mcp, r1)"
    and "load_skill_tool_name \<notin> set (loaded_names r1)"
    and "seq (require_resources allow) (seq (require_tools (map fst by_name)) (read_resource_tools allow vars)) r1 = (Inr readers, r2)"
  shows "build_tools_for_worker E W body specs resources [] definitions vars omit r = (Inr (mcp @ readers), r2)"
  using assms
  by (auto simp: build_tools_for_worker_def Let_def seq_def run_bind_Inr run_step_Inr skill_ids_from_specs_def load_skill_tools_def
      of_sum_def return_def modify_def)

section \<open>The tools of the command\<close>

lemma shown_name: "allocate_unique_sanitized_name ''search'' [] = ''search''"
  by code_simp

lemma demo_has_source: "list_of (dget ''tool_sources'' demo_worker) \<noteq> []"
  by (simp add: demo_worker_def dget_def)

lemma demo_sources:
  "process_mcp_sources agent_env demo_world (map dump_mcp_server (list_of (dget ''tool_sources'' demo_worker)))
     [(''search'', JObj [(''name'', JStr ''search'')])] None []
     (new_run\<lparr>loaded_names := [], used_names := [], source_failures := [], source_sessions := [], resource_coverage := []\<rparr>)
   = (Inr [\<lparr>tl_name = ''search'', tl_kind = Mcp_kind 0 demo_tool [(''name'', JStr ''search'')]
              [\<lparr>af_name = ''q'', af_type = ''string'', af_required = False\<rparr>]\<rparr>],
      new_run\<lparr>acts := [Opened (Http_endpoint (JStr ''http://h'') None), Noted (Source_attempted ''src'' ''connected'' None),
          Listed_tools 0 None, Noted (Tool_discovered ''search'' ''src'')],
        loaded_names := [''search''], used_names := [''search''], source_sessions := [(JStr ''src'', 0)]\<rparr>)"
  by (simp add: agent_simps demo_worker_def shown_name del: agent_loops allocate_unique_sanitized_name_def)

lemma demo_tools:
  "build_tools_for_worker agent_env demo_world demo_worker [JObj [(''name'', JStr ''search'')]] [] [] [] [] [] new_run
   = (Inr [\<lparr>tl_name = ''search'', tl_kind = Mcp_kind 0 demo_tool [(''name'', JStr ''search'')]
              [\<lparr>af_name = ''q'', af_type = ''string'', af_required = False\<rparr>]\<rparr>],
      new_run\<lparr>acts := [Opened (Http_endpoint (JStr ''http://h'') None), Noted (Source_attempted ''src'' ''connected'' None),
          Listed_tools 0 None, Noted (Tool_discovered ''search'' ''src''), Noted (Tools_loaded [''search''] [])],
        loaded_names := [''search''], used_names := [''search''], source_sessions := [(JStr ''src'', 0)]\<rparr>)"
proof -
  have named: "spec_by_name_rejecting_load_skill [JObj [(''name'', JStr ''search'')]] []
      = Inr [(''search'', JObj [(''name'', JStr ''search'')])]"
    and none: "compile_resource_allowlist [] = Inr None"
    by code_simp+
  show ?thesis
    by (rule build_run [OF none named demo_has_source demo_sources, where readers = "[]", simplified append_Nil2])
      (simp_all add: require_resources_def require_tools_def read_resource_tools_def tell_def act_def monad_simps
        Let_def allowlist_entry_satisfied_def load_skill_tool_name_def new_run_def)
qed

lemma demo_commit_body:
  "\<exists>r. commit_body agent_env demo_world (ex_command (demo_execution DO_COMMIT ''react'')) demo_worker [(''q'', JStr ''x'')]
         (ex_prepared (demo_execution DO_COMMIT ''react'')) ''search'' new_run = (Inr (''search'', ''found''), r)
     \<and> filter is_tool_call (acts r) = [Called 0 ''search'' [(''q'', JStr ''x''), (''warden_idempotency_key'', JStr ''fwd-t-s'')]]"
  by (simp add: commit_body_def bind_def demo_execution_def demo_tools)
    (simp add: agent_simps del: agent_loops)

end
