(* ===== verification/Endings.thy ===== *)
theory Endings imports Demo begin

text \<open>
  How a run ends: what holds of its state when an operation returns (\<open>ensures\<close>), and with it the
  end of the loop by a lone \<open>_submit\<close>, the token budget, the schema of the result, and the single call
  of a commit.
\<close>

section \<open>What holds on return\<close>

definition ensures :: "(run \<Rightarrow> bool) \<Rightarrow> 'a A \<Rightarrow> ('a \<Rightarrow> run \<Rightarrow> bool) \<Rightarrow> bool" where
  "ensures P m Q \<longleftrightarrow> (\<forall>r x r'. P r \<longrightarrow> m r = (Inr x, r') \<longrightarrow> Q x r')"

lemma ensuresD: "ensures P m Q \<Longrightarrow> m r = (Inr x, r') \<Longrightarrow> P r \<Longrightarrow> Q x r'"
  unfolding ensures_def by blast

lemma ensures_return: "(\<And>r. P r \<Longrightarrow> Q x r) \<Longrightarrow> ensures P (return x) Q"
  by (simp add: ensures_def return_def)

lemma ensures_raise: "ensures P (raise e) Q"
  by (simp add: ensures_def raise_def)

lemma ensures_bind: "ensures P m R \<Longrightarrow> (\<And>x. ensures (R x) (k x) Q) \<Longrightarrow> ensures P (bind m k) Q"
  unfolding ensures_def bind_def by (fastforce split: prod.splits sum.splits)

lemma ensures_any: "ensures P m (\<lambda>_ _. True)"
  by (simp add: ensures_def)

lemma ensures_after: "(\<And>x. ensures (\<lambda>_. True) (k x) Q) \<Longrightarrow> ensures P (bind m k) Q"
  by (rule ensures_bind [OF ensures_any])

lemma ensures_seq: "ensures P m (\<lambda>_. R) \<Longrightarrow> ensures R k Q \<Longrightarrow> ensures P (seq m k) Q"
  unfolding seq_def by (rule ensures_bind)

lemma ensures_after_seq: "ensures (\<lambda>_. True) k Q \<Longrightarrow> ensures P (seq m k) Q"
  by (rule ensures_seq [where R = "\<lambda>_. True"]) (simp_all add: ensures_any)

lemma ensures_weaken:
  "ensures P' m Q' \<Longrightarrow> (\<And>r. P r \<Longrightarrow> P' r) \<Longrightarrow> (\<And>x r. Q' x r \<Longrightarrow> Q x r) \<Longrightarrow> ensures P m Q"
  unfolding ensures_def by blast

lemma ensures_yields: "yields m Q \<Longrightarrow> ensures P m (\<lambda>x _. Q x)"
  by (simp add: ensures_def yields_def)

lemma ensures_try: "ensures P m Q \<Longrightarrow> (\<And>e. ensures (\<lambda>_. True) (h e) Q) \<Longrightarrow> ensures P (try_except m h) Q"
  unfolding ensures_def try_except_def by (fastforce split: prod.splits sum.splits)

lemma ensures_exit_stack:
  assumes "ensures P m (\<lambda>x r. Q x r)"
  shows "ensures P (with_exit_stack X m) Q"
proof -
  have body: "ensures P (try_except m (\<lambda>e. bind (gets acts) (\<lambda>before. raise (exit_with X before e)))) Q"
    by (rule ensures_try [OF assms], rule ensures_after, rule ensures_raise)
  have rest: "ensures (Q x) (bind (gets acts) (\<lambda>before. case exit_error X before of Some e \<Rightarrow> raise e | None \<Rightarrow> return x)) Q" for x
    by (auto simp: ensures_def bind_def gets_def raise_def return_def split: option.splits)
  show ?thesis
    unfolding with_exit_stack_def by (rule ensures_bind [OF body rest])
qed

section \<open>The lone \<open>_submit\<close>\<close>

definition submitted :: "dict \<Rightarrow> run \<Rightarrow> bool" where
  "submitted payload r \<longleftrightarrow> (\<exists>earlier content tc. tc_name tc = submit_tool_name \<and> payload = submit_payload_from_call tc
     \<and> transcript r = earlier @ [\<lparr>cm_role = Role_assistant, cm_content = content, cm_tool_call_id = None,
                                   cm_name = None, cm_tool_calls = [tc]\<rparr>])"

definition answered :: "tool_call list \<Rightarrow> run \<Rightarrow> bool" where
  "answered tcs r \<longleftrightarrow> (\<exists>earlier content. transcript r = earlier @ [\<lparr>cm_role = Role_assistant, cm_content = content,
     cm_tool_call_id = None, cm_name = None, cm_tool_calls = tcs\<rparr>])"

lemma checks_local: "for_each tcs (\<lambda>tc. check_allowlist_tool_name names (tc_name tc)) r = (x, r') \<Longrightarrow> r' = r"
  by (induction tcs arbitrary: x)
    (auto simp: check_allowlist_tool_name_def Let_def monad_simps split: if_splits prod.splits sum.splits)

lemma submitted_by_process:
  "ensures P (process_tool_calls E W c response) (\<lambda>payload r. case payload of None \<Rightarrow> True | Some p \<Rightarrow> submitted p r)"
proof -
  have appended: "ensures Q (append_message \<lparr>cm_role = Role_assistant, cm_content = content, cm_tool_call_id = None,
      cm_name = None, cm_tool_calls = tcs\<rparr>) (\<lambda>_. answered tcs)" for content tcs Q
    by (auto simp: ensures_def append_message_def modify_def answered_def)
  have checked: "ensures (answered tcs) (for_each tcs' (\<lambda>tc. check_allowlist_tool_name names (tc_name tc))) (\<lambda>_. answered tcs)"
    for tcs tcs' names
    by (auto simp: ensures_def dest: checks_local)
  have batch: "ensures Q (seq (execute_tool_batch E W c tcs) (return None))
      (\<lambda>payload r. case payload of None \<Rightarrow> True | Some p \<Rightarrow> submitted p r)" for tcs Q
    by (rule ensures_after_seq, rule ensures_return) simp
  have result: "ensures (answered tcs) (case tcs of
        [tc] \<Rightarrow>
          if tc_name tc = submit_tool_name then return (Some (submit_payload_from_call tc))
          else seq (execute_tool_batch E W c [tc]) (return None)
      | _ \<Rightarrow> seq (execute_tool_batch E W c tcs) (return None))
      (\<lambda>payload r. case payload of None \<Rightarrow> True | Some p \<Rightarrow> submitted p r)" for tcs
  proof (cases "\<exists>tc. tcs = [tc] \<and> tc_name tc = submit_tool_name")
    case True
    then show ?thesis by (auto intro!: ensures_return simp: answered_def submitted_def)
  next
    case False
    then show ?thesis by (auto split: list.split simp: batch)
  qed
  show ?thesis
    unfolding process_tool_calls_def
    by (rule ensures_after, rule ensures_seq [OF appended], rule ensures_seq [OF checked result])
qed

lemma submitted_by_turn:
  "ensures P (react_loop_turn E W c n allow) (\<lambda>t r. case t of Turn_continue _ \<Rightarrow> True | Submitted p \<Rightarrow> submitted p r)"
proof -
  have processed: "ensures Q (bind (process_tool_calls E W c response) (\<lambda>payload.
          return (case payload of Some p \<Rightarrow> Submitted p | None \<Rightarrow> Turn_continue False)))
      (\<lambda>t r. case t of Turn_continue _ \<Rightarrow> True | Submitted p \<Rightarrow> submitted p r)" for response Q
    by (rule ensures_bind [OF submitted_by_process], rule ensures_return) (simp split: option.splits)
  have recovered: "ensures Q (seq m (seq m' (return (Turn_continue True))))
      (\<lambda>t r. case t of Turn_continue _ \<Rightarrow> True | Submitted p \<Rightarrow> submitted p r)" for m m' Q
    by (rule ensures_after_seq, rule ensures_after_seq, rule ensures_return) simp
  have stopped: "ensures Q (raise_no_submit reason n c content) R" for Q R reason content
    unfolding raise_no_submit_def by (rule ensures_after, rule ensures_raise)
  show ?thesis
    unfolding react_loop_turn_def by (rule ensures_after) (auto simp: processed recovered stopped)
qed

lemma submitted_by_turns: "ensures P (react_turns E W c left recoveries n) submitted"
proof (induction E W c left recoveries n arbitrary: P rule: react_turns.induct)
  case (1 E W c recoveries n)
  then show ?case by (simp add: raise_no_submit_def ensures_after ensures_raise)
next
  case (2 E W c left recoveries n)
  show ?case
    unfolding react_turns.simps
    by (rule ensures_bind [OF submitted_by_turn])
      (use 2 in \<open>auto intro!: ensures_return split: turn_result.split nat.split\<close>)
qed

text \<open>C10: the loop returns a result only by a lone \<open>_submit\<close>: the transcript ends with an assistant
  message whose only tool call is \<open>_submit\<close>, and the result is what that call carries.\<close>

theorem loop_ends_by_lone_submit:
  assumes "run_react_loop E W c messages r = (Inr payload, r')"
  shows "\<exists>earlier content tc. tc_name tc = ''_submit'' \<and> payload = submit_payload_from_call tc
    \<and> transcript r' = earlier @ [\<lparr>cm_role = Role_assistant, cm_content = content, cm_tool_call_id = None,
                                  cm_name = None, cm_tool_calls = [tc]\<rparr>]"
proof -
  have "ensures (\<lambda>_. True) (run_react_loop E W c messages) submitted"
    unfolding run_react_loop_def by (rule ensures_after_seq, rule submitted_by_turns)
  from ensuresD [OF this assms] show ?thesis
    by (simp add: submitted_def submit_tool_name_def)
qed

lemma loop_ends_by_lone_submit_witness:
  "\<exists>r' earlier content tc.
     run_react_loop agent_env demo_world \<lparr>rc_tools = [], rc_allowed = [], rc_bound = [], rc_max_turns = 1,
       rc_max_step_tokens = None\<rparr> [] (new_run\<lparr>acts := [Called 0 ''search'' []]\<rparr>) = (Inr [(''summary'', JStr ''s'')], r')
     \<and> tc_name tc = ''_submit''
     \<and> transcript r' = earlier @ [\<lparr>cm_role = Role_assistant, cm_content = content, cm_tool_call_id = None,
                                   cm_name = None, cm_tool_calls = [tc]\<rparr>]"
proof -
  obtain r' where run: "run_react_loop agent_env demo_world \<lparr>rc_tools = [], rc_allowed = [], rc_bound = [],
      rc_max_turns = 1, rc_max_step_tokens = None\<rparr> [] (new_run\<lparr>acts := [Called 0 ''search'' []]\<rparr>)
    = (Inr [(''summary'', JStr ''s'')], r')"
    by (simp add: agent_simps del: agent_loops)
  from loop_ends_by_lone_submit [OF this] run show ?thesis by blast
qed

section \<open>The token budget\<close>

definition in_budget :: "int option \<Rightarrow> run \<Rightarrow> bool" where
  "in_budget budget r \<longleftrightarrow> (case budget of None \<Rightarrow> True | Some limit \<Rightarrow> limit = 0 \<or> us_total (used r) \<le> limit)"

lemma within_kept: "unspent.keeping m \<Longrightarrow> ensures (in_budget budget) m (\<lambda>_. in_budget budget)"
  unfolding ensures_def in_budget_def by (auto dest!: unspent.keepingD split: option.splits)

lemma within_enforced: "ensures P (enforce_step_token_budget budget) (\<lambda>_. in_budget budget)"
  by (auto simp: ensures_def enforce_step_token_budget_def in_budget_def monad_simps split: option.splits if_splits)

lemma unspent_tools: "unspent.tool_may W k"
  by (cases k) simp_all

lemma within_ask: "ensures P (ask_model E W c) (\<lambda>_. in_budget (rc_max_step_tokens c))"
  unfolding ask_model_def
  by (rule ensures_after_seq, rule ensures_after, rule ensures_after, rule ensures_after_seq, rule ensures_after_seq,
      rule ensures_seq [OF within_enforced], rule ensures_return)

lemma within_turn: "ensures P (react_loop_turn E W c n allow) (\<lambda>_. in_budget (rc_max_step_tokens c))"
  unfolding react_loop_turn_def
  by (rule ensures_bind [OF within_ask], rule within_kept)
    (auto intro!: unspent.keeping_bind unspent.keeping_seq unspent.keeping_process unspent_tools)

lemma within_turns: "ensures P (react_turns E W c left recoveries n) (\<lambda>_. in_budget (rc_max_step_tokens c))"
proof (induction E W c left recoveries n arbitrary: P rule: react_turns.induct)
  case (1 E W c recoveries n)
  then show ?case by (simp add: raise_no_submit_def ensures_after ensures_raise)
next
  case (2 E W c left recoveries n)
  show ?case
    unfolding react_turns.simps
    by (rule ensures_bind [OF within_turn])
      (use 2 in \<open>auto intro!: ensures_return split: turn_result.split nat.split\<close>)
qed

lemma within_loop: "ensures P (run_react_loop E W c ms) (\<lambda>_. in_budget (rc_max_step_tokens c))"
  unfolding run_react_loop_def by (rule ensures_after_seq, rule within_turns)

lemma within_attempts:
  "ensures P (react_attempts E W c schema budget ms n) (\<lambda>_. in_budget (rc_max_step_tokens c))"
proof (induction n arbitrary: P c ms)
  case 0
  then show ?case by (simp add: ensures_raise)
next
  case (Suc n)
  have failed: "ensures Q (invoke_failed phase e :: dict A) R" for Q phase e R
    by (simp add: invoke_failed_def ensures_raise split: py_exc.split)
  have again: "ensures Q (react_attempts E W (c\<lparr>rc_max_turns := k\<rparr>) schema budget ms' n) (\<lambda>_. in_budget (rc_max_step_tokens c))"
    for Q k ms'
    using Suc.IH [of Q "c\<lparr>rc_max_turns := k\<rparr>" ms'] by simp
  show ?case
    unfolding react_attempts.simps
    by (rule ensures_bind [OF ensures_try [OF within_loop failed]])
      (auto split: sum.split intro!: ensures_return ensures_after again)
qed

lemma within_structured: "ensures P (structured_attempts E W schema budget n ms) (\<lambda>_. in_budget budget)"
proof (induction n arbitrary: P ms)
  case 0
  then show ?case by (simp add: ensures_raise)
next
  case (Suc n)
  have attempt: "ensures Q (structured_completion_attempt E W ms schema budget) (\<lambda>_. in_budget budget)" for Q
    unfolding structured_completion_attempt_def
    by (rule ensures_after, clarify, rule ensures_after_seq, rule ensures_seq [OF within_enforced])
      (auto split: option.split intro!: ensures_return ensures_raise)
  show ?case
    unfolding structured_attempts.simps
    by (rule ensures_bind [OF attempt]) (auto split: sum.split intro!: ensures_return ensures_raise Suc)
qed

lemma within_finalized: "ensures (in_budget budget) (finalize_reason_step E allowed validate payload specs) (\<lambda>_. in_budget budget)"
  by (rule within_kept) (rule unspent.keeping_finalize)

lemma within_react_step:
  "ensures P (run_react_step E W X body args p) (\<lambda>_. in_budget (effective_max_step_tokens E (pr_max_step_tokens p)))"
proof -
  have attempts: "ensures Q (react_attempts E W \<lparr>rc_tools = a, rc_allowed = b, rc_bound = c, rc_max_turns = d,
      rc_max_step_tokens = effective_max_step_tokens E (pr_max_step_tokens p)\<rparr> schema budget ms n)
      (\<lambda>_. in_budget (effective_max_step_tokens E (pr_max_step_tokens p)))" for Q a b c d schema budget ms n
    using within_attempts [of Q E W "\<lparr>rc_tools = a, rc_allowed = b, rc_bound = c, rc_max_turns = d,
      rc_max_step_tokens = effective_max_step_tokens E (pr_max_step_tokens p)\<rparr>"] by simp
  have body: "ensures Q (react_body E W body args p specs index)
      (\<lambda>_. in_budget (effective_max_step_tokens E (pr_max_step_tokens p)))" for Q specs index
    unfolding react_body_def Let_def
    by (rule ensures_after, rule ensures_after_seq, rule ensures_after, rule ensures_after_seq, rule ensures_after_seq,
        rule ensures_bind [OF attempts within_finalized])
  show ?thesis
    unfolding run_react_step_def
    by (rule ensures_after, clarify, rule ensures_after_seq, rule ensures_exit_stack, rule body)
qed

lemma within_simple_step:
  "ensures P (run_simple_step E W body args p) (\<lambda>_. in_budget (effective_max_step_tokens E (pr_max_step_tokens p)))"
proof -
  have failed: "ensures Q (invoke_failed phase e :: dict A) R" for Q phase e R
    by (simp add: invoke_failed_def ensures_raise split: py_exc.split)
  have written: "ensures (in_budget budget) (modify (\<lambda>r. r\<lparr>transcript := f r, tool_results := []\<rparr>)) (\<lambda>_. in_budget budget)" for f budget
    by (rule within_kept) (simp add: unspent.keeping_modify local_change_def)
  show ?thesis
    unfolding run_simple_step_def invoke_structured_output_def Let_def
    by (rule ensures_after_seq, rule ensures_after_seq, rule ensures_after, rule ensures_after_seq, rule ensures_after_seq,
        rule ensures_bind [OF ensures_try [OF within_structured failed]], rule ensures_seq [OF written within_finalized])
qed

lemma commit_spends_nothing: "unspent.keeping (run_commit E W X c body args p schema)"
  by (rule unspent.keeping_commit [of W DO_COMMIT]) (simp_all add: unspent.may_run_def)

lemma compensation_spends_nothing: "unspent.keeping (run_compensation E W X c body args p)"
  unfolding run_compensation_def Let_def
  by (auto split: list.split intro!: unspent.keeping_bind commit_spends_nothing)

lemma spent: "cmd_type (ex_command x) \<noteq> DO_STEP \<Longrightarrow> run_adapter E W X x new_run = (y, r) \<Longrightarrow> us_total (used r) = 0"
proof -
  assume "cmd_type (ex_command x) \<noteq> DO_STEP" and run: "run_adapter E W X x new_run = (y, r)"
  then have "unspent.keeping (run_adapter E W X x)"
    by (cases "cmd_type (ex_command x)")
      (auto simp: run_adapter_def Let_def commit_spends_nothing compensation_spends_nothing)
  from unspent.keepingD [OF this run] show ?thesis by (simp add: new_run_def no_usage_def)
qed

lemma effective_limit_positive: "effective_max_step_tokens E v = Some limit \<Longrightarrow> limit > 0"
  by (auto simp: effective_max_step_tokens_def effective_max_tokens_def Let_def split: option.splits if_splits)


lemma demo_step_run:
  "\<exists>r. run_adapter agent_env demo_world demo_exit (demo_execution DO_STEP ''simple'') new_run
       = (Inr [(''data'', JObj [(''summary'', JStr ''s'')])], r) \<and> us_total (used r) = 15"
  by (simp add: agent_simps del: agent_loops)


section \<open>The schema of a result\<close>

lemma validated_payload:
  "validate_payload_against E W (JObj (s # ss)) payload = Inr d \<Longrightarrow> jsonschema E (JObj (s # ss)) (JObj d) = None"
  by (auto simp: validate_payload_against_def map_error_def admit_and_validate_def validate_against_schema_def Let_def
      and_then_Inr split: sum.splits option.splits)

lemma finalized_meets:
  assumes "\<And>d. validate payload = Inr d \<Longrightarrow> jsonschema E schema (JObj d) = None"
  shows "yields (finalize_reason_step E allowed validate payload specs)
    (\<lambda>out. validate_business_data_schema E (JObj out) schema label = None)"
proof -
  have "validate_business_data_schema E (JObj out) schema label = None"
    if "and_then (validate payload) (\<lambda>validated.
          and_then (reason_step_output_envelope E validated results specs) (\<lambda>out. Inr (validated, out))) = Inr (d, out)"
    for results d out
    using that assms
    by (auto simp: and_then_Inr reason_step_output_envelope_def Let_def wrap_step_output_data_def
        validate_business_data_schema_def business_data_from_step_output_def dget_dset split: if_splits)
       (simp_all add: dget_def)
  then have "yields (case and_then (validate payload) (\<lambda>validated.
          and_then (reason_step_output_envelope E validated results specs) (\<lambda>out. Inr (validated, out))) of
        Inr (validated, out) \<Rightarrow> seq (tell (f validated)) (return out) | Inl e \<Rightarrow> seq (g e) (raise e))
      (\<lambda>out. validate_business_data_schema E (JObj out) schema label = None)" for results f g
    by (auto split: sum.split prod.split intro!: yields_seq yields_return yields_raise)
  note result = this
  show ?thesis
    unfolding finalize_reason_step_def
    by (rule yields_bind [OF yields_any], clarify, rule yields_seq, rule result)
qed

lemma yields_exit_stack: "yields m Q \<Longrightarrow> yields (with_exit_stack X m) Q"
  using ensures_exit_stack [of "\<lambda>_. True" m "\<lambda>x _. Q x" X] by (simp add: ensures_def yields_def)

definition engine_accepts :: "env \<Rightarrow> json \<Rightarrow> dict \<Rightarrow> bool" where
  "engine_accepts E schema out \<longleftrightarrow> (\<forall>label. validate_business_data_schema E (JObj out) schema label = None)"

lemma react_step_meets:
  assumes "pr_output_schema p = JObj (s # ss)"
  shows "yields (run_react_step E W X body args p) (engine_accepts E (JObj (s # ss)))"
proof -
  have final: "yields (finalize_reason_step E allowed (validate_submit_payload E W (JObj (s # ss))) payload specs)
      (engine_accepts E (JObj (s # ss)))" for allowed payload specs
    unfolding engine_accepts_def
    by (auto simp: yields_def validate_submit_payload_def validated_payload split: if_splits
        dest!: yieldsD [OF finalized_meets [where schema = "JObj (s # ss)"], rotated])
  show ?thesis
    unfolding run_react_step_def react_body_def Let_def assms
    by (rule yields_bind [OF yields_any], clarify, rule yields_seq, rule yields_exit_stack, rule yields_bind [OF yields_any],
        rule yields_seq, rule yields_bind [OF yields_any], rule yields_seq, rule yields_seq,
        rule yields_bind [OF yields_any], rule final)
qed

lemma simple_step_meets:
  assumes "pr_output_schema p = JObj (s # ss)"
  shows "yields (run_simple_step E W body args p) (engine_accepts E (JObj (s # ss)))"
proof -
  have final: "yields (finalize_reason_step E [] (validate_structured_payload E W (JObj (s # ss))) payload [])
      (engine_accepts E (JObj (s # ss)))" for payload
    unfolding engine_accepts_def
    by (auto simp: yields_def validate_structured_payload_def validated_payload split: if_splits
        dest!: yieldsD [OF finalized_meets [where schema = "JObj (s # ss)"], rotated])
  show ?thesis
    unfolding run_simple_step_def Let_def assms
    by (rule yields_seq, rule yields_seq, rule yields_bind [OF yields_any], rule yields_seq, rule yields_seq,
        rule yields_bind [OF yields_any], rule yields_seq, rule final)
qed

lemma commit_meets: "yields (run_commit E W X c body args p (JObj (s # ss))) (engine_accepts E (JObj (s # ss)))"
proof -
  have parsed: "yields (case json_load E answer of
         Inr (JObj d) \<Rightarrow>
           (case (if truthy (JObj (s # ss)) then validate_against_schema E (JObj d) (JObj (s # ss)) else Inr ()) of
              Inr _ \<Rightarrow> return (coerce_dict (wrap_step_output_data (JObj d)))
            | Inl e \<Rightarrow> raise (f e))
       | _ \<Rightarrow> raise e') (engine_accepts E (JObj (s # ss)))" for answer f e'
    by (auto simp: yields_def raise_def return_def engine_accepts_def validate_against_schema_def wrap_step_output_data_def
        validate_business_data_schema_def business_data_from_step_output_def dget_def
        split: sum.splits json.splits option.splits)
  show ?thesis
    unfolding run_commit_def
    by (auto split: list.split intro!: yields_raise yields_bind [OF yields_any] parsed)
qed

text \<open>C9: the output of a reason step or a commit that completes passes the check that the engine makes of
  a completed step against the same output schema, whatever the model and the tools answered.\<close>

theorem completed_output_meets_schema:
  assumes "run_adapter E W X x r = (Inr out, r')" and "cmd_type (ex_command x) \<noteq> EXECUTE_COMPENSATION"
    and "pr_output_schema (ex_prepared x) = JObj (s # ss)"
  shows "validate_business_data_schema E (JObj out) (JObj (s # ss)) label = None"
proof -
  have "engine_accepts E (JObj (s # ss)) out"
  proof (cases "cmd_type (ex_command x)")
    case DO_STEP
    with assms(1) show ?thesis
      by (auto simp: run_adapter_def run_step_def Let_def split: if_splits
          dest: yieldsD [OF react_step_meets [OF assms(3)]] yieldsD [OF simple_step_meets [OF assms(3)]])
  next
    case DO_COMMIT
    with assms(1,3) show ?thesis
      by (auto simp: run_adapter_def Let_def dest!: yieldsD [OF commit_meets])
  qed (use assms(2) in simp)
  then show ?thesis by (simp add: engine_accepts_def)
qed

lemma completed_output_meets_schema_witness:
  "\<exists>out r. run_adapter agent_env demo_world demo_exit (demo_execution DO_STEP ''simple'') new_run = (Inr out, r)
     \<and> validate_business_data_schema agent_env (JObj out) (JObj [(''type'', JStr ''object'')]) ''output'' = None"
proof -
  obtain out r where run: "run_adapter agent_env demo_world demo_exit (demo_execution DO_STEP ''simple'') new_run = (Inr out, r)"
    using demo_step_run by blast
  have "validate_business_data_schema agent_env (JObj out) (JObj [(''type'', JStr ''object'')]) ''output'' = None"
    by (rule completed_output_meets_schema [OF run]) (simp_all add: demo_execution_def)
  with run show ?thesis by blast
qed

section \<open>The call of a commit\<close>

definition calls_once :: "(act \<Rightarrow> bool) \<Rightarrow> 'a A \<Rightarrow> bool" where
  "calls_once P m \<longleftrightarrow> (\<forall>r. \<exists>cs. filter is_tool_call (acts (snd (m r))) = filter is_tool_call (acts r) @ cs
     \<and> length cs \<le> 1 \<and> list_all P cs)"

lemma calls_none: "uncalled.keeping m \<Longrightarrow> calls_once P m"
  unfolding calls_once_def uncalled.keeping_def by (auto intro: exI [of _ "[]"])

lemma calls_after: "uncalled.keeping m \<Longrightarrow> (\<And>x. calls_once P (k x)) \<Longrightarrow> calls_once P (bind m k)"
  unfolding calls_once_def
proof
  fix r
  assume m: "uncalled.keeping m" and k: "\<And>x. \<forall>r. \<exists>cs. filter is_tool_call (acts (snd (k x r)))
    = filter is_tool_call (acts r) @ cs \<and> length cs \<le> 1 \<and> list_all P cs"
  obtain x r' where r': "m r = (x, r')" by fastforce
  note kept = uncalled.keepingD [OF m r']
  show "\<exists>cs. filter is_tool_call (acts (snd (bind m k r)))
    = filter is_tool_call (acts r) @ cs \<and> length cs \<le> 1 \<and> list_all P cs"
  proof (cases x)
    case (Inl e)
    with r' kept show ?thesis by (auto simp: bind_def intro: exI [of _ "[]"])
  next
    case (Inr y)
    obtain cs where "filter is_tool_call (acts (snd (k y r'))) = filter is_tool_call (acts r') @ cs"
      "length cs \<le> 1" "list_all P cs"
      using k [of y] by blast
    with r' kept Inr show ?thesis by (auto simp: bind_def)
  qed
qed

lemma calls_after_seq: "uncalled.keeping m \<Longrightarrow> calls_once P k \<Longrightarrow> calls_once P (seq m k)"
  unfolding seq_def by (rule calls_after)

lemma calls_before: "calls_once P m \<Longrightarrow> (\<And>x. uncalled.keeping (k x)) \<Longrightarrow> calls_once P (bind m k)"
  unfolding calls_once_def
proof
  fix r
  assume m: "\<forall>r. \<exists>cs. filter is_tool_call (acts (snd (m r))) = filter is_tool_call (acts r) @ cs \<and> length cs \<le> 1 \<and> list_all P cs"
    and k: "\<And>x. uncalled.keeping (k x)"
  obtain x r' where r': "m r = (x, r')" by fastforce
  obtain cs where cs: "filter is_tool_call (acts r') = filter is_tool_call (acts r) @ cs" "length cs \<le> 1" "list_all P cs"
    using m r' by (metis snd_conv)
  have "filter is_tool_call (acts (snd (bind m k r))) = filter is_tool_call (acts r')"
    using r' k by (cases x) (simp_all add: bind_def uncalled.keeping_def)
  with cs show "\<exists>cs. filter is_tool_call (acts (snd (bind m k r)))
    = filter is_tool_call (acts r) @ cs \<and> length cs \<le> 1 \<and> list_all P cs" by auto
qed

lemma calls_try: "calls_once P m \<Longrightarrow> (\<And>e. uncalled.keeping (h e)) \<Longrightarrow> calls_once P (try_except m h)"
  unfolding calls_once_def
proof
  fix r
  assume m: "\<forall>r. \<exists>cs. filter is_tool_call (acts (snd (m r))) = filter is_tool_call (acts r) @ cs \<and> length cs \<le> 1 \<and> list_all P cs"
    and h: "\<And>e. uncalled.keeping (h e)"
  obtain x r' where r': "m r = (x, r')" by fastforce
  obtain cs where cs: "filter is_tool_call (acts r') = filter is_tool_call (acts r) @ cs" "length cs \<le> 1" "list_all P cs"
    using m r' by (metis snd_conv)
  have "filter is_tool_call (acts (snd (try_except m h r))) = filter is_tool_call (acts r')"
    using r' h by (cases x) (simp_all add: try_except_def uncalled.keeping_def)
  with cs show "\<exists>cs. filter is_tool_call (acts (snd (try_except m h r)))
    = filter is_tool_call (acts r) @ cs \<and> length cs \<le> 1 \<and> list_all P cs" by auto
qed

lemma calls_exit_stack: "calls_once P m \<Longrightarrow> calls_once P (with_exit_stack X m)"
  unfolding with_exit_stack_def
  by (rule calls_before, rule calls_try) (auto split: option.split intro!: uncalled.keeping_bind)

lemma calls_raw: "P (Called s name args) \<Longrightarrow> calls_once P (raw_executor W s name args)"
  unfolding raw_executor_def
  by (rule calls_before)
    (auto simp: calls_once_def call_def act_def monad_simps split: sum.split prod.split)

lemma calls_run_tool:
  assumes "\<And>s name. P (Called s name (drop_none kwargs))"
  shows "calls_once P (run_tool E W t kwargs)"
proof (cases "tl_kind t")
  case (Mcp_kind s m spec shown)
  have "uncalled.keeping (validate_tool_input E n args schema)" "uncalled.keeping (validate_tool_output E raw n schema)"
    for n args schema raw
    by (auto simp: validate_tool_input_def validate_tool_output_def split: sum.split intro!: uncalled.keeping_seq)
  with Mcp_kind assms show ?thesis
    unfolding run_tool_def execute_tool_def execute_with_governance_def run_tool_executor_def Let_def
    by (auto intro!: calls_after_seq calls_before calls_try calls_raw uncalled.keeping_seq)
next
  case (Read_kind allow vars)
  then show ?thesis
    by (auto simp: run_tool_def intro!: calls_none uncalled.keeping_read_resource)
next
  case (Load_kind ids bodies)
  then show ?thesis by (simp add: run_tool_def calls_none)
qed

lemma calls_commit:
  assumes "\<And>s name fields kwargs. parse_input W fields (commit_arguments c args) = Inr kwargs
    \<Longrightarrow> P (Called s name (drop_none kwargs))"
  shows "calls_once P (run_commit E W X c body args p schema)"
proof -
  have tool: "calls_once P (ainvoke_tool E W t (commit_arguments c args))" for t
  proof (cases "parse_input W (tool_fields t) (commit_arguments c args)")
    case (Inl e)
    then show ?thesis by (simp add: ainvoke_tool_def of_sum_def calls_none)
  next
    case (Inr kwargs)
    with assms [OF this] show ?thesis by (simp add: ainvoke_tool_def of_sum_def calls_run_tool)
  qed
  have picked: "calls_once P (case ts of
       [t] \<Rightarrow>
         (let name = mcp_name_or (tl_name t) t in
          bind (try_except (ainvoke_tool E W t (commit_arguments c args))
                  (\<lambda>e. raise (Step_error (commit_error_details c (exc_str e) name) (Some name) (exc_str e)))) (\<lambda>answer.
          return (name, answer)))
     | ts \<Rightarrow> raise (f ts))" for ts f
    by (auto split: list.split simp: Let_def calls_none intro!: calls_before calls_try tool)
  have body: "calls_once P (commit_body E W c body args p allow)" for allow
    unfolding commit_body_def
    by (rule calls_after [OF _ picked], rule uncalled.keeping_build) simp_all
  show ?thesis
    unfolding run_commit_def
    by (auto split: list.split json.split sum.split simp: calls_none intro!: calls_before calls_exit_stack body)
qed

text \<open>The arguments a command forwards to its tool.\<close>

definition forwarded_arguments :: "execution \<Rightarrow> dict" where
  "forwarded_arguments x =
     (let c = ex_command x; args = coerce_dict (cmd_arguments c) in
      commit_arguments c (if cmd_type c = EXECUTE_COMPENSATION then fence_tool_arguments args (Some (cmd_key c)) else args))"


lemma demo_commit_run:
  "filter is_tool_call (acts (snd (run_adapter agent_env demo_world demo_exit (demo_execution DO_COMMIT ''react'') new_run)))
   = [Called 0 ''search'' [(''q'', JStr ''x''), (''warden_idempotency_key'', JStr ''fwd-t-s'')]]"
proof -
  obtain r where "commit_body agent_env demo_world (ex_command (demo_execution DO_COMMIT ''react'')) demo_worker
      [(''q'', JStr ''x'')] (ex_prepared (demo_execution DO_COMMIT ''react'')) ''search'' new_run = (Inr (''search'', ''found''), r)"
    and "filter is_tool_call (acts r) = [Called 0 ''search'' [(''q'', JStr ''x''), (''warden_idempotency_key'', JStr ''fwd-t-s'')]]"
    using demo_commit_body by blast
  then show ?thesis
    by (simp add: agent_simps del: agent_loops commit_body_def [THEN fun_cong])
qed


section \<open>The turns of a retry\<close>

text \<open>A model that submits, whatever it is told, a result that the schema rejects.\<close>

definition stubborn_world :: world where
  "stubborn_world = demo_world\<lparr>model_reply := (\<lambda>before ms. Inr \<lparr>cr_content = None,
     cr_tool_calls = [demo_submit\<lparr>tc_args := [(''result'', JObj [(''x'', JNull)])]\<rparr>], cr_usage = None\<rparr>)\<rparr>"

text \<open>A retry after a result that the schema rejects has at least one turn, so that a step of one turn asks
  the model once for every attempt.\<close>

theorem schema_retry_exceeds_max_turns:
  "count_calls is_model_call (snd (react_attempts agent_env stubborn_world
      \<lparr>rc_tools = [], rc_allowed = [], rc_bound = [], rc_max_turns = 1, rc_max_step_tokens = None\<rparr>
      (JObj [(''type'', JStr ''object'')]) 1 [] (schema_attempts stubborn_world) new_run)) = 2"
  by (simp add: agent_simps stubborn_world_def count_calls_def del: agent_loops)

end
