(* ===== verification/Compressing.thy ===== *)
theory Compressing imports Memory begin

text \<open>
  The compression of a transcript keeps what it must and settles: the anchors and the latest turns stay,
  in order, the result fits its budgets, and a second compression changes nothing.
\<close>

section \<open>Partition and reassembly\<close>

text \<open>A message that may follow a turn within its group; a group as the partition builds it.\<close>

definition follows_turn :: "chat_message \<Rightarrow> bool" where
  "follows_turn m \<longleftrightarrow> cm_role m \<noteq> Role_assistant \<and> cm_role m \<noteq> Role_system \<and> \<not> (cm_role m = Role_human \<and> is_digest m)"

definition turn_ok :: "turn_group \<Rightarrow> bool" where
  "turn_ok g \<longleftrightarrow> cm_role (tg_assistant g) = Role_assistant \<and> list_all follows_turn (tg_tools g)"

definition anchor_ok :: "chat_message \<Rightarrow> bool" where
  "anchor_ok m \<longleftrightarrow> cm_role m \<noteq> Role_assistant"

lemma partition_ok:
  assumes "partition_from current ms = (anchors, groups)" "\<And>g. current = Some g \<Longrightarrow> turn_ok g"
  shows "list_all anchor_ok anchors \<and> list_all turn_ok groups"
  using assms
proof (induction current ms arbitrary: anchors groups rule: partition_from.induct)
  case (1 current)
  then show ?case by (auto split: option.splits)
next
  case (2 current m ms)
  show ?case
  proof (cases "cm_role m = Role_assistant")
    case True
    obtain a g where ag: "partition_from (Some \<lparr>tg_assistant = m, tg_tools = []\<rparr>) ms = (a, g)" by fastforce
    have "list_all anchor_ok a \<and> list_all turn_ok g"
      by (rule "2.IH"(1) [OF True ag]) (auto simp: turn_ok_def True)
    with 2(4,5) True ag show ?thesis by (auto split: option.splits)
  next
    case role: False
    show ?thesis
    proof (cases "cm_role m = Role_system \<or> cm_role m = Role_human \<and> is_digest m \<or> current = None")
      case True
      obtain a g where ag: "partition_from current ms = (a, g)" by fastforce
      have "list_all anchor_ok a \<and> list_all turn_ok g"
        by (rule "2.IH"(2) [OF role True ag]) (rule 2(5))
      with 2(4) role True ag show ?thesis by (auto simp: anchor_ok_def list_all_iff)
    next
      case False
      have later: "partition_from (map_option (\<lambda>g. g\<lparr>tg_tools := tg_tools g @ [m]\<rparr>) current) ms = (anchors, groups)"
        using 2(4) role False by simp
      show ?thesis
        by (rule "2.IH"(3) [OF role False later]) (use 2(5) role False in \<open>auto simp: turn_ok_def follows_turn_def\<close>)
    qed
  qed
qed

lemma partition_tools:
  "list_all follows_turn ts \<Longrightarrow> partition_from (Some g) (ts @ ms) = partition_from (Some (g\<lparr>tg_tools := tg_tools g @ ts\<rparr>)) ms"
  by (induction ts arbitrary: g) (auto simp: follows_turn_def)

lemma partition_turn:
  "turn_ok h \<Longrightarrow> partition_from c (concat (map group_messages (h # gs)))
     = (case partition_from (Some h) (concat (map group_messages gs)) of (anchors, groups) \<Rightarrow>
          (anchors, case c of None \<Rightarrow> groups | Some g \<Rightarrow> g # groups))"
proof -
  assume h: "turn_ok h"
  have eq: "concat (map group_messages (h # gs)) = tg_assistant h # tg_tools h @ concat (map group_messages gs)"
    by (simp add: group_messages_def)
  have rebuilt: "\<lparr>tg_assistant = tg_assistant h, tg_tools = tg_tools h\<rparr> = h" by simp
  with h partition_tools [of "tg_tools h" "\<lparr>tg_assistant = tg_assistant h, tg_tools = []\<rparr>" "concat (map group_messages gs)"]
  show ?thesis
    unfolding eq by (simp add: turn_ok_def rebuilt)
qed

lemma partition_groups:
  "list_all turn_ok gs \<Longrightarrow> partition_from c (concat (map group_messages gs))
     = ([], case c of None \<Rightarrow> gs | Some g \<Rightarrow> g # gs)"
proof (induction gs arbitrary: c)
  case Nil
  then show ?case by (simp split: option.split)
next
  case (Cons h gs)
  then have "turn_ok h" "list_all turn_ok gs" by simp_all
  with Cons show ?case by (simp only: partition_turn) (simp split: option.split)
qed

lemma partition_reassemble:
  assumes "list_all anchor_ok anchors" "list_all turn_ok groups"
  shows "partition_messages (reassemble anchors groups) = (anchors, groups)"
proof -
  have "partition_from None (as @ ms) = (as @ fst (partition_from None ms), snd (partition_from None ms))"
    if "list_all anchor_ok as" for as ms
    using that by (induction as) (auto simp: anchor_ok_def split: prod.splits)
  with assms partition_groups [of groups None] show ?thesis
    by (simp add: partition_messages_def reassemble_def)
qed

section \<open>The tiers\<close>

text \<open>What eviction does to the anchors: nothing, but to the digest.\<close>

definition same_anchors :: "chat_message list \<Rightarrow> chat_message list \<Rightarrow> bool" where
  "same_anchors as bs \<longleftrightarrow> filter (\<lambda>m. \<not> is_digest m) as = filter (\<lambda>m. \<not> is_digest m) bs
     \<and> (list_all anchor_ok as \<longrightarrow> list_all anchor_ok bs)"

lemma marker_prefix: "starts_with digest_marker (digest_marker @ t)"
  by (simp add: starts_with_def)

lemma rstrip_marker: "starts_with digest_marker s \<Longrightarrow> starts_with digest_marker (rstrip s @ t)"
proof -
  assume "starts_with digest_marker s"
  then obtain rest where s: "s = digest_marker @ rest"
    by (metis append_take_drop_id starts_with_def)
  have "dropWhile is_space (rev digest_marker) = rev digest_marker"
    by (simp add: digest_marker_def is_space_def)
  then have "rstrip s = digest_marker @ rev (if \<forall>c\<in>set rest. is_space c then [] else dropWhile is_space (rev rest))"
    by (simp add: s rstrip_def dropWhile_append)
  then show ?thesis by (simp add: marker_prefix)
qed

lemma same_anchors_digest: "same_anchors as (add_to_digest bullets as)"
  by (induction bullets as rule: add_to_digest.induct)
    (auto simp: same_anchors_def is_digest_def anchor_ok_def rstrip_marker)

lemma same_anchors_ensure: "same_anchors as (ensure_digest_message as)"
  by (induction as rule: ensure_digest_message.induct)
    (auto simp: same_anchors_def is_digest_def anchor_ok_def chat_def digest_prefix_def marker_prefix)

lemma same_anchors_refl: "same_anchors as as"
  by (simp add: same_anchors_def)

lemma same_anchors_trans: "same_anchors as bs \<Longrightarrow> same_anchors bs cs \<Longrightarrow> same_anchors as cs"
  by (auto simp: same_anchors_def)

text \<open>Each tier keeps a last part of the groups, never none of them, and stops when it is within the
  budgets or down to one group.\<close>

lemma fold_oldest_suffix:
  "fold_oldest over anchors gs = (anchors', gs') \<Longrightarrow> gs \<noteq> []
     \<Longrightarrow> same_anchors anchors anchors' \<and> (\<exists>k<length gs. gs' = drop k gs)"
proof (induction over anchors gs rule: fold_oldest.induct)
  case (1 over anchors g h gs)
  show ?case
  proof (cases "over anchors (g # h # gs)")
    case True
    with 1(2) have step: "fold_oldest over (add_to_digest (digest_bullets_for_group g) anchors) (h # gs) = (anchors', gs')"
      by simp
    from 1(1) [OF True step] obtain k where
      "same_anchors (add_to_digest (digest_bullets_for_group g) anchors) anchors'" "k < length (h # gs)" "gs' = drop k (h # gs)"
      by auto
    then show ?thesis
      using same_anchors_trans [OF same_anchors_digest] by (auto intro: exI [of _ "Suc k"])
  next
    case False
    with 1(2) show ?thesis by (auto simp: same_anchors_refl intro: exI [of _ 0])
  qed
qed (auto simp: same_anchors_refl)

lemma tier3_suffix: "gs \<noteq> [] \<Longrightarrow> \<exists>k<length gs. tier3_drop over gs = drop k gs"
proof (induction over gs rule: tier3_drop.induct)
  case (1 over g h gs)
  show ?case
  proof (cases "over (g # h # gs)")
    case True
    with 1 obtain k where "k < length (h # gs)" "tier3_drop over (h # gs) = drop k (h # gs)" by auto
    with True show ?thesis by (auto intro: exI [of _ "Suc k"])
  qed (auto intro: exI [of _ 0])
qed auto

lemma tier3_last: "gs \<noteq> [] \<Longrightarrow> over (tier3_drop over gs) \<Longrightarrow> tier3_drop over gs = [last gs]"
proof (induction over gs rule: tier3_drop.induct)
  case (1 over g h gs)
  show ?case
  proof (cases "over (g # h # gs)")
    case True
    with 1 show ?thesis by simp
  next
    case False
    with 1(3) show ?thesis by simp
  qed
qed auto

lemma tier2_suffix:
  assumes "tier2_digest over anchors groups = (anchors', folded)" "groups \<noteq> []"
  shows "same_anchors anchors anchors' \<and> (\<exists>k<length groups. folded = drop k groups)"
proof (cases "\<not> over anchors groups \<or> length groups \<le> 1")
  case True
  with assms show ?thesis by (auto simp: tier2_digest_def same_anchors_refl intro: exI [of _ 0])
next
  case False
  with assms(1) have "fold_oldest over (ensure_digest_message anchors) groups = (anchors', folded)"
    by (auto simp: tier2_digest_def)
  from fold_oldest_suffix [OF this assms(2)] show ?thesis
    using same_anchors_trans [OF same_anchors_ensure] by blast
qed

section \<open>Compression\<close>

lemma compression_result:
  assumes "compress_if_needed ms turns limit r headroom = Inr (ms', stats)"
  shows "ms' = ms \<and> \<not> cs_compressed stats \<or>
    (\<exists>anchors groups anchors' k effective. partition_messages ms = (anchors, groups) \<and> same_anchors anchors anchors'
       \<and> k < length groups \<and> ms' = reassemble anchors' (drop k groups)
       \<and> effective_context_limit limit headroom = Inr effective
       \<and> \<not> is_over turns effective r anchors' (drop k groups))"
proof -
  obtain anchors groups where parts: "partition_messages ms = (anchors, groups)" by fastforce
  show ?thesis
  proof (cases "groups = []")
    case True
    with assms parts show ?thesis by (auto simp: compress_if_needed_def empty_stats_def Let_def)
  next
    case some: False
    with assms parts obtain effective where eff: "effective_context_limit limit headroom = Inr effective"
      by (auto simp: compress_if_needed_def Let_def and_then_Inr)
    let ?over = "is_over turns effective r"
    show ?thesis
    proof (cases "?over anchors groups")
      case False
      with assms parts some eff show ?thesis
        by (auto simp: compress_if_needed_def empty_stats_def Let_def and_then_def)
    next
      case over: True
      obtain anchors' folded where tier2: "tier2_digest ?over anchors groups = (anchors', folded)" by fastforce
      note folded = tier2_suffix [OF tier2 some]
      define kept where "kept = (if ?over anchors' folded then tier3_drop (?over anchors') folded else folded)"
      from folded have "\<exists>j<length folded. kept = drop j folded"
        using tier3_suffix [of folded "?over anchors'"] some by (auto simp: kept_def intro: exI [of _ 0])
      with folded obtain j k where "j < length folded" "kept = drop j folded" "k < length groups" "folded = drop k groups"
        by blast
      then have "j + k < length groups" "kept = drop (j + k) groups" by auto
      moreover have "\<not> ?over anchors' kept \<and> ms' = reassemble anchors' kept"
        using assms parts some eff over tier2
        by (auto simp: compress_if_needed_def Let_def and_then_def kept_def split: if_splits)
      ultimately show ?thesis using parts folded eff by (metis (no_types, lifting))
    qed
  qed
qed

lemma compression_overflow:
  assumes "compress_if_needed ms turns limit r headroom = Inl e"
    and "partition_messages ms = (anchors, groups)" "effective_context_limit limit headroom = Inr effective"
  shows "groups \<noteq> [] \<and> e = context_overflow turns 1
    \<and> (\<exists>anchors'. same_anchors anchors anchors' \<and> is_over turns effective r anchors' [last groups])"
proof -
  let ?over = "is_over turns effective r"
  have some: "groups \<noteq> []" and over: "?over anchors groups"
    using assms by (auto simp: compress_if_needed_def Let_def and_then_def split: if_splits)
  obtain anchors' folded where tier2: "tier2_digest ?over anchors groups = (anchors', folded)" by fastforce
  have folded: "same_anchors anchors anchors' \<and> (\<exists>k<length groups. folded = drop k groups)"
    using tier2_suffix [OF tier2 some] .
  then have "folded \<noteq> []" "last folded = last groups" by auto
  moreover have "e = context_overflow turns (length (tier3_drop (?over anchors') folded))"
    "?over anchors' folded" "?over anchors' (tier3_drop (?over anchors') folded)"
    using assms some over tier2
    by (auto simp: compress_if_needed_def Let_def and_then_def split: if_splits)
  ultimately show ?thesis
    using folded some tier3_last [of folded "?over anchors'"] by auto
qed

text \<open>C13: a compression that changes the transcript keeps every anchor but the digest unchanged and in order,
  keeps a last, nonempty part of the turns word for word, puts nothing else between them, and leaves the
  transcript within the budgets of turns and of estimated tokens.\<close>

theorem compression_keeps_recent:
  assumes "compress_if_needed ms turns limit r headroom = Inr (ms', stats)" and "ms' \<noteq> ms"
  shows "\<exists>anchors' k effective. k < length (snd (partition_messages ms))
    \<and> filter (\<lambda>m. \<not> is_digest m) anchors' = filter (\<lambda>m. \<not> is_digest m) (fst (partition_messages ms))
    \<and> ms' = anchors' @ concat (map group_messages (drop k (snd (partition_messages ms))))
    \<and> effective_context_limit limit headroom = Inr effective
    \<and> \<not> is_over turns effective r anchors' (drop k (snd (partition_messages ms)))"
proof -
  from compression_result [OF assms(1)] assms(2) obtain anchors groups anchors' k effective where
    "partition_messages ms = (anchors, groups)" "same_anchors anchors anchors'" "k < length groups"
    "ms' = reassemble anchors' (drop k groups)" "effective_context_limit limit headroom = Inr effective"
    "\<not> is_over turns effective r anchors' (drop k groups)"
    by blast
  then show ?thesis
    by (intro exI [of _ anchors'] exI [of _ k] exI [of _ effective]) (simp add: same_anchors_def reassemble_def)
qed

definition sample_transcript :: "chat_message list" where
  "sample_transcript = [chat Role_system ''rules'', chat Role_human ''task'', chat Role_assistant ''one'', chat Role_assistant ''two'']"

lemma sample_compressed:
  "case compress_if_needed sample_transcript 2 None default_ratio default_headroom of
     Inr (ms', stats) \<Rightarrow> ms' \<noteq> sample_transcript | Inl e \<Rightarrow> False"
proof -
  have "phi_split 2 = (1, 1)" by code_simp
  then show ?thesis
    by (simp add: sample_transcript_def compress_if_needed_def partition_messages_def chat_def is_over_def is_over_budget_def
        compute_budgets_def effective_context_limit_def tier2_digest_def is_digest_def starts_with_def digest_marker_def
        digest_prefix_def reassemble_def group_messages_def and_then_def Let_def empty_stats_def em_dash_def)
qed

theorem compression_keeps_recent_witness:
  "\<exists>ms' anchors' k. k < length (snd (partition_messages sample_transcript)) \<and> ms' \<noteq> sample_transcript
     \<and> ms' = anchors' @ concat (map group_messages (drop k (snd (partition_messages sample_transcript))))"
proof -
  from sample_compressed obtain ms' stats where
    run: "compress_if_needed sample_transcript 2 None default_ratio default_headroom = Inr (ms', stats)" "ms' \<noteq> sample_transcript"
    by (auto split: sum.splits prod.splits)
  from compression_keeps_recent [OF this] run(2) show ?thesis by blast
qed

text \<open>C14: compression settles: what it returns is returned unchanged, and not reported as compressed, when
  it is compressed again under the same budgets.\<close>

theorem compression_settles:
  assumes "compress_if_needed ms turns limit r headroom = Inr (ms', stats)"
  shows "\<exists>stats'. compress_if_needed ms' turns limit r headroom = Inr (ms', stats') \<and> \<not> cs_compressed stats'"
  using compression_result [OF assms]
proof (elim disjE exE conjE)
  assume "ms' = ms" "\<not> cs_compressed stats"
  with assms show ?thesis by blast
next
  fix anchors groups anchors' k effective
  assume parts: "partition_messages ms = (anchors, groups)" and same: "same_anchors anchors anchors'"
    and k: "k < length groups" and ms': "ms' = reassemble anchors' (drop k groups)"
    and eff: "effective_context_limit limit headroom = Inr effective"
    and fits: "\<not> is_over turns effective r anchors' (drop k groups)"
  have ok: "list_all anchor_ok anchors" "list_all turn_ok groups"
    using partition_ok [of None ms anchors groups] parts by (simp_all add: partition_messages_def)
  have "partition_messages ms' = (anchors', drop k groups)"
    unfolding ms' using ok same k
    by (intro partition_reassemble) (auto simp: same_anchors_def list_all_iff dest: in_set_dropD)
  with k eff fits show ?thesis
    by (simp add: compress_if_needed_def Let_def and_then_def empty_stats_def)
qed

theorem compression_settles_witness:
  "\<exists>ms' stats'. ms' \<noteq> sample_transcript
     \<and> compress_if_needed ms' 2 None default_ratio default_headroom = Inr (ms', stats') \<and> \<not> cs_compressed stats'"
proof -
  from sample_compressed obtain ms' stats where
    run: "compress_if_needed sample_transcript 2 None default_ratio default_headroom = Inr (ms', stats)" "ms' \<noteq> sample_transcript"
    by (auto split: sum.splits prod.splits)
  from compression_settles [OF run(1)] run(2) show ?thesis by blast
qed

end
