(* ===== verification/Naming.thy ===== *)
theory Naming imports Demo begin

text \<open>
  The names under which the tools of a step are shown to the model: an allotted name is a new one, and
  the tools that a step loads from its MCP sources have different names, which none shares with the
  loader of skills.
\<close>

section \<open>Decimal suffixes\<close>

lemma digit_not_sep: "k < (10 :: nat) \<Longrightarrow> char_of (48 + k) \<noteq> CHR ''_''"
proof
  assume k: "k < 10" and "char_of (48 + k) = CHR ''_''"
  then have "of_char (char_of (48 + k) :: char) = (of_char (CHR ''_'') :: nat)" by simp
  with k show False by simp
qed

lemma show_nat_no_sep: "CHR ''_'' \<notin> set (show_nat n)"
proof (induction n rule: show_nat.induct)
  case (1 n)
  then show ?case
    by (cases "n < 10") (simp_all add: show_nat.simps [of n] digit_not_sep [symmetric] digit_not_sep not_sym)
qed

definition number_of :: "string \<Rightarrow> nat" where
  "number_of s = foldl (\<lambda>n c. 10 * n + (of_char c - 48)) 0 s"

lemma number_of_show_nat: "number_of (show_nat n) = n"
proof (induction n rule: show_nat.induct)
  case (1 n)
  then show ?case
    by (cases "n < 10") (simp_all add: show_nat.simps [of n] number_of_def)
qed

lemma show_nat_inject: "show_nat i = show_nat j \<Longrightarrow> i = j"
  by (metis number_of_show_nat)

lemma after_last_sep: "CHR ''_'' \<notin> set d \<Longrightarrow> rev (takeWhile (\<lambda>c. c \<noteq> CHR ''_'') (rev (b @ CHR ''_'' # d))) = d"
proof -
  assume d: "CHR ''_'' \<notin> set d"
  have "takeWhile (\<lambda>c. c \<noteq> CHR ''_'') (rev d @ CHR ''_'' # rev b) = rev d"
    using d by (subst takeWhile_append2) auto
  then show ?thesis by simp
qed

lemma suffixed_name_inject: "suffixed_name b i = suffixed_name b' j \<Longrightarrow> i = j"
  using after_last_sep [OF show_nat_no_sep] unfolding suffixed_name_def Let_def
  by (metis append_Cons append_Nil show_nat_inject)

lemma allotted_name_new: "allocate_unique_sanitized_name name names \<notin> set names"
proof (cases "sanitize_mcp_tool_name name \<in> set names")
  case False
  then show ?thesis by (simp add: allocate_unique_sanitized_name_def)
next
  case True
  let ?cs = "map (suffixed_name (sanitize_mcp_tool_name name)) [2..<length names + 3]"
  have "card (set ?cs) = length names + 1"
    using distinct_card [of ?cs] by (simp add: distinct_map inj_on_def) (metis suffixed_name_inject)
  then have "\<not> set ?cs \<subseteq> set names"
    using card_mono [of "set names" "set ?cs"] card_length [of names] by fastforce
  then obtain c where "rows_first (\<lambda>c. c \<notin> set names) ?cs = Some c"
    by (cases "rows_first (\<lambda>c. c \<notin> set names) ?cs") (auto simp: rows_first_None)
  with True rows_first_Some [OF this] show ?thesis
    by (simp add: allocate_unique_sanitized_name_def Let_def)
qed

section \<open>What a run allots\<close>

definition nameless :: "'a A \<Rightarrow> bool" where
  "nameless m \<longleftrightarrow> (\<forall>r. used_names (snd (m r)) = used_names r)"

definition allots :: "agent_tool list A \<Rightarrow> bool" where
  "allots m \<longleftrightarrow> (\<forall>r x r'. m r = (x, r') \<longrightarrow> (\<exists>ns. used_names r' = used_names r @ ns
     \<and> (distinct (used_names r) \<longrightarrow> distinct (used_names r'))
     \<and> (\<forall>ts. x = Inr ts \<longrightarrow> subseq (map tl_name ts) ns)))"

lemma allotsE:
  assumes "allots m" and "m r = (x, r')"
  obtains ns where "used_names r' = used_names r @ ns" "distinct (used_names r) \<longrightarrow> distinct (used_names r')"
    "\<forall>ts. x = Inr ts \<longrightarrow> subseq (map tl_name ts) ns"
proof -
  from assms have "\<exists>ns. used_names r' = used_names r @ ns \<and> (distinct (used_names r) \<longrightarrow> distinct (used_names r'))
     \<and> (\<forall>ts. x = Inr ts \<longrightarrow> subseq (map tl_name ts) ns)"
    unfolding allots_def by simp
  with that show thesis by blast
qed

lemma nameless_basic [simp]:
  "nameless (return x)" "nameless (raise e)" "nameless (gets f)" "nameless (of_sum s)" "nameless (act a)"
  "nameless (tell h)" "nameless skip" "nameless (call a answer)"
  by (auto simp: nameless_def monad_simps act_def tell_def call_def split: sum.split)

lemma nameless_modify: "(\<And>r. used_names (f r) = used_names r) \<Longrightarrow> nameless (modify f)"
  by (simp add: nameless_def modify_def)

lemma nameless_bind [intro]: "nameless m \<Longrightarrow> (\<And>x. nameless (k x)) \<Longrightarrow> nameless (bind m k)"
  by (auto simp: nameless_def bind_def split: prod.split sum.split) (metis snd_conv)+

lemma nameless_seq [intro]: "nameless m \<Longrightarrow> nameless k \<Longrightarrow> nameless (seq m k)"
  unfolding seq_def by (rule nameless_bind)

lemma nameless_try [intro]: "nameless m \<Longrightarrow> (\<And>e. nameless (h e)) \<Longrightarrow> nameless (try_except m h)"
  by (auto simp: nameless_def try_except_def split: prod.split sum.split) (metis snd_conv)+

lemma nameless_record [intro, simp]: "nameless (record_source_failure source outcome error)"
  unfolding record_source_failure_def by (intro nameless_seq nameless_modify) simp_all

lemma nameless_connect: "nameless (connect_to_source E W source)"
  unfolding connect_to_source_def connect_stdio_source_def open_endpoint_def Let_def
  by (auto split: option.split json.split intro!: nameless_bind)

lemma nameless_pages: "(\<And>c. nameless (fetch c)) \<Longrightarrow> nameless (list_mcp_paginated fetch n k items cursor)"
  by (induction n arbitrary: items cursor) auto

lemma nameless_tools_page: "nameless (list_tools_paginated W session)"
  unfolding list_tools_paginated_def by (auto intro: nameless_pages)

lemma nameless_discover: "nameless (discover_resources_for_source W session)"
  unfolding discover_resources_for_source_def list_resources_paginated_def
  by (auto intro!: nameless_pages)

lemma allots_nothing [simp]: "allots (return [])" "allots (raise e)"
  by (auto simp: allots_def monad_simps)

lemma allots_after: "nameless m \<Longrightarrow> (\<And>x. allots (k x)) \<Longrightarrow> allots (bind m k)"
  unfolding allots_def nameless_def bind_def
proof (intro allI impI, goal_cases)
  case (1 r x r')
  obtain y r1 where m: "m r = (y, r1)" by fastforce
  with 1(1) have "used_names r1 = used_names r" by (metis snd_conv)
  note r1 = this
  show ?case
  proof (cases y)
    case (Inl e)
    with m 1(3) r1 show ?thesis by auto
  next
    case (Inr z)
    with m 1(3) have "k z r1 = (x, r')" by simp
    with 1(2) [of z] r1 show ?thesis by metis
  qed
qed

lemma allots_after_seq: "nameless m \<Longrightarrow> allots k \<Longrightarrow> allots (seq m k)"
  unfolding seq_def by (rule allots_after)

lemma allots_try:
  assumes "allots m" and "\<And>e. allots (h e)"
  shows "allots (try_except m h)"
  unfolding allots_def
proof (intro allI impI)
  fix r x r'
  assume run: "try_except m h r = (x, r')"
  obtain y r1 where m: "m r = (y, r1)" by fastforce
  obtain ns where ns: "used_names r1 = used_names r @ ns"
    "distinct (used_names r) \<longrightarrow> distinct (used_names r1)" "\<forall>ts. y = Inr ts \<longrightarrow> subseq (map tl_name ts) ns"
    by (rule allotsE [OF assms(1) m])
  show "\<exists>ns. used_names r' = used_names r @ ns \<and> (distinct (used_names r) \<longrightarrow> distinct (used_names r'))
      \<and> (\<forall>ts. x = Inr ts \<longrightarrow> subseq (map tl_name ts) ns)"
  proof (cases y)
    case (Inr ts)
    with run m have same: "x = y" "r' = r1" by (simp_all add: try_except_def)
    show ?thesis unfolding same by (intro exI [of _ ns] conjI ns)
  next
    case (Inl e)
    with run m have h: "h e r1 = (x, r')" by (simp add: try_except_def)
    obtain ms where "used_names r' = used_names r1 @ ms"
      "distinct (used_names r1) \<longrightarrow> distinct (used_names r')" "\<forall>ts. x = Inr ts \<longrightarrow> subseq (map tl_name ts) ms"
      by (rule allotsE [OF assms(2) h])
    with ns show ?thesis by (intro exI [of _ "ns @ ms"]) (simp add: list_emb_append2)
  qed
qed

lemma allots_load: "allots (load_tools W session source_name specs omit ms)"
proof (induction ms)
  case Nil
  then show ?case by simp
next
  case (Cons m ms)
  let ?rest = "load_tools W session source_name specs omit ms"
  define convert :: "string \<Rightarrow> string \<Rightarrow> agent_tool A" where "convert entry name = of_sum (convert_mcp_to_langchain W m session (spec_for_tool specs entry (mt_name m)) name omit)"
    for entry name
  have named: "tl_name t = name" if "convert entry name r = (Inr t, r')" for entry name r t r'
    using that by (auto simp: convert_def convert_mcp_to_langchain_def of_sum_def monad_simps Let_def split: option.splits sum.splits)
  have kept: "used_names r' = used_names r" if "convert entry name r = (x, r')" for entry name x r r'
    using that nameless_basic(4) unfolding nameless_def convert_def by (metis snd_conv)
  have loaded: "allots (bind (gets used_names) (\<lambda>used.
      let wire_name = allocate_unique_sanitized_name (mt_name m) used in
      seq (modify (\<lambda>r. r\<lparr>used_names := used @ [wire_name]\<rparr>))
      (bind (convert entry wire_name) (\<lambda>t.
       seq (modify (\<lambda>r. r\<lparr>loaded_names := loaded_names r @ [mt_name m]\<rparr>)) (bind ?rest (\<lambda>ts. return (t # ts)))))))" for entry
    unfolding allots_def
  proof (intro allI impI, goal_cases)
    case (1 r x r')
    define name where "name = allocate_unique_sanitized_name (mt_name m) (used_names r)"
    obtain y r1 where c: "convert entry name (r\<lparr>used_names := used_names r @ [name]\<rparr>) = (y, r1)" by fastforce
    have r1: "used_names r1 = used_names r @ [name]" using kept [OF c] by simp
    have new: "distinct (used_names r) \<longrightarrow> distinct (used_names r1)"
      using allotted_name_new [of "mt_name m" "used_names r"] by (simp add: r1 name_def)
    show ?case
    proof (cases y)
      case (Inl e)
      with 1 c have "x = Inl e" "r' = r1" by (simp_all add: monad_simps name_def Let_def)
      with r1 new show ?thesis by auto
    next
      case (Inr t)
      obtain z r2 where rest: "?rest (r1\<lparr>loaded_names := loaded_names r1 @ [mt_name m]\<rparr>) = (z, r2)" by fastforce
      obtain ns where ns: "used_names r2 = used_names r1 @ ns"
        "distinct (used_names r1) \<longrightarrow> distinct (used_names r2)" "\<forall>ts. z = Inr ts \<longrightarrow> subseq (map tl_name ts) ns"
        using allotsE [OF Cons rest] by auto
      have "r' = r2" "x = (case z of Inl e \<Rightarrow> Inl e | Inr ts \<Rightarrow> Inr (t # ts))"
        using 1 c Inr rest by (simp_all add: monad_simps name_def Let_def split: sum.splits) auto
      with ns r1 new named [of entry name _ t r1] c Inr show ?thesis
        by (intro exI [of _ "name # ns"]) (auto split: sum.splits)
    qed
  qed
  show ?case
    using loaded Cons unfolding load_tools.simps convert_def
    by (intro allots_after) (auto split: option.split intro!: allots_after_seq)
qed

lemma allots_chain:
  assumes "allots m" and "allots m'"
  shows "allots (bind m (\<lambda>ts. bind m' (\<lambda>rest. return (ts @ rest))))"
  unfolding allots_def
proof (intro allI impI, goal_cases)
  case (1 r x r')
  obtain y r1 where m: "m r = (y, r1)" by fastforce
  obtain ns where ns: "used_names r1 = used_names r @ ns" "distinct (used_names r) \<longrightarrow> distinct (used_names r1)"
    "\<forall>ts. y = Inr ts \<longrightarrow> subseq (map tl_name ts) ns"
    by (rule allotsE [OF assms(1) m])
  show ?case
  proof (cases y)
    case (Inl e)
    with 1 m have "x = Inl e" "r' = r1" by (simp_all add: bind_def)
    with ns show ?thesis by auto
  next
    case (Inr ts)
    obtain z r2 where m': "m' r1 = (z, r2)" by fastforce
    obtain ms where ms: "used_names r2 = used_names r1 @ ms" "distinct (used_names r1) \<longrightarrow> distinct (used_names r2)"
      "\<forall>ts. z = Inr ts \<longrightarrow> subseq (map tl_name ts) ms"
      by (rule allotsE [OF assms(2) m'])
    have "r' = r2" "x = (case z of Inl e \<Rightarrow> Inl e | Inr rest \<Rightarrow> Inr (ts @ rest))"
      using 1 m m' Inr by (simp_all add: monad_simps split: sum.splits) auto
    with ns ms Inr show ?thesis
      by (intro exI [of _ "ns @ ms"]) (auto split: sum.splits intro: list_emb_append_mono)
  qed
qed

lemma allots_sources: "allots (process_mcp_sources E W sources specs allow omit)"
proof (induction sources)
  case Nil
  then show ?case by simp
next
  case (Cons s ss)
  have session: "allots (use_session W source session specs allow omit)" for source session
    unfolding use_session_def load_tools_from_session_def Let_def
    by (intro allots_after_seq allots_after allots_load nameless_tools_page)
      (auto split: option.split intro!: nameless_bind nameless_discover nameless_modify)
  have "allots (process_mcp_source E W source specs allow omit)" for source
    unfolding process_mcp_source_def
    by (intro allots_try allots_after nameless_connect)
      (auto split: option.split intro!: allots_after_seq session)
  with Cons show ?case by (simp add: allots_chain)
qed

section \<open>The tools of a step\<close>

definition is_reader :: "agent_tool \<Rightarrow> bool" where
  "is_reader t = (case tl_kind t of Read_kind allow vars \<Rightarrow> True | _ \<Rightarrow> False)"

lemma subseq_keeps: "subseq xs ys \<Longrightarrow> set xs \<subseteq> set ys \<and> (distinct ys \<longrightarrow> distinct xs)"
  by (induction xs ys rule: list_emb.induct) auto

lemma readers_only: "read_resource_tools allow vars r = (Inr ts, r') \<Longrightarrow> filter (\<lambda>t. \<not> is_reader t) ts = []"
  by (auto simp: read_resource_tools_def seq_def run_bind_Inr run_step_Inr is_reader_def split: option.splits if_splits)

lemma loader_names:
  "map tl_name (filter (\<lambda>t. \<not> is_reader t) (load_skill_tools ids bodies)) = (if ids = [] then [] else [load_skill_tool_name])"
  by (simp add: load_skill_tools_def is_reader_def)

lemma distinct_filtered: "distinct (map f xs) \<Longrightarrow> distinct (map f (filter P xs))"
  by (simp add: distinct_map_filter)


section \<open>Colliding names\<close>

text \<open>Two tools of a server whose names differ in a character that the model's names may not have.\<close>

definition dotted_world :: world where
  "dotted_world = demo_world\<lparr>tools_page := (\<lambda>before s c.
     Inr ([demo_tool\<lparr>mt_name := ''a.b''\<rparr>, demo_tool\<lparr>mt_name := ''a_b''\<rparr>], None))\<rparr>"

text \<open>A server with a tool called \<open>read_resource\<close> and one resource.\<close>

definition reading_world :: world where
  "reading_world = demo_world\<lparr>tools_page := (\<lambda>before s c. Inr ([demo_tool\<lparr>mt_name := ''read_resource''\<rparr>], None)),
     resources_page := (\<lambda>before s c. Inr ([''u''], None))\<rparr>"

definition shown_tool :: "string \<Rightarrow> string \<Rightarrow> agent_tool" where
  "shown_tool shown name = \<lparr>tl_name = shown, tl_kind = Mcp_kind 0 (demo_tool\<lparr>mt_name := name\<rparr>) [(''name'', JStr name)]
     [\<lparr>af_name = ''q'', af_type = ''string'', af_required = False\<rparr>]\<rparr>"

lemma colliding_facts:
  "allocate_unique_sanitized_name ''a.b'' [] = ''a_b''" "allocate_unique_sanitized_name ''a_b'' [''a_b''] = ''a_b_2''"
  "allocate_unique_sanitized_name ''read_resource'' [] = ''read_resource''"
  "source_has_required_resources [''u''] [''u'']"
  by code_simp+

lemma dotted_sources:
  "\<exists>r. process_mcp_sources agent_env dotted_world (map dump_mcp_server (list_of (dget ''tool_sources'' demo_worker)))
     [(''a.b'', JObj [(''name'', JStr ''a.b'')]), (''a_b'', JObj [(''name'', JStr ''a_b'')])] None []
     (new_run\<lparr>loaded_names := [], used_names := [], source_failures := [], source_sessions := [], resource_coverage := []\<rparr>)
   = (Inr [shown_tool ''a_b'' ''a.b'', shown_tool ''a_b_2'' ''a_b''], r) \<and> loaded_names r = [''a.b'', ''a_b'']"
  by (simp add: agent_simps demo_worker_def dotted_world_def shown_tool_def colliding_facts
      del: agent_loops allocate_unique_sanitized_name_def)

lemma reading_sources:
  "\<exists>r. process_mcp_sources agent_env reading_world (map dump_mcp_server (list_of (dget ''tool_sources'' demo_worker)))
     [(''read_resource'', JObj [(''name'', JStr ''read_resource'')])] (Some [''u'']) []
     (new_run\<lparr>loaded_names := [], used_names := [], source_failures := [], source_sessions := [], resource_coverage := []\<rparr>)
   = (Inr [shown_tool ''read_resource'' ''read_resource''], r) \<and> loaded_names r = [''read_resource'']
     \<and> source_sessions r = [(JStr ''src'', 0)] \<and> resource_coverage r = [(JStr ''src'', True)]"
  by (simp add: agent_simps demo_worker_def reading_world_def shown_tool_def colliding_facts
      del: agent_loops allocate_unique_sanitized_name_def source_has_required_resources_def)


text \<open>The reader of resources is not allotted its name: an MCP tool called \<open>read_resource\<close> is shown beside
  it under the same name.\<close>

theorem reader_name_collides:
  "\<exists>ts r. build_tools_for_worker agent_env reading_world demo_worker [JObj [(''name'', JStr ''read_resource'')]]
        [JObj [(''uri'', JStr ''u'')]] [] [] [] [] new_run = (Inr ts, r)
      \<and> map tl_name ts = [''read_resource'', ''read_resource''] \<and> map is_reader ts = [False, True]"
proof -
  obtain r1 where r1: "process_mcp_sources agent_env reading_world (map dump_mcp_server (list_of (dget ''tool_sources'' demo_worker)))
     [(''read_resource'', JObj [(''name'', JStr ''read_resource'')])] (Some [''u'']) []
     (new_run\<lparr>loaded_names := [], used_names := [], source_failures := [], source_sessions := [], resource_coverage := []\<rparr>)
   = (Inr [shown_tool ''read_resource'' ''read_resource''], r1)"
    and kept: "loaded_names r1 = [''read_resource'']" "source_sessions r1 = [(JStr ''src'', 0)]"
      "resource_coverage r1 = [(JStr ''src'', True)]"
    using reading_sources by (elim exE conjE) (rule that)
  have named: "spec_by_name_rejecting_load_skill [JObj [(''name'', JStr ''read_resource'')]] []
      = Inr [(''read_resource'', JObj [(''name'', JStr ''read_resource'')])]"
    and allow: "compile_resource_allowlist [JObj [(''uri'', JStr ''u'')]] = Inr (Some [''u''])"
    by code_simp+
  have "\<exists>r2. seq (require_resources (Some [''u''])) (seq (require_tools [''read_resource'']) (read_resource_tools (Some [''u'']) [])) r1
      = (Inr [\<lparr>tl_name = ''read_resource'', tl_kind = Read_kind [''u''] []\<rparr>], r2)"
    using kept by (simp add: require_resources_def require_tools_def read_resource_tools_def tell_def act_def monad_simps
        Let_def allowlist_entry_satisfied_def read_resource_tool_name_def)
  then obtain r2 where r2: "seq (require_resources (Some [''u''])) (seq (require_tools [''read_resource''])
      (read_resource_tools (Some [''u'']) [])) r1 = (Inr [\<lparr>tl_name = ''read_resource'', tl_kind = Read_kind [''u''] []\<rparr>], r2)" ..
  have "build_tools_for_worker agent_env reading_world demo_worker [JObj [(''name'', JStr ''read_resource'')]]
        [JObj [(''uri'', JStr ''u'')]] [] [] [] [] new_run
      = (Inr ([shown_tool ''read_resource'' ''read_resource''] @ [\<lparr>tl_name = ''read_resource'', tl_kind = Read_kind [''u''] []\<rparr>]), r2)"
    by (rule build_run [OF allow named demo_has_source r1]) (use kept r2 in \<open>simp_all add: load_skill_tool_name_def\<close>)
  then show ?thesis by (simp add: shown_tool_def is_reader_def)
qed

end
