(* ===== verification/Spec2Isabelle.thy ===== *)
theory Spec2Isabelle imports Rollback Gating Data Delivery Deployed Answers Effort Endings Compressing Naming begin

text \<open>
  The durable saga engine of warden-core: a workflow (a saga) is a list of steps frozen at its start;
  an engine materializes, dispatches and completes the steps, workers execute them, and on a failure
  the engine undoes the completed steps in reverse order.  Everything is coordinated by rows of a
  database and by a transactional outbox.  This development models the engine and the worker as state
  passing over a record of the tables, the agent runtime inside the worker as state passing over a record
  of one run, and proves what an operator of them relies on.

  \<^bold>\<open>Parts.\<close>  Each theory models the source files it names.

  \<^item> \<open>Prelude\<close>: tables as lists of rows (select, update, delete), the locale
    \<open>keyed_log\<close> of tables with a unique key, and shared facts.
    \<open>PyJson\<close>: JSON documents and the Python built-ins the source applies to them
    (truth value, \<open>str\<close>, \<open>strip\<close>, \<open>dict.get\<close>).
  \<^item> \<open>Store\<close> (\<^verbatim>\<open>common/models.py\<close>): the enumerations, rows and tables, and the monad
    \<open>'a M\<close> = \<open>db \<Rightarrow> (exc + 'a) \<times> db\<close>; \<open>in_transaction\<close> restores the tables when an
    exception leaves it.  Calls of the plugin registry are recorded in \<open>db_hooks\<close>.
  \<^item> \<open>Contracts\<close> (\<^verbatim>\<open>common/contracts.py\<close>): the events and commands with their
    validation, and the record \<open>env\<close> of what lies outside the repository.
  \<^item> \<open>StepData\<close>, \<open>Policy\<close>, \<open>SagaSchema\<close>, \<open>Loops\<close>: the pure parts (outputs, bindings and
    undo contexts; CEL gates; pydantic step models; loop freezing and the rows of a segment).
  \<^item> \<open>Outbox\<close> (\<^verbatim>\<open>common/outbox.py\<close>, \<^verbatim>\<open>common/messaging/postgres.py\<close>,
    the reapers): emission under an idempotency key, the claim and end of a delivery, worker claims.
  \<^item> \<open>Lifecycle\<close>, \<open>Compensation\<close>, \<open>Schedule\<close>, \<open>Dispatch\<close>, \<open>Handlers\<close>
    (\<^verbatim>\<open>engine/logic.py\<close>, \<^verbatim>\<open>engine/loop_control.py\<close>,
    \<^verbatim>\<open>engine/child_sagas.py\<close>): the transitions, the LIFO undo walk, the choice of the next
    step, the building of worker commands behind the gates, and one handler per event.
    \<open>SagaStart\<close>, \<open>Recovery\<close>, \<open>Decisions\<close>: the requests of the API.
  \<^item> \<open>System\<close>: the relation of all requests, in any order, and its reachable databases.
  \<^item> \<open>Assets\<close> (the files of \<^verbatim>\<open>common/\<close>: schemas, compensations, policies, skills,
    prompts), \<open>Hydrate\<close> (\<^verbatim>\<open>engine/saga_hydrate.py\<close>,
    \<^verbatim>\<open>common/step_hydrate.py\<close> and the schemas of steps) and \<open>Registry\<close>
    (\<^verbatim>\<open>engine/registry/service.py\<close>): how manifests are checked, stored and, at a start,
    frozen into steps.
  \<^item> \<open>Worker\<close> (\<^verbatim>\<open>workers/logic.py\<close>): a worker command from its payload to the result
    in the outbox, with the outcome of the agent adapter as an argument.
  \<^item> The agent runtime, which yields that outcome.  \<open>Chat\<close> (messages, exceptions, token usage, the
    monad \<open>'a A\<close> = \<open>run \<Rightarrow> (py_exc + 'a) \<times> run\<close>, retries), \<open>Failures\<close>
    (\<^verbatim>\<open>common/tool_failure.py\<close>), \<open>Admission\<close> (coercion and validation of model output),
    \<open>Memory\<close> (\<^verbatim>\<open>workers/adapters/react_memory.py\<close>), \<open>Resources\<close>
    (\<^verbatim>\<open>workers/resource_runtime.py\<close>), \<open>Tools\<close> and \<open>Loading\<close>
    (\<^verbatim>\<open>workers/tools.py\<close>), \<open>React\<close> (\<^verbatim>\<open>workers/adapters/react_loop.py\<close>),
    \<open>Facts\<close> (\<^verbatim>\<open>common/step_facts.py\<close>), \<open>Structured\<close>
    (\<^verbatim>\<open>workers/llm/structured.py\<close>) and \<open>Adapter\<close>
    (\<^verbatim>\<open>workers/adapters/langchain.py\<close>): a reason step, a simple step, a commit and an undo.

  \<^bold>\<open>Interaction.\<close>  The engine functions of the source call each other in cycles (a failed
  step compensates, which may fail a parent, which \<dots>).  The model cuts the cycle at the record
  \<open>callbacks\<close>: each operation takes the callbacks it may re-enter, and \<open>calls E n\<close> unfolds them n
  deep; an unfolding deeper than its fuel raises \<open>OutOfFuel\<close>, an exception no code of the model
  catches silently.  The engine and the worker meet in the outbox: \<open>Working\<close> shows that a queued command
  is the command the worker parses and that a queued result passes the validation of the engine; a worker
  runs \<open>adapter_of\<close> of the agent runtime between the two.  Theorems that a result is produced state the fuel they need (one or two levels on
  the demonstration databases); theorems about all runs hold for every fuel.

  \<^bold>\<open>Lemma groups.\<close>  \<open>Frame\<close> states, as a chain of locales, what a relation between databases
  must satisfy for every operation of the engine to keep it; \<open>Guarantees\<close> interprets the chain on the
  model five times (rows stay, keys stay unique, statuses change by reported transitions, retry keys,
  append-only tables).  \<open>Ingest\<close> proves that an event is applied at most once.  \<open>Rollback\<close>
  relates the undo walk to a specification of the next row to undo.  \<open>Gating\<close> states what stands
  between a step and its side effects, \<open>Data\<close> what the steps and the undos are given, and
  \<open>Delivery\<close> how at-least-once messages act once.  \<open>Effects\<close>, \<open>Working\<close> and \<open>Answers\<close>
  follow a command through the worker; \<open>Blueprint\<close>, \<open>Prompts\<close>, \<open>Frozen\<close>, \<open>Catalog\<close> and
  \<open>Deployed\<close> follow a manifest from its registration to the frozen steps of a start.
  \<open>Agency\<close> states, as the locales \<open>run_frame\<close> and \<open>spending_frame\<close>, what a relation
  between runs must satisfy for every operation of the agent runtime to keep it, and interprets them on the
  model (calls that are admitted, model calls, tool calls, tokens); \<open>Agents\<close> (admissible calls),
  \<open>Effort\<close> (model calls are bounded) and \<open>Endings\<close> (what holds when a run returns) rest on
  them.  \<open>Naming\<close> is about the names of tools, \<open>Compressing\<close> about transcripts.  \<open>Sample\<close> and
  \<open>Demo\<close> hold the concrete databases and the concrete agent world on which the witnesses evaluate
  the model.

  \<^bold>\<open>Fuel.\<close>  Besides \<open>calls E n\<close>, only the expansion of prompts takes fuel; \<open>Prompts\<close> proves
  that the fuel given, the number of includes on disk and two, is never used up.  The loops of the agent
  runtime recurse on the turns, attempts and pages they have left, so that they are total.

  \<^bold>\<open>Parameters.\<close>  \<open>env\<close> holds the libraries: the CEL evaluator, jsonpath, jsonschema, the uuid
  source, SHA-256 digests, the file system, the YAML, JSON and Jinja parsers, and the settings.
  \<open>world\<close> holds what a run of the agent meets: the model, the MCP servers and the generated argument
  models.  An answer may depend on everything the run did before, so the theorems about runs hold for every
  model and every server.  Their laws are named where a theorem needs one.

  \<^bold>\<open>Not modelled.\<close>  Timing columns, tracing and telemetry, which are written and never read by
  the engine; LISTEN/NOTIFY wake-ups and task bookkeeping of the consumer (a poll is a request of
  \<open>System\<close>); the pipes and shutdown of stdio servers and the wall-clock timeouts; the clients of the LLM
  providers, which only convert to and from third-party libraries; HTTP routing and read-only queries, the
  command line and the MCP server, which are input and output around the requests of \<open>System\<close>.
\<close>

section \<open>Invariants of every reachable database\<close>

text \<open>C2: the audit log is complete: along any run without a retry of an undo, the status of every
  saga changes only by reported transitions, which chain from its first status to its current
  one.\<close>

theorem transitions_reported:
  assumes "reachable_reported E db db'" "find_saga tid db = Some g"
  shows "\<exists>hs g'. db_hooks db' = db_hooks db @ hs \<and> find_saga tid db' = Some g'
           \<and> audit tid (saga_status g) hs = Some (saga_status g')"
  using audit.reachable_reported_keeps [OF assms(1)] assms(2) unfolding audited_def by blast

theorem transitions_reported_witness:
  "\<exists>hs g'. db_hooks demo_later = hs \<and> find_saga demo_tid demo_later = Some g'
     \<and> audit demo_tid Saga_PENDING hs = Some (saga_status g')"
proof -
  have "find_saga demo_tid demo_start = Some (demo_saga Saga_PENDING)"
    by (simp add: find_saga_def demo_start_def demo_db_def demo_saga_def)
  from transitions_reported [OF demo_later_reported this] show ?thesis
    by (simp add: demo_start_def demo_db_def empty_db_def demo_saga_def)
qed

text \<open>C16: history is append-only: no step or saga row is ever deleted or reordered, and the columns
  that identify it (the keys, the namespace, the frozen blueprint) never change; links to children are
  never changed at all.\<close>

theorem rows_never_rewritten:
  assumes "reachable E db db'"
  shows "map step_identity (take (length (db_steps db)) (db_steps db')) = map step_identity (db_steps db)
       \<and> map saga_frozen (take (length (db_sagas db)) (db_sagas db')) = map saga_frozen (db_sagas db)
       \<and> take (length (db_children db)) (db_children db') = db_children db"
  using stay.reachable_keeps [OF assms]
  by (auto simp: rows_stay_def prefix_map_take prefix_def)

theorem rows_never_rewritten_witness:
  "map step_identity (take 1 (db_steps demo_later)) = [step_identity (demo_step demo_span 0 Step_PENDING)]"
  using rows_never_rewritten [OF demo_later_reachable]
  by (simp add: demo_start_def demo_db_def empty_db_def)



section \<open>Ingest\<close>

text \<open>C1: an event is applied at most once: after it was processed, its redelivery only logs the
  duplicate.\<close>

theorem ingest_once:
  assumes "parsed_event d = Inr ev" "ev_type ev = HUMAN_RETRY \<longrightarrow> colon_free (ev_trace ev)"
    and "process_saga_event E n d db = (Inr (), db')"
  shows "process_saga_event E m d db' = (Inr (), log_duplicate ev db')"
  by (rule process_seen [OF assms(1) processed_is_claimed [OF assms]])

definition demo_saga_failed :: event where
  "demo_saga_failed = \<lparr>ev_type = SAGA_FAILED, ev_namespace = ''n'', ev_trace = demo_tid,
     ev_span = None, ev_output = JNull, ev_error_details = JNull, ev_retry_guidance = JNull\<rparr>"

theorem ingest_once_witness:
  "process_saga_event demo_env 3 (demo_event ''SAGA_FAILED'' [])
     (snd (process_saga_event demo_env 0 (demo_event ''SAGA_FAILED'' []) (demo_db Saga_FAILED [])))
   = (Inr (), log_duplicate demo_saga_failed
       (snd (process_saga_event demo_env 0 (demo_event ''SAGA_FAILED'' []) (demo_db Saga_FAILED []))))"
proof (rule ingest_once)
  show "parsed_event (demo_event ''SAGA_FAILED'' []) = Inr demo_saga_failed"
    by (simp add: run demo_saga_failed_def)
  show "process_saga_event demo_env 0 (demo_event ''SAGA_FAILED'' []) (demo_db Saga_FAILED [])
      = (Inr (), snd (process_saga_event demo_env 0 (demo_event ''SAGA_FAILED'' []) (demo_db Saga_FAILED [])))"
    by (simp add: run)
qed (simp add: demo_saga_failed_def)

text \<open>An event whose handling fails leaves no trace: the database, its claim included, is as
  before, so the event can be delivered again.\<close>

theorem failed_ingest_changes_nothing:
  assumes "process_saga_event E n d db = (Inl e, db')"
  shows "db' = db"
  using assms
  by (auto simp: process_saga_event_def in_transaction_def of_sum_def bind_def raise_def return_def
      split: sum.splits prod.splits)

theorem failed_ingest_changes_nothing_witness:
  "\<exists>e. process_saga_event demo_env 0 (demo_event ''SAGA_FAILED'' []) empty_db = (Inl e, empty_db)"
proof -
  obtain e db' where f: "process_saga_event demo_env 0 (demo_event ''SAGA_FAILED'' []) empty_db = (Inl e, db')"
    by (simp add: run)
  with failed_ingest_changes_nothing [OF f] show ?thesis by blast
qed

text \<open>C27: a step accepts one manual retry in its life: whatever happened since the first
  \<open>HUMAN_RETRY\<close> of a step was processed, a later one for the same step, with whatever
  guidance, is dropped as a duplicate, even when \<open>hitl_max_retries\<close> allows more.\<close>

theorem second_human_retry_dropped:
  assumes "parsed_event d = Inr ev" "ev_type ev = HUMAN_RETRY" "colon_free (ev_trace ev)"
    and "process_saga_event E n d db = (Inr (), db1)" "reachable E db1 db2"
    and "parsed_event d' = Inr ev'" "ev_type ev' = HUMAN_RETRY"
    and "ev_trace ev' = ev_trace ev" "ev_span ev' = ev_span ev"
  shows "process_saga_event E m d' db2 = (Inr (), log_duplicate ev' db2)"
proof -
  have "event_dedup_key ev \<in> set (db_ingested db1)"
    using assms by (blast intro: processed_is_claimed)
  moreover have "retry_keys_kept db1 db2" by (rule retry_keys.reachable_keeps [OF assms(5)])
  ultimately have "event_dedup_key ev \<in> set (db_ingested db2)"
    using assms(2,3) parsed_event_fields(4) [OF assms(1)]
    by (simp add: retry_keys_kept_def event_dedup_key_def)
  then have "event_dedup_key ev' \<in> set (db_ingested db2)"
    using assms(2,7-9) by (simp add: event_dedup_key_def)
  with assms(6) show ?thesis by (rule process_seen)
qed

definition demo_held :: db where
  "demo_held = demo_db Saga_AWAITING_HUMAN
     [(demo_step demo_span 0 Step_AWAITING_HUMAN)\<lparr>hitl_required := True, hitl_max_retries := Some 3\<rparr>]"

theorem second_human_retry_dropped_witness:
  "process_saga_event demo_env 2 (demo_event ''HUMAN_RETRY'' demo_span)
     (perform demo_env 2 (Clock 500)
        (snd (process_saga_event demo_env 2 (demo_event ''HUMAN_RETRY'' demo_span) demo_held)))
   = (Inr (), log_duplicate (demo_ev HUMAN_RETRY)
       (perform demo_env 2 (Clock 500)
          (snd (process_saga_event demo_env 2 (demo_event ''HUMAN_RETRY'' demo_span) demo_held))))"
proof -
  let ?d = "demo_event ''HUMAN_RETRY'' demo_span"
  have parsed: "parsed_event ?d = Inr (demo_ev HUMAN_RETRY)" by (simp add: run demo_ev_def)
  have "fst (process_saga_event demo_env (Suc (Suc 0)) ?d demo_held) = Inr ()"
    by (simp add: run demo_held_def)
  then have first: "process_saga_event demo_env 2 ?d demo_held
      = (Inr (), snd (process_saga_event demo_env 2 ?d demo_held))"
    by (metis Suc_1 One_nat_def prod.collapse)
  show ?thesis
    by (rule second_human_retry_dropped [OF parsed _ _ first _ parsed])
      (auto intro: reachable.intros simp: demo_ev_def colon_free_def demo_tid_def demo_uuid_def)
qed


end
